(* ===== verification/Prelude.thy ===== *)
theory Prelude
  imports Main "HOL-Library.Word" "HOL-Library.Monad_Syntax"
begin

section \<open>Prelude: shared vocabulary and lemmas\<close>

text \<open>
  Names and facts that every component of the development uses: the collections of
  rewrite rules, the reading of a C computation that may go wrong as a value of the
  option type (\<open>None\<close> is an execution with undefined behaviour, a NULL or dangling
  dereference, a buffer overrun, or a recursion that does not return), and lemmas on lists,
  partial maps and flag words.
\<close>

unbundle bit_operations_syntax

named_theorems cstr \<open>facts on C strings\<close>
named_theorems inv_simps \<open>rewrite rules that unfold the state invariants\<close>
named_theorems op_defs \<open>definitions of the state-changing primitives\<close>

type_synonym cstring = "string option" \<comment> \<open>a \<open>char *\<close>: \<open>None\<close> is NULL\<close>
type_synonym ptr = nat \<comment> \<open>an address returned by malloc\<close>

subsection \<open>The option monad\<close>

lemma bind_SomeD:
  "Option.bind m f = Some y \<Longrightarrow> \<exists>x. m = Some x \<and> f x = Some y"
  by (cases m) auto

lemma bind_SomeE [elim!]:
  assumes "Option.bind m f = Some y"
  obtains x where "m = Some x" and "f x = Some y"
  using assms by (cases m) auto

lemma bind_eq_None_iff:
  "Option.bind m f = None \<longleftrightarrow> m = None \<or> (\<exists>x. m = Some x \<and> f x = None)"
  by (cases m) auto

text \<open>The lazy \<open>&&\<close> and \<open>||\<close> of tests that may go wrong.\<close>

definition andM :: "bool option \<Rightarrow> bool option \<Rightarrow> bool option" where
  "andM a b = Option.bind a (\<lambda>x. if x then b else Some False)"

definition orM :: "bool option \<Rightarrow> bool option \<Rightarrow> bool option" where
  "orM a b = Option.bind a (\<lambda>x. if x then Some True else b)"

lemma andM_simps [simp]:
  "andM (Some True) b = b" "andM (Some False) b = Some False" "andM None b = None"
  by (simp_all add: andM_def)

lemma orM_simps [simp]:
  "orM (Some True) b = Some True" "orM (Some False) b = b" "orM None b = None"
  by (simp_all add: orM_def)

subsection \<open>Iterating a fallible state update over a list\<close>

text \<open>The shape of every \<open>LLIST_FOREACH\<close> loop whose body changes the state.\<close>

fun foldM :: "('a \<Rightarrow> 's \<Rightarrow> 's option) \<Rightarrow> 'a list \<Rightarrow> 's \<Rightarrow> 's option" where
  "foldM f [] s = Some s"
| "foldM f (x # xs) s = Option.bind (f x s) (foldM f xs)"

lemma foldM_append:
  "foldM f (xs @ ys) s = Option.bind (foldM f xs s) (foldM f ys)"
  by (induction xs arbitrary: s) (auto split: bind_splits)

lemma foldM_invariant:
  assumes "foldM f xs s = Some s'" and "P s"
    and "\<And>x t t'. x \<in> set xs \<Longrightarrow> P t \<Longrightarrow> f x t = Some t' \<Longrightarrow> P t'"
  shows "P s'"
  using assms
proof (induction xs arbitrary: s)
  case Nil
  then show ?case by simp
next
  case (Cons x xs)
  then obtain t where t: "f x s = Some t" "foldM f xs t = Some s'" by auto
  with Cons.prems have "P t" by auto
  with t Cons.prems(3) show ?case by (intro Cons.IH) auto
qed

lemma foldM_total:
  assumes "P xs s"
    and "\<And>x xs t. P (x # xs) t \<Longrightarrow> \<exists>t'. f x t = Some t' \<and> P xs t'"
  shows "\<exists>s'. foldM f xs s = Some s' \<and> P [] s'"
  using assms
proof (induction xs arbitrary: s)
  case Nil
  then show ?case by simp
next
  case (Cons x xs)
  then obtain t where t: "f x s = Some t" and "P xs t" by blast
  with Cons.IH [of t] Cons.prems(2) show ?case by auto
qed

lemma foldM_cong [fundef_cong]:
  assumes "xs = ys" and "s = t" and "\<And>x u. x \<in> set ys \<Longrightarrow> f x u = g x u"
  shows "foldM f xs s = foldM g ys t"
proof -
  have "foldM f ys u = foldM g ys u" for u
    using assms(3)
  proof (induction ys arbitrary: u)
    case (Cons y ys)
    then show ?case by (cases "g y u") auto
  qed simp
  with assms(1,2) show ?thesis by simp
qed

text \<open>A recursive call may stand in the body of such a loop.\<close>

lemma foldM_mono [partial_function_mono]:
  assumes "\<And>x s. mono_option (\<lambda>f. B f x s)"
  shows "mono_option (\<lambda>f. foldM (B f) xs s)"
proof (induction xs arbitrary: s)
  case Nil
  show ?case by (simp add: monotone_def flat_ord_def option.leq_refl)
next
  case (Cons x xs)
  show ?case by (simp, rule bind_mono [OF assms Cons.IH])
qed

subsection \<open>Lists\<close>

lemma remove1_append_in:
  "x \<in> set xs \<Longrightarrow> remove1 x (xs @ ys) = remove1 x xs @ ys"
  by (simp add: remove1_append)

lemma distinct_remove1_filter:
  "distinct xs \<Longrightarrow> remove1 x xs = filter (\<lambda>y. y \<noteq> x) xs"
  by (simp add: distinct_remove1_removeAll removeAll_filter_not_eq) (metis (mono_tags))

lemma set_remove1_distinct [simp]:
  "distinct xs \<Longrightarrow> set (remove1 x xs) = set xs - {x}"
  by (simp add: set_remove1_eq)

lemma find_None_filter: "find P xs = None \<longleftrightarrow> filter P xs = []"
  by (induction xs) auto

lemma find_append:
  "find P (xs @ ys) = (case find P xs of Some x \<Rightarrow> Some x | None \<Rightarrow> find P ys)"
  by (induction xs) auto

lemma find_SomeD: "find P xs = Some x \<Longrightarrow> x \<in> set xs \<and> P x"
  by (induction xs) (auto split: if_splits)

lemma find_unique:
  assumes "x \<in> set xs" and "P x" and "\<And>y. y \<in> set xs \<Longrightarrow> P y \<Longrightarrow> y = x"
  shows "find P xs = Some x"
proof (cases "find P xs")
  case None
  with assms(1,2) show ?thesis by (auto simp: find_None_iff)
next
  case (Some y)
  then have "y \<in> set xs" "P y" by (auto dest: find_SomeD)
  with assms(3) Some show ?thesis by simp
qed

lemma find_cong_set:
  assumes "\<And>x. x \<in> set xs \<Longrightarrow> P x = Q x"
  shows "find P xs = find Q xs"
  using assms by (induction xs) auto

lemma length_filter_remove1:
  assumes "distinct xs" and "x \<in> set xs"
  shows "length (filter P (remove1 x xs)) =
    (if P x then length (filter P xs) - 1 else length (filter P xs))"
proof (cases "P x")
  case True
  with assms show ?thesis
    by (simp add: filter_remove1 length_remove1)
next
  case False
  then have "x \<notin> set (filter P xs)" by simp
  with False show ?thesis by (simp add: filter_remove1 remove1_idem)
qed

text \<open>The index of the first element with a property.\<close>

fun position :: "('a \<Rightarrow> bool) \<Rightarrow> 'a list \<Rightarrow> nat option" where
  "position P [] = None"
| "position P (x # xs) = (if P x then Some 0 else map_option Suc (position P xs))"

lemma position_Some:
  "position P xs = Some i \<Longrightarrow> i < length xs \<and> P (xs ! i) \<and> (\<forall>j < i. \<not> P (xs ! j))"
proof (induction xs arbitrary: i)
  case (Cons x xs)
  show ?case
  proof (cases "P x")
    case False
    with Cons.prems obtain k where "position P xs = Some k" "i = Suc k" by auto
    with Cons.IH [of k] False show ?thesis by (auto simp: nth_Cons' less_Suc_eq_0_disj)
  qed (use Cons.prems in auto)
qed simp

lemma position_None: "position P xs = None \<longleftrightarrow> (\<forall>x \<in> set xs. \<not> P x)"
  by (induction xs) auto

lemma position_append:
  "position P (xs @ ys) =
    (case position P xs of Some i \<Rightarrow> Some i | None \<Rightarrow> map_option ((+) (length xs)) (position P ys))"
  by (induction xs; cases "position P ys") (auto split: option.splits)

subsection \<open>Flag words\<close>

text \<open>\<open>HasOption\<close>, \<open>SetOption\<close> and \<open>ClearOption\<close> of \<open>user.h\<close> and \<open>channel.h\<close>.\<close>

definition has_flag :: "'a::len word \<Rightarrow> 'a word \<Rightarrow> bool" where
  "has_flag w f \<longleftrightarrow> w AND f \<noteq> 0"

definition set_flag :: "'a::len word \<Rightarrow> 'a word \<Rightarrow> 'a word" where
  "set_flag w f = w OR f"

definition clear_flag :: "'a::len word \<Rightarrow> 'a word \<Rightarrow> 'a word" where
  "clear_flag w f = w AND NOT f"

lemma has_flag_zero [simp]: "\<not> has_flag 0 f" "\<not> has_flag w 0"
  by (simp_all add: has_flag_def)

lemma has_flag_or: "has_flag w (f OR g) \<longleftrightarrow> has_flag w f \<or> has_flag w g"
  by (simp add: has_flag_def bit.conj_disj_distrib or_eq_0_iff)

lemma has_flag_or_word: "has_flag (v OR w) f \<longleftrightarrow> has_flag v f \<or> has_flag w f"
  by (simp add: has_flag_def bit.conj_disj_distrib2 or_eq_0_iff)

lemma has_flag_set: "has_flag (set_flag w f) g \<longleftrightarrow> has_flag w g \<or> has_flag f g"
  by (simp add: set_flag_def has_flag_or_word)

lemma has_flag_set_same [simp]: "f \<noteq> 0 \<Longrightarrow> has_flag (set_flag w f) f"
  by (simp add: has_flag_set) (simp add: has_flag_def)

lemma has_flag_clear_same [simp]: "\<not> has_flag (clear_flag w f) f"
  by (simp add: has_flag_def clear_flag_def and.assoc)

lemma has_flag_clear_other:
  "f AND g = 0 \<Longrightarrow> has_flag (clear_flag w f) g \<longleftrightarrow> has_flag w g"
proof -
  assume d: "f AND g = 0"
  have "NOT f AND g = g"
  proof (rule bit_eqI)
    fix n
    have "\<not> bit (f AND g) n" using d by simp
    then show "bit (NOT f AND g) n = bit g n" if "possible_bit TYPE('a word) n"
      using that by (auto simp: bit_simps)
  qed
  then show ?thesis
    by (simp add: has_flag_def clear_flag_def and.assoc)
qed

lemma has_flag_clear_imp: "has_flag (clear_flag w f) g \<Longrightarrow> has_flag w g"
proof -
  assume h: "has_flag (clear_flag w f) g"
  show ?thesis
  proof (rule ccontr)
    assume "\<not> ?thesis"
    then have "w AND g = 0" by (simp add: has_flag_def)
    then have "(w AND NOT f) AND g = 0"
      by (metis and.commute and.left_commute and_zero_eq)
    with h show False by (simp add: has_flag_def clear_flag_def)
  qed
qed

end
