(* ===== verification/LList.thy ===== *)
theory LList
  imports Prelude
begin

section \<open>Intrusive doubly linked lists: src/src/llist.h\<close>

text \<open>
  The macros of \<open>llist.h\<close> work on nodes embedded in the objects of the program: a node has a
  \<open>prev\<close> and a \<open>next\<close> pointer, a list is a circle through its head node. The state is the two
  pointer fields as functions of the address; each macro is the sequence of assignments it
  expands to. \<open>is_llist s h xs\<close> says that the circle through the head \<open>h\<close> visits exactly the
  nodes \<open>xs\<close>, in this order. The other theories represent these lists by Isabelle lists; the
  lemmas here are what makes that sound.
\<close>

record lheap =
  nxt :: "ptr \<Rightarrow> ptr"
  prv :: "ptr \<Rightarrow> ptr"

definition set_next :: "ptr \<Rightarrow> ptr \<Rightarrow> lheap \<Rightarrow> lheap" where
  "set_next p v s = s\<lparr>nxt := (nxt s)(p := v)\<rparr>"

definition set_prev :: "ptr \<Rightarrow> ptr \<Rightarrow> lheap \<Rightarrow> lheap" where
  "set_prev p v s = s\<lparr>prv := (prv s)(p := v)\<rparr>"

definition LLIST_INIT :: "ptr \<Rightarrow> lheap \<Rightarrow> lheap" where
  "LLIST_INIT head s = set_prev head head (set_next head head s)"

definition LLIST_INSERT_TAIL :: "ptr \<Rightarrow> ptr \<Rightarrow> lheap \<Rightarrow> lheap" where
  "LLIST_INSERT_TAIL head elem s =
     (let s1 = set_next elem head s;
          s2 = set_prev elem (prv s1 head) s1;
          s3 = set_next (prv s2 head) elem s2
      in set_prev head elem s3)"

definition LLIST_INSERT_HEAD :: "ptr \<Rightarrow> ptr \<Rightarrow> lheap \<Rightarrow> lheap" where
  "LLIST_INSERT_HEAD head elem s =
     (let s1 = set_next elem (nxt s head) s;
          s2 = set_prev elem head s1;
          s3 = set_prev (nxt s2 head) elem s2
      in set_next head elem s3)"

definition LLIST_REMOVE :: "ptr \<Rightarrow> lheap \<Rightarrow> lheap" where
  "LLIST_REMOVE elem s =
     (let s1 = set_prev (nxt s elem) (prv s elem) s;
          s2 = set_next (prv s1 elem) (nxt s1 elem) s1;
          s3 = set_next elem elem s2
      in set_prev elem elem s3)"

definition LLIST_EMPTY :: "ptr \<Rightarrow> lheap \<Rightarrow> bool" where
  "LLIST_EMPTY head s \<longleftrightarrow> nxt s head = head"

text \<open>
  \<open>LLIST_FOREACH_ENTRY\<close>: the entries visited from the node \<open>cur\<close> until the head is reached
  again. On a damaged circle the walk does not return.
\<close>

partial_function (option) foreach :: "lheap \<Rightarrow> ptr \<Rightarrow> ptr \<Rightarrow> ptr list option" where
  "foreach s head cur =
     (if cur = head then Some []
      else Option.bind (foreach s head (nxt s cur)) (\<lambda>xs. Some (cur # xs)))"

definition LLIST_FOREACH :: "ptr \<Rightarrow> lheap \<Rightarrow> ptr list option" where
  "LLIST_FOREACH head s = foreach s head (nxt s head)"

subsection \<open>The abstraction\<close>

fun linked :: "lheap \<Rightarrow> ptr \<Rightarrow> ptr list \<Rightarrow> ptr \<Rightarrow> bool" where
  "linked s a [] b \<longleftrightarrow> nxt s a = b \<and> prv s b = a"
| "linked s a (x # xs) b \<longleftrightarrow> nxt s a = x \<and> prv s x = a \<and> linked s x xs b"

definition is_llist :: "lheap \<Rightarrow> ptr \<Rightarrow> ptr list \<Rightarrow> bool" where
  "is_llist s h xs \<longleftrightarrow> distinct (h # xs) \<and> linked s h xs h"

lemmas llist_defs = set_next_def set_prev_def LLIST_INIT_def LLIST_INSERT_TAIL_def
  LLIST_INSERT_HEAD_def LLIST_REMOVE_def LLIST_EMPTY_def Let_def

lemma linked_append:
  "linked s a (xs @ y # ys) b \<longleftrightarrow> linked s a xs y \<and> linked s y ys b"
  by (induction xs arbitrary: a) auto

lemma linked_last: "linked s a xs b \<Longrightarrow> prv s b = last (a # xs)"
  by (induction xs arbitrary: a) auto

lemma linked_first: "linked s a xs b \<Longrightarrow> nxt s a = hd (xs @ [b])"
  by (cases xs) auto

lemma linked_frame_next:
  "p \<noteq> a \<Longrightarrow> p \<notin> set xs \<Longrightarrow> linked (s\<lparr>nxt := (nxt s)(p := v)\<rparr>) a xs b = linked s a xs b"
  by (induction xs arbitrary: a) auto

lemma linked_frame_prev:
  "p \<notin> set xs \<Longrightarrow> p \<noteq> b \<Longrightarrow> linked (s\<lparr>prv := (prv s)(p := v)\<rparr>) a xs b = linked s a xs b"
  by (induction xs arbitrary: a) auto

lemma linked_cong:
  assumes "\<And>p. p \<in> set (a # xs) \<Longrightarrow> nxt t p = nxt s p"
    and "\<And>p. p \<in> set (xs @ [b]) \<Longrightarrow> prv t p = prv s p"
  shows "linked t a xs b = linked s a xs b"
  using assms by (induction xs arbitrary: a) auto

subsection \<open>The macros implement the list operations\<close>

lemma is_llist_init: "is_llist (LLIST_INIT h s) h []"
  by (simp add: is_llist_def llist_defs)

lemma is_llist_empty: "is_llist s h xs \<Longrightarrow> LLIST_EMPTY h s \<longleftrightarrow> xs = []"
  by (cases xs) (auto simp: is_llist_def LLIST_EMPTY_def)

lemma is_llist_insert_tail:
  assumes l: "is_llist s h xs" and e: "e \<notin> set (h # xs)"
  shows "is_llist (LLIST_INSERT_TAIL h e s) h (xs @ [e])"
proof -
  from l have d: "distinct (h # xs)" and k: "linked s h xs h" by (simp_all add: is_llist_def)
  show ?thesis
  proof (cases xs rule: rev_cases)
    case Nil
    with d k e show ?thesis by (auto simp: is_llist_def llist_defs)
  next
    case (snoc ys y)
    with k have y: "linked s h ys y" "nxt s y = h" "prv s h = y" by (auto simp: linked_append)
    from y(1) have "linked (LLIST_INSERT_TAIL h e s) h ys y"
      by (subst linked_cong [of h ys _ s y]) (use d e snoc y in \<open>auto simp: llist_defs\<close>)
    with d e snoc y show ?thesis
      by (auto simp: is_llist_def linked_append llist_defs)
  qed
qed

lemma is_llist_insert_head:
  assumes l: "is_llist s h xs" and e: "e \<notin> set (h # xs)"
  shows "is_llist (LLIST_INSERT_HEAD h e s) h (e # xs)"
proof -
  from l have d: "distinct (h # xs)" and k: "linked s h xs h" by (simp_all add: is_llist_def)
  show ?thesis
  proof (cases xs)
    case Nil
    with d k e show ?thesis by (auto simp: is_llist_def llist_defs)
  next
    case (Cons y ys)
    with k have y: "nxt s h = y" "prv s y = h" "linked s y ys h" by auto
    from y(3) have "linked (LLIST_INSERT_HEAD h e s) y ys h"
      by (subst linked_cong [of y ys _ s h]) (use d e Cons y in \<open>auto simp: llist_defs\<close>)
    with d e Cons y show ?thesis
      by (auto simp: is_llist_def llist_defs)
  qed
qed

lemma is_llist_remove:
  assumes l: "is_llist s h xs" and e: "e \<in> set xs"
  shows "is_llist (LLIST_REMOVE e s) h (remove1 e xs)"
proof -
  from e obtain ys zs where xs: "xs = ys @ e # zs" by (auto simp: in_set_conv_decomp)
  from l have d: "distinct (h # xs)" and k: "linked s h xs h" by (simp_all add: is_llist_def)
  from k xs have ky: "linked s h ys e" and kz: "linked s e zs h" by (simp_all add: linked_append)
  define a b where "a = last (h # ys)" and "b = hd (zs @ [h])"
  have a: "prv s e = a" using linked_last [OF ky] by (simp add: a_def)
  have b: "nxt s e = b" using linked_first [OF kz] by (simp add: b_def)
  let ?t = "LLIST_REMOVE e s"
  have ne: "e \<noteq> a" "e \<noteq> b" using d xs
    by (auto simp: a_def b_def hd_append split: if_splits)
  have nt: "nxt ?t = (nxt s)(a := b, e := e)" and pt: "prv ?t = (prv s)(b := a, e := e)"
    using ne a b by (auto simp: llist_defs)
  have "linked ?t h (ys @ zs) h"
  proof (cases zs)
    case Nil
    then have "b = h" by (simp add: b_def)
    show ?thesis
    proof (cases ys rule: rev_cases)
      case Nil
      with \<open>zs = []\<close> \<open>b = h\<close> d xs show ?thesis by (auto simp: nt pt a_def)
    next
      case (snoc us u)
      then have "a = u" by (simp add: a_def)
      from snoc ky have "linked s h us u" by (simp add: linked_append)
      then have "linked ?t h us u"
        by (subst linked_cong [of h us _ s u]) (use d xs snoc \<open>a = u\<close> \<open>b = h\<close> in \<open>auto simp: nt pt\<close>)
      with snoc \<open>zs = []\<close> \<open>a = u\<close> \<open>b = h\<close> d xs show ?thesis
        by (auto simp: linked_append nt pt)
    qed
  next
    case (Cons z vs)
    then have "b = z" by (simp add: b_def)
    from Cons kz have "linked s z vs h" by simp
    have "a \<in> set (h # ys)" by (simp add: a_def)
    then have "a \<notin> set vs" "a \<noteq> z" using d xs Cons by auto
    have kz': "linked ?t z vs h"
      by (subst linked_cong [of z vs _ s h])
        (use \<open>linked s z vs h\<close> d xs Cons \<open>b = z\<close> \<open>a \<notin> set vs\<close> \<open>a \<noteq> z\<close> in \<open>auto simp: nt pt\<close>)
    have "linked ?t h ys z"
    proof (cases ys rule: rev_cases)
      case Nil
      with Cons \<open>b = z\<close> d xs show ?thesis by (auto simp: nt pt a_def)
    next
      case (snoc us u)
      then have "a = u" by (simp add: a_def)
      from snoc ky have "linked s h us u" by (simp add: linked_append)
      then have "linked ?t h us u"
        by (subst linked_cong [of h us _ s u]) (use d xs snoc Cons \<open>a = u\<close> \<open>b = z\<close> in \<open>auto simp: nt pt\<close>)
      with snoc \<open>a = u\<close> \<open>b = z\<close> d xs Cons show ?thesis
        by (auto simp: linked_append nt pt)
    qed
    with kz' Cons show ?thesis by (simp add: linked_append)
  qed
  moreover have "remove1 e xs = ys @ zs" using d xs by (simp add: remove1_append)
  ultimately show ?thesis using d xs by (auto simp: is_llist_def)
qed

lemma foreach_linked:
  assumes "linked s a xs h" and "h \<notin> set xs"
  shows "foreach s h (nxt s a) = Some xs"
  using assms
proof (induction xs arbitrary: a)
  case Nil
  then show ?case by (simp add: foreach.simps)
next
  case (Cons x xs)
  then have "foreach s h (nxt s x) = Some xs" by auto
  with Cons.prems show ?case by (simp add: foreach.simps [of s h x])
qed

lemma is_llist_foreach:
  "is_llist s h xs \<Longrightarrow> LLIST_FOREACH h s = Some xs"
  by (simp add: is_llist_def LLIST_FOREACH_def foreach_linked)

subsection \<open>Frames: other lists are untouched\<close>

lemma is_llist_frame_insert:
  assumes "is_llist s h xs" and "is_llist s g ys"
    and "set (g # ys) \<inter> set (h # xs) = {}" and "e \<notin> set (g # ys)"
  shows "is_llist (LLIST_INSERT_TAIL h e s) g ys"
proof -
  have "prv s h \<in> set (h # xs)"
    using linked_last [of s h xs h] assms(1) by (auto simp: is_llist_def)
  then have "linked (LLIST_INSERT_TAIL h e s) g ys g = linked s g ys g"
    by (intro linked_cong) (use assms(3,4) in \<open>auto simp: llist_defs\<close>)
  with assms(2) show ?thesis by (simp add: is_llist_def)
qed

lemma linked_neighbours:
  assumes "linked s a xs b" and "e \<in> set xs"
  shows "nxt s e \<in> set xs \<union> {b} \<and> prv s e \<in> set xs \<union> {a}"
  using assms
proof (induction xs arbitrary: a)
  case (Cons x xs)
  then show ?case by (cases xs) auto
qed simp

lemma is_llist_frame_remove:
  assumes "is_llist s h xs" and "is_llist s g ys"
    and "set (g # ys) \<inter> set (h # xs) = {}" and "e \<in> set xs"
  shows "is_llist (LLIST_REMOVE e s) g ys"
proof -
  from assms(1,4) have "nxt s e \<in> set (h # xs)" "prv s e \<in> set (h # xs)"
    using linked_neighbours [of s h xs h e] by (auto simp: is_llist_def)
  then have "linked (LLIST_REMOVE e s) g ys g = linked s g ys g"
    by (intro linked_cong) (use assms(3,4) in \<open>auto simp: llist_defs\<close>)
  with assms(2) show ?thesis by (simp add: is_llist_def)
qed

subsection \<open>The interface the other components rely on\<close>

text \<open>
  What a client of \<open>llist.h\<close> uses: appending a node to a list, unlinking a node wherever it
  is, walking a list, and that lists with disjoint nodes do not interfere.
\<close>

locale intrusive_list =
  fixes repr :: "'s \<Rightarrow> 'n \<Rightarrow> 'n list \<Rightarrow> bool"
    and insert_tail :: "'n \<Rightarrow> 'n \<Rightarrow> 's \<Rightarrow> 's"
    and unlink :: "'n \<Rightarrow> 's \<Rightarrow> 's"
    and walk :: "'n \<Rightarrow> 's \<Rightarrow> 'n list option"
  assumes repr_distinct: "repr s h xs \<Longrightarrow> distinct (h # xs)"
    and repr_insert: "repr s h xs \<Longrightarrow> e \<notin> set (h # xs) \<Longrightarrow> repr (insert_tail h e s) h (xs @ [e])"
    and repr_unlink: "repr s h xs \<Longrightarrow> e \<in> set xs \<Longrightarrow> repr (unlink e s) h (remove1 e xs)"
    and repr_walk: "repr s h xs \<Longrightarrow> walk h s = Some xs"
    and frame_insert: "repr s h xs \<Longrightarrow> repr s g ys \<Longrightarrow> set (g # ys) \<inter> set (h # xs) = {} \<Longrightarrow>
      e \<notin> set (g # ys) \<Longrightarrow> repr (insert_tail h e s) g ys"
    and frame_unlink: "repr s h xs \<Longrightarrow> repr s g ys \<Longrightarrow> set (g # ys) \<inter> set (h # xs) = {} \<Longrightarrow>
      e \<in> set xs \<Longrightarrow> repr (unlink e s) g ys"
begin

text \<open>A node can be moved from one list to the end of another, as \<open>hashmap_resize\<close> does.\<close>

lemma move_node:
  assumes "repr s h xs" and "repr s g ys" and d: "set (g # ys) \<inter> set (h # xs) = {}"
    and e: "e \<in> set xs"
  shows "repr (insert_tail g e (unlink e s)) g (ys @ [e])"
    and "repr (insert_tail g e (unlink e s)) h (remove1 e xs)"
proof -
  let ?t = "unlink e s"
  have dist: "distinct (h # xs)" using assms(1) by (rule repr_distinct)
  have h: "repr ?t h (remove1 e xs)" using assms(1) e by (rule repr_unlink)
  have g: "repr ?t g ys" using assms(1,2) d e by (rule frame_unlink)
  have "e \<notin> set (g # ys)" using d e by auto
  with g show "repr (insert_tail g e ?t) g (ys @ [e])" by (rule repr_insert)
  show "repr (insert_tail g e ?t) h (remove1 e xs)"
  proof (rule frame_insert [OF g h])
    show "set (h # remove1 e xs) \<inter> set (g # ys) = {}" using d set_remove1_subset [of e xs] by auto
    show "e \<notin> set (h # remove1 e xs)" using dist e by auto
  qed
qed

text \<open>Unlinking the nodes one after the other while walking empties the list.\<close>

lemma unlink_all:
  "repr s h xs \<Longrightarrow> repr (fold unlink xs s) h []"
proof (induction xs arbitrary: s)
  case (Cons x xs)
  then have "repr (unlink x s) h (remove1 x (x # xs))" by (intro repr_unlink) auto
  with Cons.IH show ?case by simp
qed simp

end

interpretation ll: intrusive_list is_llist LLIST_INSERT_TAIL LLIST_REMOVE LLIST_FOREACH
proof
  show "distinct (h # xs)" if "is_llist s h xs" for s h xs
    using that by (simp add: is_llist_def)
qed (fact is_llist_insert_tail is_llist_remove is_llist_foreach
  is_llist_frame_insert is_llist_frame_remove)+

text \<open>Appending to a list leaves every other list as it was.\<close>

lemma llist_insert_frame:
  assumes "is_llist s h xs" and "is_llist s g ys" and "set (g # ys) \<inter> set (h # xs) = {}"
    and "e \<notin> set (h # xs)" and "e \<notin> set (g # ys)"
  shows "LLIST_FOREACH h (LLIST_INSERT_TAIL h e s) = Some (xs @ [e]) \<and>
    LLIST_FOREACH g (LLIST_INSERT_TAIL h e s) = Some ys"
  using ll.repr_walk [OF ll.repr_insert [OF assms(1,4)]]
    ll.repr_walk [OF ll.frame_insert [OF assms(1,2,3,5)]] by blast

end
