(* ===== verification/CStrings.thy ===== *)
theory CStrings
  imports Prelude
begin

section \<open>C strings: src/src/string_utils.c and the libc calls it rests on\<close>

text \<open>
  A C string is the list of its characters without the final NUL; a \<open>char *\<close> that may be
  NULL is a \<open>cstring\<close>. Copies into fixed arrays (\<open>strncpy\<close> into a zeroed buffer with one byte
  to spare) keep the first \<open>n\<close> characters. Functions that write through a pointer return the
  bytes they write, so that a caller can compare them with the size of its buffer.
\<close>

subsection \<open>libc: tolower, strcasecmp, strchr, strncpy, atoi\<close>

definition tolower :: "char \<Rightarrow> char" where
  "tolower c = (let n = (of_char c :: nat) in if 65 \<le> n \<and> n \<le> 90 then char_of (n + 32) else c)"

definition lc :: "string \<Rightarrow> string" where
  "lc s = map tolower s"

text \<open>Only the sign of the result of \<open>strcasecmp\<close> is specified.\<close>

fun strcasecmp :: "string \<Rightarrow> string \<Rightarrow> int" where
  "strcasecmp [] [] = 0"
| "strcasecmp [] (y # ys) = -1"
| "strcasecmp (x # xs) [] = 1"
| "strcasecmp (x # xs) (y # ys) =
     (let a = (of_char (tolower x) :: int); b = of_char (tolower y) in
      if a < b then -1 else if b < a then 1 else strcasecmp xs ys)"

definition strncpy :: "string \<Rightarrow> nat \<Rightarrow> string" where
  "strncpy src n = take n src"

text \<open>\<open>strchr s c\<close>: the suffix of \<open>s\<close> that starts at the first \<open>c\<close>.\<close>

definition strchr :: "string \<Rightarrow> char \<Rightarrow> cstring" where
  "strchr s c = (if c \<in> set s then Some (dropWhile (\<lambda>x. x \<noteq> c) s) else None)"

definition isspace :: "char \<Rightarrow> bool" where
  "isspace c = (let n = (of_char c :: nat) in n = 32 \<or> (9 \<le> n \<and> n \<le> 13))"

definition isdigit :: "char \<Rightarrow> bool" where
  "isdigit c = (let n = (of_char c :: nat) in 48 \<le> n \<and> n \<le> 57)"

definition digits_value :: "string \<Rightarrow> int" where
  "digits_value ds = foldl (\<lambda>v d. 10 * v + (of_char d - 48)) 0 (takeWhile isdigit ds)"

text \<open>
  \<open>strtol (s, NULL, 10)\<close> with a 64-bit \<open>long\<close>: leading white space, an optional sign, the
  digits; out of range values saturate. Assigned to an \<open>int\<close> (and in \<open>atoi\<close>) the low 32 bits
  are kept.
\<close>

definition strtol :: "string \<Rightarrow> int" where
  "strtol s =
     (let t = dropWhile isspace s;
          v = (case t of [] \<Rightarrow> 0
               | c # cs \<Rightarrow> if c = CHR ''-'' then - digits_value cs
                           else if c = CHR ''+'' then digits_value cs
                           else digits_value t)
      in max (- (2 ^ 63)) (min (2 ^ 63 - 1) v))"

definition to_int :: "int \<Rightarrow> int" where
  "to_int v = sint (word_of_int v :: 32 word)"

text \<open>The values of an \<open>int\<close>.\<close>

definition int32 :: "int \<Rightarrow> bool" where
  "int32 n \<longleftrightarrow> - (2 ^ 31) \<le> n \<and> n < 2 ^ 31"

definition atoi :: "string \<Rightarrow> int" where
  "atoi s = to_int (strtol s)"

subsection \<open>string\_utils.c\<close>

fun IsCharInString :: "char \<Rightarrow> string \<Rightarrow> bool" where
  "IsCharInString chr [] = False"
| "IsCharInString chr (c # cs) = (if chr = c then True else IsCharInString chr cs)"

definition StripBlanks :: "cstring \<Rightarrow> cstring" where
  "StripBlanks s =
     (case s of None \<Rightarrow> None
      | Some t \<Rightarrow> Some (dropWhile (\<lambda>c. c = CHR '' '' \<or> c = CHR 0x09) t))"

text \<open>
  \<open>SeperateWord\<close> cuts its argument in place and returns the rest: the model returns the cut
  argument and the result. A NULL argument gives NULL and leaves nothing to cut.
\<close>

definition word_end :: "char \<Rightarrow> bool" where
  "word_end c \<longleftrightarrow> c = CHR '' '' \<or> c = CHR 0x0A"

definition SeperateWord :: "cstring \<Rightarrow> cstring \<times> cstring" where
  "SeperateWord sentence =
     (case sentence of None \<Rightarrow> (None, None)
      | Some s \<Rightarrow>
          (let w = takeWhile (\<lambda>c. \<not> word_end c) s in
           case dropWhile (\<lambda>c. \<not> word_end c) s of
             [] \<Rightarrow> (Some w, None)
           | c # rest \<Rightarrow>
               if c = CHR 0x0A then (Some w, None) else (Some w, StripBlanks (Some rest))))"

definition Strcmp :: "cstring \<Rightarrow> cstring \<Rightarrow> int" where
  "Strcmp s1 s2 =
     (case (s1, s2) of
        (Some a, Some b) \<Rightarrow> if a \<noteq> [] \<and> b \<noteq> [] then strcasecmp a b else 1
      | _ \<Rightarrow> 1)"

definition needs_escape :: "char \<Rightarrow> bool" where
  "needs_escape c \<longleftrightarrow> c = CHR 0x5C \<or> c = CHR 0x27 \<or> c = CHR 0x22"

text \<open>
  The bytes \<open>strtosql\<close> writes at \<open>dst\<close>: it reads at most \<open>len\<close> source characters (the
  final NUL is one of them) and writes a backslash before each quote and backslash.
\<close>

fun strtosql :: "string \<Rightarrow> nat \<Rightarrow> string" where
  "strtosql src 0 = []"
| "strtosql [] (Suc len) = [CHR 0x00]"
| "strtosql (c # cs) (Suc len) =
     (if needs_escape c then CHR 0x5C # c # strtosql cs len else c # strtosql cs len)"

text \<open>
  \<open>ToLower\<close> copies at most \<open>size\<close> characters.
\<close>

definition ToLower :: "string \<Rightarrow> nat \<Rightarrow> string" where
  "ToLower buf n = map tolower (take n buf)"

text \<open>
  \<open>IsMask\<close>: a mask is \<open>nick!ident@host\<close> with three non-empty parts. The copy into
  \<open>tmp[128]\<close> is not terminated for longer arguments; the callers' masks are shorter.
\<close>

definition IsMask :: "string \<Rightarrow> bool" where
  "IsMask msk =
     (let tmp = strncpy msk 128;
          nick = takeWhile (\<lambda>c. c \<noteq> CHR ''!'') tmp in
      case strchr tmp (CHR ''!'') of None \<Rightarrow> False
      | Some rest \<Rightarrow>
          (let ident = takeWhile (\<lambda>c. c \<noteq> CHR ''@'') (tl rest) in
           case strchr (tl rest) (CHR ''@'') of None \<Rightarrow> False
           | Some rest2 \<Rightarrow> nick \<noteq> [] \<and> ident \<noteq> [] \<and> tl rest2 \<noteq> []))"

text \<open>
  \<open>match_mask\<close> turns every \<open>*\<close> into \<open>.*\<close> in a buffer of 128 bytes (a longer
  expansion overruns it) and hands it to the regular expression matcher of libc, the parameter
  \<open>regex\<close>.
\<close>

fun star_regex :: "string \<Rightarrow> string" where
  "star_regex [] = []"
| "star_regex (c # cs) = (if c = CHR ''*'' then CHR ''.'' # c # star_regex cs else c # star_regex cs)"

definition match_mask :: "(string \<Rightarrow> string \<Rightarrow> bool) \<Rightarrow> string \<Rightarrow> string \<Rightarrow> bool option" where
  "match_mask regex reg tomatch =
     (if length (star_regex reg) < 128 then Some (regex (star_regex reg) tomatch) else None)"

text \<open>
  \<open>parse_range\<close> expands ranges such as \<open>a-z0-9\<close>: the characters written at \<open>dst\<close> and whether
  the range was well formed (the C function returns NULL when it is not). Characters compare
  as signed bytes; reading one place past the end gives the final NUL.
\<close>

definition char_at :: "string \<Rightarrow> nat \<Rightarrow> char" where
  "char_at s i = (if i < length s then s ! i else CHR 0x00)"

definition schar :: "char \<Rightarrow> int" where
  "schar c = sint (of_char c :: 8 word)"

definition dash :: char where "dash = CHR ''-''"

function range_loop :: "string \<Rightarrow> nat \<Rightarrow> string \<Rightarrow> string \<times> bool" where
  "range_loop r i dst =
     (if length r \<le> i then (dst, True)
      else
        (let c = char_at r i; nx = char_at r (i + 1); nx2 = char_at r (i + 2); pv = char_at r (i - 1);
             dst1 = (if i = 0 then (if c = dash then dst @ [dash] else if nx \<noteq> dash then dst @ [c] else dst)
                     else if c \<noteq> dash \<and> (pv \<noteq> dash \<or> i - 1 = 0) \<and> nx \<noteq> dash then dst @ [c] else dst) in
         if 0 < i \<and> c \<noteq> dash \<and> pv = dash \<and> nx = dash \<and> i - 1 \<noteq> 0 then (dst1, False)
         else if 0 < i \<and> c \<noteq> dash \<and> pv = dash \<and> i - 1 \<noteq> 0 then range_loop r (Suc i) dst1
         else if c \<noteq> dash \<and> nx = dash then
           (if nx2 = dash \<or> schar nx2 < schar c then (dst1, False)
            else range_loop r (Suc i) (dst1 @ map char_of [schar c .. schar nx2]))
         else range_loop r (Suc i) dst1))"
  by auto
termination by (relation "measure (\<lambda>(r, i, _). length r - i)") auto

declare range_loop.simps [simp del]

definition parse_range :: "string \<Rightarrow> string \<times> bool" where
  "parse_range rng = range_loop rng 0 []"

text \<open>
  The pieces that repeated calls of \<open>strtok\<close> with the delimiter \<open>d\<close> give; the second argument is the
  piece read so far.
\<close>

fun strtok_from :: "char \<Rightarrow> string \<Rightarrow> string \<Rightarrow> string list" where
  "strtok_from d w [] = (if w = [] then [] else [w])"
| "strtok_from d w (c # cs) =
     (if c = d then (if w = [] then [] else [w]) @ strtok_from d [] cs else strtok_from d (w @ [c]) cs)"

definition strtok :: "char \<Rightarrow> string \<Rightarrow> string list" where
  "strtok d s = strtok_from d [] s"

text \<open>\<open>strstr (s, d)\<close> for a string of two characters: what is before and after its first occurrence.\<close>

fun split_at2 :: "char \<Rightarrow> char \<Rightarrow> string \<Rightarrow> (string \<times> string) option" where
  "split_at2 a b (c # d # cs) =
     (if c = a \<and> d = b then Some ([], cs)
      else map_option (\<lambda>(u, v). (c # u, v)) (split_at2 a b (d # cs)))"
| "split_at2 a b _ = None"

definition split_at1 :: "char \<Rightarrow> string \<Rightarrow> (string \<times> string) option" where
  "split_at1 a s =
     (case dropWhile (\<lambda>c. c \<noteq> a) s of [] \<Rightarrow> None | _ # t \<Rightarrow> Some (takeWhile (\<lambda>c. c \<noteq> a) s, t))"

text \<open>
  \<open>strncpy\<close> into an array of \<open>n\<close> bytes leaves longer strings without a final NUL; the first word of
  such an array is well defined only if it ends within the array.
\<close>

definition strbuf :: "string \<Rightarrow> nat \<Rightarrow> string option" where
  "strbuf src n = (if length src < n then Some src else None)"

definition first_word_buf :: "string \<Rightarrow> nat \<Rightarrow> string option" where
  "first_word_buf src n =
     (let w = takeWhile (\<lambda>c. \<not> word_end c) (take n src) in if length w < n then Some w else None)"

subsection \<open>Abbreviations for the tests the handlers repeat\<close>

definition is_empty :: "cstring \<Rightarrow> bool" where
  "is_empty s \<longleftrightarrow> (case s of None \<Rightarrow> True | Some t \<Rightarrow> t = [])"

definition streq :: "cstring \<Rightarrow> cstring \<Rightarrow> bool" where
  "streq a b \<longleftrightarrow> Strcmp a b = 0"

definition first_is :: "char \<Rightarrow> cstring \<Rightarrow> bool" where
  "first_is c s \<longleftrightarrow> (case s of Some (d # _) \<Rightarrow> d = c | _ \<Rightarrow> False)"

subsection \<open>Comparison\<close>

lemma strcasecmp_zero_iff [cstr]: "strcasecmp a b = 0 \<longleftrightarrow> lc a = lc b"
proof (induction a b rule: strcasecmp.induct)
  case (4 x xs y ys)
  let ?a = "of_char (tolower x) :: int" and ?b = "of_char (tolower y) :: int"
  have eq: "?a = ?b \<longleftrightarrow> tolower x = tolower y" by simp
  consider "?a < ?b" | "?b < ?a" | "?a = ?b" by linarith
  then show ?case
  proof cases
    case 3
    then have "tolower x = tolower y" by (simp only: eq)
    moreover from 3 have "strcasecmp xs ys = 0 \<longleftrightarrow> lc xs = lc ys"
      by (intro "4.IH" [OF refl refl]) auto
    ultimately show ?thesis by (simp add: lc_def)
  next
    case 1
    then have "tolower x \<noteq> tolower y" using eq by force
    with 1 show ?thesis by (simp add: lc_def Let_def)
  next
    case 2
    then have "tolower x \<noteq> tolower y" using eq by force
    with 2 show ?thesis by (simp add: lc_def Let_def)
  qed
qed (auto simp: lc_def)

lemma lc_Nil_iff [simp]: "lc s = [] \<longleftrightarrow> s = []" "[] = lc s \<longleftrightarrow> s = []"
  by (auto simp: lc_def)

lemma lc_Nil [simp]: "lc [] = []"
  by (simp add: lc_def)

lemma length_lc [simp]: "length (lc s) = length s"
  by (simp add: lc_def)

lemma lc_append [simp]: "lc (a @ b) = lc a @ lc b"
  by (simp add: lc_def)

lemma streq_Some_iff [cstr]:
  "streq (Some a) (Some b) \<longleftrightarrow> a \<noteq> [] \<and> lc a = lc b"
  by (auto simp: streq_def Strcmp_def strcasecmp_zero_iff)

lemma streq_None [simp]: "\<not> streq None b" "\<not> streq a None"
  by (auto simp: streq_def Strcmp_def split: option.splits)

lemma streq_sym: "streq a b = streq b a"
  by (cases a; cases b) (auto simp: streq_Some_iff)

lemma streq_trans: "streq a b \<Longrightarrow> streq b c \<Longrightarrow> streq a c"
  by (cases a; cases b; cases c) (auto simp: streq_Some_iff)

lemma is_empty_simps [simp]:
  "is_empty None" "is_empty (Some []) = True" "is_empty (Some (x # xs)) = False"
  by (simp_all add: is_empty_def)

lemma not_is_empty_iff: "\<not> is_empty a \<longleftrightarrow> (\<exists>s. a = Some s \<and> s \<noteq> [])"
  by (auto simp: is_empty_def split: option.splits)

lemma IsCharInString_iff [cstr]: "IsCharInString c s \<longleftrightarrow> c \<in> set s"
  by (induction s) auto

subsection \<open>Words\<close>

lemma SeperateWord_None [simp]: "SeperateWord None = (None, None)"
  by (simp add: SeperateWord_def)

lemma SeperateWord_word:
  assumes "SeperateWord (Some s) = (w, rest)"
  shows "w = Some (takeWhile (\<lambda>c. \<not> word_end c) s)"
  using assms by (auto simp: SeperateWord_def Let_def split: list.splits if_splits)

lemma SeperateWord_rest_shorter:
  assumes "SeperateWord (Some s) = (w, Some r)"
  shows "length r < length s"
proof -
  from assms obtain c t where d: "dropWhile (\<lambda>c. \<not> word_end c) s = c # t"
    and r: "r = dropWhile (\<lambda>c. c = CHR '' '' \<or> c = CHR 0x09) t"
    by (auto simp: SeperateWord_def StripBlanks_def Let_def split: list.splits if_splits)
  have "length r \<le> length t" unfolding r by (rule length_dropWhile_le)
  moreover have "length (c # t) \<le> length s"
    unfolding d [symmetric] by (rule length_dropWhile_le)
  ultimately show ?thesis by simp
qed

lemma SeperateWord_split:
  assumes "SeperateWord (Some s) = (Some w, Some r)"
  shows "\<exists>bl. s = w @ CHR '' '' # bl @ r \<and> set bl \<subseteq> {CHR '' '', CHR 0x09}
    \<and> (r = [] \<or> hd r \<notin> {CHR '' '', CHR 0x09})"
proof -
  let ?blank = "\<lambda>c. c = CHR '' '' \<or> c = CHR 0x09"
  from assms obtain c t where d: "dropWhile (\<lambda>c. \<not> word_end c) s = c # t"
    and r: "r = dropWhile ?blank t" and c: "c \<noteq> CHR 0x0A"
    and w: "w = takeWhile (\<lambda>c. \<not> word_end c) s"
    by (auto simp: SeperateWord_def StripBlanks_def Let_def split: list.splits if_splits)
  have "word_end c" using d by (metis hd_dropWhile list.sel(1) list.simps(3))
  with c have c: "c = CHR '' ''" by (auto simp: word_end_def)
  have "s = w @ c # takeWhile ?blank t @ r"
    unfolding w r using d by (metis takeWhile_dropWhile_id)
  moreover have "set (takeWhile ?blank t) \<subseteq> {CHR '' '', CHR 0x09}"
    by (auto dest: set_takeWhileD)
  moreover have "r = [] \<or> hd r \<notin> {CHR '' '', CHR 0x09}"
    unfolding r using hd_dropWhile [of ?blank t] by auto
  ultimately show ?thesis using c by blast
qed

text \<open>A line built from words by single blanks is taken apart again, word by word.\<close>

definition plain_word :: "string \<Rightarrow> bool" where
  "plain_word w \<longleftrightarrow> w \<noteq> [] \<and> (\<forall>c \<in> set w. \<not> word_end c \<and> c \<noteq> CHR 0x09)"

lemma takeWhile_word [simp]:
  "plain_word w \<Longrightarrow> takeWhile (\<lambda>c. \<not> word_end c) (w @ CHR '' '' # r) = w"
  by (auto simp: plain_word_def word_end_def takeWhile_append)

lemma dropWhile_word [simp]:
  "plain_word w \<Longrightarrow> dropWhile (\<lambda>c. \<not> word_end c) (w @ CHR '' '' # r) = CHR '' '' # r"
  by (auto simp: plain_word_def word_end_def dropWhile_append)

lemma SeperateWord_append:
  assumes "plain_word w" and "r \<noteq> []" and "hd r \<notin> {CHR '' '', CHR 0x09}"
  shows "SeperateWord (Some (w @ CHR '' '' # r)) = (Some w, Some r)"
proof -
  from assms obtain d t where "r = d # t" by (cases r) auto
  with assms show ?thesis
    by (simp add: SeperateWord_def StripBlanks_def Let_def)
qed

lemma SeperateWord_last:
  assumes "plain_word w"
  shows "SeperateWord (Some w) = (Some w, None)"
proof -
  have "takeWhile (\<lambda>c. \<not> word_end c) w = w" "dropWhile (\<lambda>c. \<not> word_end c) w = []"
    using assms by (auto simp: plain_word_def)
  then show ?thesis by (simp only: SeperateWord_def option.case list.case Let_def)
qed

fun parse_words :: "nat \<Rightarrow> cstring \<Rightarrow> string list" where
  "parse_words 0 s = []"
| "parse_words (Suc n) s =
     (case SeperateWord s of (Some w, rest) \<Rightarrow> w # parse_words n rest | (None, _) \<Rightarrow> [])"

fun join_words :: "string list \<Rightarrow> string" where
  "join_words [] = []"
| "join_words [w] = w"
| "join_words (w # v # ws) = w @ CHR '' '' # join_words (v # ws)"

lemma join_words_hd:
  assumes "\<forall>w \<in> set ws. plain_word w" and "ws \<noteq> []"
  shows "join_words ws \<noteq> [] \<and> hd (join_words ws) \<notin> {CHR '' '', CHR 0x09}"
proof -
  from assms obtain w vs where ws: "ws = w # vs" "plain_word w" by (cases ws) auto
  then obtain c t where "w = c # t" "c \<noteq> CHR '' ''" "c \<noteq> CHR 0x09"
    by (cases w) (auto simp: plain_word_def word_end_def)
  with ws show ?thesis by (cases vs) auto
qed

lemma parse_join_words:
  assumes "\<forall>w \<in> set ws. plain_word w" and "ws \<noteq> []"
  shows "parse_words (length ws) (Some (join_words ws)) = ws"
  using assms
proof (induction ws rule: join_words.induct)
  case (3 w v ws)
  let ?r = "join_words (v # ws)"
  have "?r \<noteq> [] \<and> hd ?r \<notin> {CHR '' '', CHR 0x09}"
    by (rule join_words_hd) (use 3 in auto)
  with 3 have "SeperateWord (Some (w @ CHR '' '' # ?r)) = (Some w, Some ?r)"
    by (intro SeperateWord_append) auto
  with 3 show ?case by simp
qed (auto simp: SeperateWord_last)

subsection \<open>Quoting for SQL\<close>

fun sql_unescape :: "string \<Rightarrow> string" where
  "sql_unescape [] = []"
| "sql_unescape [c] = (if c = CHR 0x00 then [] else [c])"
| "sql_unescape (c # d # cs) =
     (if c = CHR 0x00 then []
      else if c = CHR 0x5C then d # sql_unescape cs else c # sql_unescape (d # cs))"

lemma sql_unescape_plain:
  "c \<noteq> CHR 0x00 \<Longrightarrow> c \<noteq> CHR 0x5C \<Longrightarrow> sql_unescape (c # cs) = c # sql_unescape cs"
  by (cases cs) auto

lemma strtosql_unescape:
  assumes "CHR 0x00 \<notin> set src" and "length src < len"
  shows "sql_unescape (strtosql src len) = src"
  using assms
proof (induction src len rule: strtosql.induct)
  case (3 c cs len)
  then have IH: "sql_unescape (strtosql cs len) = cs" by auto
  show ?case
  proof (cases "needs_escape c")
    case True
    with IH show ?thesis by simp
  next
    case False
    then have "c \<noteq> CHR 0x5C" by (auto simp: needs_escape_def)
    moreover have "c \<noteq> CHR 0x00" using "3.prems" by auto
    ultimately show ?thesis using False IH by (simp add: sql_unescape_plain)
  qed
qed auto

definition escapes :: "string \<Rightarrow> nat" where
  "escapes s = length (filter needs_escape s)"

lemma length_strtosql:
  "length (strtosql src len) =
     (if length src < len then length src + escapes src + 1
      else len + escapes (take len src))"
proof (induction src len rule: strtosql.induct)
  case (3 c cs len)
  then show ?case by (auto simp: escapes_def)
qed (auto simp: escapes_def)

end
