(* ===== verification/OMap.thy ===== *)
theory OMap
  imports CStrings
begin

section \<open>Insertion-ordered tables: what src/src/hashmap.h promises\<close>

text \<open>
  The tables of the program (\<open>users\<close>, \<open>nicks\<close>, \<open>chans\<close>, ...) are hash maps whose entries are
  also chained in insertion order, and whose iteration follows that chain. Their contract is an
  association list without duplicate keys, keys compared by the function of the map's
  descriptor. This theory holds the contract; \<open>Hashmap\<close> shows that \<open>hashmap.c\<close> keeps it, and
  the other components use the tables through it, with the comparison \<open>strcasecmp\<close> that
  \<open>init_core\<close> installs.
\<close>

type_synonym ('k, 'v) omap = "('k \<times> 'v) list"

definition om_entry :: "('k \<Rightarrow> 'k \<Rightarrow> int) \<Rightarrow> ('k, 'v) omap \<Rightarrow> 'k \<Rightarrow> ('k \<times> 'v) option" where
  "om_entry cmp t k = find (\<lambda>e. cmp (fst e) k = 0) t"

definition om_find :: "('k \<Rightarrow> 'k \<Rightarrow> int) \<Rightarrow> ('k, 'v) omap \<Rightarrow> 'k \<Rightarrow> 'v option" where
  "om_find cmp t k = map_option snd (om_entry cmp t k)"

text \<open>Inserting an existing key changes nothing and answers \<open>False\<close>.\<close>

definition om_insert :: "('k \<Rightarrow> 'k \<Rightarrow> int) \<Rightarrow> 'k \<Rightarrow> 'v \<Rightarrow> ('k, 'v) omap \<Rightarrow> ('k, 'v) omap" where
  "om_insert cmp k v t = (if om_entry cmp t k = None then t @ [(k, v)] else t)"

definition om_erase :: "('k \<Rightarrow> 'k \<Rightarrow> int) \<Rightarrow> 'k \<Rightarrow> ('k, 'v) omap \<Rightarrow> ('k, 'v) omap" where
  "om_erase cmp k t = (case om_entry cmp t k of None \<Rightarrow> t | Some e \<Rightarrow> remove1 e t)"

text \<open>No two keys of a table compare equal; \<open>canon\<close> sends keys to a canonical form.\<close>

definition om_ok :: "('k \<Rightarrow> 'c) \<Rightarrow> ('k, 'v) omap \<Rightarrow> bool" where
  "om_ok canon t \<longleftrightarrow> distinct (map (canon \<circ> fst) t)"

text \<open>The comparison of a descriptor is equality of a canonical form.\<close>

locale key_order =
  fixes compare :: "'k \<Rightarrow> 'k \<Rightarrow> int" and canon :: "'k \<Rightarrow> 'c"
  assumes compare_iff: "compare a b = 0 \<longleftrightarrow> canon a = canon b"
begin

lemma entry_in: "om_entry compare t k = Some e \<Longrightarrow> e \<in> set t \<and> canon (fst e) = canon k"
  by (auto simp: om_entry_def compare_iff dest: find_SomeD)

lemma entry_None_iff: "om_entry compare t k = None \<longleftrightarrow> canon k \<notin> canon ` fst ` set t"
  by (auto simp: om_entry_def compare_iff find_None_iff image_iff)

lemma ok_entry_iff:
  assumes "om_ok canon t"
  shows "om_entry compare t k = Some e \<longleftrightarrow> e \<in> set t \<and> canon (fst e) = canon k"
proof
  assume r: "e \<in> set t \<and> canon (fst e) = canon k"
  have "y = e" if "y \<in> set t" "canon (fst y) = canon k" for y
    using assms r that by (force simp: om_ok_def distinct_map inj_on_def)
  with r show "om_entry compare t k = Some e"
    unfolding om_entry_def by (intro find_unique) (auto simp: compare_iff)
qed (rule entry_in)

lemma ok_distinct: "om_ok canon t \<Longrightarrow> distinct t"
  by (auto simp: om_ok_def distinct_map)

lemma ok_insert: "om_ok canon t \<Longrightarrow> om_ok canon (om_insert compare k v t)"
  by (auto simp: om_insert_def om_ok_def entry_None_iff image_iff)

lemma ok_filter: "om_ok canon t \<Longrightarrow> om_ok canon (filter P t)"
  by (auto simp: om_ok_def distinct_map inj_on_def)

lemma erase_filter:
  assumes "om_ok canon t"
  shows "om_erase compare k t = filter (\<lambda>e. canon (fst e) \<noteq> canon k) t"
proof (cases "om_entry compare t k")
  case None
  then have "filter (\<lambda>e. canon (fst e) \<noteq> canon k) t = t"
    by (auto simp: entry_None_iff image_iff intro!: filter_True)
  with None show ?thesis by (simp add: om_erase_def)
next
  case (Some e)
  have "(y \<noteq> e) = (canon (fst y) \<noteq> canon k)" if "y \<in> set t" for y
    using ok_entry_iff [OF assms, of k e] ok_entry_iff [OF assms, of k y] Some that by auto
  then have "filter (\<lambda>y. y \<noteq> e) t = filter (\<lambda>y. canon (fst y) \<noteq> canon k) t"
    by (intro filter_cong) auto
  with Some show ?thesis
    by (simp add: om_erase_def distinct_remove1_filter [OF ok_distinct [OF assms]])
qed

lemma ok_erase: "om_ok canon t \<Longrightarrow> om_ok canon (om_erase compare k t)"
  by (simp add: erase_filter ok_filter)

lemma find_cong_canon: "canon k = canon k' \<Longrightarrow> om_find compare t k = om_find compare t k'"
  by (simp add: om_find_def om_entry_def compare_iff)

lemma find_in: "om_find compare t k = Some v \<Longrightarrow> \<exists>k'. (k', v) \<in> set t \<and> canon k' = canon k"
  by (force simp: om_find_def dest: entry_in)

lemma find_Some_iff:
  "om_ok canon t \<Longrightarrow> om_find compare t k = Some v \<longleftrightarrow> (\<exists>k'. (k', v) \<in> set t \<and> canon k' = canon k)"
  by (auto simp: om_find_def ok_entry_iff)

lemma find_None_iff: "om_find compare t k = None \<longleftrightarrow> canon k \<notin> canon ` fst ` set t"
  by (simp add: om_find_def entry_None_iff)

lemma find_insert:
  "om_find compare (om_insert compare k v t) k' =
    (if canon k' = canon k \<and> om_find compare t k = None then Some v else om_find compare t k')"
  by (auto simp: om_find_def om_insert_def om_entry_def compare_iff find_append
      split: option.splits)

lemma find_erase:
  assumes "om_ok canon t"
  shows "om_find compare (om_erase compare k t) k' =
    (if canon k' = canon k then None else om_find compare t k')"
proof -
  have "find (\<lambda>e. canon (fst e) = canon k') (filter (\<lambda>e. canon (fst e) \<noteq> canon k) t) =
    (if canon k' = canon k then None else find (\<lambda>e. canon (fst e) = canon k') t)"
    by (induction t) (auto simp: find_None_iff)
  then show ?thesis
    by (simp add: erase_filter [OF assms] om_find_def om_entry_def compare_iff)
qed

lemma insert_find_length:
  "length (om_insert compare k v t) = length t + (if om_find compare t k = None then 1 else 0)"
  by (simp add: om_insert_def om_find_def)

end

text \<open>The comparison that every table of the program uses.\<close>

interpretation nocase: key_order strcasecmp lc
  by unfold_locales (rule strcasecmp_zero_iff)

abbreviation tfind :: "(string, 'v) omap \<Rightarrow> string \<Rightarrow> 'v option" where
  "tfind \<equiv> om_find strcasecmp"

abbreviation tinsert :: "string \<Rightarrow> 'v \<Rightarrow> (string, 'v) omap \<Rightarrow> (string, 'v) omap" where
  "tinsert \<equiv> om_insert strcasecmp"

abbreviation terase :: "string \<Rightarrow> (string, 'v) omap \<Rightarrow> (string, 'v) omap" where
  "terase \<equiv> om_erase strcasecmp"

abbreviation tok :: "(string, 'v) omap \<Rightarrow> bool" where
  "tok \<equiv> om_ok lc"

lemma tok_Nil [simp]: "tok []"
  by (simp add: om_ok_def)

lemma tfind_Nil [simp]: "tfind [] k = None"
  by (simp add: om_find_def om_entry_def)

end
