(* ===== verification/Hashmap.thy ===== *)
theory Hashmap
  imports OMap
begin

section \<open>The hash table: src/src/hashmap.c, and the hash functions of hashmap.h and core.c\<close>

text \<open>
  An entry is on two chains, that of its bucket and the chain \<open>keys\<close> in insertion order; the
  chains are lists here (\<open>LList\<close> justifies this). \<open>LLIST_REMOVE\<close> unlinks an entry from
  whichever bucket it is on. Hashing a key of 1024 bytes or more aborts the program
  (\<open>hash_str_nocase\<close>), which is \<open>None\<close>. Allocation succeeds.
\<close>

record 'k hdesc =
  initial_bucket_count :: nat
  hash :: "'k \<Rightarrow> 32 word option"
  compare :: "'k \<Rightarrow> 'k \<Rightarrow> int"

record ('k, 'v) hmap =
  hm_size :: nat
  hm_bucket_count :: nat
  hm_map :: "('k \<times> 'v) list list"
  hm_keys :: "('k \<times> 'v) list"

definition HASHMAP_DEFAULT_BUCKET_COUNT :: nat where
  "HASHMAP_DEFAULT_BUCKET_COUNT = 16"

definition hashmap_new :: "'k hdesc \<Rightarrow> ('k, 'v) hmap" where
  "hashmap_new desc =
     (let n = (if initial_bucket_count desc \<noteq> 0 then initial_bucket_count desc
               else HASHMAP_DEFAULT_BUCKET_COUNT)
      in \<lparr>hm_size = 0, hm_bucket_count = n, hm_map = replicate n [], hm_keys = []\<rparr>)"

definition bucket_of :: "'k hdesc \<Rightarrow> nat \<Rightarrow> 'k \<Rightarrow> nat option" where
  "bucket_of d n key = map_option (\<lambda>h. unat h AND (n - 1)) (hash d key)"

definition hashmap_bucket :: "'k hdesc \<Rightarrow> ('k, 'v) hmap \<Rightarrow> 'k \<Rightarrow> nat option" where
  "hashmap_bucket d hm key = bucket_of d (hm_bucket_count hm) key"

definition hashmap_must_grow :: "('k, 'v) hmap \<Rightarrow> bool" where
  "hashmap_must_grow hm \<longleftrightarrow> hm_bucket_count hm div 4 * 3 < hm_size hm"

text \<open>The state of the loop of \<open>hashmap_resize\<close>: the old buckets and the new ones.\<close>

definition rehash_entry ::
  "'k hdesc \<Rightarrow> nat \<Rightarrow> 'k \<times> 'v \<Rightarrow> ('k \<times> 'v) list list \<times> ('k \<times> 'v) list list \<Rightarrow>
   (('k \<times> 'v) list list \<times> ('k \<times> 'v) list list) option" where
  "rehash_entry d n he m =
     do { idx \<leftarrow> bucket_of d n (fst he);
          Some (map (remove1 he) (fst m), (snd m)[idx := snd m ! idx @ [he]]) }"

definition hashmap_resize :: "'k hdesc \<Rightarrow> nat \<Rightarrow> ('k, 'v) hmap \<Rightarrow> ('k, 'v) hmap option" where
  "hashmap_resize d new_bucket_count hm =
     do { m \<leftarrow> foldM (rehash_entry d new_bucket_count) (hm_keys hm)
                 (hm_map hm, replicate new_bucket_count []);
          Some (hm\<lparr>hm_bucket_count := new_bucket_count, hm_map := snd m\<rparr>) }"

definition hashmap_find :: "'k hdesc \<Rightarrow> ('k, 'v) hmap \<Rightarrow> 'k \<Rightarrow> ('k \<times> 'v) option option" where
  "hashmap_find d hm key =
     do { idx \<leftarrow> hashmap_bucket d hm key;
          Some (find (\<lambda>he. compare d (fst he) key = 0) (hm_map hm ! idx)) }"

text \<open>The result says whether the entry is new, and is the entry found or made.\<close>

definition hashmap_insert ::
  "'k hdesc \<Rightarrow> 'k \<Rightarrow> 'v \<Rightarrow> ('k, 'v) hmap \<Rightarrow> (('k, 'v) hmap \<times> bool \<times> ('k \<times> 'v)) option" where
  "hashmap_insert d key value hm =
     do { idx \<leftarrow> hashmap_bucket d hm key;
          case find (\<lambda>he. compare d (fst he) key = 0) (hm_map hm ! idx) of
            Some he \<Rightarrow> Some (hm, False, he)
          | None \<Rightarrow>
              do { hm1 \<leftarrow> (if hashmap_must_grow hm
                           then hashmap_resize d (hm_bucket_count hm * 2) hm else Some hm);
                   idx \<leftarrow> hashmap_bucket d hm1 key;
                   let he = (key, value) in
                   Some (hm1\<lparr>hm_map := (hm_map hm1)[idx := hm_map hm1 ! idx @ [he]],
                             hm_keys := hm_keys hm1 @ [he],
                             hm_size := hm_size hm1 + 1\<rparr>, True, he) } }"

definition hashmap_remove_entry :: "'k \<times> 'v \<Rightarrow> ('k, 'v) hmap \<Rightarrow> ('k, 'v) hmap" where
  "hashmap_remove_entry he hm =
     hm\<lparr>hm_map := map (remove1 he) (hm_map hm), hm_keys := remove1 he (hm_keys hm),
        hm_size := hm_size hm - 1\<rparr>"

definition hashmap_erase :: "'k hdesc \<Rightarrow> 'k \<Rightarrow> ('k, 'v) hmap \<Rightarrow> (('k, 'v) hmap \<times> bool) option" where
  "hashmap_erase d key hm =
     do { r \<leftarrow> hashmap_find d hm key;
          case r of None \<Rightarrow> Some (hm, False)
          | Some he \<Rightarrow> Some (hashmap_remove_entry he hm, True) }"

text \<open>The loop ends because every step shortens the chain of keys.\<close>

function hashmap_flush :: "('k, 'v) hmap \<Rightarrow> ('k, 'v) hmap" where
  "hashmap_flush hm =
     (case hm_keys hm of [] \<Rightarrow> hm | he # _ \<Rightarrow> hashmap_flush (hashmap_remove_entry he hm))"
  by auto
termination
  by (relation "measure (\<lambda>hm. length (hm_keys hm))") (auto simp: hashmap_remove_entry_def)

declare hashmap_flush.simps [simp del]

subsection \<open>Hash functions\<close>

definition hash_str :: "string \<Rightarrow> 32 word" where
  "hash_str str = foldl (\<lambda>h c. (push_bit 5 h + h) + of_char c) 5381 str"

definition HASH_BUF_LEN :: nat where
  "HASH_BUF_LEN = 1024"

definition hash_str_nocase :: "string \<Rightarrow> 32 word option" where
  "hash_str_nocase key =
     (if HASH_BUF_LEN \<le> length key then None else Some (hash_str (map tolower key)))"

definition core_desc :: "string hdesc" where
  "core_desc = \<lparr>initial_bucket_count = 0, hash = hash_str_nocase, compare = strcasecmp\<rparr>"

text \<open>The integer hash of \<open>hashmap.h\<close> and its comparison.\<close>

definition hash_int :: "64 word \<Rightarrow> 32 word" where
  "hash_int key =
     (let x = ucast key + 1;
          x = x XOR drop_bit 17 x;
          x = x * 0xed5ad4bb;
          x = x XOR drop_bit 11 x;
          x = x * 0xac4c1b51;
          x = x XOR drop_bit 15 x;
          x = x * 0x31848bab
      in x XOR drop_bit 14 x)"

definition compare_int :: "64 word \<Rightarrow> 64 word \<Rightarrow> int" where
  "compare_int k1 k2 = (if k1 \<noteq> k2 then 1 else 0)"

subsection \<open>The invariant and the refinement\<close>

text \<open>
  Every bucket is the part of the chain of keys that hashes to it, in the order of the chain;
  so the table is the chain of keys.
\<close>

definition hm_inv :: "'k hdesc \<Rightarrow> ('k \<Rightarrow> 'c) \<Rightarrow> ('k, 'v) hmap \<Rightarrow> bool" where
  "hm_inv d canon hm \<longleftrightarrow>
     0 < hm_bucket_count hm \<and> length (hm_map hm) = hm_bucket_count hm \<and>
     hm_size hm = length (hm_keys hm) \<and> om_ok canon (hm_keys hm) \<and>
     (\<forall>e \<in> set (hm_keys hm). hash d (fst e) \<noteq> None) \<and>
     (\<forall>i < hm_bucket_count hm.
        hm_map hm ! i = filter (\<lambda>e. hashmap_bucket d hm (fst e) = Some i) (hm_keys hm))"

lemma bucket_of_less: "bucket_of d n k = Some i \<Longrightarrow> 0 < n \<Longrightarrow> i < n"
proof -
  assume "bucket_of d n k = Some i" and n: "0 < n"
  then obtain h :: nat where "i = h AND (n - 1)" by (auto simp: bucket_of_def)
  then have "i \<le> n - 1" by (auto simp: and_nat_def nat_le_iff AND_upper2)
  with n show ?thesis by simp
qed

lemma rehash_all:
  assumes "0 < n" and "\<And>e. e \<in> set es \<Longrightarrow> bucket_of d n (fst e) \<noteq> None"
    and "length new = n"
  shows "\<exists>old'. foldM (rehash_entry d n) es (old, new) =
    Some (old', map (\<lambda>i. new ! i @ filter (\<lambda>e. bucket_of d n (fst e) = Some i) es) [0..<n])"
  using assms(2,3)
proof (induction es arbitrary: old new)
  case Nil
  then show ?case by simp (metis map_nth)
next
  case (Cons e es)
  then obtain idx where idx: "bucket_of d n (fst e) = Some idx" by fastforce
  then have "idx < n" using assms(1) by (rule bucket_of_less)
  let ?new = "new[idx := new ! idx @ [e]]"
  have "map (\<lambda>i. ?new ! i @ filter (\<lambda>e. bucket_of d n (fst e) = Some i) es) [0..<n] =
    map (\<lambda>i. new ! i @ filter (\<lambda>e. bucket_of d n (fst e) = Some i) (e # es)) [0..<n]"
    using Cons.prems(2) idx by (intro map_cong) (auto simp: nth_list_update)
  with Cons.IH [of ?new "map (remove1 e) old"] Cons.prems idx show ?case
    by (auto simp: rehash_entry_def)
qed

locale hash_contract = key_order "compare d" canon for d :: "'k hdesc" and canon :: "'k \<Rightarrow> 'c" +
  assumes hash_canon: "canon a = canon b \<Longrightarrow> hash d a = hash d b"
begin

lemma bucket_canon: "canon a = canon b \<Longrightarrow> bucket_of d n a = bucket_of d n b"
  by (simp add: bucket_of_def hash_canon [of a b])

lemma new_inv: "hm_inv d canon (hashmap_new d)"
  by (simp add: hm_inv_def hashmap_new_def Let_def om_ok_def HASHMAP_DEFAULT_BUCKET_COUNT_def)

lemma resize_inv:
  assumes "hm_inv d canon hm" and "0 < n"
  shows "\<exists>hm'. hashmap_resize d n hm = Some hm' \<and> hm_inv d canon hm' \<and>
    hm_keys hm' = hm_keys hm \<and> hm_bucket_count hm' = n \<and> hm_size hm' = hm_size hm"
proof -
  from assms have "bucket_of d n (fst e) \<noteq> None" if "e \<in> set (hm_keys hm)" for e
    using that by (auto simp: hm_inv_def bucket_of_def)
  with rehash_all [OF assms(2), of "hm_keys hm" d "replicate n []" "hm_map hm"]
  obtain old where r: "foldM (rehash_entry d n) (hm_keys hm) (hm_map hm, replicate n []) =
      Some (old, map (\<lambda>i. replicate n [] ! i @
        filter (\<lambda>e. bucket_of d n (fst e) = Some i) (hm_keys hm)) [0..<n])"
    by auto
  let ?hm = "hm\<lparr>hm_bucket_count := n, hm_map := map (\<lambda>i. replicate n [] ! i @
        filter (\<lambda>e. bucket_of d n (fst e) = Some i) (hm_keys hm)) [0..<n]\<rparr>"
  have "hm_inv d canon ?hm"
    using assms by (simp add: hm_inv_def hashmap_bucket_def)
  with r show ?thesis by (simp add: hashmap_resize_def)
qed

lemma bucket_find:
  assumes "hm_inv d canon hm" and "hashmap_bucket d hm k = Some i"
  shows "find (\<lambda>he. compare d (fst he) k = 0) (hm_map hm ! i) = om_entry (compare d) (hm_keys hm) k"
proof -
  have i: "i < hm_bucket_count hm"
    using assms bucket_of_less by (auto simp: hm_inv_def hashmap_bucket_def)
  have "find P (filter Q xs) = find P xs" if "\<And>x. P x \<Longrightarrow> Q x" for P Q and xs :: "('k \<times> 'a) list"
    using that by (induction xs) auto
  moreover have "hashmap_bucket d hm (fst e) = Some i" if "compare d (fst e) k = 0" for e :: "'k \<times> 'a"
    using that assms(2) by (simp add: compare_iff hashmap_bucket_def bucket_canon [of "fst e" k])
  ultimately show ?thesis using assms(1) i by (auto simp: hm_inv_def om_entry_def)
qed

lemma find_refines:
  assumes "hm_inv d canon hm" and "hash d k \<noteq> None"
  shows "hashmap_find d hm k = Some (om_entry (compare d) (hm_keys hm) k)"
proof -
  from assms(2) obtain i where "hashmap_bucket d hm k = Some i"
    by (auto simp: hashmap_bucket_def bucket_of_def)
  with bucket_find [OF assms(1) this] show ?thesis by (simp add: hashmap_find_def)
qed

lemma append_inv:
  assumes inv: "hm_inv d canon hm" and i: "hashmap_bucket d hm k = Some i"
    and new: "om_entry (compare d) (hm_keys hm) k = None"
  shows "hm_inv d canon (hm\<lparr>hm_map := (hm_map hm)[i := hm_map hm ! i @ [(k, v)]],
    hm_keys := hm_keys hm @ [(k, v)], hm_size := hm_size hm + 1\<rparr>)"
proof -
  from inv new have "om_ok canon (hm_keys hm @ [(k, v)])"
    using ok_insert [of "hm_keys hm" k v] by (simp add: hm_inv_def om_insert_def)
  moreover have "hash d k \<noteq> None" using i by (auto simp: hashmap_bucket_def bucket_of_def)
  moreover have "i < hm_bucket_count hm"
    using inv i bucket_of_less by (auto simp: hm_inv_def hashmap_bucket_def)
  ultimately show ?thesis using inv i
    by (simp add: hm_inv_def hashmap_bucket_def nth_list_update)
qed

lemma insert_refines:
  assumes inv: "hm_inv d canon hm" and h: "hash d k \<noteq> None"
  shows "\<exists>hm' b e. hashmap_insert d k v hm = Some (hm', b, e) \<and> hm_inv d canon hm' \<and>
    hm_keys hm' = om_insert (compare d) k v (hm_keys hm) \<and>
    b = (om_entry (compare d) (hm_keys hm) k = None) \<and>
    Some e = om_entry (compare d) (hm_keys hm') k"
proof -
  have bucket: "\<exists>i. hashmap_bucket d hm2 k = Some i" for hm2 :: "('k, 'a) hmap"
    using h by (auto simp: hashmap_bucket_def bucket_of_def)
  then obtain i where i: "hashmap_bucket d hm k = Some i" by blast
  show ?thesis
  proof (cases "om_entry (compare d) (hm_keys hm) k")
    case (Some e)
    with i inv show ?thesis
      by (intro exI [of _ hm] exI [of _ False] exI [of _ e])
        (simp add: hashmap_insert_def bucket_find om_insert_def)
  next
    case None
    have "0 < hm_bucket_count hm * 2" using inv by (simp add: hm_inv_def)
    with resize_inv [OF inv this] inv
    obtain hm1 where hm1: "(if hashmap_must_grow hm then hashmap_resize d (hm_bucket_count hm * 2) hm
        else Some hm) = Some hm1" "hm_inv d canon hm1" "hm_keys hm1 = hm_keys hm"
      by (cases "hashmap_must_grow hm") auto
    obtain j where j: "hashmap_bucket d hm1 k = Some j" using bucket by blast
    have "om_entry (compare d) (hm_keys hm @ [(k, v)]) k = Some (k, v)"
      using None by (simp add: om_entry_def find_append compare_iff)
    with None i inv hm1 j append_inv [OF hm1(2) j, of v] show ?thesis
      by (intro exI [of _ "hm1\<lparr>hm_map := (hm_map hm1)[j := hm_map hm1 ! j @ [(k, v)]],
          hm_keys := hm_keys hm @ [(k, v)], hm_size := hm_size hm1 + 1\<rparr>"]
          exI [of _ True] exI [of _ "(k, v)"])
        (simp add: Let_def hashmap_insert_def bucket_find om_insert_def)
  qed
qed

lemma remove_inv:
  assumes inv: "hm_inv d canon hm" and e: "e \<in> set (hm_keys hm)"
  shows "hm_inv d canon (hashmap_remove_entry e hm)"
proof -
  have d: "distinct (hm_keys hm)" using inv by (auto simp: hm_inv_def dest: ok_distinct)
  have "om_ok canon (remove1 e (hm_keys hm))"
    using inv d by (simp add: hm_inv_def distinct_remove1_filter ok_filter)
  moreover have "remove1 e (filter P (hm_keys hm)) = filter P (remove1 e (hm_keys hm))" for P
    by (simp add: filter_remove1)
  ultimately show ?thesis using inv e d
    by (auto simp: hm_inv_def hashmap_remove_entry_def hashmap_bucket_def length_remove1)
qed

lemma erase_refines:
  assumes inv: "hm_inv d canon hm" and h: "hash d k \<noteq> None"
  shows "\<exists>hm' b. hashmap_erase d k hm = Some (hm', b) \<and> hm_inv d canon hm' \<and>
    hm_keys hm' = om_erase (compare d) k (hm_keys hm) \<and>
    b = (om_entry (compare d) (hm_keys hm) k \<noteq> None)"
proof (cases "om_entry (compare d) (hm_keys hm) k")
  case None
  with inv h show ?thesis
    by (intro exI [of _ hm] exI [of _ False]) (simp add: hashmap_erase_def find_refines om_erase_def)
next
  case (Some e)
  then have "e \<in> set (hm_keys hm)" by (auto dest: entry_in)
  with inv h Some show ?thesis
    by (intro exI [of _ "hashmap_remove_entry e hm"] exI [of _ True])
      (simp add: hashmap_erase_def find_refines om_erase_def remove_inv,
       simp add: hashmap_remove_entry_def)
qed

lemma flush_inv:
  "hm_inv d canon hm \<Longrightarrow> hm_inv d canon (hashmap_flush hm) \<and> hm_keys (hashmap_flush hm) = [] \<and>
    hm_bucket_count (hashmap_flush hm) = hm_bucket_count hm"
proof (induction hm rule: hashmap_flush.induct)
  case (1 hm)
  show ?case
  proof (cases "hm_keys hm")
    case Nil
    with 1(2) show ?thesis by (simp add: hashmap_flush.simps [of hm])
  next
    case (Cons e es)
    then have "hm_inv d canon (hashmap_remove_entry e hm)" using 1(2) by (intro remove_inv) auto
    with 1(1) [OF Cons] show ?thesis
      by (simp add: hashmap_flush.simps [of hm] Cons) (simp add: hashmap_remove_entry_def)
  qed
qed

end

lemma lc_hash: "lc a = lc b \<Longrightarrow> hash_str_nocase a = hash_str_nocase b"
proof -
  assume "lc a = lc b"
  moreover from this have "length a = length b" by (metis length_lc)
  ultimately show ?thesis by (simp add: hash_str_nocase_def lc_def)
qed

text \<open>The tables of \<open>init_core\<close> keep the contract, for keys shorter than 1024 bytes.\<close>

interpretation table: hash_contract core_desc lc
  by unfold_locales (simp add: core_desc_def strcasecmp_zero_iff, unfold core_desc_def, simp, rule lc_hash)

lemma core_desc_hash: "hash core_desc k \<noteq> None \<longleftrightarrow> length k < HASH_BUF_LEN"
  by (simp add: core_desc_def hash_str_nocase_def)

text \<open>Growing a table loses no entry; emptying it ends with none.\<close>

lemma hashmap_resize_flush:
  assumes "hm_inv core_desc lc hm" and "0 < n"
  shows "\<exists>hm'. hashmap_resize core_desc n hm = Some hm' \<and> hm_inv core_desc lc hm' \<and>
    hm_keys hm' = hm_keys hm \<and> hm_bucket_count hm' = n \<and>
    hm_inv core_desc lc (hashmap_flush hm') \<and> hm_keys (hashmap_flush hm') = []"
  using table.resize_inv [OF assms] table.flush_inv by blast

end
