(* ===== verification/Core.thy ===== *)
theory Core
  imports OMap
begin

section \<open>The state of the services: src/src/core.h and the structures of the headers\<close>

text \<open>
  One record per structure, with the names of the source and a prefix; a fixed \<open>char\<close> array is
  a string, an embedded list head the list of the addresses of its elements. The objects live
  in one heap per structure, \<open>None\<close> being a freed or never allocated address, so that reading
  through a dangling pointer is the \<open>None\<close> of the option monad. A table maps keys to addresses,
  in insertion order. A pointer that may be NULL is a \<open>ptr option\<close>.
\<close>

subsection \<open>Sizes and constants\<close>

definition NICKLEN :: nat where "NICKLEN = 35"
definition HOSTLEN :: nat where "HOSTLEN = 60"
definition UIDLEN :: nat where "UIDLEN = 9"
definition SVIDLEN :: nat where "SVIDLEN = 35"
definition CHANLEN :: nat where "CHANLEN = 35"
definition MASKLEN :: nat where "MASKLEN = 255"
definition TOPICLEN :: nat where "TOPICLEN = 310"
definition EMAILLEN :: nat where "EMAILLEN = 100"
definition SERVERNAMELEN :: nat where "SERVERNAMELEN = 64"
definition SIDLEN :: nat where "SIDLEN = 3"
definition TIMEOUT_DFLT :: int where "TIMEOUT_DFLT = 60"
definition CHLEV_OWNER :: int where "CHLEV_OWNER = 10000"
definition CHLEV_COOWNER :: int where "CHLEV_COOWNER = 9999"

type_synonym flags = "64 word"

subsection \<open>Structures\<close>

record user =
  u_nick :: string
  u_authed :: int
  u_level :: int
  u_md5_pass :: string
  u_pwhash :: string
  u_lastseen :: int
  u_timeout :: int
  u_options :: flags
  u_vhost :: string
  u_email :: string
  u_regtime :: int
  u_cflags :: "ptr list"
  u_authed_nick :: "ptr option"

record nick =
  n_name :: string
  n_ident :: string
  n_host :: string
  n_uid :: string
  n_svid :: string
  n_hiddenhost :: string
  n_reshost :: string
  n_umodes :: flags
  n_msgtime :: int
  n_msgnb :: int
  n_ignored :: bool
  n_ignoretime :: int
  n_loginattempts :: int
  n_lasttry :: int
  n_account :: "ptr option"
  n_wchans :: "ptr list"

record clone =
  cl_host :: string
  cl_count :: int

record guest =
  g_nick :: string
  g_nickconn :: int
  g_timeout :: int

record link =
  l_master :: string
  l_slave :: string

record fake =
  f_nick :: string
  f_ident :: string
  f_host :: string
  f_uid :: string

record chan =
  c_name :: string
  c_owner :: string
  c_options :: flags
  c_entrymsg :: string
  c_mlock :: string
  c_topic :: string
  c_autolimit :: int
  c_lastseen :: int
  c_regtime :: int
  c_active_autolimit :: "ptr option"
  c_cflags :: "ptr list"
  c_chanbot :: "ptr option"
  c_timebans :: "ptr list"

record wchan =
  w_chname :: string
  w_topic :: string
  w_members :: "ptr list"

record member =
  m_wchan :: ptr
  m_nick :: ptr
  m_flags :: flags

record cflag =
  cf_chan :: ptr
  cf_user :: ptr
  cf_flags :: int
  cf_automode :: int
  cf_suspended :: int
  cf_uflags :: "32 word"

record limit =
  lim_chan :: ptr
  lim_time :: int

record timeban =
  tb_chan :: ptr
  tb_mask :: string
  tb_reason :: string
  tb_duration :: int
  tb_setat :: int

record trust =
  t_host :: string
  t_limit :: int

record bot =
  b_nick :: string
  b_ident :: string
  b_host :: string
  b_uid :: string

record server =
  sv_name :: string
  sv_sid :: string
  sv_nicks :: "ptr list"
  sv_leafs :: "ptr list"

record config =
  cfg_nick :: string
  cfg_name :: string
  cfg_ident :: string
  cfg_host :: string
  cfg_server :: string
  cfg_port :: int
  cfg_bindip :: string
  cfg_sid :: string
  cfg_linkpass :: string
  cfg_maxclones :: int
  cfg_nick_expire :: int
  cfg_chan_expire :: int
  cfg_chanperuser :: int
  cfg_level_oper :: int
  cfg_level_admin :: int
  cfg_level_root :: int
  cfg_level_owner :: int
  cfg_mysql_host :: string
  cfg_mysql_db :: string
  cfg_mysql_login :: string
  cfg_mysql_passwd :: string
  cfg_logfile :: string
  cfg_limittime :: int
  cfg_savedb_interval :: int
  cfg_guest_prefix :: string
  cfg_anonymous_global :: int
  cfg_sendmail :: string
  cfg_sendfrom :: string
  cfg_maxmsgtime :: int
  cfg_maxmsgnb :: int
  cfg_ignoretime :: int
  cfg_maxloginatt :: int
  cfg_chlev_sadmin :: int
  cfg_chlev_admin :: int
  cfg_chlev_op :: int
  cfg_chlev_halfop :: int
  cfg_chlev_voice :: int
  cfg_chlev_nostatus :: int
  cfg_chlev_akick :: int
  cfg_chlev_akb :: int
  cfg_chlev_invite :: int
  cfg_usercloak :: string
  cfg_emailreg :: int

text \<open>
  The state. \<open>clock\<close> is \<open>time (NULL)\<close>, constant while a message is handled; \<open>random_at i\<close> is
  the \<open>i\<close>-th result of \<open>random ()\<close>; \<open>next_ptr\<close> is the next address malloc returns; \<open>outbuf\<close>
  is the part of the send queue in use; \<open>salts\<close> counts the passwords hashed; \<open>mails\<close> are the commands that
  were given to the shell, each with what it reads.
\<close>

record core =
  users :: "(string, ptr) omap"
  nicks :: "(string, ptr) omap"
  clones :: "(string, ptr) omap"
  trusts :: "(string, ptr) omap"
  links :: "(string, ptr) omap"
  guests :: "(string, ptr) omap"
  chans :: "(string, ptr) omap"
  wchans :: "(string, ptr) omap"
  bots :: "(string, ptr) omap"
  fakeusers :: "(string, ptr) omap"
  limits :: "ptr list"
  timebans :: "ptr list"
  servers :: "ptr list"
  user_at :: "ptr \<Rightarrow> user option"
  nick_at :: "ptr \<Rightarrow> nick option"
  clone_at :: "ptr \<Rightarrow> clone option"
  trust_at :: "ptr \<Rightarrow> trust option"
  link_at :: "ptr \<Rightarrow> link option"
  guest_at :: "ptr \<Rightarrow> guest option"
  chan_at :: "ptr \<Rightarrow> chan option"
  wchan_at :: "ptr \<Rightarrow> wchan option"
  bot_at :: "ptr \<Rightarrow> bot option"
  fake_at :: "ptr \<Rightarrow> fake option"
  member_at :: "ptr \<Rightarrow> member option"
  cflag_at :: "ptr \<Rightarrow> cflag option"
  limit_at :: "ptr \<Rightarrow> limit option"
  timeban_at :: "ptr \<Rightarrow> timeban option"
  server_at :: "ptr \<Rightarrow> server option"
  next_ptr :: ptr
  cfg :: config
  eos :: bool
  raws :: bool
  startuptime :: int
  connected :: bool
  remote_server :: string
  remote_sid :: string
  my_uid :: string
  clock :: int
  random_at :: "nat \<Rightarrow> nat"
  random_pos :: nat
  salts :: nat
  outbuf :: string
  mails :: "(string \<times> string) list"

text \<open>
  What the program calls and this repository does not hold: the digest of OpenSSL, the password
  hashing of libsodium (the first argument stands for the salt it draws; the result is the
  status and the string written), the regular expressions and address conversion of libc (in
  host order, \<open>INADDR_NONE\<close> for a bad address; back to text for the family and the bytes) and its
  \<open>ctime\<close>.
\<close>

record lib =
  md5_digest :: "string \<Rightarrow> 8 word list option"
  pwhash_str :: "nat \<Rightarrow> string \<Rightarrow> int \<times> string"
  pwhash_verify :: "string \<Rightarrow> string \<Rightarrow> int"
  regex_match :: "string \<Rightarrow> string \<Rightarrow> bool"
  inet_addr :: "string \<Rightarrow> 32 word"
  ctime_of :: "int \<Rightarrow> string"
  inet_ntop :: "bool \<times> 8 word list \<Rightarrow> string"

end
