(* ===== verification/Net.thy ===== *)
theory Net
  imports Core
begin

section \<open>Lines in and out: src/src/net.c and the message functions of src/src/user.c\<close>

text \<open>
  The send queue is the string \<open>outbuf\<close> of the state; the socket is outside the model: what
  \<open>send\<close> took and what \<open>read\<close> gave are arguments. The receive buffer is the part of \<open>chunkbuf\<close>
  from \<open>nextline\<close> on, a string. \<open>DIE_ON_PANIC\<close> is not defined.
\<close>

subsection \<open>Printing\<close>

fun dec_nat :: "nat \<Rightarrow> string" where
  "dec_nat n = (if n < 10 then [char_of (48 + n)] else dec_nat (n div 10) @ [char_of (48 + n mod 10)])"

declare dec_nat.simps [simp del]

definition dec :: "int \<Rightarrow> string" where
  "dec i = (if i < 0 then CHR ''-'' # dec_nat (nat (- i)) else dec_nat (nat i))"

text \<open>A NULL argument of \<open>%s\<close> prints as glibc prints it.\<close>

definition pr :: "cstring \<Rightarrow> string" where
  "pr s = (case s of None \<Rightarrow> ''(null)'' | Some t \<Rightarrow> t)"

text \<open>\<open>ircsprintf (buf, n, ...)\<close> is \<open>vsnprintf\<close>: it keeps \<open>n - 1\<close> characters.\<close>

definition ircsprintf :: "nat \<Rightarrow> string \<Rightarrow> string" where
  "ircsprintf n s = take (n - 1) s"

definition bold :: "string \<Rightarrow> string" where
  "bold s = CHR 0x02 # s @ [CHR 0x02]"

definition crlf :: string where
  "crlf = [CHR 0x0D, CHR 0x0A]"

subsection \<open>The send queue\<close>

definition SENDQSIZE :: nat where "SENDQSIZE = 65536"
definition CHUNKSIZE :: nat where "CHUNKSIZE = 65536"

definition net_init :: "core \<Rightarrow> core" where
  "net_init s = s\<lparr>outbuf := []\<rparr>"

text \<open>A line that does not fit is dropped.\<close>

definition send_raw :: "string \<Rightarrow> core \<Rightarrow> core" where
  "send_raw msg s =
     (let tmp = ircsprintf 1023 msg @ crlf; len = length tmp in
      if SENDQSIZE < len then s
      else if SENDQSIZE \<le> len + length (outbuf s) then s
      else s\<lparr>outbuf := outbuf s @ tmp\<rparr>)"

text \<open>\<open>flush_sendq\<close> when \<open>send\<close> took \<open>bytes\<close> bytes; nothing is sent from an empty queue.\<close>

definition flush_sendq :: "nat \<Rightarrow> core \<Rightarrow> core" where
  "flush_sendq bytes s = (if outbuf s = [] then s else s\<lparr>outbuf := drop bytes (outbuf s)\<rparr>)"

definition FakeMsg :: "string \<Rightarrow> string \<Rightarrow> string \<Rightarrow> core \<Rightarrow> core" where
  "FakeMsg who chan msg =
     send_raw ('':'' @ who @ '' PRIVMSG '' @ chan @ '' :'' @ ircsprintf 511 msg)"

definition FakeNotice :: "string \<Rightarrow> ptr \<Rightarrow> string \<Rightarrow> core \<Rightarrow> core option" where
  "FakeNotice who nptr msg s =
     do { n \<leftarrow> nick_at s nptr;
          Some (send_raw ('':'' @ who @ '' NOTICE '' @ n_name n @ '' :'' @ ircsprintf 511 msg) s) }"

definition NoticeToUser :: "ptr \<Rightarrow> string \<Rightarrow> core \<Rightarrow> core option" where
  "NoticeToUser nptr msg s = FakeNotice (cfg_nick (cfg s)) nptr msg s"

definition MsgToChan :: "string \<Rightarrow> string \<Rightarrow> core \<Rightarrow> core" where
  "MsgToChan chan msg s = FakeMsg (cfg_nick (cfg s)) chan msg s"

definition globops :: "string \<Rightarrow> core \<Rightarrow> core" where
  "globops msg = send_raw (''GLOBOPS :'' @ ircsprintf 511 msg)"

definition send_global :: "string \<Rightarrow> string \<Rightarrow> core \<Rightarrow> core" where
  "send_global target msg s =
     send_raw ('':'' @ cfg_nick (cfg s) @ '' NOTICE $'' @ target @ '' :'' @ ircsprintf 511 msg) s"

text \<open>The macros \<open>glineuser\<close>, \<open>unglineuser\<close>, \<open>_killuser\<close>, \<open>InviteUser\<close>, \<open>fakejoin\<close>, \<open>fakesay\<close>.\<close>

definition glineuser :: "string \<Rightarrow> string \<Rightarrow> int \<Rightarrow> string \<Rightarrow> core \<Rightarrow> core" where
  "glineuser a b c d s =
     send_raw (''TKL + G '' @ a @ '' '' @ b @ '' '' @ cfg_name (cfg s) @ '' '' @
       dec (if c \<noteq> 0 then clock s + c else 0) @ '' '' @ dec (clock s) @ '' :'' @ d) s"

definition unglineuser :: "string \<Rightarrow> string \<Rightarrow> core \<Rightarrow> core" where
  "unglineuser a b s = send_raw (''TKL - G '' @ a @ '' '' @ b @ '' '' @ cfg_name (cfg s)) s"

definition send_kill :: "string \<Rightarrow> string \<Rightarrow> string \<Rightarrow> core \<Rightarrow> core" where
  "send_kill x y z s =
     send_raw ('':'' @ z @ '' KILL '' @ x @ '' :'' @ cfg_name (cfg s) @ ''!'' @ z @ '' ('' @ y @ '')'') s"

definition InviteUser :: "string \<Rightarrow> string \<Rightarrow> core \<Rightarrow> core" where
  "InviteUser x y s = send_raw ('':'' @ cfg_nick (cfg s) @ '' INVITE '' @ x @ '' :'' @ y) s"

definition fakejoin :: "string \<Rightarrow> string \<Rightarrow> core \<Rightarrow> core" where
  "fakejoin x y = send_raw ('':'' @ x @ '' JOIN '' @ y)"

definition fakesay :: "string \<Rightarrow> string \<Rightarrow> string \<Rightarrow> core \<Rightarrow> core" where
  "fakesay x y z = send_raw ('':'' @ x @ '' PRIVMSG '' @ y @ '' :'' @ z)"

subsection \<open>The receive buffer\<close>

definition is_eol :: "char \<Rightarrow> bool" where
  "is_eol c \<longleftrightarrow> c = CHR 0x0A \<or> c = CHR 0x0D"

text \<open>
  \<open>read_line\<close> cuts a line at the first line terminator and skips one more terminator behind it.
\<close>

definition read_line :: "string \<Rightarrow> (string \<times> string) option" where
  "read_line nextline =
     (case dropWhile (\<lambda>c. \<not> is_eol c) nextline of
        [] \<Rightarrow> None
      | _ # rest \<Rightarrow>
          Some (takeWhile (\<lambda>c. \<not> is_eol c) nextline,
                case rest of [] \<Rightarrow> [] | c # cs \<Rightarrow> if is_eol c then cs else rest))"

text \<open>
  \<open>read_chunk\<close> moves what is left to the front of the buffer and appends what \<open>read\<close> gives,
  which is asked for at most the space left less 10 bytes; \<open>None\<close> is the error that closes
  the connection, also when there is nothing to read.
\<close>

definition read_chunk :: "string \<Rightarrow> string \<Rightarrow> string option" where
  "read_chunk nextline input =
     (let room = CHUNKSIZE - length nextline - 10; got = take room input in
      if got = [] then None else Some (nextline @ got))"

text \<open>The loop \<open>while ((line = api->read_line ()) != NULL)\<close> of \<open>child_run_loop_once\<close>.\<close>

lemma read_line_shorter: "read_line b = Some (l, r) \<Longrightarrow> length r < length b"
proof -
  assume "read_line b = Some (l, r)"
  then obtain c t where d: "dropWhile (\<lambda>c. \<not> is_eol c) b = c # t"
    and r: "r = (case t of [] \<Rightarrow> [] | c # cs \<Rightarrow> if is_eol c then cs else t)"
    by (cases "dropWhile (\<lambda>c. \<not> is_eol c) b") (simp_all add: read_line_def)
  have "length r \<le> length t" using r by (auto split: list.splits)
  also have "length t < length (c # t)" by simp
  also have "length (c # t) \<le> length b" by (metis d length_dropWhile_le)
  finally show ?thesis .
qed

function read_lines :: "string \<Rightarrow> string list \<times> string" where
  "read_lines b =
     (case read_line b of None \<Rightarrow> ([], b)
      | Some (l, r) \<Rightarrow> (case read_lines r of (ls, rest) \<Rightarrow> (l # ls, rest)))"
  by auto
termination by (relation "measure length") (auto dest: read_line_shorter)

declare read_lines.simps [simp del]

text \<open>The network addresses of \<open>match_ipmask\<close>, in host order.\<close>

definition match_ipmask :: "32 word \<Rightarrow> 32 word \<Rightarrow> nat \<Rightarrow> bool" where
  "match_ipmask addr msk bits \<longleftrightarrow> addr AND NOT (push_bit (32 - bits) 1 - 1) = msk"

subsection \<open>Only the queue changes\<close>

lemma send_raw_outbuf: "\<exists>b. send_raw msg s = s\<lparr>outbuf := b\<rparr>"
proof -
  let ?b = "outbuf (send_raw msg s)"
  have "send_raw msg s = s\<lparr>outbuf := ?b\<rparr>" by (simp add: send_raw_def Let_def)
  then show ?thesis by (rule exI)
qed

lemma send_raw_sel [simp]:
  "users (send_raw m s) = users s" "nicks (send_raw m s) = nicks s"
  "clones (send_raw m s) = clones s" "trusts (send_raw m s) = trusts s"
  "links (send_raw m s) = links s" "guests (send_raw m s) = guests s"
  "chans (send_raw m s) = chans s" "wchans (send_raw m s) = wchans s"
  "bots (send_raw m s) = bots s" "fakeusers (send_raw m s) = fakeusers s"
  "limits (send_raw m s) = limits s" "timebans (send_raw m s) = timebans s"
  "servers (send_raw m s) = servers s" "user_at (send_raw m s) = user_at s"
  "nick_at (send_raw m s) = nick_at s" "clone_at (send_raw m s) = clone_at s"
  "trust_at (send_raw m s) = trust_at s" "link_at (send_raw m s) = link_at s"
  "guest_at (send_raw m s) = guest_at s" "chan_at (send_raw m s) = chan_at s"
  "wchan_at (send_raw m s) = wchan_at s" "bot_at (send_raw m s) = bot_at s"
  "fake_at (send_raw m s) = fake_at s" "member_at (send_raw m s) = member_at s"
  "cflag_at (send_raw m s) = cflag_at s" "limit_at (send_raw m s) = limit_at s"
  "timeban_at (send_raw m s) = timeban_at s" "server_at (send_raw m s) = server_at s"
  "next_ptr (send_raw m s) = next_ptr s" "cfg (send_raw m s) = cfg s"
  "eos (send_raw m s) = eos s" "raws (send_raw m s) = raws s"
  "startuptime (send_raw m s) = startuptime s" "connected (send_raw m s) = connected s"
  "remote_server (send_raw m s) = remote_server s" "remote_sid (send_raw m s) = remote_sid s"
  "my_uid (send_raw m s) = my_uid s" "clock (send_raw m s) = clock s"
  "random_at (send_raw m s) = random_at s" "random_pos (send_raw m s) = random_pos s"
  "salts (send_raw m s) = salts s"
  by (simp_all add: send_raw_def Let_def)

lemmas out_defs = FakeMsg_def MsgToChan_def globops_def send_global_def glineuser_def
  unglineuser_def send_kill_def InviteUser_def fakejoin_def fakesay_def

lemma NoticeToUser_eq:
  "NoticeToUser p m s =
    (case nick_at s p of None \<Rightarrow> None
     | Some n \<Rightarrow> Some (send_raw ('':'' @ cfg_nick (cfg s) @ '' NOTICE '' @ n_name n @ '' :'' @
         ircsprintf 511 m) s))"
  by (simp add: NoticeToUser_def FakeNotice_def split: option.splits)

text \<open>
  Predicates that do not read the send queue are unchanged by every message function. The
  invariants of the components are shown to be of this kind.
\<close>

locale quiet =
  fixes P :: "core \<Rightarrow> bool"
  assumes outbuf_irrelevant: "P (s\<lparr>outbuf := b\<rparr>) = P s"
begin

lemma send_raw [simp]: "P (send_raw m s) = P s"
  by (metis send_raw_outbuf outbuf_irrelevant)

lemma out [simp]:
  "P (FakeMsg w c m s) = P s" "P (MsgToChan c m s) = P s" "P (globops m s) = P s"
  "P (send_global t m s) = P s" "P (glineuser a b i d s) = P s" "P (unglineuser a b s) = P s"
  "P (send_kill x y z s) = P s" "P (InviteUser x y s) = P s" "P (fakejoin x y s) = P s"
  "P (fakesay x y z s) = P s" "P (flush_sendq n s) = P s"
  by (simp_all add: out_defs flush_sendq_def outbuf_irrelevant)

lemma notice: "NoticeToUser p m s = Some s' \<Longrightarrow> P s' = P s"
  by (auto simp: NoticeToUser_eq split: option.splits)

end

subsection \<open>The send queue keeps its bound\<close>

lemma send_raw_bound: "length (outbuf s) < SENDQSIZE \<Longrightarrow> length (outbuf (send_raw m s)) < SENDQSIZE"
  by (simp add: send_raw_def Let_def)

lemma send_raw_prefix: "\<exists>t. outbuf (send_raw m s) = outbuf s @ t"
  by (simp add: send_raw_def Let_def)

subsection \<open>The lines read do not depend on how the stream is cut into chunks\<close>

text \<open>The reference: the non-empty maximal runs of characters that a terminator follows.\<close>

fun runs :: "string \<Rightarrow> string \<Rightarrow> string list \<times> string" where
  "runs acc [] = ([], acc)"
| "runs acc (c # cs) =
     (if is_eol c
      then (case runs [] cs of (ls, rest) \<Rightarrow> (if acc = [] then ls else acc # ls, rest))
      else runs (acc @ [c]) cs)"

lemma runs_append:
  "runs acc (a @ b) = (case runs acc a of (ls, r) \<Rightarrow> (case runs r b of (ms, r') \<Rightarrow> (ls @ ms, r')))"
  by (induction acc a rule: runs.induct) (auto split: prod.splits)

lemma runs_plain: "\<forall>c \<in> set a. \<not> is_eol c \<Longrightarrow> runs acc (a @ b) = runs (acc @ a) b"
  by (induction a arbitrary: acc) auto

lemma read_lines_runs:
  "read_lines b = (ls, r) \<Longrightarrow> runs [] b = (filter (\<lambda>l. l \<noteq> []) ls, r)"
proof (induction b arbitrary: ls r rule: read_lines.induct)
  case (1 b)
  let ?w = "takeWhile (\<lambda>c. \<not> is_eol c) b"
  have w: "\<forall>c \<in> set ?w. \<not> is_eol c" by (auto dest: set_takeWhileD)
  have b: "b = ?w @ dropWhile (\<lambda>c. \<not> is_eol c) b" by simp
  show ?case
  proof (cases "dropWhile (\<lambda>c. \<not> is_eol c) b")
    case Nil
    then have "read_line b = None" by (simp only: read_line_def list.case)
    then have "ls = []" "r = b" using "1.prems" by (simp_all add: read_lines.simps [of b])
    moreover have "runs [] b = ([], b)"
    proof -
      have "?w = b" using b Nil by (simp only: append_Nil2)
      then show ?thesis using runs_plain [of b "[]" "[]"] w by simp
    qed
    ultimately show ?thesis by simp
  next
    case (Cons e t)
    then have e: "is_eol e" by (metis dropWhile_eq_Cons_conv)
    let ?r = "case t of [] \<Rightarrow> [] | c # cs \<Rightarrow> if is_eol c then cs else t"
    have rl: "read_line b = Some (?w, ?r)" using Cons by (simp add: read_line_def)
    obtain ls' where ls': "read_lines ?r = (ls', r)" and ls: "ls = ?w # ls'"
      using "1.prems" rl by (auto simp: read_lines.simps [of b] split: prod.splits)
    have IH: "runs [] ?r = (filter (\<lambda>l. l \<noteq> []) ls', r)"
      using "1.IH" [OF rl refl ls'] .
    have t: "runs [] t = runs [] ?r"
      by (cases t) (auto split: prod.splits)
    have "runs [] b = runs ?w (e # t)"
      using runs_plain [OF w, of "[]" "e # t"] Cons b by simp
    with e t IH ls show ?thesis by simp
  qed
qed


lemma runs_rest:
  "\<forall>c \<in> set acc. \<not> is_eol c \<Longrightarrow> \<forall>c \<in> set (snd (runs acc a)). \<not> is_eol c"
proof (induction a arbitrary: acc)
  case (Cons c cs)
  show ?case
  proof (cases "is_eol c")
    case True
    obtain ls r where "runs [] cs = (ls, r)" by fastforce
    with True Cons.IH [of "[]"] show ?thesis by simp
  next
    case False
    with Cons.IH [of "acc @ [c]"] Cons.prems show ?thesis by simp
  qed
qed simp

end
