(* ===== verification/Store.thy ===== *)
theory Store
  imports Net
begin

section \<open>Objects and tables\<close>

text \<open>
  Reading and writing the objects of the heaps, the look-ups of \<open>user.c\<close>, \<open>nick.c\<close>,
  \<open>channel.c\<close>, \<open>server.c\<close>, \<open>trust.c\<close> and \<open>botserv.c\<close>, the accessors of \<open>nick.c\<close>, and what it
  means for a table and a heap to agree.
\<close>

subsection \<open>Writing through a pointer\<close>

definition upd :: "(ptr \<Rightarrow> 'a option) \<Rightarrow> ptr \<Rightarrow> ('a \<Rightarrow> 'a) \<Rightarrow> (ptr \<Rightarrow> 'a option) option" where
  "upd h p f = (case h p of None \<Rightarrow> None | Some x \<Rightarrow> Some (h(p \<mapsto> f x)))"

definition upd_user :: "ptr \<Rightarrow> (user \<Rightarrow> user) \<Rightarrow> core \<Rightarrow> core option" where
  "upd_user p f s = map_option (\<lambda>h. s\<lparr>user_at := h\<rparr>) (upd (user_at s) p f)"
definition upd_nick :: "ptr \<Rightarrow> (nick \<Rightarrow> nick) \<Rightarrow> core \<Rightarrow> core option" where
  "upd_nick p f s = map_option (\<lambda>h. s\<lparr>nick_at := h\<rparr>) (upd (nick_at s) p f)"
definition upd_chan :: "ptr \<Rightarrow> (chan \<Rightarrow> chan) \<Rightarrow> core \<Rightarrow> core option" where
  "upd_chan p f s = map_option (\<lambda>h. s\<lparr>chan_at := h\<rparr>) (upd (chan_at s) p f)"
definition upd_wchan :: "ptr \<Rightarrow> (wchan \<Rightarrow> wchan) \<Rightarrow> core \<Rightarrow> core option" where
  "upd_wchan p f s = map_option (\<lambda>h. s\<lparr>wchan_at := h\<rparr>) (upd (wchan_at s) p f)"
definition upd_member :: "ptr \<Rightarrow> (member \<Rightarrow> member) \<Rightarrow> core \<Rightarrow> core option" where
  "upd_member p f s = map_option (\<lambda>h. s\<lparr>member_at := h\<rparr>) (upd (member_at s) p f)"
definition upd_cflag :: "ptr \<Rightarrow> (cflag \<Rightarrow> cflag) \<Rightarrow> core \<Rightarrow> core option" where
  "upd_cflag p f s = map_option (\<lambda>h. s\<lparr>cflag_at := h\<rparr>) (upd (cflag_at s) p f)"
definition upd_limit :: "ptr \<Rightarrow> (limit \<Rightarrow> limit) \<Rightarrow> core \<Rightarrow> core option" where
  "upd_limit p f s = map_option (\<lambda>h. s\<lparr>limit_at := h\<rparr>) (upd (limit_at s) p f)"
definition upd_clone :: "ptr \<Rightarrow> (clone \<Rightarrow> clone) \<Rightarrow> core \<Rightarrow> core option" where
  "upd_clone p f s = map_option (\<lambda>h. s\<lparr>clone_at := h\<rparr>) (upd (clone_at s) p f)"
definition upd_link :: "ptr \<Rightarrow> (link \<Rightarrow> link) \<Rightarrow> core \<Rightarrow> core option" where
  "upd_link p f s = map_option (\<lambda>h. s\<lparr>link_at := h\<rparr>) (upd (link_at s) p f)"
definition upd_bot :: "ptr \<Rightarrow> (bot \<Rightarrow> bot) \<Rightarrow> core \<Rightarrow> core option" where
  "upd_bot p f s = map_option (\<lambda>h. s\<lparr>bot_at := h\<rparr>) (upd (bot_at s) p f)"
definition upd_trust :: "ptr \<Rightarrow> (trust \<Rightarrow> trust) \<Rightarrow> core \<Rightarrow> core option" where
  "upd_trust p f s = map_option (\<lambda>h. s\<lparr>trust_at := h\<rparr>) (upd (trust_at s) p f)"
definition upd_server :: "ptr \<Rightarrow> (server \<Rightarrow> server) \<Rightarrow> core \<Rightarrow> core option" where
  "upd_server p f s = map_option (\<lambda>h. s\<lparr>server_at := h\<rparr>) (upd (server_at s) p f)"

lemmas upd_defs = upd_def upd_user_def upd_nick_def upd_chan_def upd_wchan_def upd_member_def
  upd_cflag_def upd_limit_def upd_clone_def upd_link_def upd_bot_def upd_trust_def upd_server_def

text \<open>\<open>malloc\<close>: the next address.\<close>

definition fresh :: "core \<Rightarrow> core" where
  "fresh s = s\<lparr>next_ptr := Suc (next_ptr s)\<rparr>"

subsection \<open>Look-ups\<close>

definition find_user :: "cstring \<Rightarrow> core \<Rightarrow> ptr option" where
  "find_user name s = Option.bind name (tfind (users s))"
definition find_guest :: "cstring \<Rightarrow> core \<Rightarrow> ptr option" where
  "find_guest name s = Option.bind name (tfind (guests s))"
definition find_link :: "cstring \<Rightarrow> core \<Rightarrow> ptr option" where
  "find_link slave s = Option.bind slave (tfind (links s))"
definition find_clone :: "cstring \<Rightarrow> core \<Rightarrow> ptr option" where
  "find_clone host s = Option.bind host (tfind (clones s))"
definition find_channel :: "cstring \<Rightarrow> core \<Rightarrow> ptr option" where
  "find_channel name s = Option.bind name (tfind (chans s))"
definition find_wchan :: "cstring \<Rightarrow> core \<Rightarrow> ptr option" where
  "find_wchan name s = Option.bind name (tfind (wchans s))"
definition find_bot :: "cstring \<Rightarrow> core \<Rightarrow> ptr option" where
  "find_bot nick s = Option.bind nick (tfind (bots s))"
definition find_trust_strict :: "cstring \<Rightarrow> core \<Rightarrow> ptr option" where
  "find_trust_strict host s = Option.bind host (tfind (trusts s))"

text \<open>The linear searches read every object until one matches.\<close>

fun scan :: "(ptr \<Rightarrow> 'a option) \<Rightarrow> ('a \<Rightarrow> bool) \<Rightarrow> ptr list \<Rightarrow> ptr option option" where
  "scan h P [] = Some None"
| "scan h P (p # ps) =
     (case h p of None \<Rightarrow> None | Some x \<Rightarrow> if P x then Some (Some p) else scan h P ps)"

definition find_nick :: "cstring \<Rightarrow> core \<Rightarrow> ptr option option" where
  "find_nick name s =
     scan (nick_at s) (\<lambda>n. streq (Some (n_name n)) name \<or> streq (Some (n_uid n)) name)
       (map snd (nicks s))"

definition find_fake :: "cstring \<Rightarrow> core \<Rightarrow> ptr option option" where
  "find_fake name s =
     scan (fake_at s) (\<lambda>f. streq (Some (f_nick f)) name \<or> streq (Some (f_uid f)) name)
       (map snd (fakeusers s))"

definition find_link2 :: "cstring \<Rightarrow> cstring \<Rightarrow> core \<Rightarrow> ptr option option" where
  "find_link2 master slave s =
     scan (link_at s) (\<lambda>l. streq (Some (l_master l)) master \<and> streq (Some (l_slave l)) slave)
       (map snd (links s))"

definition find_server :: "cstring \<Rightarrow> core \<Rightarrow> ptr option option" where
  "find_server name s =
     scan (server_at s) (\<lambda>v. streq (Some (sv_name v)) name \<or> streq (Some (sv_sid v)) name) (servers s)"

text \<open>\<open>nptr->account ?: find_user (nptr->name)\<close>\<close>

definition find_account :: "ptr \<Rightarrow> core \<Rightarrow> ptr option option" where
  "find_account nptr s =
     do { n \<leftarrow> nick_at s nptr;
          Some (case n_account n of Some u \<Rightarrow> Some u | None \<Rightarrow> find_user (Some (n_name n)) s) }"

definition howmanyclones :: "string \<Rightarrow> core \<Rightarrow> int option" where
  "howmanyclones host s =
     (case find_clone (Some host) s of None \<Rightarrow> Some 0
      | Some p \<Rightarrow> map_option cl_count (clone_at s p))"

definition get_link_master :: "ptr \<Rightarrow> core \<Rightarrow> ptr option option" where
  "get_link_master uptr s =
     do { u \<leftarrow> user_at s uptr;
          case find_link (Some (u_nick u)) s of None \<Rightarrow> Some None
          | Some l \<Rightarrow> do { lk \<leftarrow> link_at s l; Some (find_user (Some (l_master lk)) s) } }"

subsection \<open>User options and modes\<close>

definition UOPT_PROTECT :: flags where "UOPT_PROTECT = 0x0001"
definition UOPT_PRIVATE :: flags where "UOPT_PRIVATE = 0x0002"
definition UOPT_SUSPENDED :: flags where "UOPT_SUSPENDED = 0x0004"
definition UOPT_NOEXPIRE :: flags where "UOPT_NOEXPIRE = 0x0008"
definition UOPT_CANPL :: flags where "UOPT_CANPL = 0x0010"
definition UOPT_NOAUTO :: flags where "UOPT_NOAUTO = 0x0020"
definition UOPT_HIDEMAIL :: flags where "UOPT_HIDEMAIL = 0x0040"
definition UOPT_CLOAKED :: flags where "UOPT_CLOAKED = 0x0080"

definition UMODE_OPER :: flags where "UMODE_OPER = 0x0001"
definition UMODE_SADMIN :: flags where "UMODE_SADMIN = 0x0002"
definition UMODE_ADMIN :: flags where "UMODE_ADMIN = 0x0004"
definition UMODE_REGISTERED :: flags where "UMODE_REGISTERED = 0x0008"
definition UMODE_BOT :: flags where "UMODE_BOT = 0x0010"
definition UMODE_NADMIN :: flags where "UMODE_NADMIN = 0x0020"
definition UMODE_SERVICE :: flags where "UMODE_SERVICE = 0x0040"
definition UMODE_NOKICK :: flags where "UMODE_NOKICK = 0x0080"
definition UMODE_SSL :: flags where "UMODE_SSL = 0x0100"
definition UMODE_SUPERADMIN :: flags where "UMODE_SUPERADMIN = 0x0200"

lemmas uopt_defs = UOPT_PROTECT_def UOPT_PRIVATE_def UOPT_SUSPENDED_def UOPT_NOEXPIRE_def
  UOPT_CANPL_def UOPT_NOAUTO_def UOPT_HIDEMAIL_def UOPT_CLOAKED_def
lemmas umode_defs = UMODE_OPER_def UMODE_SADMIN_def UMODE_ADMIN_def UMODE_REGISTERED_def
  UMODE_BOT_def UMODE_NADMIN_def UMODE_SERVICE_def UMODE_NOKICK_def UMODE_SSL_def
  UMODE_SUPERADMIN_def

definition SetUmode :: "flags \<Rightarrow> nick \<Rightarrow> nick" where
  "SetUmode m n = n\<lparr>n_umodes := set_flag (n_umodes n) m\<rparr>"
definition ClearUmode :: "flags \<Rightarrow> nick \<Rightarrow> nick" where
  "ClearUmode m n = n\<lparr>n_umodes := clear_flag (n_umodes n) m\<rparr>"
definition HasUmode :: "nick \<Rightarrow> flags \<Rightarrow> bool" where
  "HasUmode n m \<longleftrightarrow> has_flag (n_umodes n) m"

definition SetUOption :: "flags \<Rightarrow> user \<Rightarrow> user" where
  "SetUOption o1 u = u\<lparr>u_options := set_flag (u_options u) o1\<rparr>"
definition ClearUOption :: "flags \<Rightarrow> user \<Rightarrow> user" where
  "ClearUOption o1 u = u\<lparr>u_options := clear_flag (u_options u) o1\<rparr>"
definition HasUOption :: "user \<Rightarrow> flags \<Rightarrow> bool" where
  "HasUOption u o1 \<longleftrightarrow> has_flag (u_options u) o1"

text \<open>\<open>IsAuthed\<close> on a pointer that may be NULL.\<close>

definition IsAuthed :: "ptr option \<Rightarrow> core \<Rightarrow> bool option" where
  "IsAuthed uptr s =
     (case uptr of None \<Rightarrow> Some False | Some p \<Rightarrow> map_option (\<lambda>u. u_authed u = 1) (user_at s p))"

definition IsSuperAdmin :: "ptr \<Rightarrow> core \<Rightarrow> bool option" where
  "IsSuperAdmin uptr s =
     do { u \<leftarrow> user_at s uptr;
          r \<leftarrow> find_nick (Some (u_nick u)) s;
          case r of None \<Rightarrow> Some False
          | Some nptr \<Rightarrow>
              if u_authed u \<noteq> 1 then Some False
              else map_option (\<lambda>n. HasUmode n UMODE_SUPERADMIN) (nick_at s nptr) }"

subsection \<open>The setters of nick.c\<close>

definition nick_set_name :: "string \<Rightarrow> nick \<Rightarrow> nick" where
  "nick_set_name x n = n\<lparr>n_name := strncpy x NICKLEN\<rparr>"
definition nick_set_ident :: "string \<Rightarrow> nick \<Rightarrow> nick" where
  "nick_set_ident x n = n\<lparr>n_ident := strncpy x NICKLEN\<rparr>"
definition nick_set_host :: "string \<Rightarrow> nick \<Rightarrow> nick" where
  "nick_set_host x n = n\<lparr>n_host := strncpy x HOSTLEN\<rparr>"
definition nick_set_svid :: "string \<Rightarrow> nick \<Rightarrow> nick" where
  "nick_set_svid x n = n\<lparr>n_svid := strncpy x SVIDLEN\<rparr>"
definition nick_set_hiddenhost :: "string \<Rightarrow> nick \<Rightarrow> nick" where
  "nick_set_hiddenhost x n = n\<lparr>n_hiddenhost := strncpy x HOSTLEN\<rparr>"
definition nick_set_reshost :: "string \<Rightarrow> nick \<Rightarrow> nick" where
  "nick_set_reshost x n = n\<lparr>n_reshost := strncpy x HOSTLEN\<rparr>"
definition nick_set_umodes :: "flags \<Rightarrow> nick \<Rightarrow> nick" where
  "nick_set_umodes x n = n\<lparr>n_umodes := x\<rparr>"
definition nick_set_msgtime :: "int \<Rightarrow> nick \<Rightarrow> nick" where
  "nick_set_msgtime x n = n\<lparr>n_msgtime := x\<rparr>"
definition nick_set_msgnb :: "int \<Rightarrow> nick \<Rightarrow> nick" where
  "nick_set_msgnb x n = n\<lparr>n_msgnb := x\<rparr>"
definition nick_set_ignored :: "bool \<Rightarrow> nick \<Rightarrow> nick" where
  "nick_set_ignored x n = n\<lparr>n_ignored := x\<rparr>"
definition nick_set_ignoretime :: "int \<Rightarrow> nick \<Rightarrow> nick" where
  "nick_set_ignoretime x n = n\<lparr>n_ignoretime := x\<rparr>"
definition nick_set_loginattempts :: "int \<Rightarrow> nick \<Rightarrow> nick" where
  "nick_set_loginattempts x n = n\<lparr>n_loginattempts := x\<rparr>"
definition nick_set_lasttry :: "int \<Rightarrow> nick \<Rightarrow> nick" where
  "nick_set_lasttry x n = n\<lparr>n_lasttry := x\<rparr>"
definition nick_set_account :: "ptr option \<Rightarrow> nick \<Rightarrow> nick" where
  "nick_set_account x n = n\<lparr>n_account := x\<rparr>"

lemmas nick_set_defs = nick_set_name_def nick_set_ident_def nick_set_host_def nick_set_svid_def
  nick_set_hiddenhost_def nick_set_reshost_def nick_set_umodes_def nick_set_msgtime_def
  nick_set_msgnb_def nick_set_ignored_def nick_set_ignoretime_def nick_set_loginattempts_def
  nick_set_lasttry_def nick_set_account_def SetUmode_def ClearUmode_def

subsection \<open>Tables and heaps that agree\<close>

text \<open>
  Every entry of the table points to an object of the heap that carries the key, up to case,
  and no two entries to the same object.
\<close>

definition table_ok :: "('a \<Rightarrow> string) \<Rightarrow> (string, ptr) omap \<Rightarrow> (ptr \<Rightarrow> 'a option) \<Rightarrow> bool" where
  "table_ok key t h \<longleftrightarrow> tok t \<and> distinct (map snd t) \<and>
     (\<forall>e \<in> set t. \<exists>x. h (snd e) = Some x \<and> lc (key x) = lc (fst e))"

lemma table_ok_entry:
  assumes "table_ok key t h" and "p \<in> snd ` set t"
  shows "\<exists>x k. h p = Some x \<and> (k, p) \<in> set t \<and> lc (key x) = lc k"
  using assms by (fastforce simp: table_ok_def)

lemma table_ok_find:
  assumes "table_ok key t h" and "tfind t k = Some p"
  shows "\<exists>x. h p = Some x \<and> lc (key x) = lc k \<and> p \<in> snd ` set t"
  using assms nocase.find_in [of t k p] by (force simp: table_ok_def)

lemma table_ok_find_key:
  assumes "table_ok key t h" and "p \<in> snd ` set t" and "h p = Some x"
  shows "tfind t k = Some p \<longleftrightarrow> lc k = lc (key x)"
proof -
  from table_ok_entry [OF assms(1,2)] assms(3) obtain k' where
    k': "(k', p) \<in> set t" "lc (key x) = lc k'" by auto
  have t: "tok t" "distinct (map snd t)" using assms(1) by (auto simp: table_ok_def)
  have u: "k'' = k'" if "(k'', p) \<in> set t" for k''
    using t(2) k'(1) that by (force simp: distinct_map inj_on_def)
  have "tfind t k = Some p \<longleftrightarrow> lc k' = lc k"
    unfolding nocase.find_Some_iff [OF t(1)] using u k'(1) by blast
  with k'(2) show ?thesis by auto
qed

lemma table_ok_inj:
  assumes "table_ok key t h" and "p \<in> snd ` set t" and "q \<in> snd ` set t"
    and "h p = Some x" and "h q = Some y" and "lc (key x) = lc (key y)"
  shows "p = q"
proof -
  have "tfind t (key x) = Some p" using table_ok_find_key [OF assms(1,2,4)] by simp
  moreover have "tfind t (key x) = Some q" using table_ok_find_key [OF assms(1,3,5)] assms(6) by simp
  ultimately show ?thesis by simp
qed

lemma table_ok_insert:
  assumes "table_ok key t h" and "h p = None" and "tfind t (key x) = None"
  shows "table_ok key (tinsert (key x) p t) (h(p \<mapsto> x))"
    and "tinsert (key x) p t = t @ [(key x, p)]"
proof -
  have e: "om_entry strcasecmp t (key x) = None" using assms(3) by (simp add: om_find_def)
  then show ins: "tinsert (key x) p t = t @ [(key x, p)]" by (simp add: om_insert_def)
  have new: "p \<noteq> snd e" if "e \<in> set t" for e
    using assms(1,2) that by (auto simp: table_ok_def)
  have "tok (tinsert (key x) p t)"
    using assms(1) by (intro nocase.ok_insert) (simp add: table_ok_def)
  with ins have "tok (t @ [(key x, p)])" by simp
  then show "table_ok key (tinsert (key x) p t) (h(p \<mapsto> x))"
    using assms(1) new unfolding ins by (force simp: table_ok_def)
qed

lemma terase_filter_ptr:
  assumes "table_ok key t h" and "tfind t k = Some p"
  shows "terase k t = filter (\<lambda>e. snd e \<noteq> p) t"
proof -
  have t: "tok t" "distinct (map snd t)" using assms(1) by (auto simp: table_ok_def)
  obtain k' where k': "(k', p) \<in> set t" "lc k' = lc k"
    using assms(2) nocase.find_Some_iff [OF t(1)] by auto
  have "(lc (fst e) \<noteq> lc k) = (snd e \<noteq> p)" if "e \<in> set t" for e
  proof
    assume "lc (fst e) \<noteq> lc k"
    then show "snd e \<noteq> p"
      using t(2) k' that by (cases e) (force simp: distinct_map inj_on_def)
  next
    assume "snd e \<noteq> p"
    then show "lc (fst e) \<noteq> lc k"
      using t(1) k' that by (cases e) (force simp: om_ok_def distinct_map inj_on_def)
  qed
  then show ?thesis
    unfolding nocase.erase_filter [OF t(1)] by (intro filter_cong) auto
qed

lemma table_ok_filter: "table_ok key t h \<Longrightarrow> table_ok key (filter P t) h"
  by (auto simp: table_ok_def nocase.ok_filter distinct_map inj_on_def)

lemma table_ok_erase:
  assumes "table_ok key t h" and "tfind t k = Some p"
  shows "table_ok key (terase k t) (h(p := x))"
  using table_ok_filter [OF assms(1), of "\<lambda>e. snd e \<noteq> p"]
  unfolding terase_filter_ptr [OF assms] by (auto simp: table_ok_def)

lemma terase_None: "tfind t k = None \<Longrightarrow> terase k t = t"
  by (simp add: om_erase_def om_find_def)

lemma table_ok_upd:
  assumes "table_ok key t h" and "h p = Some x" and "lc (key x') = lc (key x)"
  shows "table_ok key t (h(p \<mapsto> x'))"
  using assms by (auto simp: table_ok_def)

lemma table_ok_other:
  assumes "table_ok key t h" and "p \<notin> snd ` set t"
  shows "table_ok key t (h(p := x))"
  using assms by (auto simp: table_ok_def)

lemma scan_find:
  assumes "\<forall>p \<in> set ps. h p \<noteq> None"
  shows "scan h P ps = Some (find (\<lambda>p. P (the (h p))) ps)"
  using assms by (induction ps) auto

lemma scan_SomeD:
  "scan h P ps = Some (Some p) \<Longrightarrow> p \<in> set ps \<and> (\<exists>x. h p = Some x \<and> P x)"
  by (induction ps) (auto split: option.splits if_splits)

lemma table_ok_scan:
  assumes "table_ok key t h"
  shows "scan h P (map snd t) = Some (find (\<lambda>p. P (the (h p))) (map snd t))"
  using assms by (intro scan_find) (auto simp: table_ok_def)

lemma scan_cong:
  assumes "\<And>p. p \<in> set ps \<Longrightarrow> map_option P (h p) = map_option Q (g p)"
  shows "scan h P ps = scan g Q ps"
  using assms
proof (induction ps)
  case (Cons p ps)
  then have "scan h P ps = scan g Q ps" by simp
  moreover have "map_option P (h p) = map_option Q (g p)" using Cons.prems by simp
  ultimately show ?case by (cases "h p"; cases "g p") auto
qed simp

end
