(* ===== verification/Accounts.thy ===== *)
theory Accounts
  imports Store
begin

section \<open>Nicks, accounts, guests, links, fake users: src/src/nick.c and src/src/user.c\<close>

text \<open>
  A function that may fail with NULL returns the pointer beside the state. A freed object
  leaves its heap. \<open>LLIST_REMOVE\<close> on the node by which a nick hangs on its server unlinks it from
  whichever server lists it.
\<close>

subsection \<open>Creating objects\<close>

definition AddUser :: "string \<Rightarrow> int \<Rightarrow> core \<Rightarrow> ptr option \<times> core" where
  "AddUser nick level s =
     (let u = \<lparr>u_nick = strncpy nick NICKLEN, u_authed = 0, u_level = level, u_md5_pass = [],
               u_pwhash = [], u_lastseen = 0, u_timeout = TIMEOUT_DFLT,
               u_options = set_flag 0 UOPT_HIDEMAIL, u_vhost = [], u_email = [], u_regtime = 0,
               u_cflags = [], u_authed_nick = None\<rparr>;
          p = next_ptr s in
      if tfind (users s) (u_nick u) \<noteq> None then (None, s)
      else (Some p, (fresh s)\<lparr>users := tinsert (u_nick u) p (users s),
                              user_at := (user_at s)(p \<mapsto> u)\<rparr>))"

definition AddGuest :: "string \<Rightarrow> int \<Rightarrow> int \<Rightarrow> core \<Rightarrow> ptr option \<times> core" where
  "AddGuest nick timeout nickconn s =
     (let g = \<lparr>g_nick = strncpy nick NICKLEN, g_nickconn = nickconn, g_timeout = timeout\<rparr>;
          p = next_ptr s in
      if tfind (guests s) (g_nick g) \<noteq> None then (None, s)
      else (Some p, (fresh s)\<lparr>guests := tinsert (g_nick g) p (guests s),
                              guest_at := (guest_at s)(p \<mapsto> g)\<rparr>))"

definition AddLink :: "string \<Rightarrow> string \<Rightarrow> core \<Rightarrow> ptr option \<times> core" where
  "AddLink master slave s =
     (let l = \<lparr>l_master = strncpy master NICKLEN, l_slave = strncpy slave NICKLEN\<rparr>;
          p = next_ptr s in
      if tfind (links s) (l_slave l) \<noteq> None then (None, s)
      else (Some p, (fresh s)\<lparr>links := tinsert (l_slave l) p (links s),
                              link_at := (link_at s)(p \<mapsto> l)\<rparr>))"

definition random :: "core \<Rightarrow> nat \<times> core" where
  "random s = (random_at s (random_pos s), s\<lparr>random_pos := Suc (random_pos s)\<rparr>)"

text \<open>
  \<open>gen_rand_string\<close> draws from the expanded range; the range must fit the 256 bytes of \<open>text\<close>, and
  an empty one is a division by zero.
\<close>

definition gen_rand_string :: "string \<Rightarrow> nat \<Rightarrow> core \<Rightarrow> (string \<times> core) option" where
  "gen_rand_string rng n s =
     (let text = fst (parse_range rng); i = random_pos s in
      if text = [] \<and> n \<noteq> 0 \<or> 256 \<le> length text then None
      else Some (map (\<lambda>k. text ! (random_at s (i + k) mod length text)) [0..<n],
                 s\<lparr>random_pos := i + n\<rparr>))"

definition uid_int_to_char :: "nat \<Rightarrow> char" where
  "uid_int_to_char v = (if v < 10 then char_of (48 + v) else char_of (65 + (v - 10)))"

definition uid_draw :: "core \<Rightarrow> string \<times> core" where
  "uid_draw s =
     (let i = random_pos s; r = random_at s in
      (take UIDLEN (cfg_sid (cfg s) @
         map (\<lambda>k. uid_int_to_char (r (i + k) mod 36)) [0, 1, 2, 3, 4, 5]),
       s\<lparr>random_pos := i + 6\<rparr>))"

text \<open>The loop draws until no connected nick has the identifier.\<close>

partial_function (option) generate_uid :: "core \<Rightarrow> (string \<times> core) option" where
  "generate_uid s =
     Option.bind (find_nick (Some (fst (uid_draw s))) (snd (uid_draw s)))
       (\<lambda>r. case r of None \<Rightarrow> Some (uid_draw s) | Some _ \<Rightarrow> generate_uid (snd (uid_draw s)))"

text \<open>\<open>strncpy (x, src, N + 1)\<close> into an array of \<open>N + 1\<close> bytes leaves longer strings unterminated.\<close>

definition strncpy_full :: "string \<Rightarrow> nat \<Rightarrow> string option" where
  "strncpy_full src n = (if length src \<le> n then Some src else None)"

definition AddFake :: "string \<Rightarrow> string \<Rightarrow> string \<Rightarrow> cstring \<Rightarrow> core \<Rightarrow> (ptr option \<times> core) option" where
  "AddFake nick ident host uid s =
     do { a \<leftarrow> find_fake (Some nick) s;
          b \<leftarrow> (if a \<noteq> None then Some a else find_fake uid s);
          if b \<noteq> None then Some (None, s)
          else do {
            nk \<leftarrow> strncpy_full nick NICKLEN;
            idn \<leftarrow> strncpy_full ident NICKLEN;
            hst \<leftarrow> strncpy_full host HOSTLEN;
            (u, s) \<leftarrow> (case uid of Some x \<Rightarrow> do { x \<leftarrow> strncpy_full x UIDLEN; Some (x, s) }
                                  | None \<Rightarrow> generate_uid s);
            let p = next_ptr s;
            if tfind (fakeusers s) nk \<noteq> None then Some (None, s)
            else Some (Some p, (fresh s)\<lparr>fakeusers := tinsert nk p (fakeusers s),
              fake_at := (fake_at s)(p \<mapsto> \<lparr>f_nick = nk, f_ident = idn, f_host = hst, f_uid = u\<rparr>)\<rparr>) } }"

text \<open>The macro \<open>fakeuser\<close>.\<close>

definition fakeuser :: "string \<Rightarrow> string \<Rightarrow> string \<Rightarrow> string \<Rightarrow> string \<Rightarrow> core \<Rightarrow> core option" where
  "fakeuser nick ident host uid umodes s =
     do { (r, s) \<leftarrow> AddFake nick ident host (Some uid) s;
          if r = None then Some s
          else Some (send_raw (''UID '' @ nick @ '' 1 '' @ dec (clock s) @ '' '' @ ident @ '' '' @
                 host @ '' '' @ uid @ '' 0 +'' @ umodes @ '' * * * :'' @ ident) s) }"

subsection \<open>Deleting objects\<close>

definition DeleteGuest :: "string \<Rightarrow> core \<Rightarrow> core" where
  "DeleteGuest nick s =
     (case find_guest (Some nick) s of None \<Rightarrow> s
      | Some p \<Rightarrow> s\<lparr>guests := terase nick (guests s), guest_at := (guest_at s)(p := None)\<rparr>)"

definition clear_guests :: "core \<Rightarrow> core option" where
  "clear_guests s =
     foldM (\<lambda>p s. do { g \<leftarrow> guest_at s p; Some (DeleteGuest (g_nick g) s) }) (map snd (guests s)) s"

definition DeleteLink :: "string \<Rightarrow> core \<Rightarrow> core" where
  "DeleteLink slave s =
     (case find_link (Some slave) s of None \<Rightarrow> s
      | Some p \<Rightarrow> s\<lparr>links := terase slave (links s), link_at := (link_at s)(p := None)\<rparr>)"

definition DeleteLinks :: "string \<Rightarrow> core \<Rightarrow> core option" where
  "DeleteLinks nick s =
     foldM (\<lambda>p s. do {
         l \<leftarrow> link_at s p;
         if streq (Some (l_master l)) (Some nick) \<or> streq (Some (l_slave l)) (Some nick)
         then Some (DeleteLink (l_slave l) s) else Some s }) (map snd (links s)) s"

definition DeleteFake :: "ptr \<Rightarrow> core \<Rightarrow> core option" where
  "DeleteFake p s =
     do { f \<leftarrow> fake_at s p;
          Some (s\<lparr>fakeusers := terase (f_nick f) (fakeusers s), fake_at := (fake_at s)(p := None)\<rparr>) }"

definition clear_fakes :: "core \<Rightarrow> core option" where
  "clear_fakes s = foldM DeleteFake (map snd (fakeusers s)) s"

text \<open>The macro \<open>fakekill\<close>.\<close>

definition fakekill :: "string \<Rightarrow> string \<Rightarrow> core \<Rightarrow> core option" where
  "fakekill x y s =
     do { r \<leftarrow> find_fake (Some x) s;
          s \<leftarrow> (case r of None \<Rightarrow> Some s | Some p \<Rightarrow> DeleteFake p s);
          Some (send_raw ('':'' @ x @ '' QUIT :'' @ y) s) }"

subsection \<open>Nicks and clones\<close>

definition add_clone :: "string \<Rightarrow> core \<Rightarrow> core option" where
  "add_clone reshost s =
     (case find_clone (Some reshost) s of
        Some c \<Rightarrow> upd_clone c (\<lambda>x. x\<lparr>cl_count := cl_count x + 1\<rparr>) s
      | None \<Rightarrow>
          (let c = \<lparr>cl_host = strncpy reshost HOSTLEN, cl_count = 1\<rparr>; p = next_ptr s in
           if tfind (clones s) (cl_host c) \<noteq> None then Some s
           else Some ((fresh s)\<lparr>clones := tinsert (cl_host c) p (clones s),
                                clone_at := (clone_at s)(p \<mapsto> c)\<rparr>)))"

definition new_nick ::
  "string \<Rightarrow> string \<Rightarrow> string \<Rightarrow> string \<Rightarrow> string \<Rightarrow> flags \<Rightarrow> string \<Rightarrow> core \<Rightarrow> (ptr option \<times> core) option" where
  "new_nick nick ident host uid hiddenhost umodes reshost s =
     (let n = \<lparr>n_name = strncpy nick NICKLEN, n_ident = strncpy ident NICKLEN,
               n_host = strncpy host HOSTLEN, n_uid = strncpy uid UIDLEN, n_svid = [],
               n_hiddenhost = strncpy hiddenhost HOSTLEN, n_reshost = strncpy reshost HOSTLEN,
               n_umodes = umodes, n_msgtime = 0, n_msgnb = 0, n_ignored = False,
               n_ignoretime = 0, n_loginattempts = 0, n_lasttry = 0, n_account = None,
               n_wchans = []\<rparr>;
          p = next_ptr s in
      if tfind (nicks s) (n_name n) \<noteq> None then Some (None, s)
      else do { s \<leftarrow> add_clone reshost ((fresh s)\<lparr>nicks := tinsert (n_name n) p (nicks s),
                                                 nick_at := (nick_at s)(p \<mapsto> n)\<rparr>);
                Some (Some p, s) })"

definition drop_clone :: "string \<Rightarrow> core \<Rightarrow> core option" where
  "drop_clone reshost s =
     (case find_clone (Some reshost) s of None \<Rightarrow> Some s
      | Some c \<Rightarrow>
          do { s \<leftarrow> upd_clone c (\<lambda>x. x\<lparr>cl_count := cl_count x - 1\<rparr>) s;
               x \<leftarrow> clone_at s c;
               if cl_count x = 0
               then Some (s\<lparr>clones := terase (cl_host x) (clones s), clone_at := (clone_at s)(c := None)\<rparr>)
               else Some s })"

definition unlink_server_head :: "ptr \<Rightarrow> core \<Rightarrow> core" where
  "unlink_server_head nptr s =
     s\<lparr>server_at := (\<lambda>v. map_option (\<lambda>x. x\<lparr>sv_nicks := remove1 nptr (sv_nicks x)\<rparr>) (server_at s v))\<rparr>"

text \<open>\<open>delete_nick\<close> of \<open>nick.c\<close> and \<open>DeleteWildNick\<close> of \<open>user.c\<close> are the same code.\<close>

definition delete_nick :: "ptr \<Rightarrow> core \<Rightarrow> core option" where
  "delete_nick nptr s =
     do { n \<leftarrow> nick_at s nptr;
          if tfind (nicks s) (n_name n) = None then Some s
          else do { s \<leftarrow> drop_clone (n_reshost n) (s\<lparr>nicks := terase (n_name n) (nicks s)\<rparr>);
                    let s = unlink_server_head nptr s;
                    Some (s\<lparr>nick_at := (nick_at s)(nptr := None)\<rparr>) } }"

definition DeleteWildNick :: "ptr \<Rightarrow> core \<Rightarrow> core option" where
  "DeleteWildNick = delete_nick"

definition clear_nicks :: "core \<Rightarrow> core option" where
  "clear_nicks s = foldM delete_nick (map snd (nicks s)) s"

subsection \<open>Logging in and out\<close>

text \<open>\<open>user_login\<close> in its parts: the svid, the mode \<open>+r\<close>, the vhost or cloak.\<close>

definition login_svid :: "ptr \<Rightarrow> user \<Rightarrow> core \<Rightarrow> core option" where
  "login_svid nptr u s =
     do { n \<leftarrow> nick_at s nptr;
          if \<not> streq (Some (n_svid n)) (Some (u_nick u))
          then do { s \<leftarrow> upd_nick nptr (nick_set_svid (u_nick u)) s;
                    n \<leftarrow> nick_at s nptr;
                    Some (send_raw (''SVSLOGIN * '' @ n_name n @ '' '' @ n_svid n) s) }
          else Some s }"

definition login_registered :: "ptr \<Rightarrow> user \<Rightarrow> core \<Rightarrow> core option" where
  "login_registered nptr u s =
     do { n \<leftarrow> nick_at s nptr;
          if streq (Some (n_name n)) (Some (u_nick u))
          then do { s \<leftarrow> upd_nick nptr (SetUmode UMODE_REGISTERED)
                      (send_raw (''SVS2MODE '' @ n_name n @ '' +r'') s);
                    Some (if HasUOption u UOPT_PROTECT then DeleteGuest (n_name n) s else s) }
          else Some s }"

definition login_host :: "ptr \<Rightarrow> user \<Rightarrow> core \<Rightarrow> core option" where
  "login_host nptr u s =
     do { n \<leftarrow> nick_at s nptr;
          if u_vhost u \<noteq> [] then
            do { s \<leftarrow> upd_nick nptr (nick_set_hiddenhost (u_vhost u))
                   (send_raw (''CHGHOST '' @ n_name n @ '' '' @ u_vhost u) s);
                 NoticeToUser nptr (''Your vhost '' @ bold (u_vhost u) @ '' has been activated.'') s }
          else if HasUOption u UOPT_CLOAKED then
            do { let host = take (HOSTLEN + NICKLEN) (u_nick u @ cfg_usercloak (cfg s));
                 s \<leftarrow> upd_nick nptr (nick_set_hiddenhost host)
                   (send_raw (''CHGHOST '' @ n_name n @ '' '' @ u_nick u @ cfg_usercloak (cfg s)) s);
                 NoticeToUser nptr (''Your cloak '' @ bold host @ '' has been activated.'') s }
          else Some s }"

definition user_login :: "ptr \<Rightarrow> ptr \<Rightarrow> core \<Rightarrow> core option" where
  "user_login nptr uptr s =
     do { s \<leftarrow> upd_user uptr (\<lambda>u. u\<lparr>u_authed := 1, u_authed_nick := Some nptr, u_lastseen := clock s\<rparr>) s;
          s \<leftarrow> upd_nick nptr (nick_set_account (Some uptr) \<circ> nick_set_lasttry 0 \<circ>
                 nick_set_loginattempts 0) s;
          u \<leftarrow> user_at s uptr;
          s \<leftarrow> login_svid nptr u s;
          s \<leftarrow> login_registered nptr u s;
          n \<leftarrow> nick_at s nptr;
          s \<leftarrow> NoticeToUser nptr (''You are now identified with account '' @ bold (n_svid n) @ ''.'') s;
          login_host nptr u s }"

text \<open>
  \<open>sendmail\<close>: another process hands a line to the shell, cut to 255 characters, and gives it the mail. What the
  shell makes of it is outside.
\<close>

definition sendmail :: "string \<Rightarrow> string \<Rightarrow> core \<Rightarrow> core" where
  "sendmail dest mail s = s\<lparr>mails := mails s @ [(take 255 (cfg_sendmail (cfg s) @ '' '' @ dest), mail)]\<rparr>"

definition user_logout :: "ptr \<Rightarrow> ptr option \<Rightarrow> core \<Rightarrow> core option" where
  "user_logout nptr uptr s =
     do { s \<leftarrow> (case uptr of None \<Rightarrow> Some s
                | Some p \<Rightarrow> upd_user p
                    (\<lambda>u. u\<lparr>u_authed := 0, u_authed_nick := None, u_lastseen := clock s\<rparr>) s);
          s \<leftarrow> upd_nick nptr (nick_set_svid ''0'' \<circ> nick_set_account None) s;
          n \<leftarrow> nick_at s nptr;
          let s = send_raw (''SVSLOGIN * '' @ n_uid n @ '' 0'') s;
          Some (if HasUmode n UMODE_REGISTERED
                then send_raw (''SVS2MODE '' @ n_uid n @ '' -r'') s else s) }"

definition DeleteAccount :: "ptr \<Rightarrow> core \<Rightarrow> core option" where
  "DeleteAccount user s =
     do { u \<leftarrow> user_at s user;
          s \<leftarrow> (case u_authed_nick u of None \<Rightarrow> Some s | Some n \<Rightarrow> user_logout n (Some user) s);
          let s = s\<lparr>users := terase (u_nick u) (users s)\<rparr>;
          let s = DeleteGuest (u_nick u) s;
          Some (s\<lparr>user_at := (user_at s)(user := None)\<rparr>) }"

subsection \<open>Passwords\<close>

definition hex_digit :: "nat \<Rightarrow> char" where
  "hex_digit d = (if d < 10 then char_of (48 + d) else char_of (87 + d))"

definition md5_hash :: "lib \<Rightarrow> string \<Rightarrow> cstring" where
  "md5_hash L msg = map_option
     (concat \<circ> map (\<lambda>b. [hex_digit (unat (drop_bit 4 b)), hex_digit (unat (b AND 15))])) (md5_digest L msg)"

definition set_user_password :: "lib \<Rightarrow> ptr option \<Rightarrow> string \<Rightarrow> core \<Rightarrow> (int \<times> core) option" where
  "set_user_password L uptr password s =
     (case uptr of None \<Rightarrow> Some (-1, s)
      | Some p \<Rightarrow>
          (case pwhash_str L (salts s) password of (status, out) \<Rightarrow>
             do { s \<leftarrow> upd_user p (\<lambda>u. u\<lparr>u_md5_pass := [], u_pwhash := out\<rparr>)
                     (s\<lparr>salts := Suc (salts s)\<rparr>);
                  Some (status, s) }))"

definition check_user_password :: "lib \<Rightarrow> ptr option \<Rightarrow> string \<Rightarrow> core \<Rightarrow> (int \<times> core) option" where
  "check_user_password L uptr password s =
     (case uptr of None \<Rightarrow> Some (-1, s)
      | Some p \<Rightarrow>
          do { u \<leftarrow> user_at s p;
               if u_md5_pass u \<noteq> [] \<and> \<not> streq (md5_hash L password) (Some (u_md5_pass u))
               then Some (-1, s)
               else do {
                 s \<leftarrow> (if u_md5_pass u \<noteq> [] then map_option snd (set_user_password L uptr password s)
                      else Some s);
                 u \<leftarrow> user_at s p;
                 Some (pwhash_verify L (u_pwhash u) password, s) } })"

subsection \<open>Guests that did not identify in time\<close>

definition MAX_HASH :: int where "MAX_HASH = 5003"

text \<open>\<open>hash\<close> of \<open>mem.c\<close>, on 32-bit integers; a character is sign-extended.\<close>

definition hash_step :: "32 word \<Rightarrow> char \<Rightarrow> 32 word" where
  "hash_step val c =
     (let v = push_bit 4 val + scast (of_char c :: 8 word);
          tmp = v AND 0xf0000000 in
      if tmp \<noteq> 0 then (v XOR signed_drop_bit 24 tmp) XOR tmp else v)"

definition mem_hash :: "string \<Rightarrow> int" where
  "mem_hash buffer =
     (let v = foldl hash_step 0 (ToLower buffer 1023);
          w = (if sint v < 0 then - v else v)
      in sint w mod MAX_HASH)"

definition CheckGuests :: "core \<Rightarrow> core option" where
  "CheckGuests s =
     foldM (\<lambda>p s. do {
         g \<leftarrow> guest_at s p;
         if g_timeout g \<le> clock s - g_nickconn g
         then (case random s of (r, s) \<Rightarrow>
           (let gv = (int (r mod 999999) + mem_hash (g_nick g)) mod 999999 in
            Some (DeleteGuest (g_nick g)
              (send_raw (''SVSNICK '' @ g_nick g @ '' '' @ cfg_guest_prefix (cfg s) @ dec gv @
                 '' '' @ dec (clock s)) s))))
         else Some s }) (map snd (guests s)) s"

end
