(* ===== verification/Channels.thy ===== *)
theory Channels
  imports Accounts
begin

section \<open>Channels: the structures of src/src/channel.c\<close>

text \<open>
  A \<open>chan\<close> is a registered channel, a \<open>wchan\<close> one that exists on the network. Access entries
  (\<open>cflag\<close>) are on a list of their channel and of their account, memberships on a list of their
  \<open>wchan\<close> and of their nick. \<open>LLIST_REMOVE\<close> unlinks a node from whichever list it is on, so the
  deletions remove the address from the lists of all objects.
\<close>

subsection \<open>Constants\<close>

definition CHFL_OP :: flags where "CHFL_OP = 0x0001"
definition CHFL_HALFOP :: flags where "CHFL_HALFOP = 0x0002"
definition CHFL_VOICE :: flags where "CHFL_VOICE = 0x0004"
definition CHFL_PROTECT :: flags where "CHFL_PROTECT = 0x0008"
definition CHFL_OWNER :: flags where "CHFL_OWNER = 0x0010"
definition CHFL_ALL :: flags where
  "CHFL_ALL = CHFL_OP OR CHFL_HALFOP OR CHFL_VOICE OR CHFL_PROTECT OR CHFL_OWNER"

definition COPT_NOJOIN :: flags where "COPT_NOJOIN = 0x0002"
definition COPT_NOAUTO :: flags where "COPT_NOAUTO = 0x0004"
definition COPT_AVOICE :: flags where "COPT_AVOICE = 0x0008"
definition COPT_PRIVATE :: flags where "COPT_PRIVATE = 0x0010"
definition COPT_STRICTOP :: flags where "COPT_STRICTOP = 0x0020"
definition COPT_AOP :: flags where "COPT_AOP = 0x0040"
definition COPT_SECURE :: flags where "COPT_SECURE = 0x0080"
definition COPT_SUSPENDED :: flags where "COPT_SUSPENDED = 0x0100"
definition COPT_NOEXPIRE :: flags where "COPT_NOEXPIRE = 0x0200"
definition COPT_PROTECTOPS :: flags where "COPT_PROTECTOPS = 0x0800"
definition COPT_MASS :: flags where "COPT_MASS = 0x1000"
definition COPT_ENFTOPIC :: flags where "COPT_ENFTOPIC = 0x2000"
definition COPT_AXXFLAGS :: flags where "COPT_AXXFLAGS = 0x4000"

definition CFLAG_AUTO_OFF :: int where "CFLAG_AUTO_OFF = 0"
definition CFLAG_AUTO_ON :: int where "CFLAG_AUTO_ON = 1"
definition CFLAG_AUTO_VOICE :: int where "CFLAG_AUTO_VOICE = 2"
definition CFLAG_AUTO_OP :: int where "CFLAG_AUTO_OP = 3"

type_synonym uflags = "32 word"

definition UFLAG_OP :: uflags where "UFLAG_OP = 0x00001"
definition UFLAG_VOICE :: uflags where "UFLAG_VOICE = 0x00002"
definition UFLAG_AUTOOP :: uflags where "UFLAG_AUTOOP = 0x00004"
definition UFLAG_AUTOVOICE :: uflags where "UFLAG_AUTOVOICE = 0x00008"
definition UFLAG_ACL :: uflags where "UFLAG_ACL = 0x00010"
definition UFLAG_INVITE :: uflags where "UFLAG_INVITE = 0x00020"
definition UFLAG_TOPIC :: uflags where "UFLAG_TOPIC = 0x00040"
definition UFLAG_OWNER :: uflags where "UFLAG_OWNER = 0x00080"
definition UFLAG_COOWNER :: uflags where "UFLAG_COOWNER = 0x00100"
definition UFLAG_HALFOP :: uflags where "UFLAG_HALFOP = 0x00200"
definition UFLAG_SET :: uflags where "UFLAG_SET = 0x00400"
definition UFLAG_AUTOHALFOP :: uflags where "UFLAG_AUTOHALFOP = 0x00800"
definition UFLAG_PROTECT :: uflags where "UFLAG_PROTECT = 0x01000"
definition UFLAG_AUTOPROTECT :: uflags where "UFLAG_AUTOPROTECT = 0x02000"
definition UFLAG_NOOP :: uflags where "UFLAG_NOOP = 0x04000"
definition UFLAG_AUTOKICK :: uflags where "UFLAG_AUTOKICK = 0x08000"
definition UFLAG_AUTOKICKBAN :: uflags where "UFLAG_AUTOKICKBAN = 0x10000"
definition UFLAG_AUTOOWNER :: uflags where "UFLAG_AUTOOWNER = 0x20000"

definition UFLAG_CHANOWNER :: uflags where
  "UFLAG_CHANOWNER = UFLAG_OP OR UFLAG_VOICE OR UFLAG_ACL OR UFLAG_INVITE OR UFLAG_TOPIC OR
     UFLAG_OWNER OR UFLAG_HALFOP OR UFLAG_SET OR UFLAG_PROTECT OR UFLAG_AUTOOWNER OR UFLAG_AUTOOP"
definition UFLAG_CHANCOOWNER :: uflags where
  "UFLAG_CHANCOOWNER = UFLAG_OP OR UFLAG_VOICE OR UFLAG_ACL OR UFLAG_INVITE OR UFLAG_TOPIC OR
     UFLAG_COOWNER OR UFLAG_HALFOP OR UFLAG_SET OR UFLAG_PROTECT OR UFLAG_AUTOOWNER OR UFLAG_AUTOOP"
definition UFLAG_CHANSADMIN :: uflags where
  "UFLAG_CHANSADMIN = UFLAG_OP OR UFLAG_VOICE OR UFLAG_ACL OR UFLAG_INVITE OR UFLAG_TOPIC OR
     UFLAG_HALFOP OR UFLAG_SET OR UFLAG_PROTECT OR UFLAG_AUTOPROTECT OR UFLAG_AUTOOP"
definition UFLAG_CHANADMIN :: uflags where
  "UFLAG_CHANADMIN = UFLAG_OP OR UFLAG_VOICE OR UFLAG_ACL OR UFLAG_INVITE OR UFLAG_TOPIC OR
     UFLAG_HALFOP OR UFLAG_PROTECT OR UFLAG_AUTOPROTECT OR UFLAG_AUTOOP"
definition UFLAG_CHANOP :: uflags where
  "UFLAG_CHANOP = UFLAG_OP OR UFLAG_VOICE OR UFLAG_AUTOOP OR UFLAG_INVITE OR UFLAG_TOPIC OR UFLAG_HALFOP"
definition UFLAG_CHANHALFOP :: uflags where
  "UFLAG_CHANHALFOP = UFLAG_VOICE OR UFLAG_INVITE OR UFLAG_TOPIC OR UFLAG_HALFOP OR UFLAG_AUTOHALFOP"
definition UFLAG_CHANVOICE :: uflags where
  "UFLAG_CHANVOICE = UFLAG_VOICE OR UFLAG_AUTOVOICE OR UFLAG_INVITE"

lemmas uflag_bits = UFLAG_OP_def UFLAG_VOICE_def UFLAG_AUTOOP_def UFLAG_AUTOVOICE_def UFLAG_ACL_def
  UFLAG_INVITE_def UFLAG_TOPIC_def UFLAG_OWNER_def UFLAG_COOWNER_def UFLAG_HALFOP_def UFLAG_SET_def
  UFLAG_AUTOHALFOP_def UFLAG_PROTECT_def UFLAG_AUTOPROTECT_def UFLAG_NOOP_def UFLAG_AUTOKICK_def
  UFLAG_AUTOKICKBAN_def UFLAG_AUTOOWNER_def
lemmas uflag_sets = UFLAG_CHANOWNER_def UFLAG_CHANCOOWNER_def UFLAG_CHANSADMIN_def UFLAG_CHANADMIN_def
  UFLAG_CHANOP_def UFLAG_CHANHALFOP_def UFLAG_CHANVOICE_def

definition SetCOption :: "flags \<Rightarrow> chan \<Rightarrow> chan" where
  "SetCOption o1 c = c\<lparr>c_options := set_flag (c_options c) o1\<rparr>"
definition ClearCOption :: "flags \<Rightarrow> chan \<Rightarrow> chan" where
  "ClearCOption o1 c = c\<lparr>c_options := clear_flag (c_options c) o1\<rparr>"
definition HasCOption :: "chan \<Rightarrow> flags \<Rightarrow> bool" where
  "HasCOption c o1 \<longleftrightarrow> has_flag (c_options c) o1"
definition SetChanFlag :: "flags \<Rightarrow> member \<Rightarrow> member" where
  "SetChanFlag f m = m\<lparr>m_flags := set_flag (m_flags m) f\<rparr>"
definition ClearChanFlag :: "flags \<Rightarrow> member \<Rightarrow> member" where
  "ClearChanFlag f m = m\<lparr>m_flags := clear_flag (m_flags m) f\<rparr>"
definition HasChanFlag :: "member \<Rightarrow> flags \<Rightarrow> bool" where
  "HasChanFlag m f \<longleftrightarrow> has_flag (m_flags m) f"

subsection \<open>Access entries\<close>

definition find_cflag :: "ptr \<Rightarrow> ptr \<Rightarrow> core \<Rightarrow> ptr option option" where
  "find_cflag chptr uptr s =
     do { u \<leftarrow> user_at s uptr; scan (cflag_at s) (\<lambda>c. cf_chan c = chptr) (u_cflags u) }"

text \<open>The recursion follows the master of each account; on a cycle it does not return.\<close>

partial_function (option) find_cflag_recursive :: "ptr \<Rightarrow> ptr \<Rightarrow> core \<Rightarrow> ptr option option" where
  "find_cflag_recursive chptr uptr s =
     Option.bind (find_cflag chptr uptr s) (\<lambda>r.
       case r of Some c \<Rightarrow> Some (Some c)
       | None \<Rightarrow> Option.bind (get_link_master uptr s) (\<lambda>m.
           case m of None \<Rightarrow> Some None
           | Some uptr2 \<Rightarrow> if uptr2 = uptr then Some None
                          else find_cflag_recursive chptr uptr2 s))"

definition find_timeban :: "ptr \<Rightarrow> string \<Rightarrow> core \<Rightarrow> ptr option option" where
  "find_timeban chptr msk s =
     do { c \<leftarrow> chan_at s chptr;
          scan (timeban_at s) (\<lambda>t. streq (Some (tb_mask t)) (Some msk)) (c_timebans c) }"

definition GetUFlagsFromLevel :: "config \<Rightarrow> int \<Rightarrow> uflags" where
  "GetUFlagsFromLevel c level =
     (if level = CHLEV_OWNER then UFLAG_CHANOWNER
      else if level = CHLEV_COOWNER then UFLAG_CHANCOOWNER
      else if level < CHLEV_COOWNER \<and> cfg_chlev_sadmin c \<le> level then UFLAG_CHANSADMIN
      else if level < cfg_chlev_sadmin c \<and> cfg_chlev_admin c \<le> level then UFLAG_CHANADMIN
      else if level < cfg_chlev_admin c \<and> cfg_chlev_op c \<le> level then UFLAG_CHANOP
      else if level < cfg_chlev_op c \<and> cfg_chlev_halfop c \<le> level then UFLAG_CHANHALFOP
      else if level < cfg_chlev_halfop c \<and> cfg_chlev_voice c \<le> level then UFLAG_CHANVOICE
      else if level < cfg_chlev_voice c \<and> cfg_chlev_invite c \<le> level then UFLAG_INVITE
      else if level < 0 \<and> cfg_chlev_nostatus c \<le> level then UFLAG_NOOP
      else if level < cfg_chlev_nostatus c \<and> cfg_chlev_akick c \<le> level then UFLAG_AUTOKICK
      else UFLAG_AUTOKICKBAN)"

definition AddUserToChannel :: "ptr \<Rightarrow> ptr \<Rightarrow> int \<Rightarrow> uflags \<Rightarrow> core \<Rightarrow> (ptr \<times> core) option" where
  "AddUserToChannel user chan level uflags s =
     (let p = next_ptr s;
          c = \<lparr>cf_chan = chan, cf_user = user, cf_flags = level, cf_automode = CFLAG_AUTO_ON,
               cf_suspended = 0,
               cf_uflags = (if uflags \<noteq> 0 then uflags else GetUFlagsFromLevel (cfg s) level)\<rparr> in
      do { s \<leftarrow> upd_user user (\<lambda>u. u\<lparr>u_cflags := u_cflags u @ [p]\<rparr>)
                 ((fresh s)\<lparr>cflag_at := (cflag_at s)(p \<mapsto> c)\<rparr>);
           s \<leftarrow> upd_chan chan (\<lambda>c. c\<lparr>c_cflags := c_cflags c @ [p]\<rparr>) s;
           Some (p, s) })"

definition unlink_cflag :: "ptr \<Rightarrow> core \<Rightarrow> core" where
  "unlink_cflag p s =
     s\<lparr>user_at := (\<lambda>u. map_option (\<lambda>x. x\<lparr>u_cflags := remove1 p (u_cflags x)\<rparr>) (user_at s u)),
       chan_at := (\<lambda>c. map_option (\<lambda>x. x\<lparr>c_cflags := remove1 p (c_cflags x)\<rparr>) (chan_at s c))\<rparr>"

definition DeleteCflag :: "ptr \<Rightarrow> core \<Rightarrow> core option" where
  "DeleteCflag p s =
     (if cflag_at s p = None then None
      else Some ((unlink_cflag p s)\<lparr>cflag_at := (cflag_at s)(p := None)\<rparr>))"

definition DeleteUserFromChannel :: "ptr \<Rightarrow> ptr \<Rightarrow> core \<Rightarrow> core option" where
  "DeleteUserFromChannel user chan s =
     do { r \<leftarrow> find_cflag chan user s;
          case r of None \<Rightarrow> Some s | Some c \<Rightarrow> DeleteCflag c s }"

definition DeleteUserFromChannels :: "ptr \<Rightarrow> core \<Rightarrow> core option" where
  "DeleteUserFromChannels user s =
     do { u \<leftarrow> user_at s user; foldM DeleteCflag (u_cflags u) s }"

definition DeleteUsersFromChannel :: "ptr \<Rightarrow> core \<Rightarrow> core option" where
  "DeleteUsersFromChannel chan s =
     do { c \<leftarrow> chan_at s chan; foldM DeleteCflag (c_cflags c) s }"

subsection \<open>Registered channels\<close>

definition CreateChannel :: "string \<Rightarrow> string \<Rightarrow> int \<Rightarrow> core \<Rightarrow> (ptr option \<times> core) option" where
  "CreateChannel name owner lastseen s =
     (let c = \<lparr>c_name = strncpy name CHANLEN, c_owner = strncpy owner NICKLEN,
               c_options = COPT_AXXFLAGS OR COPT_SECURE, c_entrymsg = [], c_mlock = [], c_topic = [],
               c_autolimit = 0, c_lastseen = (if lastseen = 0 then clock s else lastseen),
               c_regtime = 0, c_active_autolimit = None, c_cflags = [], c_chanbot = None,
               c_timebans = []\<rparr>;
          p = next_ptr s in
      if tfind (chans s) (c_name c) \<noteq> None then Some (None, s)
      else do {
        let s = (fresh s)\<lparr>chans := tinsert (c_name c) p (chans s), chan_at := (chan_at s)(p \<mapsto> c)\<rparr>;
        case (find_channel (Some name) s, find_user (Some owner) s) of
          (Some chan, Some uptr) \<Rightarrow>
            do { (_, s) \<leftarrow> AddUserToChannel uptr chan CHLEV_OWNER UFLAG_CHANOWNER s;
                 Some (Some p, s) }
        | _ \<Rightarrow> Some (None, s) })"

definition channel_botname :: "ptr \<Rightarrow> core \<Rightarrow> string option" where
  "channel_botname chptr s =
     do { c \<leftarrow> chan_at s chptr;
          case c_chanbot c of Some b \<Rightarrow> map_option b_nick (bot_at s b)
          | None \<Rightarrow> Some (cfg_nick (cfg s)) }"

text \<open>The macro \<open>PartChannel\<close>: \<open>%s\<close> prints the first member of the structure, the name.\<close>

definition PartChannel :: "ptr \<Rightarrow> core \<Rightarrow> core option" where
  "PartChannel chptr s =
     do { b \<leftarrow> channel_botname chptr s; c \<leftarrow> chan_at s chptr;
          Some (send_raw ('':'' @ b @ '' PART '' @ c_name c) s) }"

definition DeleteChannel :: "ptr \<Rightarrow> core \<Rightarrow> core option" where
  "DeleteChannel chptr s =
     do { c \<leftarrow> chan_at s chptr;
          let s = s\<lparr>chans := terase (c_name c) (chans s)\<rparr>;
          s \<leftarrow> (if eos s then PartChannel chptr s else Some s);
          Some (s\<lparr>chan_at := (chan_at s)(chptr := None)\<rparr>) }"

definition chandrop :: "ptr \<Rightarrow> core \<Rightarrow> core option" where
  "chandrop chptr s =
     do { s \<leftarrow> (if eos s then PartChannel chptr s else Some s);
          s \<leftarrow> DeleteUsersFromChannel chptr s;
          DeleteChannel chptr s }"

definition chansreg :: "string \<Rightarrow> core \<Rightarrow> nat option" where
  "chansreg nick s =
     foldM (\<lambda>p n. do { c \<leftarrow> chan_at s p;
              Some (if streq (Some (c_owner c)) (Some nick) then n + 1 else n) }) (map snd (chans s)) 0"

subsection \<open>Limits and timed bans\<close>

definition AddLimit :: "ptr \<Rightarrow> core \<Rightarrow> (ptr \<times> core) option" where
  "AddLimit chptr s =
     do { c \<leftarrow> chan_at s chptr;
          let t = clock s + cfg_limittime (cfg s);
          case c_active_autolimit c of
            Some l \<Rightarrow> do { s \<leftarrow> upd_limit l (\<lambda>x. x\<lparr>lim_time := t\<rparr>) s; Some (l, s) }
          | None \<Rightarrow>
              (let p = next_ptr s in
               do { s \<leftarrow> upd_chan chptr (\<lambda>c. c\<lparr>c_active_autolimit := Some p\<rparr>)
                      ((fresh s)\<lparr>limit_at := (limit_at s)(p \<mapsto> \<lparr>lim_chan = chptr, lim_time = t\<rparr>),
                                 limits := limits s @ [p]\<rparr>);
                    Some (p, s) }) }"

definition DeleteLimit :: "ptr \<Rightarrow> core \<Rightarrow> core option" where
  "DeleteLimit l s =
     do { x \<leftarrow> limit_at s l;
          s \<leftarrow> upd_chan (lim_chan x) (\<lambda>c. c\<lparr>c_active_autolimit := None\<rparr>) s;
          Some (s\<lparr>limits := remove1 l (limits s), limit_at := (limit_at s)(l := None)\<rparr>) }"

definition clear_limits :: "core \<Rightarrow> core option" where
  "clear_limits s = foldM DeleteLimit (limits s) s"

definition AddTimeban :: "ptr \<Rightarrow> string \<Rightarrow> int \<Rightarrow> string \<Rightarrow> core \<Rightarrow> (ptr \<times> core) option" where
  "AddTimeban chptr msk duration reason s =
     (let p = next_ptr s;
          t = \<lparr>tb_chan = chptr, tb_mask = strncpy msk MASKLEN, tb_reason = strncpy reason 256,
               tb_duration = duration, tb_setat = clock s\<rparr> in
      do { s \<leftarrow> upd_chan chptr (\<lambda>c. c\<lparr>c_timebans := c_timebans c @ [p]\<rparr>)
             ((fresh s)\<lparr>timeban_at := (timeban_at s)(p \<mapsto> t)\<rparr>);
           Some (p, s\<lparr>timebans := timebans s @ [p]\<rparr>) })"

definition DeleteTimeban :: "ptr \<Rightarrow> core \<Rightarrow> core option" where
  "DeleteTimeban t s =
     (if timeban_at s t = None then None
      else Some (s\<lparr>chan_at := (\<lambda>c. map_option (\<lambda>x. x\<lparr>c_timebans := remove1 t (c_timebans x)\<rparr>) (chan_at s c)),
                   timebans := remove1 t (timebans s),
                   timeban_at := (timeban_at s)(t := None)\<rparr>))"

definition CheckTimebans :: "core \<Rightarrow> core option" where
  "CheckTimebans s =
     foldM (\<lambda>t s. do {
         tb \<leftarrow> timeban_at s t;
         if tb_duration tb = -1 \<or> clock s < tb_setat tb + tb_duration tb then Some s
         else do {
           b \<leftarrow> channel_botname (tb_chan tb) s;
           c \<leftarrow> chan_at s (tb_chan tb);
           DeleteTimeban t (send_raw ('':'' @ b @ '' MODE '' @ c_name c @ '' -b '' @ tb_mask tb) s) } })
       (timebans s) s"

subsection \<open>Live channels and their members\<close>

definition CreateWchan :: "string \<Rightarrow> core \<Rightarrow> ptr option \<times> core" where
  "CreateWchan name s =
     (let w = \<lparr>w_chname = strncpy name CHANLEN, w_topic = [], w_members = []\<rparr>; p = next_ptr s in
      if tfind (wchans s) (w_chname w) \<noteq> None then (None, s)
      else (Some p, (fresh s)\<lparr>wchans := tinsert (w_chname w) p (wchans s),
                              wchan_at := (wchan_at s)(p \<mapsto> w)\<rparr>))"

definition DeleteWchan :: "ptr \<Rightarrow> core \<Rightarrow> core option" where
  "DeleteWchan w s =
     do { x \<leftarrow> wchan_at s w;
          Some (s\<lparr>wchans := terase (w_chname x) (wchans s), wchan_at := (wchan_at s)(w := None)\<rparr>) }"

definition find_member :: "ptr \<Rightarrow> ptr \<Rightarrow> core \<Rightarrow> ptr option option" where
  "find_member wchan nptr s =
     do { w \<leftarrow> wchan_at s wchan; scan (member_at s) (\<lambda>m. m_nick m = nptr) (w_members w) }"

text \<open>Restarting the timer of the user limit, where the channel keeps one.\<close>

definition touch_limit :: "string \<Rightarrow> core \<Rightarrow> core option" where
  "touch_limit chname s =
     (case find_channel (Some chname) s of None \<Rightarrow> Some s
      | Some c \<Rightarrow>
          do { ch \<leftarrow> chan_at s c;
               if c_autolimit ch > 0 then map_option snd (AddLimit c s) else Some s })"

definition AddUserToWchan :: "ptr \<Rightarrow> ptr \<Rightarrow> core \<Rightarrow> (ptr \<times> core) option" where
  "AddUserToWchan nptr chan s =
     (let p = next_ptr s; m = \<lparr>m_wchan = chan, m_nick = nptr, m_flags = 0\<rparr> in
      do { s \<leftarrow> upd_nick nptr (\<lambda>n. n\<lparr>n_wchans := n_wchans n @ [p]\<rparr>)
                 ((fresh s)\<lparr>member_at := (member_at s)(p \<mapsto> m)\<rparr>);
           s \<leftarrow> upd_wchan chan (\<lambda>w. w\<lparr>w_members := w_members w @ [p]\<rparr>) s;
           w \<leftarrow> wchan_at s chan;
           s \<leftarrow> touch_limit (w_chname w) s;
           Some (p, s) })"

definition unlink_member :: "ptr \<Rightarrow> core \<Rightarrow> core" where
  "unlink_member p s =
     s\<lparr>nick_at := (\<lambda>n. map_option (\<lambda>x. x\<lparr>n_wchans := remove1 p (n_wchans x)\<rparr>) (nick_at s n)),
       wchan_at := (\<lambda>w. map_option (\<lambda>x. x\<lparr>w_members := remove1 p (w_members x)\<rparr>) (wchan_at s w))\<rparr>"

definition DeleteMember :: "ptr \<Rightarrow> core \<Rightarrow> core option" where
  "DeleteMember p s =
     (if member_at s p = None then None
      else Some ((unlink_member p s)\<lparr>member_at := (member_at s)(p := None)\<rparr>))"

definition DeleteUserFromWchan :: "ptr \<Rightarrow> ptr \<Rightarrow> core \<Rightarrow> core option" where
  "DeleteUserFromWchan nptr chan s =
     do { r \<leftarrow> find_member chan nptr s;
          case r of None \<Rightarrow> Some s
          | Some m \<Rightarrow>
              do { s \<leftarrow> DeleteMember m s;
                   w \<leftarrow> wchan_at s chan;
                   if w_members w = [] then DeleteWchan chan s else touch_limit (w_chname w) s } }"

definition DeleteUserFromWchans :: "ptr \<Rightarrow> core \<Rightarrow> core option" where
  "DeleteUserFromWchans nptr s =
     do { n \<leftarrow> nick_at s nptr;
          foldM (\<lambda>m s. do { mb \<leftarrow> member_at s m; DeleteUserFromWchan nptr (m_wchan mb) s })
            (n_wchans n) s }"

definition clear_wchans :: "core \<Rightarrow> core option" where
  "clear_wchans s =
     foldM (\<lambda>p s. do { w \<leftarrow> wchan_at s p; s \<leftarrow> foldM DeleteMember (w_members w) s; DeleteWchan p s })
       (map snd (wchans s)) s"

definition members_num :: "wchan \<Rightarrow> nat" where
  "members_num w = length (w_members w)"

definition KickUser :: "string \<Rightarrow> string \<Rightarrow> string \<Rightarrow> string \<Rightarrow> core \<Rightarrow> core option" where
  "KickUser who nick chan reason s =
     do { r \<leftarrow> find_nick (Some nick) s;
          case r of None \<Rightarrow> Some s
          | Some nptr \<Rightarrow>
              do { n \<leftarrow> nick_at s nptr;
                   if HasUmode n UMODE_NOKICK then Some s
                   else do {
                     let s = send_raw ('':'' @ who @ '' KICK '' @ chan @ '' '' @ nick @ '' :'' @
                               ircsprintf 1023 reason) s;
                     case find_wchan (Some chan) s of None \<Rightarrow> Some s
                     | Some w \<Rightarrow> DeleteUserFromWchan nptr w s } } }"

definition status_letters :: "flags \<Rightarrow> string" where
  "status_letters flag =
     (if has_flag flag CHFL_OWNER then ''q'' else []) @ (if has_flag flag CHFL_PROTECT then ''a'' else []) @
     (if has_flag flag CHFL_OP then ''o'' else []) @ (if has_flag flag CHFL_HALFOP then ''h'' else []) @
     (if has_flag flag CHFL_VOICE then ''v'' else [])"

definition SetStatus :: "ptr option \<Rightarrow> string \<Rightarrow> flags \<Rightarrow> bool \<Rightarrow> string \<Rightarrow> core \<Rightarrow> core option" where
  "SetStatus nptr chan flag what who s =
     (case nptr of None \<Rightarrow> Some s
      | Some np \<Rightarrow>
        (case find_wchan (Some chan) s of None \<Rightarrow> Some s
         | Some wchan \<Rightarrow>
           do { n \<leftarrow> nick_at s np;
                r \<leftarrow> find_member wchan np s;
                let modes = status_letters flag;
                    targ = concat (map (\<lambda>_. n_name n @ '' '') modes);
                    line = '':'' @ who @ '' MODE '' @ chan @ (if what then '' +'' else '' -'') @ modes @
                      '' '' @ targ in
                case r of None \<Rightarrow> Some s
                | Some m \<Rightarrow>
                    upd_member m (if what then SetChanFlag flag else ClearChanFlag flag)
                      (send_raw line s) }))"

definition JoinChannel :: "string \<Rightarrow> string \<Rightarrow> core \<Rightarrow> core option" where
  "JoinChannel who name s =
     (case find_channel (Some name) s of None \<Rightarrow> Some s
      | Some chptr \<Rightarrow>
          do { c \<leftarrow> chan_at s chptr;
               let s = (if c_mlock c \<noteq> []
                        then send_raw ('':'' @ who @ '' MODE '' @ name @ '' '' @ c_mlock c) s else s);
               b \<leftarrow> channel_botname chptr s;
               if streq (Some b) (Some (cfg_nick (cfg s))) \<and> HasCOption c COPT_NOJOIN then Some s
               else Some (send_raw ('':'' @ who @ '' MODE '' @ name @ '' +ao '' @ who @ '' '' @ who)
                      (send_raw ('':'' @ who @ '' JOIN '' @ name) s)) })"

definition joinallchans :: "core \<Rightarrow> core option" where
  "joinallchans s =
     foldM (\<lambda>p s. do {
         c \<leftarrow> chan_at s p;
         let wchan = find_wchan (Some (c_name c)) s;
         b \<leftarrow> channel_botname p s;
         s \<leftarrow> (if \<not> HasCOption c COPT_NOJOIN \<or> c_chanbot c \<noteq> None then JoinChannel b (c_name c) s
              else Some s);
         let s = (if c_mlock c \<noteq> []
                  then send_raw ('':'' @ b @ '' MODE '' @ c_name c @ '' '' @ c_mlock c) s else s);
         if c_topic c = [] then Some s
         else (case wchan of None \<Rightarrow> Some s
               | Some w \<Rightarrow> do {
                   x \<leftarrow> wchan_at s w;
                   Some (if c_topic c \<noteq> w_topic x
                         then send_raw ('':'' @ b @ '' TOPIC '' @ c_name c @ '' :'' @ c_topic c) s
                         else s) }) }) (map snd (chans s)) s"

definition CheckLimits :: "core \<Rightarrow> core option" where
  "CheckLimits s =
     foldM (\<lambda>l s. do {
         x \<leftarrow> limit_at s l;
         if lim_time x \<le> clock s then
           do { c \<leftarrow> chan_at s (lim_chan x);
                case find_wchan (Some (c_name c)) s of None \<Rightarrow> DeleteLimit l s
                | Some w \<Rightarrow> do {
                    wc \<leftarrow> wchan_at s w;
                    b \<leftarrow> channel_botname (lim_chan x) s;
                    let ag = (if HasCOption c COPT_NOJOIN then 0 else 1);
                    DeleteLimit l (send_raw ('':'' @ b @ '' MODE '' @ c_name c @ '' +l '' @
                      dec (int (members_num wc) + c_autolimit c + ag)) s) } }
         else Some s }) (limits s) s"

end
