(* ===== verification/Access.thy ===== *)
theory Access
  imports Channels
begin

section \<open>Channel access: the queries of src/src/channel.c\<close>

text \<open>
  The access functions have one shape: a NULL argument is refused, some users are granted at
  once, and otherwise the entry of the account on the channel decides; an account without an
  entry hands the question on to the master it is linked to. \<open>chan_access\<close> is that shape,
  with the early grant \<open>pre\<close> and the decision \<open>post\<close> as arguments. The recursion follows the
  links; on a cycle of links it does not return.
\<close>

partial_function (option) chan_access ::
  "(ptr \<Rightarrow> bool option) \<Rightarrow> (ptr \<Rightarrow> ptr \<Rightarrow> cflag \<Rightarrow> bool option) \<Rightarrow> ptr option \<Rightarrow> ptr option \<Rightarrow> core \<Rightarrow>
   bool option" where
  "chan_access pre post uptr chptr s =
     (case uptr of None \<Rightarrow> Some False
      | Some u \<Rightarrow>
        (case chptr of None \<Rightarrow> Some False
         | Some c \<Rightarrow>
            Option.bind (pre u) (\<lambda>granted.
              if granted then Some True
              else Option.bind (find_cflag c u s) (\<lambda>r.
                case r of
                  None \<Rightarrow> Option.bind (get_link_master u s) (\<lambda>m. chan_access pre post m chptr s)
                | Some cf \<Rightarrow> Option.bind (cflag_at s cf) (post u c)))))"

definition axx :: "ptr \<Rightarrow> core \<Rightarrow> bool option" where
  "axx c s = map_option (\<lambda>x. HasCOption x COPT_AXXFLAGS) (chan_at s c)"

definition no_grant :: "ptr \<Rightarrow> bool option" where
  "no_grant u = Some False"

text \<open>The umode of a super administrator, of the nick with the name of the account.\<close>

definition nick_superadmin :: "ptr \<Rightarrow> core \<Rightarrow> bool option" where
  "nick_superadmin u s =
     do { x \<leftarrow> user_at s u;
          r \<leftarrow> find_nick (Some (u_nick x)) s;
          case r of None \<Rightarrow> Some False
          | Some n \<Rightarrow> map_option (\<lambda>n. HasUmode n UMODE_SUPERADMIN) (nick_at s n) }"

definition founder_entry :: "core \<Rightarrow> ptr \<Rightarrow> ptr \<Rightarrow> cflag \<Rightarrow> bool option" where
  "founder_entry s u c cf =
     do { sa \<leftarrow> nick_superadmin u s;
          if sa then Some True
          else do {
            a \<leftarrow> axx c s;
            if a then Some (has_flag (cf_uflags cf) UFLAG_OWNER \<or> has_flag (cf_uflags cf) UFLAG_COOWNER)
            else Some (cf_flags cf = CHLEV_OWNER \<or> cf_flags cf = CHLEV_COOWNER) } }"

definition IsFounder :: "ptr option \<Rightarrow> ptr option \<Rightarrow> core \<Rightarrow> bool option" where
  "IsFounder uptr chptr s = chan_access no_grant (founder_entry s) uptr chptr s"

definition owner_entry :: "core \<Rightarrow> ptr \<Rightarrow> ptr \<Rightarrow> cflag \<Rightarrow> bool option" where
  "owner_entry s u c cf =
     do { a \<leftarrow> axx c s;
          Some (if a then has_flag (cf_uflags cf) UFLAG_OWNER else cf_flags cf = CHLEV_OWNER) }"

definition IsTrueOwner :: "ptr option \<Rightarrow> ptr option \<Rightarrow> core \<Rightarrow> bool option" where
  "IsTrueOwner uptr chptr s = chan_access no_grant (owner_entry s) uptr chptr s"

text \<open>
  The queries \<open>ChannelCan...\<close>: super administrators pass, a suspended entry is refused, then
  the flags decide on a channel with \<open>axxflags\<close> and the level on the others.
\<close>

definition super_grant :: "core \<Rightarrow> ptr \<Rightarrow> bool option" where
  "super_grant s u = IsSuperAdmin u s"

definition can_entry :: "(uflags \<Rightarrow> bool) \<Rightarrow> (config \<Rightarrow> int) \<Rightarrow> core \<Rightarrow> ptr \<Rightarrow> ptr \<Rightarrow> cflag \<Rightarrow> bool option" where
  "can_entry by_flags lev s u c cf =
     (if cf_suspended cf = 1 then Some False
      else do {
        a \<leftarrow> axx c s;
        if a then (if by_flags (cf_uflags cf) then Some True else IsFounder (Some u) (Some c) s)
        else Some (lev (cfg s) \<le> cf_flags cf) })"

definition can_do ::
  "(uflags \<Rightarrow> bool) \<Rightarrow> (config \<Rightarrow> int) \<Rightarrow> ptr option \<Rightarrow> ptr option \<Rightarrow> core \<Rightarrow> bool option" where
  "can_do by_flags lev uptr chptr s = chan_access (super_grant s) (can_entry by_flags lev s) uptr chptr s"

definition ChannelCanProtect :: "ptr option \<Rightarrow> ptr option \<Rightarrow> core \<Rightarrow> bool option" where
  "ChannelCanProtect = can_do (\<lambda>f. has_flag f UFLAG_PROTECT) cfg_chlev_admin"
definition ChannelCanOp :: "ptr option \<Rightarrow> ptr option \<Rightarrow> core \<Rightarrow> bool option" where
  "ChannelCanOp = can_do (\<lambda>f. has_flag f UFLAG_OP) cfg_chlev_op"
definition ChannelCanHalfop :: "ptr option \<Rightarrow> ptr option \<Rightarrow> core \<Rightarrow> bool option" where
  "ChannelCanHalfop = can_do (\<lambda>f. has_flag f UFLAG_HALFOP \<or> has_flag f UFLAG_OP) cfg_chlev_halfop"
definition ChannelCanVoice :: "ptr option \<Rightarrow> ptr option \<Rightarrow> core \<Rightarrow> bool option" where
  "ChannelCanVoice =
     can_do (\<lambda>f. has_flag f UFLAG_VOICE \<or> has_flag f UFLAG_HALFOP \<or> has_flag f UFLAG_OP) cfg_chlev_voice"
definition ChannelCanInvite :: "ptr option \<Rightarrow> ptr option \<Rightarrow> core \<Rightarrow> bool option" where
  "ChannelCanInvite = can_do (\<lambda>f. has_flag f UFLAG_INVITE) cfg_chlev_invite"
definition ChannelCanSet :: "ptr option \<Rightarrow> ptr option \<Rightarrow> core \<Rightarrow> bool option" where
  "ChannelCanSet = can_do (\<lambda>f. has_flag f UFLAG_SET) cfg_chlev_sadmin"
definition ChannelCanTopic :: "ptr option \<Rightarrow> ptr option \<Rightarrow> core \<Rightarrow> bool option" where
  "ChannelCanTopic = can_do (\<lambda>f. has_flag f UFLAG_TOPIC) cfg_chlev_op"
definition ChannelCanACL :: "ptr option \<Rightarrow> ptr option \<Rightarrow> core \<Rightarrow> bool option" where
  "ChannelCanACL = can_do (\<lambda>f. has_flag f UFLAG_ACL) cfg_chlev_admin"

definition read_grant :: "core \<Rightarrow> ptr \<Rightarrow> bool option" where
  "read_grant s u =
     do { sa \<leftarrow> IsSuperAdmin u s;
          if sa then Some True
          else map_option (\<lambda>x. u_authed x = 1 \<and> cfg_level_oper (cfg s) \<le> u_level x) (user_at s u) }"

definition read_entry :: "core \<Rightarrow> ptr \<Rightarrow> ptr \<Rightarrow> cflag \<Rightarrow> bool option" where
  "read_entry s u c cf =
     (if cf_suspended cf = 1 then Some False
      else if cf_uflags cf \<noteq> 0 \<and> \<not> (has_flag (cf_uflags cf) UFLAG_AUTOKICK \<or>
          has_flag (cf_uflags cf) UFLAG_AUTOKICKBAN \<or> has_flag (cf_uflags cf) UFLAG_NOOP)
      then Some True
      else IsFounder (Some u) (Some c) s)"

definition ChannelCanReadACL :: "ptr option \<Rightarrow> ptr option \<Rightarrow> core \<Rightarrow> bool option" where
  "ChannelCanReadACL uptr chptr s = chan_access (read_grant s) (read_entry s) uptr chptr s"

text \<open>The ranks that the write and override checks compare: owner, co-owner, protected, others.\<close>

definition any_rank :: "uflags \<Rightarrow> bool" where
  "any_rank f \<longleftrightarrow> has_flag f UFLAG_OWNER \<or> has_flag f UFLAG_COOWNER \<or> has_flag f UFLAG_PROTECT"

definition outranks :: "uflags \<Rightarrow> uflags \<Rightarrow> bool" where
  "outranks f1 f2 \<longleftrightarrow>
     has_flag f1 UFLAG_OWNER \<or>
     (has_flag f1 UFLAG_COOWNER \<and> \<not> has_flag f2 UFLAG_OWNER) \<or>
     (has_flag f1 UFLAG_PROTECT \<and> \<not> any_rank f2) \<or>
     (\<not> any_rank f1 \<and> \<not> any_rank f2)"

definition write_entry :: "ptr \<Rightarrow> core \<Rightarrow> ptr \<Rightarrow> ptr \<Rightarrow> cflag \<Rightarrow> bool option" where
  "write_entry t s u c cf1 =
     (if cf_suspended cf1 = 1 then Some False
      else do {
        fo \<leftarrow> IsFounder (Some u) (Some c) s;
        if fo then Some True
        else if \<not> has_flag (cf_uflags cf1) UFLAG_ACL then Some False
        else do {
          r2 \<leftarrow> find_cflag c t s;
          case r2 of None \<Rightarrow> Some True
          | Some p2 \<Rightarrow> do {
              cf2 \<leftarrow> cflag_at s p2;
              r1 \<leftarrow> find_cflag c u s;
              Some (outranks (cf_uflags cf1) (cf_uflags cf2) \<or> r1 = r2) } } })"

definition ChannelCanWriteACL :: "ptr option \<Rightarrow> ptr option \<Rightarrow> ptr option \<Rightarrow> core \<Rightarrow> bool option" where
  "ChannelCanWriteACL source target chptr s =
     (case target of None \<Rightarrow> Some False
      | Some t \<Rightarrow> chan_access (super_grant s) (write_entry t s) source chptr s)"

definition override_grant :: "ptr \<Rightarrow> core \<Rightarrow> ptr \<Rightarrow> bool option" where
  "override_grant t s u =
     do { sa \<leftarrow> IsSuperAdmin u s;
          if sa then Some True else map_option Not (IsAuthed (Some t) s) }"

definition override_entry :: "ptr \<Rightarrow> core \<Rightarrow> ptr \<Rightarrow> ptr \<Rightarrow> cflag \<Rightarrow> bool option" where
  "override_entry t s u c cf1 =
     do { r2 \<leftarrow> find_cflag c t s;
          case r2 of None \<Rightarrow> Some True
          | Some p2 \<Rightarrow> do {
              cf2 \<leftarrow> cflag_at s p2;
              if cf_suspended cf1 = 1 then Some False
              else if cf_suspended cf2 = 1 then Some True
              else do {
                fo \<leftarrow> IsFounder (Some u) (Some c) s;
                Some (fo \<or> outranks (cf_uflags cf1) (cf_uflags cf2)) } } }"

definition ChannelCanOverride :: "ptr option \<Rightarrow> ptr option \<Rightarrow> ptr option \<Rightarrow> core \<Rightarrow> bool option" where
  "ChannelCanOverride source target chptr s =
     (case target of None \<Rightarrow> Some False
      | Some t \<Rightarrow> chan_access (override_grant t s) (override_entry t s) source chptr s)"

text \<open>
  \<open>GetFlag\<close> looks the nick up before it tests its first argument for NULL; \<open>nick\<close> is the first
  member of the structure, so that the name of a NULL account is NULL and no nick has it.
\<close>

partial_function (option) GetFlag :: "ptr option \<Rightarrow> ptr option \<Rightarrow> core \<Rightarrow> int option" where
  "GetFlag uptr chptr s =
     (case uptr of None \<Rightarrow> Some 0
      | Some u \<Rightarrow>
        Option.bind (user_at s u) (\<lambda>x.
        Option.bind (find_nick (Some (u_nick x)) s) (\<lambda>r.
        Option.bind (case r of None \<Rightarrow> Some False
                     | Some n \<Rightarrow> map_option (\<lambda>n. HasUmode n UMODE_SUPERADMIN) (nick_at s n)) (\<lambda>sa.
          if sa then Some CHLEV_OWNER
          else (case chptr of None \<Rightarrow> Some 0
          | Some c \<Rightarrow>
              Option.bind (chan_at s c) (\<lambda>ch.
              if HasCOption ch COPT_SUSPENDED then Some 0
              else Option.bind (find_cflag c u s) (\<lambda>r.
                case r of
                  None \<Rightarrow> Option.bind (get_link_master u s) (\<lambda>m.
                    case m of None \<Rightarrow> Some 0 | Some _ \<Rightarrow> GetFlag m chptr s)
                | Some p \<Rightarrow> Option.bind (cflag_at s p) (\<lambda>cf.
                    Some (if cf_suspended cf = 1 then 0 else cf_flags cf)))))))))"

definition IsCoOwner :: "ptr option \<Rightarrow> ptr option \<Rightarrow> core \<Rightarrow> bool option" where
  "IsCoOwner uptr chptr s = map_option (\<lambda>f. f = CHLEV_COOWNER) (GetFlag uptr chptr s)"

definition get_coowner :: "ptr \<Rightarrow> core \<Rightarrow> ptr option option" where
  "get_coowner chptr s =
     do { c \<leftarrow> chan_at s chptr;
          r \<leftarrow> scan (cflag_at s)
                (\<lambda>cf. has_flag (cf_uflags cf) UFLAG_COOWNER \<or> cf_flags cf = CHLEV_COOWNER) (c_cflags c);
          case r of None \<Rightarrow> Some None | Some p \<Rightarrow> map_option (Some \<circ> cf_user) (cflag_at s p) }"

text \<open>Which flags an entry lets its account change: 2 for anyone, 1 for itself, 0 for nobody.\<close>

definition modify_rank :: "uflags \<Rightarrow> uflags \<Rightarrow> int" where
  "modify_rank own uflag =
     (if has_flag uflag UFLAG_OWNER then 0
      else if has_flag uflag (UFLAG_COOWNER OR UFLAG_AUTOOWNER) then
        (if has_flag own UFLAG_OWNER then 2 else if has_flag own UFLAG_COOWNER then 1 else 0)
      else if has_flag uflag UFLAG_PROTECT then
        (if has_flag own (UFLAG_OWNER OR UFLAG_COOWNER) then 2 else 0)
      else if has_flag uflag UFLAG_AUTOPROTECT then
        (if has_flag own (UFLAG_OWNER OR UFLAG_COOWNER) then 2
         else if has_flag own UFLAG_PROTECT then 1 else 0)
      else if has_flag uflag UFLAG_ACL then
        (if has_flag own (UFLAG_OWNER OR UFLAG_COOWNER OR UFLAG_PROTECT) then 2 else 0)
      else if has_flag uflag UFLAG_SET then
        (if has_flag own (UFLAG_OWNER OR UFLAG_COOWNER OR UFLAG_PROTECT) then 2 else 0)
      else 2)"

definition can_modify_uflag :: "ptr \<Rightarrow> ptr \<Rightarrow> uflags \<Rightarrow> core \<Rightarrow> int option" where
  "can_modify_uflag uptr chptr uflag s =
     do { sa \<leftarrow> IsSuperAdmin uptr s;
          if sa then Some 2
          else do {
            r \<leftarrow> find_cflag chptr uptr s;
            case r of None \<Rightarrow> Some 0
            | Some p \<Rightarrow> map_option (\<lambda>cf. modify_rank (cf_uflags cf) uflag) (cflag_at s p) } }"

subsection \<open>Flag strings\<close>

definition uflag_of_char :: "char \<Rightarrow> uflags" where
  "uflag_of_char c =
     (if c = CHR ''o'' then UFLAG_OP else if c = CHR ''v'' then UFLAG_VOICE
      else if c = CHR ''O'' then UFLAG_AUTOOP else if c = CHR ''V'' then UFLAG_AUTOVOICE
      else if c = CHR ''x'' then UFLAG_ACL else if c = CHR ''i'' then UFLAG_INVITE
      else if c = CHR ''t'' then UFLAG_TOPIC else if c = CHR ''F'' then UFLAG_OWNER
      else if c = CHR ''f'' then UFLAG_COOWNER else if c = CHR ''h'' then UFLAG_HALFOP
      else if c = CHR ''s'' then UFLAG_SET else if c = CHR ''H'' then UFLAG_AUTOHALFOP
      else if c = CHR ''p'' then UFLAG_PROTECT else if c = CHR ''P'' then UFLAG_AUTOPROTECT
      else if c = CHR ''N'' then UFLAG_NOOP else if c = CHR ''k'' then UFLAG_AUTOKICK
      else if c = CHR ''b'' then UFLAG_AUTOKICKBAN else if c = CHR ''w'' then UFLAG_AUTOOWNER
      else 0)"

definition parse_uflags :: "string \<Rightarrow> uflags" where
  "parse_uflags flags = foldl (\<lambda>w c. w OR uflag_of_char c) 0 flags"

definition get_uflags_string :: "uflags \<Rightarrow> string" where
  "get_uflags_string w =
     ''+'' @ concat (map (\<lambda>c. if has_flag w (uflag_of_char c) then [c] else []) ''oOvVxitFfhsHpPNkbw'')"

end
