(* ===== verification/Sessions.thy ===== *)
theory Sessions
  imports Access
begin

section \<open>Quitting, dropping, synchronising, expiring; servers, trusts and bots\<close>

text \<open>
  The operations of \<open>user.c\<close> and \<open>channel.c\<close> that work on accounts and channels together, and
  \<open>server.c\<close>, \<open>trust.c\<close>, \<open>botserv.c\<close>, \<open>cleanup_reconnect\<close> of \<open>mem.c\<close> and the connection of
  \<open>net.c\<close>. A loop with \<open>LLIST_FOREACH_ENTRY\<close> reads the next pointer of an element after its
  body: if the body freed the element the loop reads freed memory, which is \<open>None\<close>.
\<close>

subsection \<open>A nick leaves, an account is dropped\<close>

definition userquit :: "string \<Rightarrow> core \<Rightarrow> core option" where
  "userquit nick s =
     do { r \<leftarrow> find_nick (Some nick) s;
          case r of None \<Rightarrow> Some s
          | Some nptr \<Rightarrow>
              do { n \<leftarrow> nick_at s nptr;
                   s \<leftarrow> (case n_account n of None \<Rightarrow> Some s | Some u \<Rightarrow> user_logout nptr (Some u) s);
                   s \<leftarrow> DeleteUserFromWchans nptr (DeleteGuest (n_name n) s);
                   DeleteWildNick nptr s } }"

text \<open>The macro \<open>killuser\<close>.\<close>

definition killuser :: "string \<Rightarrow> string \<Rightarrow> string \<Rightarrow> core \<Rightarrow> core option" where
  "killuser x y z s = userquit x (send_kill x y z s)"

definition drop_owned :: "string \<Rightarrow> ptr \<Rightarrow> core \<Rightarrow> core option" where
  "drop_owned nick chptr s =
     do { c \<leftarrow> chan_at s chptr;
          if streq (Some (c_owner c)) (Some nick) then
            do { r \<leftarrow> get_coowner chptr s;
                 case r of None \<Rightarrow> chandrop chptr s
                 | Some uptr2 \<Rightarrow>
                     do { s \<leftarrow> DeleteUserFromChannel uptr2 chptr s;
                          (_, s) \<leftarrow> AddUserToChannel uptr2 chptr CHLEV_OWNER UFLAG_CHANOWNER s;
                          u2 \<leftarrow> user_at s uptr2;
                          upd_chan chptr (\<lambda>c. c\<lparr>c_owner := strncpy (u_nick u2) NICKLEN\<rparr>) s } }
          else Some s }"

definition userdrop :: "ptr \<Rightarrow> core \<Rightarrow> core option" where
  "userdrop uptr s =
     do { u \<leftarrow> user_at s uptr;
          s \<leftarrow> foldM (drop_owned (u_nick u)) (map snd (chans s)) s;
          s \<leftarrow> DeleteLinks (u_nick u) s;
          s \<leftarrow> DeleteUserFromChannels uptr s;
          DeleteAccount uptr s }"

subsection \<open>Giving members the status of their access entry\<close>

definition set_if :: "bool \<Rightarrow> (core \<Rightarrow> core option) \<Rightarrow> core \<Rightarrow> core option" where
  "set_if b f s = (if b then f s else Some s)"

definition sync_flags :: "ptr \<Rightarrow> ptr \<Rightarrow> string \<Rightarrow> string \<Rightarrow> uflags \<Rightarrow> core \<Rightarrow> core option" where
  "sync_flags nptr memb chname bnick f s =
     do { s \<leftarrow> set_if (has_flag f UFLAG_AUTOOWNER) (SetStatus (Some nptr) chname CHFL_OWNER True bnick) s;
          s \<leftarrow> set_if (has_flag f UFLAG_AUTOPROTECT) (SetStatus (Some nptr) chname CHFL_PROTECT True bnick) s;
          s \<leftarrow> set_if (has_flag f UFLAG_AUTOOP) (SetStatus (Some nptr) chname CHFL_OP True bnick) s;
          s \<leftarrow> set_if (has_flag f UFLAG_AUTOHALFOP) (SetStatus (Some nptr) chname CHFL_HALFOP True bnick) s;
          s \<leftarrow> set_if (has_flag f UFLAG_AUTOVOICE) (SetStatus (Some nptr) chname CHFL_VOICE True bnick) s;
          s \<leftarrow> set_if (has_flag f UFLAG_NOOP)
                 (\<lambda>s. do { m \<leftarrow> member_at s memb; SetStatus (Some nptr) chname (m_flags m) False bnick s }) s;
          n \<leftarrow> nick_at s nptr;
          s \<leftarrow> set_if (has_flag f UFLAG_AUTOKICK)
                 (KickUser bnick (n_name n) chname ''Get out of this chan !'') s;
          set_if (has_flag f UFLAG_AUTOKICKBAN)
            (\<lambda>s. KickUser bnick (n_name n) chname ''Get out of this chan !''
               (send_raw ('':'' @ bnick @ '' MODE '' @ n_name n @ '' +b *!*@'' @ n_hiddenhost n) s)) s }"

definition sync_level :: "ptr \<Rightarrow> member \<Rightarrow> string \<Rightarrow> string \<Rightarrow> cflag \<Rightarrow> core \<Rightarrow> core option" where
  "sync_level nptr m chname bnick cf s =
     (let c = cfg s; lev = cf_flags cf;
          on = (cf_automode cf = CFLAG_AUTO_OP \<or> cf_automode cf = CFLAG_AUTO_ON);
          voice = (cf_automode cf = CFLAG_AUTO_VOICE \<and> \<not> HasChanFlag m CHFL_VOICE);
          give = (\<lambda>f. SetStatus (Some nptr) chname f True bnick) in
      if lev = CHLEV_OWNER \<or> lev = CHLEV_COOWNER then
        (if on \<and> (\<not> HasChanFlag m CHFL_OWNER \<or> \<not> HasChanFlag m CHFL_OP)
         then give (CHFL_OWNER OR CHFL_OP) s else set_if voice (give CHFL_VOICE) s)
      else if cfg_chlev_admin c \<le> lev then
        (if on \<and> (\<not> HasChanFlag m CHFL_PROTECT \<or> \<not> HasChanFlag m CHFL_OP)
         then give (CHFL_PROTECT OR CHFL_OP) s else set_if voice (give CHFL_VOICE) s)
      else if cfg_chlev_op c \<le> lev \<and> lev < cfg_chlev_admin c then
        (if on \<and> \<not> HasChanFlag m CHFL_OP
         then give CHFL_OP s else set_if voice (give CHFL_VOICE) s)
      else if cfg_chlev_halfop c \<le> lev \<and> lev < cfg_chlev_op c then
        (if on \<and> \<not> HasChanFlag m CHFL_HALFOP
         then give CHFL_HALFOP s else set_if voice (give CHFL_VOICE) s)
      else if cfg_chlev_voice c \<le> lev \<and> lev < cfg_chlev_halfop c \<and> \<not> HasChanFlag m CHFL_VOICE
      then give CHFL_VOICE s
      else do {
        n \<leftarrow> nick_at s nptr;
        if lev = cfg_chlev_akick c then KickUser bnick (n_name n) chname ''Get out of this chan !'' s
        else if lev = cfg_chlev_akb c then
          KickUser bnick (n_name n) chname ''Get out of this chan !''
            (send_raw ('':'' @ bnick @ '' MODE '' @ n_name n @ '' +b *!*@'' @ n_hiddenhost n) s)
        else if lev = cfg_chlev_nostatus c then SetStatus (Some nptr) chname (m_flags m) False bnick s
        else Some s })"

definition sync_cflag :: "ptr \<Rightarrow> core \<Rightarrow> core option" where
  "sync_cflag p s =
     do { cf \<leftarrow> cflag_at s p;
          c \<leftarrow> chan_at s (cf_chan cf);
          u \<leftarrow> user_at s (cf_user cf);
          r \<leftarrow> find_nick (Some (u_nick u)) s;
          case (r, find_wchan (Some (c_name c)) s) of
            (Some nptr, Some wchan) \<Rightarrow>
              do { mr \<leftarrow> find_member wchan nptr s;
                   case mr of None \<Rightarrow> Some s
                   | Some memb \<Rightarrow>
                       if HasCOption c COPT_NOAUTO then Some s
                       else if (\<not> HasCOption c COPT_AXXFLAGS \<and> cf_automode cf = CFLAG_AUTO_OFF) \<or>
                         cf_suspended cf = 1 then Some s
                       else do {
                         bnick \<leftarrow> channel_botname (cf_chan cf) s;
                         m \<leftarrow> member_at s memb;
                         if HasCOption c COPT_AXXFLAGS
                         then sync_flags nptr memb (c_name c) bnick (cf_uflags cf) s
                         else sync_level nptr m (c_name c) bnick cf s } }
          | _ \<Rightarrow> Some s }"

definition sync_user :: "ptr \<Rightarrow> core \<Rightarrow> core option" where
  "sync_user uptr s = do { u \<leftarrow> user_at s uptr; foldM sync_cflag (u_cflags u) s }"

definition resync_member :: "ptr \<Rightarrow> ptr \<Rightarrow> core \<Rightarrow> core option" where
  "resync_member chptr memb s =
     do { m \<leftarrow> member_at s memb;
          a \<leftarrow> find_account (m_nick m) s;
          s \<leftarrow> (case a of None \<Rightarrow> Some s
               | Some uptr \<Rightarrow>
                   do { r \<leftarrow> find_cflag chptr uptr s;
                        u \<leftarrow> user_at s uptr;
                        c \<leftarrow> chan_at s chptr;
                        susp \<leftarrow> (case r of None \<Rightarrow> Some True
                                 | Some p \<Rightarrow> map_option (\<lambda>cf. cf_suspended cf = 1) (cflag_at s p));
                        case (r, u_authed u = 0 \<or> susp) of
                          (Some p, False) \<Rightarrow> sync_cflag p s
                        | _ \<Rightarrow> do { bnick \<leftarrow> channel_botname chptr s;
                                    SetStatus (Some (m_nick m)) (c_name c) (m_flags m) False bnick s } });
          if member_at s memb = None then None else Some s }"

definition acl_resync :: "ptr \<Rightarrow> core \<Rightarrow> core option" where
  "acl_resync chptr s =
     do { c \<leftarrow> chan_at s chptr;
          if HasCOption c COPT_NOAUTO then Some s
          else (case find_wchan (Some (c_name c)) s of None \<Rightarrow> Some s
            | Some w \<Rightarrow> do { x \<leftarrow> wchan_at s w; foldM (resync_member chptr) (w_members x) s }) }"

subsection \<open>Expiry\<close>

definition member_on_acl :: "ptr \<Rightarrow> chan \<Rightarrow> ptr \<Rightarrow> core \<Rightarrow> bool option" where
  "member_on_acl chptr c memb s =
     do { m \<leftarrow> member_at s memb;
          a \<leftarrow> find_account (m_nick m) s;
          ia \<leftarrow> IsAuthed a s;
          case a of None \<Rightarrow> Some False
          | Some uptr \<Rightarrow>
              if \<not> ia then Some False
              else if HasCOption c COPT_AXXFLAGS then
                do { r \<leftarrow> find_cflag chptr uptr s;
                     case r of None \<Rightarrow> Some False
                     | Some p \<Rightarrow> map_option (\<lambda>cf. \<not> has_flag (cf_uflags cf)
                         (UFLAG_NOOP OR UFLAG_AUTOKICK OR UFLAG_AUTOKICKBAN)) (cflag_at s p) }
              else map_option (\<lambda>f. 0 < f) (GetFlag (Some uptr) (Some chptr) s) }"

fun anyM :: "('a \<Rightarrow> bool option) \<Rightarrow> 'a list \<Rightarrow> bool option" where
  "anyM f [] = Some False"
| "anyM f (x # xs) = (case f x of None \<Rightarrow> None | Some b \<Rightarrow> if b then Some True else anyM f xs)"

definition IsAclOnChan :: "ptr \<Rightarrow> core \<Rightarrow> bool option" where
  "IsAclOnChan chptr s =
     do { c \<leftarrow> chan_at s chptr;
          case find_wchan (Some (c_name c)) s of None \<Rightarrow> Some False
          | Some w \<Rightarrow> do { x \<leftarrow> wchan_at s w;
                          anyM (\<lambda>m. member_on_acl chptr c m s) (w_members x) } }"

definition expire_user :: "ptr \<Rightarrow> core \<Rightarrow> core option" where
  "expire_user p s =
     do { u \<leftarrow> user_at s p;
          if 60 * 60 * 24 * cfg_nick_expire (cfg s) \<le> clock s - u_lastseen u \<and> u_authed u \<noteq> 1 \<and>
             u_level u < cfg_level_oper (cfg s) \<and> \<not> HasUOption u UOPT_NOEXPIRE
          then userdrop p s else Some s }"

definition expire_chan :: "ptr \<Rightarrow> core \<Rightarrow> core option" where
  "expire_chan p s =
     do { c \<leftarrow> chan_at s p;
          if 60 * 60 * 24 * cfg_chan_expire (cfg s) \<le> clock s - c_lastseen c \<and>
             \<not> HasCOption c COPT_NOEXPIRE
          then do { a \<leftarrow> IsAclOnChan p s; if a then Some s else chandrop p s }
          else Some s }"

definition checkexpired :: "core \<Rightarrow> core option" where
  "checkexpired s =
     do { s \<leftarrow> foldM expire_user (map snd (users s)) s;
          foldM expire_chan (map snd (chans s)) s }"

subsection \<open>Servers\<close>

definition add_server :: "string \<Rightarrow> string \<Rightarrow> ptr option \<Rightarrow> core \<Rightarrow> (ptr \<times> core) option" where
  "add_server name sid hub s =
     (let p = next_ptr s;
          v = \<lparr>sv_name = strncpy name SERVERNAMELEN, sv_sid = strncpy sid SIDLEN, sv_nicks = [],
               sv_leafs = []\<rparr>;
          s1 = (fresh s)\<lparr>server_at := (server_at s)(p \<mapsto> v), servers := servers s @ [p]\<rparr> in
      case hub of None \<Rightarrow> Some (p, s1)
      | Some h \<Rightarrow> do { s2 \<leftarrow> upd_server h (\<lambda>x. x\<lparr>sv_leafs := sv_leafs x @ [p]\<rparr>) s1; Some (p, s2) })"

definition delete_server :: "ptr \<Rightarrow> core \<Rightarrow> core option" where
  "delete_server p s =
     (if server_at s p = None then None
      else Some (s\<lparr>servers := remove1 p (servers s),
                   server_at := (\<lambda>v. map_option (\<lambda>x. x\<lparr>sv_leafs := remove1 p (sv_leafs x)\<rparr>)
                     (((server_at s)(p := None)) v))\<rparr>))"

partial_function (option) detach_server_recursive :: "ptr \<Rightarrow> core \<Rightarrow> core option" where
  "detach_server_recursive p s =
     Option.bind (server_at s p) (\<lambda>v.
     Option.bind (foldM (\<lambda>n s. Option.bind (nick_at s n) (\<lambda>x. userquit (n_name x) s)) (sv_nicks v) s) (\<lambda>s.
     Option.bind (server_at s p) (\<lambda>v.
     Option.bind (foldM (\<lambda>l s. detach_server_recursive l s) (sv_leafs v) s) (\<lambda>s.
     delete_server p s))))"

subsection \<open>Trusts\<close>

definition trust_matches :: "lib \<Rightarrow> string \<Rightarrow> trust \<Rightarrow> bool option" where
  "trust_matches L host t =
     (if streq (Some (t_host t)) (Some host) then Some True
      else if CHR '':'' \<in> set host then Some False
      else (case strchr (t_host t) (CHR ''/'') of None \<Rightarrow> Some False
        | Some rest \<Rightarrow>
            (let bits = atoi (tl rest); msk = takeWhile (\<lambda>c. c \<noteq> CHR ''/'') (t_host t) in
             if 1 \<le> bits \<and> bits \<le> 32
             then Some (match_ipmask (inet_addr L host) (inet_addr L msk) (nat bits)) else None)))"

fun find_trust_in :: "lib \<Rightarrow> string \<Rightarrow> (ptr \<Rightarrow> trust option) \<Rightarrow> ptr list \<Rightarrow> ptr option option" where
  "find_trust_in L host h [] = Some None"
| "find_trust_in L host h (p # ps) =
     Option.bind (h p) (\<lambda>t. Option.bind (trust_matches L host t) (\<lambda>b.
       if b then Some (Some p) else find_trust_in L host h ps))"

definition find_trust :: "lib \<Rightarrow> string \<Rightarrow> core \<Rightarrow> ptr option option" where
  "find_trust L host s = find_trust_in L host (trust_at s) (map snd (trusts s))"

definition AddTrust :: "string \<Rightarrow> int \<Rightarrow> core \<Rightarrow> ptr option \<times> core" where
  "AddTrust host lim s =
     (let t = \<lparr>t_host = strncpy host HOSTLEN, t_limit = lim\<rparr>; p = next_ptr s in
      if tfind (trusts s) (t_host t) \<noteq> None then (None, s)
      else (Some p, (fresh s)\<lparr>trusts := tinsert (t_host t) p (trusts s),
                              trust_at := (trust_at s)(p \<mapsto> t)\<rparr>))"

definition DeleteTrust :: "ptr \<Rightarrow> core \<Rightarrow> core option" where
  "DeleteTrust p s =
     do { t \<leftarrow> trust_at s p;
          Some (s\<lparr>trusts := terase (t_host t) (trusts s), trust_at := (trust_at s)(p := None)\<rparr>) }"

subsection \<open>Bots\<close>

definition BOTSERV_UMODES :: string where "BOTSERV_UMODES = ''oSq''"
definition MY_UMODES :: string where "MY_UMODES = ''oSq''"

definition add_bot :: "string \<Rightarrow> string \<Rightarrow> string \<Rightarrow> core \<Rightarrow> ptr option \<times> core" where
  "add_bot nick ident host s =
     (let b = \<lparr>b_nick = strncpy nick NICKLEN, b_ident = strncpy ident NICKLEN,
               b_host = strncpy host HOSTLEN, b_uid = []\<rparr>; p = next_ptr s in
      if tfind (bots s) (b_nick b) \<noteq> None then (None, s)
      else (Some p, (fresh s)\<lparr>bots := tinsert (b_nick b) p (bots s), bot_at := (bot_at s)(p \<mapsto> b)\<rparr>))"

definition remove_bot :: "ptr \<Rightarrow> core \<Rightarrow> core option" where
  "remove_bot p s =
     do { b \<leftarrow> bot_at s p;
          Some (s\<lparr>bots := terase (b_nick b) (bots s), bot_at := (bot_at s)(p := None)\<rparr>) }"

definition killallfakes :: "core \<Rightarrow> core option" where
  "killallfakes s =
     foldM (\<lambda>p s. do { b \<leftarrow> bot_at s p; fakekill (b_nick b) ''Exiting'' s }) (map snd (bots s)) s"

definition load_fake :: "ptr \<Rightarrow> core \<Rightarrow> core option" where
  "load_fake p s =
     do { (uid, s) \<leftarrow> generate_uid s;
          s \<leftarrow> upd_bot p (\<lambda>b. b\<lparr>b_uid := uid\<rparr>) s;
          b \<leftarrow> bot_at s p;
          s \<leftarrow> fakeuser (b_nick b) (b_ident b) (b_host b) (b_uid b) BOTSERV_UMODES s;
          Some (send_raw (''SQLINE '' @ b_nick b @ '' :Reserved for services'') s) }"

definition loadallfakes :: "core \<Rightarrow> core option" where
  "loadallfakes s = foldM load_fake (map snd (bots s)) s"

subsection \<open>Connecting to and leaving the network\<close>

definition send_handshake :: "core \<Rightarrow> core option" where
  "send_handshake s =
     do { let c = cfg s;
          let s = send_raw (''PASS :'' @ cfg_linkpass c) s;
          let s = send_raw (''PROTOCTL EAUTH='' @ cfg_name c @ '' SID='' @ cfg_sid c) s;
          let s = send_raw ''PROTOCTL NOQUIT NICKv2 SJOIN SJ3 CLK TKLEXT TKLEXT2 NICKIP ESVID MLOCK EXTSWHOIS'' s;
          let s = send_raw (''SERVER '' @ cfg_name c @ '' 1 :Child IRC Services'') s;
          let s = send_raw (''SQLINE '' @ cfg_nick c @ '' :Reserved for services'') s;
          (uid, s) \<leftarrow> generate_uid s;
          s \<leftarrow> fakeuser (cfg_nick c) (cfg_ident c) (cfg_host c) uid MY_UMODES (s\<lparr>my_uid := uid\<rparr>);
          Some (send_raw ''EOS'' s) }"

text \<open>\<open>net_connect\<close> once the socket is there; \<open>ret\<close> is the result of \<open>net_connect_fd\<close>.\<close>

definition net_connect :: "int \<Rightarrow> core \<Rightarrow> (int \<times> core) option" where
  "net_connect ret s =
     (if ret < 0 then Some (ret, s)
      else do { s \<leftarrow> send_handshake s; Some (0, s\<lparr>connected := True\<rparr>) })"

definition cleanup_reconnect :: "core \<Rightarrow> core option" where
  "cleanup_reconnect s =
     do { r \<leftarrow> find_server (Some (remote_server s)) s;
          s \<leftarrow> (case r of None \<Rightarrow> Some s | Some p \<Rightarrow> detach_server_recursive p s);
          s \<leftarrow> clear_wchans s;
          s \<leftarrow> clear_limits s;
          s \<leftarrow> clear_guests s;
          s \<leftarrow> clear_nicks s;
          clear_fakes s }"

text \<open>\<open>sent\<close> is what \<open>send\<close> took of the queue when the connection is closed gracefully.\<close>

definition net_disconnect :: "bool \<Rightarrow> nat \<Rightarrow> core \<Rightarrow> core option" where
  "net_disconnect graceful sent s =
     do { let s = (if graceful then flush_sendq sent (send_raw ''SQUIT'' s) else s);
          s \<leftarrow> cleanup_reconnect (s\<lparr>eos := False, connected := False\<rparr>);
          Some (net_init s) }"

end
