(* ===== verification/AccountsInv.thy ===== *)
theory AccountsInv
  imports Accounts
begin

section \<open>Invariants of nicks, clones and accounts\<close>

subsection \<open>Allocation\<close>

text \<open>No object lies at an address that malloc has yet to return.\<close>

definition heap_ok :: "core \<Rightarrow> bool" where
  "heap_ok s \<longleftrightarrow> (\<forall>p \<ge> next_ptr s.
     user_at s p = None \<and> nick_at s p = None \<and> clone_at s p = None \<and> trust_at s p = None \<and>
     link_at s p = None \<and> guest_at s p = None \<and> chan_at s p = None \<and> wchan_at s p = None \<and>
     bot_at s p = None \<and> fake_at s p = None \<and> member_at s p = None \<and> cflag_at s p = None \<and>
     limit_at s p = None \<and> timeban_at s p = None \<and> server_at s p = None)"

subsection \<open>The clone table counts the connected nicks of each host\<close>

definition nicks_ok :: "core \<Rightarrow> bool" where
  "nicks_ok s \<longleftrightarrow> table_ok n_name (nicks s) (nick_at s) \<and>
     (\<forall>p. nick_at s p \<noteq> None \<longrightarrow> p \<in> snd ` set (nicks s))"

definition on_host :: "core \<Rightarrow> string \<Rightarrow> ptr \<Rightarrow> bool" where
  "on_host s h p \<longleftrightarrow> (case nick_at s p of None \<Rightarrow> False | Some n \<Rightarrow> lc (n_reshost n) = lc h)"

definition host_count :: "core \<Rightarrow> string \<Rightarrow> nat" where
  "host_count s h = length (filter (on_host s h) (map snd (nicks s)))"

definition clones_ok :: "core \<Rightarrow> bool" where
  "clones_ok s \<longleftrightarrow> table_ok cl_host (clones s) (clone_at s) \<and>
     (\<forall>h. howmanyclones h s = Some (int (host_count s h))) \<and>
     (\<forall>h. tfind (clones s) h \<noteq> None \<longrightarrow> 0 < host_count s h)"

lemma howmanyclones_Some:
  "tfind (clones s) h = Some c \<Longrightarrow> howmanyclones h s = map_option cl_count (clone_at s c)"
  by (simp add: howmanyclones_def find_clone_def)

lemma howmanyclones_None: "tfind (clones s) h = None \<Longrightarrow> howmanyclones h s = Some 0"
  by (simp add: howmanyclones_def find_clone_def)

lemma howmanyclones_frame:
  "clones t = clones s \<Longrightarrow> clone_at t = clone_at s \<Longrightarrow> howmanyclones h t = howmanyclones h s"
  by (simp only: howmanyclones_def find_clone_def)

lemma howmanyclones_cong: "lc h = lc h' \<Longrightarrow> howmanyclones h s = howmanyclones h' s"
  by (simp add: howmanyclones_def find_clone_def nocase.find_cong_canon [of h h'])

lemma host_count_cong: "lc h = lc h' \<Longrightarrow> host_count s h = host_count s h'"
proof -
  assume "lc h = lc h'"
  then have "on_host s h = on_host s h'" by (auto simp: on_host_def fun_eq_iff split: option.splits)
  then show ?thesis by (simp add: host_count_def)
qed

text \<open>Adding one to, or taking one from, the clones of a host.\<close>

lemma add_clone_counts:
  assumes t: "table_ok cl_host (clones s) (clone_at s)" and f: "clone_at s (next_ptr s) = None"
    and len: "length host \<le> HOSTLEN" and c: "howmanyclones host s \<noteq> None"
  shows "\<exists>s'. add_clone host s = Some s' \<and> table_ok cl_host (clones s') (clone_at s') \<and>
    (\<forall>h. howmanyclones h s' = (if lc h = lc host then map_option (\<lambda>i. i + 1) (howmanyclones h s)
                             else howmanyclones h s)) \<and>
    (\<forall>h. tfind (clones s') h \<noteq> None \<longleftrightarrow> tfind (clones s) h \<noteq> None \<or> lc h = lc host) \<and>
    nicks s' = nicks s \<and> nick_at s' = nick_at s"
proof (cases "tfind (clones s) host")
  case None
  let ?c = "\<lparr>cl_host = host, cl_count = 1\<rparr>" and ?p = "next_ptr s"
  let ?s = "(fresh s)\<lparr>clones := tinsert host ?p (clones s), clone_at := (clone_at s)(?p \<mapsto> ?c)\<rparr>"
  have r: "add_clone host s = Some ?s"
    using None len by (simp add: add_clone_def find_clone_def strncpy_def Let_def)
  have ok: "table_ok cl_host (clones ?s) (clone_at ?s)"
    using table_ok_insert(1) [OF t f, of ?c] None by simp
  have find: "tfind (clones ?s) h = (if lc h = lc host then Some ?p else tfind (clones s) h)" for h
    using None nocase.find_cong_canon [of h host] by (simp add: nocase.find_insert)
  have other: "clone_at ?s q = clone_at s q" if "tfind (clones s) h = Some q" for h q
    using table_ok_find [OF t that] f by auto
  have "howmanyclones h ?s = (if lc h = lc host then map_option (\<lambda>i. i + 1) (howmanyclones h s)
                             else howmanyclones h s)" for h
  proof (cases "lc h = lc host")
    case True
    then have "tfind (clones s) h = None" using None nocase.find_cong_canon by metis
    with True find show ?thesis by (simp add: howmanyclones_Some howmanyclones_None)
  next
    case False
    with find other show ?thesis by (cases "tfind (clones s) h")
      (simp_all add: howmanyclones_Some howmanyclones_None)
  qed
  then show ?thesis using r ok find by (intro exI [of _ ?s]) (auto simp: fresh_def)
next
  case (Some c)
  obtain x where x: "clone_at s c = Some x" "lc (cl_host x) = lc host" "c \<in> snd ` set (clones s)"
    using table_ok_find [OF t Some] by auto
  let ?x = "x\<lparr>cl_count := cl_count x + 1\<rparr>"
  let ?s = "s\<lparr>clone_at := (clone_at s)(c \<mapsto> ?x)\<rparr>"
  have r: "add_clone host s = Some ?s"
    using Some x by (simp add: add_clone_def find_clone_def upd_defs)
  have ok: "table_ok cl_host (clones ?s) (clone_at ?s)"
    using table_ok_upd [OF t x(1), of ?x] by simp
  have "howmanyclones h ?s = (if lc h = lc host then map_option (\<lambda>i. i + 1) (howmanyclones h s)
                             else howmanyclones h s)" for h
  proof (cases "lc h = lc host")
    case True
    then have "tfind (clones s) h = Some c" using Some nocase.find_cong_canon by metis
    with True x show ?thesis by (simp add: howmanyclones_Some)
  next
    case False
    have "tfind (clones s) h \<noteq> Some c"
      using table_ok_find_key [OF t x(3,1)] x(2) False by simp
    with False show ?thesis by (cases "tfind (clones s) h")
      (simp_all add: howmanyclones_Some howmanyclones_None)
  qed
  moreover have "tfind (clones s) h \<noteq> None" if "lc h = lc host" for h
    using Some nocase.find_cong_canon [OF that, of "clones s"] by simp
  ultimately show ?thesis using r ok by (intro exI [of _ ?s]) auto
qed

lemma drop_clone_counts:
  assumes t: "table_ok cl_host (clones s) (clone_at s)"
    and pos: "tfind (clones s) host \<noteq> None" and c: "howmanyclones host s = Some k"
  shows "\<exists>s'. drop_clone host s = Some s' \<and> table_ok cl_host (clones s') (clone_at s') \<and>
    (\<forall>h. howmanyclones h s' = (if lc h = lc host then Some (k - 1) else howmanyclones h s)) \<and>
    (\<forall>h. tfind (clones s') h \<noteq> None \<longleftrightarrow> tfind (clones s) h \<noteq> None \<and> (lc h = lc host \<longrightarrow> k \<noteq> 1)) \<and>
    nicks s' = nicks s \<and> nick_at s' = nick_at s \<and> server_at s' = server_at s"
proof -
  obtain c where find: "tfind (clones s) host = Some c" using pos by auto
  obtain x where x: "clone_at s c = Some x" "lc (cl_host x) = lc host" "c \<in> snd ` set (clones s)"
    using table_ok_find [OF t find] by auto
  have k: "cl_count x = k" using c find x(1) by (simp add: howmanyclones_Some)
  let ?x = "x\<lparr>cl_count := k - 1\<rparr>"
  let ?h = "(clone_at s)(c \<mapsto> ?x)"
  let ?t = "if k = 1 then terase (cl_host x) (clones s) else clones s"
  let ?s = "s\<lparr>clones := ?t, clone_at := (if k = 1 then ?h(c := None) else ?h)\<rparr>"
  have r: "drop_clone host s = Some ?s"
    using find x(1) k by (simp add: drop_clone_def find_clone_def upd_defs)
  have th: "table_ok cl_host (clones s) ?h" using table_ok_upd [OF t x(1), of ?x] by simp
  have fx: "tfind (clones s) (cl_host x) = Some c"
    using find nocase.find_cong_canon [OF x(2)] by metis
  have ok: "table_ok cl_host (clones ?s) (clone_at ?s)"
    using th table_ok_erase [OF th fx, of None] by simp
  have tok: "tok (clones s)" using t by (simp add: table_ok_def)
  have f: "tfind ?t h = (if k = 1 \<and> lc h = lc host then None else tfind (clones s) h)" for h
    using nocase.find_erase [OF tok] x(2) by simp
  have "howmanyclones h ?s = (if lc h = lc host then Some (k - 1) else howmanyclones h s)" for h
  proof (cases "lc h = lc host")
    case True
    then have "tfind (clones s) h = Some c" using find nocase.find_cong_canon by metis
    with True f show ?thesis
      by (cases "k = 1") (simp_all add: howmanyclones_Some howmanyclones_None)
  next
    case False
    have "tfind (clones s) h \<noteq> Some c"
      using table_ok_find_key [OF t x(3,1)] x(2) False by simp
    with False f show ?thesis by (cases "tfind (clones s) h")
      (simp_all add: howmanyclones_Some howmanyclones_None)
  qed
  then show ?thesis using r ok f by (intro exI [of _ ?s]) auto
qed


subsection \<open>Connecting and disconnecting a nick\<close>

definition nick_key_free :: "string \<Rightarrow> core \<Rightarrow> bool" where
  "nick_key_free name s \<longleftrightarrow> tfind (nicks s) (strncpy name NICKLEN) = None"

lemma new_nick_counts_at:
  assumes n: "nicks_ok s" and c: "clones_ok s" and len: "length host \<le> HOSTLEN"
    and np: "nick_at s (next_ptr s) = None" "clone_at s (Suc (next_ptr s)) = None"
  shows "\<exists>r s'. new_nick nick ident h uid hidden umodes host s = Some (r, s') \<and>
    nicks_ok s' \<and> clones_ok s' \<and> (r = None \<longleftrightarrow> \<not> nick_key_free nick s) \<and>
    (\<forall>p. r = Some p \<longrightarrow> (\<exists>x. nick_at s' p = Some x \<and> n_name x = strncpy nick NICKLEN \<and>
      n_account x = None \<and> n_wchans x = []))"
proof (cases "tfind (nicks s) (strncpy nick NICKLEN)")
  case (Some q)
  with n c show ?thesis by (simp add: new_nick_def nick_key_free_def)
next
  case None
  let ?n = "\<lparr>n_name = strncpy nick NICKLEN, n_ident = strncpy ident NICKLEN,
    n_host = strncpy h HOSTLEN, n_uid = strncpy uid UIDLEN, n_svid = [],
    n_hiddenhost = strncpy hidden HOSTLEN, n_reshost = strncpy host HOSTLEN,
    n_umodes = umodes, n_msgtime = 0, n_msgnb = 0, n_ignored = False,
    n_ignoretime = 0, n_loginattempts = 0, n_lasttry = 0, n_account = None, n_wchans = []\<rparr>"
  let ?p = "next_ptr s"
  let ?s1 = "(fresh s)\<lparr>nicks := tinsert (n_name ?n) ?p (nicks s), nick_at := (nick_at s)(?p \<mapsto> ?n)\<rparr>"
  have t: "table_ok n_name (nicks s) (nick_at s)" using n by (simp add: nicks_ok_def)
  have ins: "table_ok n_name (nicks ?s1) (nick_at ?s1)" "nicks ?s1 = nicks s @ [(n_name ?n, ?p)]"
    using table_ok_insert [OF t np(1), of ?n] None by simp_all
  have tc: "table_ok cl_host (clones ?s1) (clone_at ?s1)" "clone_at ?s1 (next_ptr ?s1) = None"
    using c np by (simp_all add: clones_ok_def fresh_def)
  have how: "howmanyclones g ?s1 = Some (int (host_count s g))" for g
    using c howmanyclones_frame [of ?s1 s g] by (simp add: clones_ok_def fresh_def)
  then obtain s' where s': "add_clone host ?s1 = Some s'"
    "table_ok cl_host (clones s') (clone_at s')"
    "\<forall>g. howmanyclones g s' = (if lc g = lc host then map_option (\<lambda>i. i + 1) (howmanyclones g ?s1)
                             else howmanyclones g ?s1)"
    "\<forall>g. tfind (clones s') g \<noteq> None \<longleftrightarrow> tfind (clones ?s1) g \<noteq> None \<or> lc g = lc host"
    "nicks s' = nicks ?s1" "nick_at s' = nick_at ?s1"
    using add_clone_counts [OF tc len] by blast
  have "?p \<notin> snd ` set (nicks s)" using np(1) table_ok_entry [OF t] by fastforce
  then have same: "filter (on_host s' g) (map snd (nicks s)) = filter (on_host s g) (map snd (nicks s))" for g
    using s'(6) by (intro filter_cong) (force simp: on_host_def)+
  have cnt: "host_count s' g = host_count s g + (if lc g = lc host then 1 else 0)" for g
    using same [of g] s'(5,6) ins(2) len
    by (simp add: host_count_def) (auto simp: on_host_def strncpy_def)
  have "clones_ok s'"
    unfolding clones_ok_def
  proof (intro conjI allI impI)
    show "howmanyclones g s' = Some (int (host_count s' g))" for g
      using s'(3) how [of g] cnt [of g] by simp
    show "0 < host_count s' g" if "tfind (clones s') g \<noteq> None" for g
      using that s'(4) c cnt [of g] by (auto simp: clones_ok_def fresh_def)
  qed (rule s'(2))
  moreover have "nicks_ok s'"
    using n ins s'(5,6) by (auto simp: nicks_ok_def)
  moreover have "new_nick nick ident h uid hidden umodes host s = Some (Some ?p, s')"
    using None s'(1) by (simp add: new_nick_def fresh_def)
  ultimately show ?thesis using None s'(6) by (simp add: nick_key_free_def)
qed

lemma new_nick_counts:
  assumes "nicks_ok s" and "clones_ok s" and "heap_ok s" and "length host \<le> HOSTLEN"
  shows "\<exists>r s'. new_nick nick ident h uid hidden umodes host s = Some (r, s') \<and>
    nicks_ok s' \<and> clones_ok s' \<and> (r = None \<longleftrightarrow> \<not> nick_key_free nick s) \<and>
    (\<forall>p. r = Some p \<longrightarrow> (\<exists>x. nick_at s' p = Some x \<and> n_name x = strncpy nick NICKLEN \<and>
      n_account x = None \<and> n_wchans x = []))"
  using assms by (intro new_nick_counts_at) (auto simp: heap_ok_def)

lemma delete_nick_counts:
  assumes n: "nicks_ok s" and c: "clones_ok s" and x: "nick_at s p = Some x"
  shows "\<exists>s'. delete_nick p s = Some s' \<and> nicks_ok s' \<and> clones_ok s' \<and> nick_at s' p = None \<and>
    nicks s' = filter (\<lambda>e. snd e \<noteq> p) (nicks s)"
proof -
  let ?host = "n_reshost x"
  have t: "table_ok n_name (nicks s) (nick_at s)" and p: "p \<in> snd ` set (nicks s)"
    using n x by (auto simp: nicks_ok_def)
  have fp: "tfind (nicks s) (n_name x) = Some p" using table_ok_find_key [OF t p x] by simp
  let ?s1 = "s\<lparr>nicks := terase (n_name x) (nicks s)\<rparr>"
  have er: "terase (n_name x) (nicks s) = filter (\<lambda>e. snd e \<noteq> p) (nicks s)"
    using terase_filter_ptr [OF t fp] .
  have pos: "on_host s ?host p" using x by (simp add: on_host_def)
  then have hc: "0 < host_count s ?host"
    using p by (auto simp: host_count_def filter_empty_conv)
  have how: "howmanyclones g ?s1 = Some (int (host_count s g))" for g
    using c howmanyclones_frame [of ?s1 s g] by (simp add: clones_ok_def)
  have tc: "table_ok cl_host (clones ?s1) (clone_at ?s1)" using c by (simp add: clones_ok_def)
  have fc: "tfind (clones ?s1) ?host \<noteq> None"
    using how [of ?host] hc howmanyclones_None [of ?s1 ?host] by auto
  obtain s2 where s2: "drop_clone ?host ?s1 = Some s2"
    "table_ok cl_host (clones s2) (clone_at s2)"
    "\<forall>g. howmanyclones g s2 = (if lc g = lc ?host then Some (int (host_count s ?host) - 1)
                              else howmanyclones g ?s1)"
    "\<forall>g. tfind (clones s2) g \<noteq> None \<longleftrightarrow>
      tfind (clones ?s1) g \<noteq> None \<and> (lc g = lc ?host \<longrightarrow> int (host_count s ?host) \<noteq> 1)"
    "nicks s2 = nicks ?s1" "nick_at s2 = nick_at ?s1"
    using drop_clone_counts [OF tc fc how] by blast
  let ?s' = "(unlink_server_head p s2)\<lparr>nick_at := (nick_at (unlink_server_head p s2))(p := None)\<rparr>"
  have r: "delete_nick p s = Some ?s'"
    using x fp s2(1) by (simp add: delete_nick_def Let_def)
  have n': "nicks ?s' = filter (\<lambda>e. snd e \<noteq> p) (nicks s)" "nick_at ?s' = (nick_at s)(p := None)"
    using s2(5,6) er by (simp_all add: unlink_server_head_def)
  have "distinct (map snd (nicks s))" using t by (simp add: table_ok_def)
  then have map': "map snd (nicks ?s') = remove1 p (map snd (nicks s))"
    unfolding n'(1) by (simp add: distinct_remove1_filter filter_map o_def)
  have "filter (on_host ?s' g) (remove1 p (map snd (nicks s))) =
      filter (on_host s g) (remove1 p (map snd (nicks s)))" for g
    using n'(2) \<open>distinct (map snd (nicks s))\<close> by (intro filter_cong) (auto simp: on_host_def)
  then have cnt: "host_count ?s' g = (if lc g = lc ?host then host_count s g - 1 else host_count s g)" for g
    using \<open>distinct (map snd (nicks s))\<close> p x
    by (simp only: host_count_def map') (auto simp: length_filter_remove1 on_host_def)
  have "clones_ok ?s'"
    unfolding clones_ok_def
  proof (intro conjI allI impI)
    show "table_ok cl_host (clones ?s') (clone_at ?s')"
      using s2(2) by (simp add: unlink_server_head_def)
    have eq: "howmanyclones g ?s' = howmanyclones g s2" for g
      by (rule howmanyclones_frame) (simp_all add: unlink_server_head_def)
    show "howmanyclones g ?s' = Some (int (host_count ?s' g))" for g
      using s2(3) how [of g] hc cnt [of g] host_count_cong [of g ?host s] by (auto simp: eq)
    show "0 < host_count ?s' g" if "tfind (clones ?s') g \<noteq> None" for g
    proof -
      have "tfind (clones s2) g \<noteq> None" using that by (simp add: unlink_server_head_def)
      then have *: "tfind (clones s) g \<noteq> None" "lc g = lc ?host \<Longrightarrow> host_count s ?host \<noteq> 1"
        using s2(4) by auto
      then have "0 < host_count s g" using c by (simp add: clones_ok_def)
      then show ?thesis using * cnt [of g] host_count_cong [of g ?host s] by auto
    qed
  qed
  moreover have "nicks_ok ?s'"
    using n n' table_ok_filter [OF t, of "\<lambda>e. snd e \<noteq> p"]
      table_ok_other [of n_name "filter (\<lambda>e. snd e \<noteq> p) (nicks s)" "nick_at s" p None]
    by (fastforce simp: nicks_ok_def)
  ultimately show ?thesis using r n' by (intro exI [of _ ?s']) simp
qed

text \<open>Disconnecting a nick takes it out of the counts of its host.\<close>

lemma disconnect_counts_clones:
  assumes "nicks_ok s" and "clones_ok s" and "nick_at s p = Some x"
  shows "\<exists>s'. delete_nick p s = Some s' \<and> nick_at s' p = None \<and>
    (\<forall>g. howmanyclones g s' = Some (int (host_count s' g))) \<and>
    nicks s' = filter (\<lambda>e. snd e \<noteq> p) (nicks s)"
  using delete_nick_counts [OF assms] by (auto simp: clones_ok_def)

end
