(* ===== verification/Auth.thy ===== *)
theory Auth
  imports AccountsInv
begin

section \<open>Who is logged in as whom\<close>

text \<open>
  A nick that is logged in and its account point to each other. \<open>user_login\<close> keeps this only
  for a nick that is logged out and an account nobody uses: the callers that check less leave
  an account that points to another nick.
\<close>

definition auth_ok :: "core \<Rightarrow> bool" where
  "auth_ok s \<longleftrightarrow>
     (\<forall>n x u. nick_at s n = Some x \<longrightarrow> n_account x = Some u \<longrightarrow>
        (\<exists>y. user_at s u = Some y \<and> u_authed y = 1 \<and> u_authed_nick y = Some n)) \<and>
     (\<forall>u y. user_at s u = Some y \<longrightarrow> (u_authed y = 1 \<longleftrightarrow> u_authed_nick y \<noteq> None)) \<and>
     (\<forall>u y n. user_at s u = Some y \<longrightarrow> u_authed_nick y = Some n \<longrightarrow>
        (\<exists>x. nick_at s n = Some x \<and> n_account x = Some u))"

subsection \<open>States that differ in the send queue and the guests\<close>

definition mod_out :: "core \<Rightarrow> core \<Rightarrow> bool" where
  "mod_out s t \<longleftrightarrow> (\<exists>b g h. t = s\<lparr>outbuf := b, guests := g, guest_at := h\<rparr>)"

lemma mod_outI: "t = s\<lparr>outbuf := b, guests := g, guest_at := h\<rparr> \<Longrightarrow> mod_out s t"
  by (auto simp: mod_out_def)

lemma mod_out_refl [simp]: "mod_out s s"
  by (rule mod_outI [where b = "outbuf s" and g = "guests s" and h = "guest_at s"]) simp

lemma mod_out_trans: "mod_out s t \<Longrightarrow> mod_out t u \<Longrightarrow> mod_out s u"
  by (auto simp: mod_out_def) blast

lemma mod_out_send_raw [simp]: "mod_out s (send_raw m s)"
proof -
  obtain b where "send_raw m s = s\<lparr>outbuf := b\<rparr>" using send_raw_outbuf by blast
  then show ?thesis by (intro mod_outI [where b = b and g = "guests s" and h = "guest_at s"]) simp
qed

lemma mod_out_send [simp]: "mod_out s t \<Longrightarrow> mod_out s (send_raw m t)"
  by (blast intro: mod_out_trans mod_out_send_raw)

lemma mod_out_DeleteGuest [simp]: "mod_out s t \<Longrightarrow> mod_out s (DeleteGuest g t)"
proof -
  have "mod_out t (DeleteGuest g t)"
  proof (cases "find_guest (Some g) t")
    case None
    then show ?thesis by (simp add: DeleteGuest_def)
  next
    case (Some p)
    then show ?thesis
      by (intro mod_outI [where b = "outbuf t" and g = "terase g (guests t)" and h = "(guest_at t)(p := None)"])
        (simp add: DeleteGuest_def)
  qed
  then show "mod_out s t \<Longrightarrow> ?thesis" by (blast intro: mod_out_trans)
qed

lemma mod_out_sel:
  assumes "mod_out s t"
  shows "users t = users s" "nicks t = nicks s" "clones t = clones s" "user_at t = user_at s"
    "nick_at t = nick_at s" "clone_at t = clone_at s" "cfg t = cfg s" "clock t = clock s"
    "next_ptr t = next_ptr s"
  using assms by (auto simp: mod_out_def)

lemma mod_out_upd:
  assumes "mod_out s t"
  shows "mod_out (s\<lparr>nick_at := h\<rparr>) (t\<lparr>nick_at := h\<rparr>)" and "mod_out (s\<lparr>user_at := k\<rparr>) (t\<lparr>user_at := k\<rparr>)"
proof -
  from assms obtain b g m where t: "t = s\<lparr>outbuf := b, guests := g, guest_at := m\<rparr>"
    by (auto simp: mod_out_def)
  show "mod_out (s\<lparr>nick_at := h\<rparr>) (t\<lparr>nick_at := h\<rparr>)" and "mod_out (s\<lparr>user_at := k\<rparr>) (t\<lparr>user_at := k\<rparr>)"
    by (rule mod_outI [where b = b and g = g and h = m], rule core.equality; simp add: t)+
qed

text \<open>A nick keeps what identifies it and the channels it is on.\<close>

definition same_nick :: "nick \<Rightarrow> nick \<Rightarrow> bool" where
  "same_nick x y \<longleftrightarrow> n_name y = n_name x \<and> n_uid y = n_uid x \<and> n_reshost y = n_reshost x \<and>
     n_wchans y = n_wchans x"

lemma same_nick_refl [simp]: "same_nick x x"
  by (simp add: same_nick_def)

definition logged_in :: "int \<Rightarrow> ptr \<Rightarrow> user \<Rightarrow> user" where
  "logged_in t n u = u\<lparr>u_authed := 1, u_authed_nick := Some n, u_lastseen := t\<rparr>"

definition logged_out :: "int \<Rightarrow> user \<Rightarrow> user" where
  "logged_out t u = u\<lparr>u_authed := 0, u_authed_nick := None, u_lastseen := t\<rparr>"

lemma NoticeToUser_mod_out:
  assumes "nick_at t n = Some x" and "mod_out s t"
  shows "\<exists>t'. NoticeToUser n m t = Some t' \<and> mod_out s t'"
  using assms by (simp add: NoticeToUser_eq)

text \<open>
  What every step of a login and a logout keeps: the state is \<open>s\<close> with the nick \<open>n\<close> replaced, up
  to the send queue and the guests.
\<close>

definition nick_step :: "core \<Rightarrow> ptr \<Rightarrow> nick \<Rightarrow> core \<Rightarrow> bool" where
  "nick_step s n x t \<longleftrightarrow> mod_out (s\<lparr>nick_at := (nick_at s)(n \<mapsto> x)\<rparr>) t"

lemma nick_step_at: "nick_step s n x t \<Longrightarrow> nick_at t n = Some x"
  by (auto simp: nick_step_def dest: mod_out_sel(5))

lemma nick_step_out [simp]:
  "nick_step s n x t \<Longrightarrow> nick_step s n x (send_raw m t)"
  "nick_step s n x t \<Longrightarrow> nick_step s n x (DeleteGuest g t)"
  by (simp_all add: nick_step_def)

lemma nick_step_upd:
  assumes "nick_step s n x t"
  shows "\<exists>t'. upd_nick n f t = Some t' \<and> nick_step s n (f x) t'"
proof -
  have at: "nick_at t = (nick_at s)(n \<mapsto> x)"
    using assms by (auto simp: nick_step_def dest: mod_out_sel(5))
  have "mod_out (s\<lparr>nick_at := (nick_at s)(n \<mapsto> f x)\<rparr>) (t\<lparr>nick_at := (nick_at s)(n \<mapsto> f x)\<rparr>)"
    using mod_out_upd(1) [of "s\<lparr>nick_at := (nick_at s)(n \<mapsto> x)\<rparr>" t "(nick_at s)(n \<mapsto> f x)"] assms
    by (simp add: nick_step_def)
  with at show ?thesis by (simp add: upd_defs nick_step_def)
qed

lemma nick_step_notice:
  assumes "nick_step s n x t"
  shows "\<exists>t'. NoticeToUser n m t = Some t' \<and> nick_step s n x t'"
  using assms by (simp add: NoticeToUser_eq nick_step_at)

lemma login_svid_step:
  assumes "nick_step s n x t"
  shows "\<exists>x' t'. login_svid n u t = Some t' \<and> nick_step s n x' t' \<and> same_nick x x' \<and>
    n_account x' = n_account x"
proof (cases "streq (Some (n_svid x)) (Some (u_nick u))")
  case True
  with assms show ?thesis by (intro exI [of _ x] exI [of _ t]) (simp add: login_svid_def nick_step_at)
next
  case False
  let ?x = "nick_set_svid (u_nick u) x"
  obtain t' where t': "upd_nick n (nick_set_svid (u_nick u)) t = Some t'" "nick_step s n ?x t'"
    using nick_step_upd [OF assms, of "nick_set_svid (u_nick u)"] by blast
  let ?t = "send_raw (''SVSLOGIN * '' @ n_name ?x @ '' '' @ n_svid ?x) t'"
  have "login_svid n u t = Some ?t"
    using False t' by (simp add: login_svid_def nick_step_at [OF assms] nick_step_at)
  moreover have "nick_step s n ?x ?t" using t'(2) by (rule nick_step_out(1))
  ultimately show ?thesis
    by (intro exI [of _ ?x] exI [of _ ?t]) (simp add: same_nick_def nick_set_defs)
qed

lemma login_registered_step:
  assumes "nick_step s n x t"
  shows "\<exists>x' t'. login_registered n u t = Some t' \<and> nick_step s n x' t' \<and> same_nick x x' \<and>
    n_account x' = n_account x"
proof (cases "streq (Some (n_name x)) (Some (u_nick u))")
  case False
  with assms show ?thesis by (intro exI [of _ x] exI [of _ t]) (simp add: login_registered_def nick_step_at)
next
  case True
  let ?x = "SetUmode UMODE_REGISTERED x"
  obtain t' where t': "upd_nick n (SetUmode UMODE_REGISTERED)
      (send_raw (''SVS2MODE '' @ n_name x @ '' +r'') t) = Some t'" "nick_step s n ?x t'"
    using nick_step_upd [OF nick_step_out(1) [OF assms], of "SetUmode UMODE_REGISTERED"] by blast
  let ?t = "if HasUOption u UOPT_PROTECT then DeleteGuest (n_name x) t' else t'"
  have "login_registered n u t = Some ?t"
    using True t'(1) by (simp add: login_registered_def nick_step_at [OF assms])
  moreover have "nick_step s n ?x ?t" using t'(2) by simp
  ultimately show ?thesis
    by (intro exI [of _ ?x] exI [of _ ?t]) (simp add: same_nick_def nick_set_defs)
qed

lemma hiddenhost_step:
  assumes "nick_step s n x t"
  shows "\<exists>x' t'. Option.bind (upd_nick n (nick_set_hiddenhost h) (send_raw m t)) (NoticeToUser n k) =
    Some t' \<and> nick_step s n x' t' \<and> same_nick x x' \<and> n_account x' = n_account x"
proof -
  let ?x = "nick_set_hiddenhost h x"
  obtain t1 where "upd_nick n (nick_set_hiddenhost h) (send_raw m t) = Some t1" "nick_step s n ?x t1"
    using nick_step_upd [OF nick_step_out(1) [OF assms], of "nick_set_hiddenhost h"] by blast
  moreover obtain t2 where "NoticeToUser n k t1 = Some t2" "nick_step s n ?x t2"
    using nick_step_notice [OF calculation(2)] by blast
  ultimately show ?thesis
    by (intro exI [of _ ?x] exI [of _ t2]) (simp add: nick_set_defs same_nick_def)
qed

lemma login_host_step:
  assumes "nick_step s n x t"
  shows "\<exists>x' t'. login_host n u t = Some t' \<and> nick_step s n x' t' \<and> same_nick x x' \<and>
    n_account x' = n_account x"
proof -
  note d = login_host_def nick_step_at [OF assms] Let_def
  consider "u_vhost u \<noteq> []" | "u_vhost u = []" "HasUOption u UOPT_CLOAKED"
    | "u_vhost u = []" "\<not> HasUOption u UOPT_CLOAKED" by blast
  then show ?thesis
  proof cases
    case 3
    with assms show ?thesis by (intro exI [of _ x] exI [of _ t]) (simp add: d)
  next
    case 1
    then show ?thesis by (simp only: d simp_thms if_True bind.bind_lunit hiddenhost_step [OF assms])
  next
    case 2
    then show ?thesis
      by (simp only: d simp_thms if_True if_False bind.bind_lunit hiddenhost_step [OF assms])
  qed
qed

lemma same_nick_trans: "same_nick x y \<Longrightarrow> same_nick y z \<Longrightarrow> same_nick x z"
  by (simp add: same_nick_def)

lemma user_login_shape:
  assumes x: "nick_at s n = Some x" and y: "user_at s u = Some y"
  shows "\<exists>s' x'. user_login n u s = Some s' \<and> n_account x' = Some u \<and> same_nick x x' \<and>
    nick_step (s\<lparr>user_at := (user_at s)(u \<mapsto> logged_in (clock s) n y)\<rparr>) n x' s'"
proof -
  let ?y = "logged_in (clock s) n y"
  let ?x = "(nick_set_account (Some u) \<circ> nick_set_lasttry 0 \<circ> nick_set_loginattempts 0) x"
  let ?s = "s\<lparr>user_at := (user_at s)(u \<mapsto> ?y)\<rparr>"
  let ?t = "?s\<lparr>nick_at := (nick_at s)(n \<mapsto> ?x)\<rparr>"
  have "nick_step ?s n ?x ?t" by (simp add: nick_step_def)
  then obtain x1 t1 where 1: "login_svid n ?y ?t = Some t1" "nick_step ?s n x1 t1"
    "same_nick ?x x1" "n_account x1 = n_account ?x" using login_svid_step by blast
  obtain x2 t2 where 2: "login_registered n ?y t1 = Some t2" "nick_step ?s n x2 t2"
    "same_nick x1 x2" "n_account x2 = n_account x1" using login_registered_step [OF 1(2)] by blast
  obtain t3 where 3: "NoticeToUser n (''You are now identified with account '' @ bold (n_svid x2) @ ''.'') t2
    = Some t3" "nick_step ?s n x2 t3" using nick_step_notice [OF 2(2)] by blast
  obtain x4 t4 where 4: "login_host n ?y t3 = Some t4" "nick_step ?s n x4 t4"
    "same_nick x2 x4" "n_account x4 = n_account x2" using login_host_step [OF 3(2)] by blast
  have "user_login n u s = Some t4"
    using x y 1(1) 2(1,2) 3(1) 4(1)
    by (simp add: user_login_def upd_defs logged_in_def nick_step_at)
  moreover have "same_nick x ?x" "n_account ?x = Some u" by (simp_all add: same_nick_def nick_set_defs)
  ultimately show ?thesis using 1(3,4) 2(3,4) 4(2,3,4)
    by (intro exI [of _ t4] exI [of _ x4]) (auto intro: same_nick_trans)
qed

lemma user_logout_shape:
  assumes x: "nick_at s n = Some x" and y: "user_at s u = Some y"
  shows "\<exists>s' x'. user_logout n (Some u) s = Some s' \<and> n_account x' = None \<and> same_nick x x' \<and>
    nick_step (s\<lparr>user_at := (user_at s)(u \<mapsto> logged_out (clock s) y)\<rparr>) n x' s'"
proof -
  let ?x = "(nick_set_svid ''0'' \<circ> nick_set_account None) x"
  let ?s = "s\<lparr>user_at := (user_at s)(u \<mapsto> logged_out (clock s) y)\<rparr>"
  let ?t = "?s\<lparr>nick_at := (nick_at s)(n \<mapsto> ?x)\<rparr>"
  have "nick_step ?s n ?x ?t" by (simp add: nick_step_def)
  let ?t1 = "send_raw (''SVSLOGIN * '' @ n_uid ?x @ '' 0'') ?t"
  let ?t2 = "if HasUmode ?x UMODE_REGISTERED then send_raw (''SVS2MODE '' @ n_uid ?x @ '' -r'') ?t1
    else ?t1"
  from \<open>nick_step ?s n ?x ?t\<close> have "nick_step ?s n ?x ?t2"
    by (cases "HasUmode ?x UMODE_REGISTERED") (simp_all only: if_True if_False nick_step_out)
  moreover have "user_logout n (Some u) s = Some ?t2"
    using x y by (simp add: user_logout_def upd_defs logged_out_def Let_def)
  moreover have "same_nick x ?x" "n_account ?x = None" by (simp_all add: same_nick_def nick_set_defs)
  ultimately show ?thesis by blast
qed

subsection \<open>The invariant\<close>

lemma nick_step_sel:
  assumes "nick_step s n x t"
  shows "user_at t = user_at s" "nick_at t = (nick_at s)(n \<mapsto> x)" "nicks t = nicks s"
    "clones t = clones s" "clone_at t = clone_at s" "users t = users s" "next_ptr t = next_ptr s"
  using mod_out_sel [OF assms [unfolded nick_step_def]] by simp_all

lemma auth_okD:
  assumes "auth_ok s"
  shows "nick_at s n = Some x \<Longrightarrow> n_account x = Some u \<Longrightarrow>
      \<exists>y. user_at s u = Some y \<and> u_authed y = 1 \<and> u_authed_nick y = Some n"
    and "user_at s u = Some y \<Longrightarrow> u_authed y = 1 \<longleftrightarrow> u_authed_nick y \<noteq> None"
    and "user_at s u = Some y \<Longrightarrow> u_authed_nick y = Some n \<Longrightarrow>
      \<exists>x. nick_at s n = Some x \<and> n_account x = Some u"
  using assms by (auto simp: auth_ok_def)

lemma user_login_auth:
  assumes a: "auth_ok s" and x: "nick_at s n = Some x" and y: "user_at s u = Some y"
    and free: "n_account x = None" "u_authed y \<noteq> 1"
  shows "\<exists>s'. user_login n u s = Some s' \<and> auth_ok s' \<and> find_account n s' = Some (Some u) \<and>
    IsAuthed (Some u) s' = Some True"
proof -
  obtain s' x' where r: "user_login n u s = Some s'" and x': "n_account x' = Some u"
    and st: "nick_step (s\<lparr>user_at := (user_at s)(u \<mapsto> logged_in (clock s) n y)\<rparr>) n x' s'"
    using user_login_shape [OF x y] by blast
  have ua: "user_at s' = (user_at s)(u \<mapsto> logged_in (clock s) n y)"
    and na: "nick_at s' = (nick_at s)(n \<mapsto> x')"
    using nick_step_sel(1,2) [OF st] by simp_all
  have nobody: "n_account z \<noteq> Some u" if "nick_at s m = Some z" for m z
    using auth_okD(1) [OF a that] y free(2) by auto
  have notn: "u_authed_nick z \<noteq> Some n" if "user_at s v = Some z" for v z
    using auth_okD(3) [OF a that] x free(1) by auto
  have "auth_ok s'"
    unfolding auth_ok_def ua na
    using x' nobody notn auth_okD [OF a] by (auto simp: logged_in_def)
  then show ?thesis using r x' ua na
    by (auto simp: find_account_def IsAuthed_def logged_in_def)
qed

lemma user_logout_auth:
  assumes a: "auth_ok s" and x: "nick_at s n = Some x" and acc: "n_account x = Some u"
  shows "\<exists>s'. user_logout n (Some u) s = Some s' \<and> auth_ok s' \<and> IsAuthed (Some u) s' = Some False"
proof -
  obtain y where y: "user_at s u = Some y" "u_authed_nick y = Some n"
    using auth_okD(1) [OF a x acc] by blast
  obtain s' x' where r: "user_logout n (Some u) s = Some s'" and x': "n_account x' = None"
    and st: "nick_step (s\<lparr>user_at := (user_at s)(u \<mapsto> logged_out (clock s) y)\<rparr>) n x' s'"
    using user_logout_shape [OF x y(1)] by blast
  have ua: "user_at s' = (user_at s)(u \<mapsto> logged_out (clock s) y)"
    and na: "nick_at s' = (nick_at s)(n \<mapsto> x')"
    using nick_step_sel(1,2) [OF st] by simp_all
  have nobody: "m = n" if "nick_at s m = Some z" "n_account z = Some u" for m z
    using auth_okD(1) [OF a that] y by auto
  have notn: "v = u" if "user_at s v = Some z" "u_authed_nick z = Some n" for v z
    using auth_okD(3) [OF a that] x acc by auto
  have "auth_ok s'"
    unfolding auth_ok_def ua na
  proof (intro conjI allI impI)
    fix m z v
    assume "((nick_at s)(n \<mapsto> x')) m = Some z" "n_account z = Some v"
    then have m: "m \<noteq> n" "nick_at s m = Some z" using x' by (auto split: if_splits)
    then have "v \<noteq> u" using nobody \<open>n_account z = Some v\<close> by auto
    with m auth_okD(1) [OF a m(2) \<open>n_account z = Some v\<close>]
    show "\<exists>w. ((user_at s)(u \<mapsto> logged_out (clock s) y)) v = Some w \<and> u_authed w = 1 \<and>
      u_authed_nick w = Some m" by simp
  next
    fix v z
    assume "((user_at s)(u \<mapsto> logged_out (clock s) y)) v = Some z"
    then show "(u_authed z = 1) = (u_authed_nick z \<noteq> None)"
      using auth_okD(2) [OF a, of v z] by (auto simp: logged_out_def split: if_splits)
  next
    fix v z m
    assume "((user_at s)(u \<mapsto> logged_out (clock s) y)) v = Some z" "u_authed_nick z = Some m"
    then have v: "v \<noteq> u" "user_at s v = Some z" by (auto simp: logged_out_def split: if_splits)
    then have "m \<noteq> n" using notn \<open>u_authed_nick z = Some m\<close> by auto
    with auth_okD(3) [OF a v(2) \<open>u_authed_nick z = Some m\<close>]
    show "\<exists>w. ((nick_at s)(n \<mapsto> x')) m = Some w \<and> n_account w = Some v" by simp
  qed
  then show ?thesis using r ua by (auto simp: IsAuthed_def logged_out_def)
qed

end
