(* ===== verification/Members.thy ===== *)
theory Members
  imports Channels Auth
begin

section \<open>Members of live channels\<close>

text \<open>
  A membership is on the list of its nick and on the list of its channel, and on no other; a
  nick is on a channel once; a channel without members does not exist. \<open>DeleteUserFromWchan\<close> and
  \<open>AddUserToWchan\<close> keep this, and the loop of \<open>DeleteUserFromWchans\<close>, which frees the elements
  it walks over, ends with a nick that is nowhere.
\<close>

definition member_lists_ok :: "core \<Rightarrow> bool" where
  "member_lists_ok s \<longleftrightarrow>
     (\<forall>m y. member_at s m = Some y \<longrightarrow>
        (\<exists>n. nick_at s (m_nick y) = Some n \<and> m \<in> set (n_wchans n)) \<and>
        (\<exists>w. wchan_at s (m_wchan y) = Some w \<and> m \<in> set (w_members w))) \<and>
     (\<forall>w x. wchan_at s w = Some x \<longrightarrow> distinct (w_members x) \<and>
        (\<forall>m \<in> set (w_members x). \<exists>y. member_at s m = Some y \<and> m_wchan y = w)) \<and>
     (\<forall>n x. nick_at s n = Some x \<longrightarrow> distinct (n_wchans x) \<and>
        (\<forall>m \<in> set (n_wchans x). \<exists>y. member_at s m = Some y \<and> m_nick y = n)) \<and>
     (\<forall>m m' y y'. member_at s m = Some y \<longrightarrow> member_at s m' = Some y' \<longrightarrow>
        m_nick y = m_nick y' \<longrightarrow> m_wchan y = m_wchan y' \<longrightarrow> m = m')"

definition wchans_ok :: "core \<Rightarrow> bool" where
  "wchans_ok s \<longleftrightarrow> table_ok w_chname (wchans s) (wchan_at s) \<and>
     (\<forall>w x. wchan_at s w = Some x \<longrightarrow> w \<in> snd ` set (wchans s) \<and> w_members x \<noteq> [])"

definition limits_ok :: "core \<Rightarrow> bool" where
  "limits_ok s \<longleftrightarrow> table_ok c_name (chans s) (chan_at s) \<and>
     (\<forall>c x l. chan_at s c = Some x \<longrightarrow> c_active_autolimit x = Some l \<longrightarrow> limit_at s l \<noteq> None) \<and>
     (\<forall>p \<ge> next_ptr s. limit_at s p = None)"

definition members_ok :: "core \<Rightarrow> bool" where
  "members_ok s \<longleftrightarrow> member_lists_ok s \<and> wchans_ok s \<and> limits_ok s"

lemma member_lists_okD:
  assumes "member_lists_ok s"
  shows "member_at s m = Some y \<Longrightarrow> \<exists>n. nick_at s (m_nick y) = Some n \<and> m \<in> set (n_wchans n)"
    and "member_at s m = Some y \<Longrightarrow> \<exists>w. wchan_at s (m_wchan y) = Some w \<and> m \<in> set (w_members w)"
    and "wchan_at s w = Some x \<Longrightarrow> distinct (w_members x)"
    and "wchan_at s w = Some x \<Longrightarrow> m \<in> set (w_members x) \<Longrightarrow>
      \<exists>y. member_at s m = Some y \<and> m_wchan y = w"
    and "nick_at s n = Some z \<Longrightarrow> distinct (n_wchans z)"
    and "nick_at s n = Some z \<Longrightarrow> m \<in> set (n_wchans z) \<Longrightarrow>
      \<exists>y. member_at s m = Some y \<and> m_nick y = n"
    and "member_at s m = Some y \<Longrightarrow> member_at s m' = Some y' \<Longrightarrow> m_nick y = m_nick y' \<Longrightarrow>
      m_wchan y = m_wchan y' \<Longrightarrow> m = m'"
  using assms unfolding member_lists_ok_def by blast+

subsection \<open>The limit timer does not touch the members\<close>

lemma touch_limit_shape:
  assumes "limits_ok s"
  shows "\<exists>ch lh ls np. touch_limit k s =
      Some (s\<lparr>chan_at := ch, limit_at := lh, limits := ls, next_ptr := np\<rparr>) \<and>
    limits_ok (s\<lparr>chan_at := ch, limit_at := lh, limits := ls, next_ptr := np\<rparr>) \<and> next_ptr s \<le> np"
proof (cases "find_channel (Some k) s")
  case None
  then show ?thesis using assms
    by (intro exI [of _ "chan_at s"] exI [of _ "limit_at s"] exI [of _ "limits s"] exI [of _ "next_ptr s"])
      (simp add: touch_limit_def)
next
  case (Some c)
  have t: "table_ok c_name (chans s) (chan_at s)" using assms by (simp add: limits_ok_def)
  obtain x where x: "chan_at s c = Some x" using Some table_ok_find [OF t] by (auto simp: find_channel_def)
  show ?thesis
  proof (cases "c_autolimit x > 0")
    case False
    with Some x assms show ?thesis
      by (intro exI [of _ "chan_at s"] exI [of _ "limit_at s"] exI [of _ "limits s"] exI [of _ "next_ptr s"])
        (simp add: touch_limit_def)
  next
    case True
    let ?t = "clock s + cfg_limittime (cfg s)"
    show ?thesis
    proof (cases "c_active_autolimit x")
      case (Some l)
      then obtain y where y: "limit_at s l = Some y" using assms x unfolding limits_ok_def by blast
      have "touch_limit k s = Some (s\<lparr>limit_at := (limit_at s)(l \<mapsto> y\<lparr>lim_time := ?t\<rparr>)\<rparr>)"
        using True Some x y \<open>find_channel (Some k) s = Some c\<close>
        by (simp add: touch_limit_def AddLimit_def upd_defs Let_def)
      moreover have "limits_ok (s\<lparr>limit_at := (limit_at s)(l \<mapsto> y\<lparr>lim_time := ?t\<rparr>)\<rparr>)"
        using assms y by (auto simp: limits_ok_def)
      ultimately show ?thesis
        by (intro exI [of _ "chan_at s"] exI [of _ "(limit_at s)(l \<mapsto> y\<lparr>lim_time := ?t\<rparr>)"]
            exI [of _ "limits s"] exI [of _ "next_ptr s"]) simp
    next
      case None
      let ?p = "next_ptr s"
      let ?x = "x\<lparr>c_active_autolimit := Some ?p\<rparr>"
      let ?l = "(limit_at s)(?p \<mapsto> \<lparr>lim_chan = c, lim_time = ?t\<rparr>)"
      let ?s = "s\<lparr>chan_at := (chan_at s)(c \<mapsto> ?x), limit_at := ?l, limits := limits s @ [?p],
        next_ptr := Suc ?p\<rparr>"
      have "touch_limit k s = Some ?s"
        using True None x \<open>find_channel (Some k) s = Some c\<close>
        by (simp add: touch_limit_def AddLimit_def upd_defs Let_def fresh_def)
      moreover have "limits_ok ?s"
        using assms table_ok_upd [OF t x, of ?x] by (auto simp: limits_ok_def)
      ultimately show ?thesis by (intro exI conjI) (assumption | simp)+
    qed
  qed
qed

subsection \<open>Removing one membership\<close>

text \<open>The state after \<open>DeleteMember m\<close>.\<close>

definition without_member :: "ptr \<Rightarrow> core \<Rightarrow> core" where
  "without_member m s = (unlink_member m s)\<lparr>member_at := (member_at s)(m := None)\<rparr>"

lemma DeleteMember_eq: "member_at s m \<noteq> None \<Longrightarrow> DeleteMember m s = Some (without_member m s)"
  by (simp add: DeleteMember_def without_member_def)

lemma without_member_sel [simp]:
  "nick_at (without_member m s) n =
     map_option (\<lambda>x. x\<lparr>n_wchans := remove1 m (n_wchans x)\<rparr>) (nick_at s n)"
  "wchan_at (without_member m s) w =
     map_option (\<lambda>x. x\<lparr>w_members := remove1 m (w_members x)\<rparr>) (wchan_at s w)"
  "member_at (without_member m s) = (member_at s)(m := None)"
  "wchans (without_member m s) = wchans s" "chans (without_member m s) = chans s"
  "chan_at (without_member m s) = chan_at s" "limit_at (without_member m s) = limit_at s"
  "limits (without_member m s) = limits s" "next_ptr (without_member m s) = next_ptr s"
  by (simp_all add: without_member_def unlink_member_def)

lemma without_member_lists:
  assumes "member_lists_ok s"
  shows "member_lists_ok (without_member m s)"
  unfolding member_lists_ok_def
proof (intro conjI allI impI ballI)
  note D = member_lists_okD [OF assms]
  let ?s = "without_member m s"
  { fix k y assume "member_at ?s k = Some y"
    then have k: "k \<noteq> m" "member_at s k = Some y" by (auto split: if_splits)
    show "\<exists>n. nick_at ?s (m_nick y) = Some n \<and> k \<in> set (n_wchans n)"
      using D(1) [OF k(2)] k(1) by auto
    show "\<exists>w. wchan_at ?s (m_wchan y) = Some w \<and> k \<in> set (w_members w)"
      using D(2) [OF k(2)] k(1) by auto }
  { fix w x assume "wchan_at ?s w = Some x"
    then obtain x0 where x0: "wchan_at s w = Some x0" "w_members x = remove1 m (w_members x0)" by auto
    show "distinct (w_members x)" using D(3) [OF x0(1)] x0(2) by simp
    show "\<exists>y. member_at ?s k = Some y \<and> m_wchan y = w" if "k \<in> set (w_members x)" for k
      using D(3,4) [OF x0(1)] x0(2) that by auto }
  { fix n x assume "nick_at ?s n = Some x"
    then obtain x0 where x0: "nick_at s n = Some x0" "n_wchans x = remove1 m (n_wchans x0)" by auto
    show "distinct (n_wchans x)" using D(5) [OF x0(1)] x0(2) by simp
    show "\<exists>y. member_at ?s k = Some y \<and> m_nick y = n" if "k \<in> set (n_wchans x)" for k
      using D(5,6) [OF x0(1)] x0(2) that by auto }
  show "k = k'" if "member_at ?s k = Some y" "member_at ?s k' = Some y'"
    "m_nick y = m_nick y'" "m_wchan y = m_wchan y'" for k k' y y'
    using D(7) that by (auto split: if_splits)
qed


lemma find_member_ok:
  assumes l: "member_lists_ok s" and w: "wchan_at s w = Some x"
  shows "\<exists>r. find_member w n s = Some r \<and>
    (\<forall>m. r = Some m \<longleftrightarrow> (\<exists>y. member_at s m = Some y \<and> m_nick y = n \<and> m_wchan y = w))"
proof -
  note D = member_lists_okD [OF l]
  have v: "\<forall>m \<in> set (w_members x). member_at s m \<noteq> None" using D(4) [OF w] by fastforce
  let ?P = "\<lambda>m. m_nick (the (member_at s m)) = n"
  have f: "find_member w n s = Some (find ?P (w_members x))"
    using scan_find [OF v, of "\<lambda>m. m_nick m = n"] w by (simp add: find_member_def)
  moreover have "find ?P (w_members x) = Some m \<longleftrightarrow>
      (\<exists>y. member_at s m = Some y \<and> m_nick y = n \<and> m_wchan y = w)" for m
  proof
    assume "find ?P (w_members x) = Some m"
    then have "m \<in> set (w_members x)" "?P m" by (auto dest: find_SomeD)
    with D(4) [OF w] show "\<exists>y. member_at s m = Some y \<and> m_nick y = n \<and> m_wchan y = w" by force
  next
    assume "\<exists>y. member_at s m = Some y \<and> m_nick y = n \<and> m_wchan y = w"
    then obtain y where y: "member_at s m = Some y" "m_nick y = n" "m_wchan y = w" by blast
    then have mem: "m \<in> set (w_members x)" using D(2) [OF y(1)] w by auto
    have uniq: "k = m" if k: "k \<in> set (w_members x)" "?P k" for k
    proof -
      obtain z where z: "member_at s k = Some z" "m_wchan z = w" using D(4) [OF w k(1)] by blast
      with k(2) y have "m_nick z = m_nick y" "m_wchan z = m_wchan y" by simp_all
      with D(7) [OF z(1) y(1)] show ?thesis .
    qed
    from y have "?P m" by simp
    then show "find ?P (w_members x) = Some m" using find_unique [OF mem, of ?P] uniq by blast
  qed
  ultimately show ?thesis by blast
qed

lemma member_lists_ok_cong:
  assumes "nick_at t = nick_at s" "wchan_at t = wchan_at s" "member_at t = member_at s"
  shows "member_lists_ok t = member_lists_ok s"
  by (simp only: member_lists_ok_def assms)

lemma member_lists_drop_wchan:
  assumes l: "member_lists_ok s" and no: "\<And>k z. member_at s k = Some z \<Longrightarrow> m_wchan z \<noteq> w"
    and t: "nick_at t = nick_at s" "member_at t = member_at s" "wchan_at t = (wchan_at s)(w := None)"
  shows "member_lists_ok t"
  unfolding member_lists_ok_def t
proof (intro conjI allI impI ballI)
  note D = member_lists_okD [OF l]
  show "\<exists>n. nick_at s (m_nick y) = Some n \<and> m \<in> set (n_wchans n)" if "member_at s m = Some y" for m y
    using D(1) [OF that] .
  show "\<exists>v. ((wchan_at s)(w := None)) (m_wchan y) = Some v \<and> m \<in> set (w_members v)"
    if "member_at s m = Some y" for m y
    using D(2) [OF that] no [OF that] by simp
  show "distinct (w_members x)" if "((wchan_at s)(w := None)) v = Some x" for v x
    using D(3) that by (simp split: if_splits)
  show "\<exists>y. member_at s m = Some y \<and> m_wchan y = v"
    if "((wchan_at s)(w := None)) v = Some x" "m \<in> set (w_members x)" for v x m
    using D(4) that by (simp split: if_splits)
  show "distinct (n_wchans x)" if "nick_at s n = Some x" for n x
    using D(5) [OF that] .
  show "\<exists>y. member_at s m = Some y \<and> m_nick y = n" if "nick_at s n = Some x" "m \<in> set (n_wchans x)" for n x m
    using D(6) [OF that] .
  show "m = m'" if "member_at s m = Some y" "member_at s m' = Some y'" "m_nick y = m_nick y'"
    "m_wchan y = m_wchan y'" for m m' y y'
    using D(7) [OF that] .
qed

lemma limits_ok_cong:
  assumes "chans t = chans s" "chan_at t = chan_at s" "limit_at t = limit_at s" "next_ptr t = next_ptr s"
  shows "limits_ok t = limits_ok s"
  by (simp only: limits_ok_def assms)

text \<open>What else a departure changes: the limit timers and the table of live channels.\<close>

definition parted :: "ptr \<Rightarrow> core \<Rightarrow> core \<Rightarrow> bool" where
  "parted m s t \<longleftrightarrow> (\<exists>wt wh ch lh ls np. t = (without_member m s)
     \<lparr>wchans := wt, wchan_at := wh, chan_at := ch, limit_at := lh, limits := ls, next_ptr := np\<rparr>)"

lemma parted_sel:
  assumes "parted m s t"
  shows "users t = users s" "nicks t = nicks s" "clones t = clones s" "user_at t = user_at s"
    "clone_at t = clone_at s" "nick_at t n = map_option (\<lambda>x. x\<lparr>n_wchans := remove1 m (n_wchans x)\<rparr>) (nick_at s n)"
    "member_at t = (member_at s)(m := None)" "cfg t = cfg s" "server_at t = server_at s"
    "clock t = clock s"
  using assms by (auto simp: parted_def without_member_def unlink_member_def)

lemma DeleteUserFromWchan_ok:
  assumes ok: "members_ok s" and m: "member_at s m = Some y"
  shows "\<exists>t. DeleteUserFromWchan (m_nick y) (m_wchan y) s = Some t \<and> members_ok t \<and> parted m s t"
proof -
  let ?w = "m_wchan y" and ?s1 = "without_member m s"
  from ok have l: "member_lists_ok s" and wo: "wchans_ok s" and li: "limits_ok s"
    by (simp_all add: members_ok_def)
  obtain x where x: "wchan_at s ?w = Some x" "m \<in> set (w_members x)"
    using member_lists_okD(2) [OF l m] by blast
  obtain r where r: "find_member ?w (m_nick y) s = Some r"
    "\<And>m. r = Some m \<longleftrightarrow> (\<exists>z. member_at s m = Some z \<and> m_nick z = m_nick y \<and> m_wchan z = ?w)"
    using find_member_ok [OF l x(1)] by blast
  have rm: "r = Some m" using r(2) m by blast
  let ?x = "x\<lparr>w_members := remove1 m (w_members x)\<rparr>"
  have x1: "wchan_at ?s1 ?w = Some ?x" using x(1) by simp
  have l1: "member_lists_ok ?s1" using without_member_lists [OF l] .
  have t: "table_ok w_chname (wchans s) (wchan_at s)" and tw: "?w \<in> snd ` set (wchans s)"
    using wo x(1) by (auto simp: wchans_ok_def)
  have t1: "table_ok w_chname (wchans ?s1) (wchan_at ?s1)"
    using t by (auto simp: table_ok_def)
  have li1: "limits_ok ?s1" using li limits_ok_cong [of ?s1 s] by simp
  have other: "w_members z \<noteq> []" if z: "wchan_at ?s1 v = Some z" "v \<noteq> ?w" for v z
  proof -
    obtain z0 where z0: "wchan_at s v = Some z0" "w_members z = remove1 m (w_members z0)"
      using z(1) by auto
    then have "m \<notin> set (w_members z0)"
      using member_lists_okD(4) [OF l z0(1), of m] m z(2) by auto
    then show ?thesis using z0 wo by (simp add: remove1_idem wchans_ok_def)
  qed
  have intab: "v \<in> snd ` set (wchans s)" if "wchan_at ?s1 v = Some z" for v z
    using wo that by (auto simp: wchans_ok_def)
  show ?thesis
  proof (cases "remove1 m (w_members x) = []")
    case True
    have fw: "tfind (wchans ?s1) (w_chname x) = Some ?w"
      using table_ok_find_key [OF t tw x(1)] by simp
    let ?t = "?s1\<lparr>wchans := terase (w_chname x) (wchans s), wchan_at := (wchan_at ?s1)(?w := None)\<rparr>"
    have run: "DeleteUserFromWchan (m_nick y) ?w s = Some ?t"
      using r(1) rm m x(1) True by (simp add: DeleteUserFromWchan_def DeleteMember_eq DeleteWchan_def)
    have er: "terase (w_chname x) (wchans s) = filter (\<lambda>e. snd e \<noteq> ?w) (wchans s)"
      using terase_filter_ptr [OF t1 fw] by simp
    have tt: "table_ok w_chname (wchans ?t) (wchan_at ?t)"
      using table_ok_erase [OF t1 fw, of None] by simp
    have nobody: "m_wchan z \<noteq> ?w" if "member_at ?s1 k = Some z" for k z
      using member_lists_okD(2) [OF l1 that] x(1) True by auto
    have "member_lists_ok ?t"
      by (rule member_lists_drop_wchan [OF l1]) (simp_all add: nobody)
    moreover have "wchans_ok ?t"
      unfolding wchans_ok_def
    proof (intro conjI allI impI)
      show "table_ok w_chname (wchans ?t) (wchan_at ?t)" by (rule tt)
      fix v z assume "wchan_at ?t v = Some z"
      then have v: "wchan_at ?s1 v = Some z" "v \<noteq> ?w" by (auto split: if_splits)
      show "w_members z \<noteq> []" using other [OF v] .
      show "v \<in> snd ` set (wchans ?t)" using intab [OF v(1)] v(2) er by force
    qed
    moreover have "limits_ok ?t" using li1 limits_ok_cong [of ?t ?s1] by simp
    moreover have "parted m s ?t"
      unfolding parted_def
      by (rule exI [of _ "wchans ?t"], rule exI [of _ "wchan_at ?t"], rule exI [of _ "chan_at s"],
          rule exI [of _ "limit_at s"], rule exI [of _ "limits s"], rule exI [of _ "next_ptr s"],
          rule core.equality) simp_all
    ultimately show ?thesis using run by (simp add: members_ok_def)
  next
    case False
    obtain ch lh ls np where tl: "touch_limit (w_chname x) ?s1 =
        Some (?s1\<lparr>chan_at := ch, limit_at := lh, limits := ls, next_ptr := np\<rparr>)" (is "_ = Some ?t")
      and lt: "limits_ok (?s1\<lparr>chan_at := ch, limit_at := lh, limits := ls, next_ptr := np\<rparr>)"
      using touch_limit_shape [OF li1] by blast
    have run: "DeleteUserFromWchan (m_nick y) ?w s = Some ?t"
      using r(1) rm m x(1) False tl by (simp add: DeleteUserFromWchan_def DeleteMember_eq)
    have "member_lists_ok ?t" using l1 member_lists_ok_cong [of ?t ?s1] by simp
    moreover have "w_members z \<noteq> []" if "wchan_at ?s1 v = Some z" for v z
      using other [OF that] x(1) False that by (cases "v = ?w") auto
    then have "wchans_ok ?t" using t1 intab by (simp add: wchans_ok_def)
    moreover have "parted m s ?t"
      unfolding parted_def
      by (rule exI [of _ "wchans s"], rule exI [of _ "wchan_at ?s1"], rule exI [of _ ch],
          rule exI [of _ lh], rule exI [of _ ls], rule exI [of _ np], rule core.equality) simp_all
    ultimately show ?thesis using run lt by (simp add: members_ok_def)
  qed
qed

end
