(* ===== verification/Quit.thy ===== *)
theory Quit
  imports Sessions Members
begin

section \<open>Leaving: all the structures stay consistent\<close>

text \<open>
  \<open>userquit\<close> logs a nick out, takes it off its channels and frees it. The theorem is that it
  never reads freed memory and keeps every invariant: the table of nicks and the clone counts,
  the login pointers, the member lists and the table of live channels.
\<close>

subsection \<open>All channels\<close>

definition forget_wchans :: "nick \<Rightarrow> nick" where
  "forget_wchans x = x\<lparr>n_wchans := []\<rparr>"

definition left_frame :: "core \<Rightarrow> core \<Rightarrow> bool" where
  "left_frame s t \<longleftrightarrow> users t = users s \<and> nicks t = nicks s \<and> clones t = clones s \<and>
     user_at t = user_at s \<and> clone_at t = clone_at s \<and> cfg t = cfg s \<and> server_at t = server_at s \<and>
     (\<forall>p. map_option forget_wchans (nick_at t p) = map_option forget_wchans (nick_at s p))"

lemma left_frame_refl [simp]: "left_frame s s"
  by (simp add: left_frame_def)

lemma left_frame_trans: "left_frame s t \<Longrightarrow> left_frame t u \<Longrightarrow> left_frame s u"
  by (simp add: left_frame_def)

lemma parted_left_frame: "parted m s t \<Longrightarrow> left_frame s t"
  by (auto simp: left_frame_def parted_sel forget_wchans_def [abs_def] option.map_comp o_def)

lemma left_frame_nick:
  assumes "left_frame s t"
  shows "nick_at t p = None \<longleftrightarrow> nick_at s p = None"
    and "nick_at t p = Some y \<Longrightarrow> \<exists>x. nick_at s p = Some x \<and> y = x\<lparr>n_wchans := n_wchans y\<rparr>"
proof -
  have e: "map_option forget_wchans (nick_at t p) = map_option forget_wchans (nick_at s p)"
    using assms by (simp add: left_frame_def)
  then show "nick_at t p = None \<longleftrightarrow> nick_at s p = None" by (cases "nick_at t p"; cases "nick_at s p") auto
  assume y: "nick_at t p = Some y"
  with e obtain x where x: "nick_at s p = Some x" "forget_wchans y = forget_wchans x"
    by (cases "nick_at s p") auto
  then have "(forget_wchans y)\<lparr>n_wchans := n_wchans y\<rparr> = (forget_wchans x)\<lparr>n_wchans := n_wchans y\<rparr>" by simp
  then have "y = x\<lparr>n_wchans := n_wchans y\<rparr>" by (simp add: forget_wchans_def)
  with x show "\<exists>x. nick_at s p = Some x \<and> y = x\<lparr>n_wchans := n_wchans y\<rparr>" by blast
qed

lemma DeleteUserFromWchans_ok:
  assumes ok: "members_ok s" and x: "nick_at s n = Some x"
  shows "\<exists>t z. DeleteUserFromWchans n s = Some t \<and> members_ok t \<and> left_frame s t \<and>
    nick_at t n = Some z \<and> n_wchans z = []"
proof -
  let ?f = "\<lambda>m s. Option.bind (member_at s m) (\<lambda>mb. DeleteUserFromWchan n (m_wchan mb) s)"
  let ?P = "\<lambda>ms t. members_ok t \<and> left_frame s t \<and> (\<exists>z. nick_at t n = Some z \<and> n_wchans z = ms)"
  have step: "\<exists>t'. ?f m t = Some t' \<and> ?P ms t'" if P: "?P (m # ms) t" for m ms t
  proof -
    from P obtain z where z: "nick_at t n = Some z" "n_wchans z = m # ms" by blast
    from P have l: "member_lists_ok t" by (simp add: members_ok_def)
    obtain y where y: "member_at t m = Some y" "m_nick y = n"
      using member_lists_okD(6) [OF l z(1), of m] z(2) by auto
    obtain t' where t': "DeleteUserFromWchan n (m_wchan y) t = Some t'" "members_ok t'" "parted m t t'"
      using DeleteUserFromWchan_ok [of t m y] P y by auto
    have "nick_at t' n = Some (z\<lparr>n_wchans := remove1 m (n_wchans z)\<rparr>)"
      using parted_sel(6) [OF t'(3)] z(1) by simp
    with z(2) t' y P parted_left_frame [OF t'(3)] show ?thesis
      by (auto intro: left_frame_trans)
  qed
  have "\<exists>t. foldM ?f (n_wchans x) s = Some t \<and> ?P [] t"
    by (rule foldM_total [where P = ?P]) (use ok x step in auto)
  with x show ?thesis by (simp add: DeleteUserFromWchans_def)
qed

subsection \<open>Frames of the invariants\<close>

lemma left_frame_nicks_ok:
  assumes f: "left_frame s t" and ok: "nicks_ok s" "clones_ok s"
  shows "nicks_ok t" "clones_ok t"
proof -
  have e: "nicks t = nicks s" "clones t = clones s" "clone_at t = clone_at s"
    using f by (simp_all add: left_frame_def)
  have key: "\<exists>y. nick_at t p = Some y \<and> n_name y = n_name x \<and> n_reshost y = n_reshost x"
    if "nick_at s p = Some x" for p x
  proof -
    have "nick_at t p \<noteq> None" using left_frame_nick(1) [OF f] that by simp
    then obtain y where y: "nick_at t p = Some y" by auto
    obtain x' where x': "nick_at s p = Some x'" "y = x'\<lparr>n_wchans := n_wchans y\<rparr>"
      using left_frame_nick(2) [OF f y] by blast
    have "n_name y = n_name x'" "n_reshost y = n_reshost x'" by (subst x'(2), simp)+
    with y x'(1) that show ?thesis by simp
  qed
  have "\<exists>y. nick_at t (snd k) = Some y \<and> lc (n_name y) = lc (fst k)" if k: "k \<in> set (nicks s)" for k
  proof -
    obtain x where "nick_at s (snd k) = Some x" "lc (n_name x) = lc (fst k)"
      using ok(1) k by (auto simp: nicks_ok_def table_ok_def)
    with key [of "snd k" x] show ?thesis by auto
  qed
  then show "nicks_ok t"
    using ok(1) left_frame_nick(1) [OF f] by (simp add: nicks_ok_def table_ok_def e)
  have "on_host t h p = on_host s h p" for h p
    using key [of p] left_frame_nick(1) [OF f, of p]
    by (cases "nick_at s p") (auto simp: on_host_def)
  then have "on_host t h = on_host s h" for h by (simp add: fun_eq_iff)
  then show "clones_ok t"
    using ok(2) howmanyclones_frame [of t s] e by (simp add: clones_ok_def host_count_def)
qed

lemma auth_ok_cong:
  assumes u: "user_at t = user_at s"
    and n: "\<And>p. map_option n_account (nick_at t p) = map_option n_account (nick_at s p)"
  shows "auth_ok t = auth_ok s"
proof -
  have acc: "(\<exists>x. nick_at t p = Some x \<and> n_account x = a) = (\<exists>x. nick_at s p = Some x \<and> n_account x = a)" for p a
    using n [of p] by (cases "nick_at t p"; cases "nick_at s p") auto
  have "(\<forall>n x u. nick_at t n = Some x \<longrightarrow> n_account x = Some u \<longrightarrow> Q n u) =
      (\<forall>n u. (\<exists>x. nick_at t n = Some x \<and> n_account x = Some u) \<longrightarrow> Q n u)" for Q and t :: core by blast
  then show ?thesis unfolding auth_ok_def u by (simp add: acc)
qed

lemma left_frame_auth_ok: "left_frame s t \<Longrightarrow> auth_ok t = auth_ok s"
proof (rule auth_ok_cong)
  fix p
  assume "left_frame s t"
  then have "map_option forget_wchans (nick_at t p) = map_option forget_wchans (nick_at s p)"
    by (simp add: left_frame_def)
  then have "map_option n_account (map_option forget_wchans (nick_at t p)) =
      map_option n_account (map_option forget_wchans (nick_at s p))" by simp
  then show "map_option n_account (nick_at t p) = map_option n_account (nick_at s p)"
    by (simp add: option.map_comp o_def forget_wchans_def)
qed (simp add: left_frame_def)


subsection \<open>The deletion of a nick\<close>

lemma drop_clone_shape: "drop_clone h s = Some t \<Longrightarrow> \<exists>c ch. t = s\<lparr>clones := c, clone_at := ch\<rparr>"
proof -
  assume r: "drop_clone h s = Some t"
  let ?Q = "\<lambda>t. t = s\<lparr>clones := clones t, clone_at := clone_at t\<rparr>"
  have "?Q t"
    using r by (auto simp: drop_clone_def upd_defs split: option.splits if_splits)
  then show ?thesis by blast
qed

lemma delete_nick_shape:
  assumes "nick_at s p = Some x" and "tfind (nicks s) (n_name x) \<noteq> None"
    and "delete_nick p s = Some t"
  shows "nick_at t = (nick_at s)(p := None)" "user_at t = user_at s" "member_at t = member_at s"
    "wchan_at t = wchan_at s" "wchans t = wchans s" "chans t = chans s" "chan_at t = chan_at s"
    "limit_at t = limit_at s" "next_ptr t = next_ptr s" "users t = users s"
proof -
  let ?s1 = "s\<lparr>nicks := terase (n_name x) (nicks s)\<rparr>"
  obtain s2 where s2: "drop_clone (n_reshost x) ?s1 = Some s2"
    "t = (unlink_server_head p s2)\<lparr>nick_at := (nick_at (unlink_server_head p s2))(p := None)\<rparr>"
    using assms by (auto simp: delete_nick_def Let_def split: if_splits)
  obtain c ch where "s2 = ?s1\<lparr>clones := c, clone_at := ch\<rparr>" using drop_clone_shape [OF s2(1)] by blast
  with s2(2) show "nick_at t = (nick_at s)(p := None)" "user_at t = user_at s" "member_at t = member_at s"
    "wchan_at t = wchan_at s" "wchans t = wchans s" "chans t = chans s" "chan_at t = chan_at s"
    "limit_at t = limit_at s" "next_ptr t = next_ptr s" "users t = users s"
    by (simp_all add: unlink_server_head_def)
qed

lemma member_lists_drop_nick:
  assumes l: "member_lists_ok s" and x: "nick_at s p = Some x" "n_wchans x = []"
    and t: "nick_at t = (nick_at s)(p := None)" "member_at t = member_at s" "wchan_at t = wchan_at s"
  shows "member_lists_ok t"
  unfolding member_lists_ok_def t
proof (intro conjI allI impI ballI)
  note D = member_lists_okD [OF l]
  have no: "m_nick y \<noteq> p" if "member_at s m = Some y" for m y
    using D(1) [OF that] x by auto
  show "\<exists>n. ((nick_at s)(p := None)) (m_nick y) = Some n \<and> m \<in> set (n_wchans n)"
    if "member_at s m = Some y" for m y
    using D(1) [OF that] no [OF that] by simp
  show "\<exists>v. wchan_at s (m_wchan y) = Some v \<and> m \<in> set (w_members v)" if "member_at s m = Some y" for m y
    using D(2) [OF that] .
  show "distinct (w_members x)" if "wchan_at s v = Some x" for v x
    using D(3) [OF that] .
  show "\<exists>y. member_at s m = Some y \<and> m_wchan y = v"
    if "wchan_at s v = Some x" "m \<in> set (w_members x)" for v x m
    using D(4) [OF that] .
  show "distinct (n_wchans x)" if "((nick_at s)(p := None)) n = Some x" for n x
    using D(5) that by (simp split: if_splits)
  show "\<exists>y. member_at s m = Some y \<and> m_nick y = n"
    if "((nick_at s)(p := None)) n = Some x" "m \<in> set (n_wchans x)" for n x m
    using D(6) that by (simp split: if_splits)
  show "m = m'" if "member_at s m = Some y" "member_at s m' = Some y'" "m_nick y = m_nick y'"
    "m_wchan y = m_wchan y'" for m m' y y'
    using D(7) [OF that] .
qed

lemma delete_nick_ok:
  assumes ok: "nicks_ok s" "clones_ok s" "auth_ok s" "members_ok s"
    and x: "nick_at s p = Some x" "n_account x = None" "n_wchans x = []"
  shows "\<exists>t. delete_nick p s = Some t \<and> nicks_ok t \<and> clones_ok t \<and> auth_ok t \<and> members_ok t \<and>
    nick_at t = (nick_at s)(p := None) \<and> user_at t = user_at s \<and> users t = users s"
proof -
  obtain t where t: "delete_nick p s = Some t" "nicks_ok t" "clones_ok t"
    using delete_nick_counts [OF ok(1,2) x(1)] by blast
  have "table_ok n_name (nicks s) (nick_at s)" "p \<in> snd ` set (nicks s)"
    using ok(1) x(1) by (auto simp: nicks_ok_def)
  from table_ok_find_key [OF this x(1), of "n_name x"] have "tfind (nicks s) (n_name x) \<noteq> None" by simp
  note sh = delete_nick_shape [OF x(1) this t(1)]
  have "auth_ok t"
    unfolding auth_ok_def sh(1,2)
  proof (intro conjI allI impI)
    show "\<exists>y. user_at s u = Some y \<and> u_authed y = 1 \<and> u_authed_nick y = Some n"
      if "((nick_at s)(p := None)) n = Some z" "n_account z = Some u" for n z u
      using auth_okD(1) [OF ok(3)] that by (simp split: if_splits)
    show "(u_authed y = 1) = (u_authed_nick y \<noteq> None)" if "user_at s u = Some y" for u y
      using auth_okD(2) [OF ok(3) that] .
    show "\<exists>z. ((nick_at s)(p := None)) n = Some z \<and> n_account z = Some u"
      if "user_at s u = Some y" "u_authed_nick y = Some n" for u y n
      using auth_okD(3) [OF ok(3) that] x by auto
  qed
  moreover have "member_lists_ok t"
    using member_lists_drop_nick [OF _ x(1,3) sh(1,3,4)] ok(4) by (simp add: members_ok_def)
  moreover have "wchans_ok t" using ok(4) by (simp add: members_ok_def wchans_ok_def sh)
  moreover have "limits_ok t" using ok(4) limits_ok_cong [OF sh(6,7,8,9)] by (simp add: members_ok_def)
  ultimately show ?thesis using t sh(1,2,10) by (simp add: members_ok_def)
qed

subsection \<open>Leaving the network\<close>

lemma wchans_ok_cong:
  "wchans t = wchans s \<Longrightarrow> wchan_at t = wchan_at s \<Longrightarrow> wchans_ok t = wchans_ok s"
  by (simp only: wchans_ok_def)

lemma nicks_ok_cong: "nicks t = nicks s \<Longrightarrow> nick_at t = nick_at s \<Longrightarrow> nicks_ok t = nicks_ok s"
  by (simp only: nicks_ok_def)

lemma clones_ok_cong:
  assumes "nicks t = nicks s" "nick_at t = nick_at s" "clones t = clones s" "clone_at t = clone_at s"
  shows "clones_ok t = clones_ok s"
proof -
  have "on_host t = on_host s" using assms(2) by (simp add: on_host_def fun_eq_iff)
  then have "host_count t h = host_count s h" for h using assms(1) by (simp only: host_count_def)
  then show ?thesis using howmanyclones_frame [of t s] assms by (simp add: clones_ok_def)
qed

lemma mod_out_invs:
  assumes "mod_out s t"
  shows "members_ok t = members_ok s" "nicks_ok t = nicks_ok s" "clones_ok t = clones_ok s"
    "auth_ok t = auth_ok s"
proof -
  obtain b g h where t: "t = s\<lparr>outbuf := b, guests := g, guest_at := h\<rparr>"
    using assms by (auto simp: mod_out_def)
  show "members_ok t = members_ok s"
    using member_lists_ok_cong [of t s] wchans_ok_cong [of t s] limits_ok_cong [of t s]
    by (simp add: members_ok_def t)
  show "nicks_ok t = nicks_ok s" using nicks_ok_cong [of t s] by (simp add: t)
  show "clones_ok t = clones_ok s" using clones_ok_cong [of t s] by (simp add: t)
  show "auth_ok t = auth_ok s" using auth_ok_cong [of t s] by (simp add: t)
qed

lemma member_lists_nick:
  assumes l: "member_lists_ok s" and x: "nick_at s p = Some x" "n_wchans x' = n_wchans x"
    and t: "nick_at t = (nick_at s)(p \<mapsto> x')" "member_at t = member_at s" "wchan_at t = wchan_at s"
  shows "member_lists_ok t"
  unfolding member_lists_ok_def t
proof (intro conjI allI impI ballI)
  note D = member_lists_okD [OF l]
  show "\<exists>n. ((nick_at s)(p \<mapsto> x')) (m_nick y) = Some n \<and> m \<in> set (n_wchans n)"
    if "member_at s m = Some y" for m y
    using D(1) [OF that] x by (cases "m_nick y = p") auto
  show "\<exists>v. wchan_at s (m_wchan y) = Some v \<and> m \<in> set (w_members v)" if "member_at s m = Some y" for m y
    using D(2) [OF that] .
  show "distinct (w_members x)" if "wchan_at s v = Some x" for v x
    using D(3) [OF that] .
  show "\<exists>y. member_at s m = Some y \<and> m_wchan y = v"
    if "wchan_at s v = Some x" "m \<in> set (w_members x)" for v x m
    using D(4) [OF that] .
  show "distinct (n_wchans z)" if "((nick_at s)(p \<mapsto> x')) n = Some z" for n z
    using D(5) [OF x(1)] D(5) [of n z] x(2) that by (cases "n = p") auto
  show "\<exists>y. member_at s m = Some y \<and> m_nick y = n"
    if "((nick_at s)(p \<mapsto> x')) n = Some z" "m \<in> set (n_wchans z)" for n z m
    using D(6) [OF x(1), of m] D(6) [of n z m] x(2) that by (cases "n = p") auto
  show "m = m'" if "member_at s m = Some y" "member_at s m' = Some y'" "m_nick y = m_nick y'"
    "m_wchan y = m_wchan y'" for m m' y y'
    using D(7) [OF that] .
qed

lemma nick_step_invs:
  assumes st: "nick_step s n x' t" and x: "nick_at s n = Some x" "same_nick x x'"
    and ok: "nicks_ok s" "clones_ok s" "members_ok s"
  shows "nicks_ok t" "clones_ok t" "members_ok t"
proof -
  let ?s = "s\<lparr>nick_at := (nick_at s)(n \<mapsto> x')\<rparr>"
  have m: "mod_out ?s t" using st by (simp add: nick_step_def)
  have same: "n_name x' = n_name x" "n_reshost x' = n_reshost x" "n_wchans x' = n_wchans x"
    using x(2) by (simp_all add: same_nick_def)
  have tn: "table_ok n_name (nicks s) (nick_at s)" using ok(1) by (simp add: nicks_ok_def)
  have "nicks_ok ?s"
    using ok(1) table_ok_upd [OF tn x(1), of x'] same(1) x(1) by (auto simp: nicks_ok_def)
  then show "nicks_ok t" using mod_out_invs(2) [OF m] by simp
  have "on_host ?s = on_host s" using x(1) same(2) by (auto simp: on_host_def fun_eq_iff)
  then have "host_count ?s h = host_count s h" for h by (simp add: host_count_def)
  then have "clones_ok ?s" using ok(2) howmanyclones_frame [of ?s s] by (simp add: clones_ok_def)
  then show "clones_ok t" using mod_out_invs(3) [OF m] by simp
  have "member_lists_ok ?s" using member_lists_nick [OF _ x(1) same(3), of ?s] ok(3) by (simp add: members_ok_def)
  then have "members_ok ?s"
    using ok(3) wchans_ok_cong [of ?s s] limits_ok_cong [of ?s s] by (simp add: members_ok_def)
  then show "members_ok t" using mod_out_invs(1) [OF m] by simp
qed

definition net_ok :: "core \<Rightarrow> bool" where
  "net_ok s \<longleftrightarrow> nicks_ok s \<and> clones_ok s \<and> auth_ok s \<and> members_ok s"

lemma user_update_invs:
  "nicks_ok (s\<lparr>user_at := h\<rparr>) = nicks_ok s" "clones_ok (s\<lparr>user_at := h\<rparr>) = clones_ok s"
  "members_ok (s\<lparr>user_at := h\<rparr>) = members_ok s"
  using nicks_ok_cong [of "s\<lparr>user_at := h\<rparr>" s] clones_ok_cong [of "s\<lparr>user_at := h\<rparr>" s]
    member_lists_ok_cong [of "s\<lparr>user_at := h\<rparr>" s] wchans_ok_cong [of "s\<lparr>user_at := h\<rparr>" s]
    limits_ok_cong [of "s\<lparr>user_at := h\<rparr>" s]
  by (simp_all add: members_ok_def)

text \<open>What leaving does to the accounts, and to the other nicks.\<close>

definition logged_off :: "ptr option \<Rightarrow> int \<Rightarrow> (ptr \<Rightarrow> user option) \<Rightarrow> ptr \<Rightarrow> user option" where
  "logged_off a t h = (case a of None \<Rightarrow> h | Some u \<Rightarrow> h(u := map_option (logged_out t) (h u)))"

definition quit_frame :: "ptr \<Rightarrow> core \<Rightarrow> core \<Rightarrow> bool" where
  "quit_frame n s t \<longleftrightarrow> users t = users s \<and> nick_at t n = None \<and>
     user_at t = logged_off (Option.bind (nick_at s n) n_account) (clock s) (user_at s) \<and>
     (\<forall>p. p \<noteq> n \<longrightarrow> map_option forget_wchans (nick_at t p) = map_option forget_wchans (nick_at s p))"

lemma logout_ok:
  assumes ok: "net_ok s" and x: "nick_at s n = Some x"
  shows "\<exists>t z. (case n_account x of None \<Rightarrow> Some s | Some u \<Rightarrow> user_logout n (Some u) s) = Some t \<and>
    net_ok t \<and> nick_at t n = Some z \<and> n_account z = None \<and> same_nick x z \<and>
    (\<forall>p. p \<noteq> n \<longrightarrow> nick_at t p = nick_at s p) \<and> users t = users s \<and>
    user_at t = logged_off (n_account x) (clock s) (user_at s)"
proof (cases "n_account x")
  case None
  with ok x show ?thesis by (simp add: logged_off_def)
next
  case (Some u)
  from ok have a: "auth_ok s" by (simp add: net_ok_def)
  obtain y where y: "user_at s u = Some y" using auth_okD(1) [OF a x Some] by blast
  obtain t z where t: "user_logout n (Some u) s = Some t" "n_account z = None" "same_nick x z"
    "nick_step (s\<lparr>user_at := (user_at s)(u \<mapsto> logged_out (clock s) y)\<rparr>) n z t"
    using user_logout_shape [OF x y] by blast
  have "auth_ok t" using user_logout_auth [OF a x Some] t(1) by simp
  moreover have "nicks_ok t" "clones_ok t" "members_ok t"
    using nick_step_invs [OF t(4) _ t(3)] ok x by (simp_all add: user_update_invs net_ok_def)
  moreover have "nick_at t = (nick_at s)(n \<mapsto> z)" using nick_step_sel(2) [OF t(4)] by simp
  ultimately show ?thesis
    using Some t(1,2,3) y nick_step_sel(1,6) [OF t(4)] by (simp add: net_ok_def logged_off_def)
qed

lemma userquit_full:
  assumes ok: "net_ok s"
  shows "\<exists>t r. userquit k s = Some t \<and> net_ok t \<and> find_nick (Some k) s = Some r \<and>
    (\<forall>n. r = Some n \<longrightarrow> nick_at t n = None \<and> (\<forall>m y. member_at t m = Some y \<longrightarrow> m_nick y \<noteq> n)) \<and>
    (r = None \<longrightarrow> t = s) \<and> (\<forall>n. r = Some n \<longrightarrow> quit_frame n s t)"
proof -
  have tn: "table_ok n_name (nicks s) (nick_at s)" using ok by (simp add: net_ok_def nicks_ok_def)
  let ?P = "\<lambda>n. streq (Some (n_name n)) (Some k) \<or> streq (Some (n_uid n)) (Some k)"
  obtain r where r: "find_nick (Some k) s = Some r"
    using table_ok_scan [OF tn, of ?P] by (simp add: find_nick_def)
  show ?thesis
  proof (cases r)
    case None
    with r ok show ?thesis by (simp add: userquit_def)
  next
    case (Some n)
    obtain x where x: "nick_at s n = Some x"
      using scan_SomeD [of "nick_at s" ?P "map snd (nicks s)" n] r Some by (auto simp: find_nick_def)
    obtain t1 z1 where t1: "(case n_account x of None \<Rightarrow> Some s | Some u \<Rightarrow> user_logout n (Some u) s) = Some t1"
      "net_ok t1" "nick_at t1 n = Some z1" "n_account z1 = None" "users t1 = users s"
      "user_at t1 = logged_off (n_account x) (clock s) (user_at s)" "\<forall>p. p \<noteq> n \<longrightarrow> nick_at t1 p = nick_at s p"
      using logout_ok [OF ok x] by blast
    let ?t2 = "DeleteGuest (n_name x) t1"
    have m2: "mod_out t1 ?t2" by simp
    have ok2: "net_ok ?t2" using t1(2) mod_out_invs [OF m2] by (simp add: net_ok_def)
    have z2: "nick_at ?t2 n = Some z1" using t1(3) mod_out_sel(5) [OF m2] by simp
    obtain t3 z3 where t3: "DeleteUserFromWchans n ?t2 = Some t3" "members_ok t3" "left_frame ?t2 t3"
      "nick_at t3 n = Some z3" "n_wchans z3 = []"
      using DeleteUserFromWchans_ok [of ?t2 n z1] ok2 z2 by (auto simp: net_ok_def)
    have acc3: "n_account z3 = None"
    proof -
      obtain w where "nick_at ?t2 n = Some w" "z3 = w\<lparr>n_wchans := n_wchans z3\<rparr>"
        using left_frame_nick(2) [OF t3(3,4)] by blast
      then have "n_account z3 = n_account w" by (metis nick.select_convs(15) nick.surjective nick.update_convs(16))
      with \<open>nick_at ?t2 n = Some w\<close> z2 t1(4) show ?thesis by simp
    qed
    have ok3: "nicks_ok t3" "clones_ok t3" "auth_ok t3"
      using left_frame_nicks_ok [OF t3(3)] left_frame_auth_ok [OF t3(3)] ok2 by (simp_all add: net_ok_def)
    obtain t4 where t4: "delete_nick n t3 = Some t4" "nicks_ok t4" "clones_ok t4" "auth_ok t4"
      "members_ok t4" "nick_at t4 = (nick_at t3)(n := None)" "user_at t4 = user_at t3" "users t4 = users t3"
      using delete_nick_ok [OF ok3 t3(2,4) acc3 t3(5)] by blast
    have "userquit k s = Some t4"
      using r Some x t1(1) t3(1) t4(1) by (simp add: userquit_def DeleteWildNick_def)
    moreover have "m_nick y \<noteq> n" if "member_at t4 m = Some y" for m y
      using member_lists_okD(1) [OF _ that] t4(5,6) by (auto simp: members_ok_def)
    moreover have "quit_frame n s t4"
      using t4(6-8) t3(3) t1(5-7) x mod_out_sel(1,4,5) [OF m2] by (auto simp: quit_frame_def left_frame_def)
    ultimately show ?thesis using r Some t4 by (auto simp: net_ok_def)
  qed
qed

lemma userquit_ok:
  assumes "net_ok s"
  shows "\<exists>t r. userquit k s = Some t \<and> net_ok t \<and> find_nick (Some k) s = Some r \<and>
    (\<forall>n. r = Some n \<longrightarrow> nick_at t n = None \<and> (\<forall>m y. member_at t m = Some y \<longrightarrow> m_nick y \<noteq> n)) \<and>
    (r = None \<longrightarrow> t = s)"
  using userquit_full [OF assms, of k] by blast

subsection \<open>Messages keep the invariants\<close>

lemma outbuf_invs:
  "nicks_ok (s\<lparr>outbuf := b\<rparr>) = nicks_ok s" "clones_ok (s\<lparr>outbuf := b\<rparr>) = clones_ok s"
  "members_ok (s\<lparr>outbuf := b\<rparr>) = members_ok s" "auth_ok (s\<lparr>outbuf := b\<rparr>) = auth_ok s"
  "heap_ok (s\<lparr>outbuf := b\<rparr>) = heap_ok s"
  using nicks_ok_cong [of "s\<lparr>outbuf := b\<rparr>" s] clones_ok_cong [of "s\<lparr>outbuf := b\<rparr>" s]
    member_lists_ok_cong [of "s\<lparr>outbuf := b\<rparr>" s] wchans_ok_cong [of "s\<lparr>outbuf := b\<rparr>" s]
    limits_ok_cong [of "s\<lparr>outbuf := b\<rparr>" s]
  by (simp_all add: members_ok_def auth_ok_def heap_ok_def)

interpretation net_q: quiet net_ok
  by unfold_locales (simp add: net_ok_def outbuf_invs)

interpretation heap_q: quiet heap_ok
  by unfold_locales (simp add: outbuf_invs)

interpretation auth_q: quiet auth_ok
  by unfold_locales (simp add: outbuf_invs)

subsection \<open>Leaving keeps the configuration\<close>

lemma send_raw_cfg [simp]: "cfg (send_raw m s) = cfg s"
  by (simp add: send_raw_def Let_def)

lemma upd_cfg:
  "upd_user p f s = Some t \<Longrightarrow> cfg t = cfg s" "upd_nick p g s = Some t \<Longrightarrow> cfg t = cfg s"
  "upd_chan p h s = Some t \<Longrightarrow> cfg t = cfg s" "upd_limit p k s = Some t \<Longrightarrow> cfg t = cfg s"
  "upd_clone p c s = Some t \<Longrightarrow> cfg t = cfg s"
  by (auto simp: upd_defs split: option.splits)

lemma user_logout_cfg: "user_logout n u s = Some t \<Longrightarrow> cfg t = cfg s"
  by (auto simp: user_logout_def Let_def split: option.splits dest!: upd_cfg)

lemma touch_limit_cfg: "touch_limit c s = Some t \<Longrightarrow> cfg t = cfg s"
  by (auto simp: touch_limit_def AddLimit_def Let_def fresh_def split: option.splits if_splits dest!: upd_cfg)

lemma DeleteUserFromWchan_cfg: "DeleteUserFromWchan n w s = Some t \<Longrightarrow> cfg t = cfg s"
  by (auto simp: DeleteUserFromWchan_def DeleteMember_def unlink_member_def DeleteWchan_def
      split: option.splits if_splits dest!: touch_limit_cfg)

lemma DeleteUserFromWchans_cfg: "DeleteUserFromWchans n s = Some t \<Longrightarrow> cfg t = cfg s"
proof -
  assume "DeleteUserFromWchans n s = Some t"
  then obtain x :: nick where "foldM (\<lambda>m s. do { mb \<leftarrow> member_at s m; DeleteUserFromWchan n (m_wchan mb) s })
      (n_wchans x) s = Some t" by (auto simp: DeleteUserFromWchans_def)
  then show ?thesis by (rule foldM_invariant) (auto dest: DeleteUserFromWchan_cfg)
qed

lemma delete_nick_cfg: "delete_nick n s = Some t \<Longrightarrow> cfg t = cfg s"
  by (auto simp: delete_nick_def drop_clone_def unlink_server_head_def Let_def
      split: option.splits if_splits dest!: upd_cfg)

lemma userquit_cfg: "userquit k s = Some t \<Longrightarrow> cfg t = cfg s"
  by (auto simp: userquit_def DeleteWildNick_def DeleteGuest_def split: option.splits
      dest!: user_logout_cfg DeleteUserFromWchans_cfg delete_nick_cfg)

lemma killuser_ok:
  assumes "net_ok s"
  shows "\<exists>t r. killuser k m w s = Some t \<and> net_ok t \<and> cfg t = cfg s \<and> find_nick (Some k) s = Some r \<and>
    (\<forall>n. r = Some n \<longrightarrow> nick_at t n = None)"
proof -
  have ok: "net_ok (send_kill k m w s)" using assms by simp
  have f: "find_nick (Some k) (send_kill k m w s) = find_nick (Some k) s"
    by (simp add: find_nick_def send_kill_def send_raw_def Let_def)
  obtain t r where t: "userquit k (send_kill k m w s) = Some t" "net_ok t"
    "find_nick (Some k) s = Some r" "\<forall>n. r = Some n \<longrightarrow> nick_at t n = None"
    using userquit_ok [OF ok, of k] unfolding f by blast
  moreover have "cfg t = cfg s" using userquit_cfg [OF t(1)] by (simp add: send_kill_def)
  ultimately show ?thesis by (auto simp: killuser_def)
qed

text \<open>Killing the nick that a name addresses.\<close>

lemma killuser_frame:
  assumes ok: "net_ok s" and f: "find_nick (Some k) s = Some (Some n)"
  shows "\<exists>t. killuser k m w s = Some t \<and> net_ok t \<and> cfg t = cfg s \<and> quit_frame n s t"
proof -
  let ?s = "send_kill k m w s"
  have ok': "net_ok ?s" using ok by simp
  obtain b where b: "?s = s\<lparr>outbuf := b\<rparr>" using send_raw_outbuf by (metis send_kill_def)
  have f': "find_nick (Some k) ?s = Some (Some n)" using f by (simp add: b find_nick_def)
  obtain t where t: "userquit k ?s = Some t" "net_ok t" "quit_frame n ?s t"
    using userquit_full [OF ok', of k] f' by auto
  moreover have "quit_frame n s t" using t(3) by (simp add: quit_frame_def b)
  moreover have "cfg t = cfg s" using userquit_cfg [OF t(1)] by (simp add: b)
  ultimately show ?thesis by (auto simp: killuser_def)
qed

text \<open>Taking a nick off all its channels reads no freed membership and leaves it on none.\<close>

lemma part_all_channels:
  assumes "members_ok s" and "nick_at s n = Some x"
  shows "\<exists>t z. DeleteUserFromWchans n s = Some t \<and> members_ok t \<and> left_frame s t \<and>
    nick_at t n = Some z \<and> n_wchans z = []"
  using assms by (rule DeleteUserFromWchans_ok)

end
