(* ===== verification/AccessLaws.thy ===== *)
theory AccessLaws
  imports Access
begin

section \<open>What the access queries guarantee\<close>

subsection \<open>Flag strings and flag words\<close>

definition all_uflags :: uflags where
  "all_uflags = 0x3FFFF"

definition uflag_letters :: string where
  "uflag_letters = ''oOvVxitFfhsHpPNkbw''"

lemma and_single_bit: "w AND push_bit k 1 = (if bit w k then push_bit k 1 else (0 :: uflags))"
  by (rule bit_word_eqI) (auto simp: bit_simps)

lemma uflag_letter_bits:
  "list_all2 (\<lambda>c k. uflag_of_char c = push_bit k 1) uflag_letters
     [0, 2, 1, 3, 4, 5, 6, 7, 8, 9, 10, 11, 12, 13, 14, 15, 16, 17]"
  by (simp add: uflag_letters_def uflag_of_char_def uflag_bits)

lemma letter_and:
  assumes "c \<in> set uflag_letters"
  shows "(if has_flag w (uflag_of_char c) then uflag_of_char c else 0) = w AND uflag_of_char c"
proof -
  obtain k where "uflag_of_char c = push_bit k 1"
    using uflag_letter_bits assms by (auto simp: list_all2_conv_all_nth in_set_conv_nth)
  then show ?thesis using and_single_bit [of w k] by (auto simp: has_flag_def)
qed

lemma parse_uflags_concat:
  assumes "set cs \<subseteq> set uflag_letters"
  shows "foldl (\<lambda>v c. v OR uflag_of_char c) (a OR (w AND b))
      (concat (map (\<lambda>c. if has_flag w (uflag_of_char c) then [c] else []) cs)) =
    a OR (w AND foldl (\<lambda>v c. v OR uflag_of_char c) b cs)"
  using assms
proof (induction cs arbitrary: b)
  case (Cons c cs)
  have "(a OR (w AND b)) OR (if has_flag w (uflag_of_char c) then uflag_of_char c else 0) =
      a OR (w AND (b OR uflag_of_char c))"
    using letter_and [of c w] Cons.prems by (simp add: bit.conj_disj_distrib or.assoc)
  with Cons.IH [of "b OR uflag_of_char c"] Cons.prems show ?case
    by (auto split: if_splits)
qed simp

lemma parse_letters: "foldl (\<lambda>v c. v OR uflag_of_char c) 0 uflag_letters = all_uflags"
  by (simp add: uflag_letters_def uflag_of_char_def uflag_bits all_uflags_def)

lemma parse_get_uflags: "parse_uflags (get_uflags_string w) = w AND all_uflags"
proof -
  have "uflag_of_char (CHR ''+'') = 0" by (simp add: uflag_of_char_def)
  then have "parse_uflags (get_uflags_string w) =
      foldl (\<lambda>v c. v OR uflag_of_char c) (0 OR (w AND 0))
        (concat (map (\<lambda>c. if has_flag w (uflag_of_char c) then [c] else []) uflag_letters))"
    by (simp add: parse_uflags_def get_uflags_string_def uflag_letters_def)
  also have "\<dots> = w AND all_uflags"
    by (subst parse_uflags_concat) (simp_all add: parse_letters)
  finally show ?thesis .
qed

text \<open>The string fits the 64 bytes that \<open>get_uflags_string\<close> allocates.\<close>

lemma length_get_uflags_string: "length (get_uflags_string w) \<le> 19"
proof -
  have "length (concat (map (\<lambda>c. if P c then [c] else []) cs)) \<le> length cs"
    for P and cs :: string by (induction cs) auto
  from this [of "\<lambda>c. has_flag w (uflag_of_char c)" uflag_letters] show ?thesis
    by (simp add: get_uflags_string_def uflag_letters_def)
qed

subsection \<open>Links\<close>

text \<open>
  \<open>masters_end s\<close>: following the masters of an account ends. \<open>link_step\<close> is one such step.
\<close>

definition link_step :: "core \<Rightarrow> ptr \<Rightarrow> ptr \<Rightarrow> bool" where
  "link_step s u m \<longleftrightarrow> get_link_master u s = Some (Some m)"

definition masters_end :: "core \<Rightarrow> bool" where
  "masters_end s \<longleftrightarrow> (\<exists>rank :: ptr \<Rightarrow> nat. \<forall>u m. link_step s u m \<longrightarrow> rank m < rank u)"

text \<open>Every account and every link of the tables is there, with its access entries.\<close>

definition access_ok :: "core \<Rightarrow> bool" where
  "access_ok s \<longleftrightarrow>
     table_ok u_nick (users s) (user_at s) \<and> table_ok n_name (nicks s) (nick_at s) \<and>
     table_ok l_slave (links s) (link_at s) \<and> table_ok c_name (chans s) (chan_at s) \<and>
     (\<forall>u x. user_at s u = Some x \<longrightarrow> (\<forall>p \<in> set (u_cflags x). \<exists>cf. cflag_at s p = Some cf \<and>
        chan_at s (cf_chan cf) \<noteq> None))"

lemma access_ok_find_nick: "access_ok s \<Longrightarrow> \<exists>r. find_nick k s = Some r \<and> (\<forall>n. r = Some n \<longrightarrow> nick_at s n \<noteq> None)"
proof -
  assume "access_ok s"
  then have t: "table_ok n_name (nicks s) (nick_at s)" by (simp add: access_ok_def)
  let ?P = "\<lambda>n. streq (Some (n_name n)) k \<or> streq (Some (n_uid n)) k"
  obtain r where r: "find_nick k s = Some r"
    using table_ok_scan [OF t, of ?P] by (simp add: find_nick_def)
  moreover have "nick_at s n \<noteq> None" if "r = Some n" for n
    using scan_SomeD [of "nick_at s" ?P "map snd (nicks s)" n] r that by (auto simp: find_nick_def)
  ultimately show ?thesis by blast
qed

lemma access_ok_user: "access_ok s \<Longrightarrow> find_user k s = Some u \<Longrightarrow> user_at s u \<noteq> None"
  using table_ok_find [of u_nick "users s" "user_at s"]
  by (cases k) (auto simp: access_ok_def find_user_def)

lemma access_ok_master:
  assumes "access_ok s" and "user_at s u \<noteq> None"
  shows "\<exists>m. get_link_master u s = Some m \<and> (\<forall>v. m = Some v \<longrightarrow> user_at s v \<noteq> None)"
proof -
  obtain x where x: "user_at s u = Some x" using assms(2) by auto
  have t: "table_ok l_slave (links s) (link_at s)" using assms(1) by (simp add: access_ok_def)
  show ?thesis
  proof (cases "find_link (Some (u_nick x)) s")
    case None
    with x show ?thesis by (simp add: get_link_master_def)
  next
    case (Some l)
    then obtain lk where "link_at s l = Some lk"
      using table_ok_find [OF t] by (auto simp: find_link_def)
    with x Some show ?thesis using access_ok_user [OF assms(1)] by (simp add: get_link_master_def)
  qed
qed

lemma access_ok_find_cflag:
  assumes "access_ok s" and "user_at s u \<noteq> None"
  shows "\<exists>r. find_cflag c u s = Some r \<and>
    (\<forall>p. r = Some p \<longrightarrow> (\<exists>cf. cflag_at s p = Some cf \<and> cf_chan cf = c \<and> chan_at s c \<noteq> None))"
proof -
  obtain x where x: "user_at s u = Some x" using assms(2) by auto
  with assms(1) have v: "\<forall>p \<in> set (u_cflags x). \<exists>cf. cflag_at s p = Some cf \<and> chan_at s (cf_chan cf) \<noteq> None"
    by (auto simp: access_ok_def)
  then have v': "\<forall>p \<in> set (u_cflags x). cflag_at s p \<noteq> None" by auto
  obtain r where r: "scan (cflag_at s) (\<lambda>cf. cf_chan cf = c) (u_cflags x) = Some r"
    using scan_find [OF v', of "\<lambda>cf. cf_chan cf = c"] by auto
  moreover have "\<exists>cf. cflag_at s p = Some cf \<and> cf_chan cf = c \<and> chan_at s c \<noteq> None" if "r = Some p" for p
    using scan_SomeD [of "cflag_at s" "\<lambda>cf. cf_chan cf = c" "u_cflags x" p] r that v by auto
  ultimately show ?thesis using x by (auto simp: find_cflag_def)
qed

subsection \<open>The queries return when the links have no cycle\<close>

text \<open>
  The contract between the shape of the queries and the checks they plug in: on a consistent
  state both checks answer.
\<close>

locale access_check =
  fixes s :: core and side :: bool and pre :: "ptr \<Rightarrow> bool option" and post :: "ptr \<Rightarrow> ptr \<Rightarrow> cflag \<Rightarrow> bool option"
  assumes pre_total: "side \<Longrightarrow> access_ok s \<Longrightarrow> user_at s u \<noteq> None \<Longrightarrow> pre u \<noteq> None"
    and post_total: "side \<Longrightarrow> access_ok s \<Longrightarrow> user_at s u \<noteq> None \<Longrightarrow> chan_at s c \<noteq> None \<Longrightarrow>
      masters_end s \<Longrightarrow> post u c cf \<noteq> None"
begin

lemma returns:
  assumes side: "side" and a: "access_ok s" and m: "masters_end s" and u: "\<And>u. uptr = Some u \<Longrightarrow> user_at s u \<noteq> None"
  shows "chan_access pre post uptr chptr s \<noteq> None"
proof (cases "\<exists>u c. uptr = Some u \<and> chptr = Some c")
  case False
  then show ?thesis by (subst chan_access.simps) (auto split: option.splits)
next
  case True
  then obtain u c where uc: "uptr = Some u" "chptr = Some c" by blast
  from m obtain rank :: "ptr \<Rightarrow> nat" where rank: "\<And>u m. link_step s u m \<Longrightarrow> rank m < rank u"
    by (auto simp: masters_end_def)
  have "user_at s u \<noteq> None \<Longrightarrow> chan_access pre post (Some u) (Some c) s \<noteq> None"
  proof (induction "rank u" arbitrary: u rule: less_induct)
    case less
    obtain b where b: "pre u = Some b" using pre_total [OF side a less.prems] by auto
    obtain r where r: "find_cflag c u s = Some r"
      "\<And>p. r = Some p \<Longrightarrow> \<exists>cf. cflag_at s p = Some cf \<and> cf_chan cf = c \<and> chan_at s c \<noteq> None"
      using access_ok_find_cflag [OF a less.prems] by blast
    obtain mm where mm: "get_link_master u s = Some mm" "\<And>v. mm = Some v \<Longrightarrow> user_at s v \<noteq> None"
      using access_ok_master [OF a less.prems] by blast
    have rec: "chan_access pre post mm (Some c) s \<noteq> None"
    proof (cases mm)
      case None
      then show ?thesis by (subst chan_access.simps) simp
    next
      case (Some v)
      then have "rank v < rank u" using mm(1) by (intro rank) (simp add: link_step_def)
      with less.hyps [OF this] mm(2) Some show ?thesis by simp
    qed
    show ?case
    proof (cases r)
      case None
      with b r(1) mm(1) rec show ?thesis by (subst chan_access.simps) auto
    next
      case (Some p)
      then obtain cf where "cflag_at s p = Some cf" "chan_at s c \<noteq> None" using r(2) by blast
      with b r(1) Some post_total [OF side a less.prems _ m, of c cf] show ?thesis
        by (subst chan_access.simps) auto
    qed
  qed
  with uc u show ?thesis by simp
qed

end

lemma IsSuperAdmin_total:
  assumes "access_ok s" and "user_at s u \<noteq> None"
  shows "IsSuperAdmin u s \<noteq> None"
proof -
  obtain x where x: "user_at s u = Some x" using assms(2) by auto
  obtain r where r: "find_nick (Some (u_nick x)) s = Some r" "\<And>n. r = Some n \<Longrightarrow> nick_at s n \<noteq> None"
    using access_ok_find_nick [OF assms(1)] by blast
  with x show ?thesis by (cases r) (auto simp: IsSuperAdmin_def)
qed


lemma IsAuthed_total: "user_at s u \<noteq> None \<Longrightarrow> IsAuthed (Some u) s \<noteq> None"
  by (auto simp: IsAuthed_def)

lemma nick_superadmin_total:
  assumes "access_ok s" and "user_at s u \<noteq> None"
  shows "nick_superadmin u s \<noteq> None"
proof -
  obtain x where x: "user_at s u = Some x" using assms(2) by auto
  obtain r where r: "find_nick (Some (u_nick x)) s = Some r" "\<And>n. r = Some n \<Longrightarrow> nick_at s n \<noteq> None"
    using access_ok_find_nick [OF assms(1)] by blast
  with x show ?thesis by (cases r) (auto simp: nick_superadmin_def)
qed

lemma axx_total: "chan_at s c \<noteq> None \<Longrightarrow> axx c s \<noteq> None"
  by (simp add: axx_def)

interpretation founder: access_check s True no_grant "founder_entry s" for s
proof
  show "founder_entry s u c cf \<noteq> None" if "access_ok s" "user_at s u \<noteq> None" "chan_at s c \<noteq> None" for u c cf
    using nick_superadmin_total [OF that(1,2)] axx_total [OF that(3)] by (auto simp: founder_entry_def)
qed (simp add: no_grant_def)

interpretation owner: access_check s True no_grant "owner_entry s" for s
proof
  show "owner_entry s u c cf \<noteq> None" if "chan_at s c \<noteq> None" for u c cf
    using axx_total [OF that] by (auto simp: owner_entry_def)
qed (simp add: no_grant_def)

lemma IsFounder_total:
  assumes "access_ok s" and "masters_end s" and "user_at s u \<noteq> None"
  shows "IsFounder (Some u) c s \<noteq> None"
  unfolding IsFounder_def using assms by (intro founder.returns) auto

interpretation can: access_check s True "super_grant s" "can_entry by_flags lev s" for s by_flags lev
proof
  show "can_entry by_flags lev s u c cf \<noteq> None"
    if "access_ok s" "user_at s u \<noteq> None" "chan_at s c \<noteq> None" "masters_end s" for u c cf
    using IsFounder_total [OF that(1,4,2)] axx_total [OF that(3)] by (auto simp: can_entry_def)
qed (simp add: super_grant_def IsSuperAdmin_total)

interpretation read_acl: access_check s True "read_grant s" "read_entry s" for s
proof
  show "read_grant s u \<noteq> None" if "access_ok s" "user_at s u \<noteq> None" for u
    using IsSuperAdmin_total [OF that] that(2) by (auto simp: read_grant_def)
  show "read_entry s u c cf \<noteq> None"
    if "access_ok s" "user_at s u \<noteq> None" "chan_at s c \<noteq> None" "masters_end s" for u c cf
    using IsFounder_total [OF that(1,4,2)] by (auto simp: read_entry_def)
qed

lemma write_entry_total:
  assumes "access_ok s" "masters_end s" "user_at s u \<noteq> None" "user_at s t \<noteq> None"
  shows "write_entry t s u c cf \<noteq> None"
proof -
  obtain r2 where "find_cflag c t s = Some r2" "\<And>p. r2 = Some p \<Longrightarrow> cflag_at s p \<noteq> None"
    using access_ok_find_cflag [OF assms(1,4)] by force
  moreover obtain r1 where "find_cflag c u s = Some r1"
    using access_ok_find_cflag [OF assms(1,3)] by force
  ultimately show ?thesis
    using IsFounder_total [OF assms(1,2,3), of "Some c"]
    by (cases r2) (auto simp: write_entry_def)
qed

lemma override_entry_total:
  assumes "access_ok s" "masters_end s" "user_at s u \<noteq> None" "user_at s t \<noteq> None"
  shows "override_entry t s u c cf \<noteq> None"
proof -
  obtain r2 where "find_cflag c t s = Some r2" "\<And>p. r2 = Some p \<Longrightarrow> cflag_at s p \<noteq> None"
    using access_ok_find_cflag [OF assms(1,4)] by force
  then show ?thesis
    using IsFounder_total [OF assms(1,2,3), of "Some c"]
    by (cases r2) (auto simp: override_entry_def)
qed


interpretation write_acl: access_check s "user_at s t \<noteq> None" "super_grant s" "write_entry t s" for s t
  by unfold_locales (simp_all add: super_grant_def IsSuperAdmin_total write_entry_total)

interpretation override: access_check s "user_at s t \<noteq> None" "override_grant t s" "override_entry t s" for s t
proof
  show "override_grant t s u \<noteq> None" if "user_at s t \<noteq> None" "access_ok s" "user_at s u \<noteq> None" for u
    using IsSuperAdmin_total [OF that(2,3)] IsAuthed_total [OF that(1)] by (auto simp: override_grant_def)
qed (simp add: override_entry_total)

lemma GetFlag_returns:
  assumes a: "access_ok s" and m: "masters_end s" and c: "\<And>c. chptr = Some c \<Longrightarrow> chan_at s c \<noteq> None"
  shows "user_at s u \<noteq> None \<Longrightarrow> GetFlag (Some u) chptr s \<noteq> None"
proof -
  from m obtain rank :: "ptr \<Rightarrow> nat" where rank: "\<And>u m. link_step s u m \<Longrightarrow> rank m < rank u"
    by (auto simp: masters_end_def)
  show "user_at s u \<noteq> None \<Longrightarrow> GetFlag (Some u) chptr s \<noteq> None"
  proof (induction "rank u" arbitrary: u rule: less_induct)
    case less
    obtain x where x: "user_at s u = Some x" using less.prems by auto
    obtain r where r: "find_nick (Some (u_nick x)) s = Some r" "\<And>n. r = Some n \<Longrightarrow> nick_at s n \<noteq> None"
      using access_ok_find_nick [OF a] by blast
    have sa: "\<exists>b. (case r of None \<Rightarrow> Some False
        | Some n \<Rightarrow> map_option (\<lambda>n. HasUmode n UMODE_SUPERADMIN) (nick_at s n)) = Some b"
      using r(2) by (cases r) auto
    obtain mm where mm: "get_link_master u s = Some mm" "\<And>v. mm = Some v \<Longrightarrow> user_at s v \<noteq> None"
      using access_ok_master [OF a less.prems] by blast
    have rec: "GetFlag mm chptr s \<noteq> None" if "mm = Some v" for v
    proof -
      have "rank v < rank u" using mm(1) that by (intro rank) (simp add: link_step_def)
      with less.hyps [OF this] mm(2) that show ?thesis by simp
    qed
    show ?case
    proof (cases chptr)
      case None
      with x r sa show ?thesis by (subst GetFlag.simps) auto
    next
      case (Some c)
      obtain q where q: "find_cflag c u s = Some q" "\<And>p. q = Some p \<Longrightarrow> \<exists>cf. cflag_at s p = Some cf"
        using access_ok_find_cflag [OF a less.prems] by blast
      from Some assms(3) obtain ch where ch: "chan_at s c = Some ch" by auto
      have "(case q of None \<Rightarrow> Option.bind (get_link_master u s) (\<lambda>m.
               case m of None \<Rightarrow> Some 0 | Some _ \<Rightarrow> GetFlag m chptr s)
             | Some p \<Rightarrow> Option.bind (cflag_at s p) (\<lambda>cf.
               Some (if cf_suspended cf = 1 then 0 else cf_flags cf))) \<noteq> None"
        using mm q(2) rec by (cases q; cases mm) auto
      with x r(1) sa ch q(1) Some show ?thesis
        by (subst GetFlag.simps) (auto simp del: bind_eq_None_iff)
    qed
  qed
qed

subsection \<open>On a cycle of links the queries do not return\<close>

lemma chan_access_cycle:
  assumes cyc: "\<And>u. u \<in> C \<Longrightarrow> pre u = Some False \<and> find_cflag c u s = Some None \<and>
      (\<exists>m \<in> C. get_link_master u s = Some (Some m))"
    and u: "u \<in> C"
  shows "chan_access pre post (Some u) (Some c) s = None"
proof (rule ccontr)
  assume "chan_access pre post (Some u) (Some c) s \<noteq> None"
  then obtain y where "chan_access pre post (Some u) (Some c) s = Some y" by auto
  then have "\<not> (pre = pre \<and> post = post \<and> s = s \<and> Some c = Some c \<and> Some u \<in> Some ` C)"
  proof (rule chan_access.raw_induct [where P = "\<lambda>pre' post' v c' s' y.
      \<not> (pre' = pre \<and> post' = post \<and> s' = s \<and> c' = Some c \<and> v \<in> Some ` C)", rotated])
    fix f pre' post' v c' s' y
    assume IH: "\<And>pre' post' v c' s' y. f pre' post' v c' s' = Some y \<Longrightarrow>
        \<not> (pre' = pre \<and> post' = post \<and> s' = s \<and> c' = Some c \<and> v \<in> Some ` C)"
      and st: "(case v of None \<Rightarrow> Some False | Some u \<Rightarrow> (case c' of None \<Rightarrow> Some False
        | Some c \<Rightarrow> Option.bind (pre' u) (\<lambda>granted. if granted then Some True
            else Option.bind (find_cflag c u s') (\<lambda>r. case r of
                None \<Rightarrow> Option.bind (get_link_master u s') (\<lambda>m. f pre' post' m c' s')
              | Some cf \<Rightarrow> Option.bind (cflag_at s' cf) (post' u c))))) = Some y"
    show "\<not> (pre' = pre \<and> post' = post \<and> s' = s \<and> c' = Some c \<and> v \<in> Some ` C)"
    proof (rule notI)
      assume eqs: "pre' = pre \<and> post' = post \<and> s' = s \<and> c' = Some c \<and> v \<in> Some ` C"
      then obtain w where w: "v = Some w" "w \<in> C" by auto
      obtain m where "m \<in> C" "get_link_master w s = Some (Some m)" using cyc [OF w(2)] by blast
      with st eqs w cyc [OF w(2)] have "f pre post (Some m) (Some c) s = Some y" by simp
      from IH [OF this] \<open>m \<in> C\<close> show False by simp
    qed
  qed
  with u show False by simp
qed

subsection \<open>Who may do what\<close>

text \<open>The account that owns an entry on the channel is judged by it.\<close>

lemma chan_access_entry:
  assumes "pre u = Some False" and "find_cflag c u s = Some (Some p)" and "cflag_at s p = Some cf"
  shows "chan_access pre post (Some u) (Some c) s = post u c cf"
  using assms by (subst chan_access.simps) simp

lemma chan_access_granted:
  "pre u = Some True \<Longrightarrow> chan_access pre post (Some u) (Some c) s = Some True"
  by (subst chan_access.simps) simp

lemma chan_access_master:
  assumes "pre u = Some False" and "find_cflag c u s = Some None" and "get_link_master u s = Some m"
  shows "chan_access pre post (Some u) (Some c) s = chan_access pre post m (Some c) s"
  using assms by (subst chan_access.simps) simp

lemma chan_access_mono:
  assumes "chan_access pre post1 u c s = Some True"
    and imp: "\<And>u c cf. post1 u c cf = Some True \<Longrightarrow> post2 u c cf = Some True"
  shows "chan_access pre post2 u c s = Some True"
proof -
  from assms(1)
  have "pre = pre \<and> post1 = post1 \<and> s = s \<and> True \<longrightarrow> chan_access pre post2 u c s = Some True"
  proof (rule chan_access.raw_induct [where P = "\<lambda>pre' post v c' s' y.
      pre' = pre \<and> post = post1 \<and> s' = s \<and> y \<longrightarrow> chan_access pre post2 v c' s = Some True", rotated])
    fix f pre' post v c' s' y
    assume IH: "\<And>pre' post v c' s' y. f pre' post v c' s' = Some y \<Longrightarrow>
        pre' = pre \<and> post = post1 \<and> s' = s \<and> y \<longrightarrow> chan_access pre post2 v c' s = Some True"
      and st: "(case v of None \<Rightarrow> Some False | Some u \<Rightarrow> (case c' of None \<Rightarrow> Some False
        | Some c \<Rightarrow> Option.bind (pre' u) (\<lambda>granted. if granted then Some True
            else Option.bind (find_cflag c u s') (\<lambda>r. case r of
                None \<Rightarrow> Option.bind (get_link_master u s') (\<lambda>m. f pre' post m c' s')
              | Some cf \<Rightarrow> Option.bind (cflag_at s' cf) (post u c))))) = Some y"
    show "pre' = pre \<and> post = post1 \<and> s' = s \<and> y \<longrightarrow> chan_access pre post2 v c' s = Some True"
    proof (rule impI)
      assume e: "pre' = pre \<and> post = post1 \<and> s' = s \<and> y"
      from st e obtain w d where wd: "v = Some w" "c' = Some d" by (auto split: option.splits)
      from st e wd obtain b where b: "pre w = Some b" by auto
      show "chan_access pre post2 v c' s = Some True"
      proof (cases b)
        case True
        with wd b show ?thesis by (simp add: chan_access_granted)
      next
        case False
        with st e wd b obtain r where r: "find_cflag d w s = Some r" by auto
        show ?thesis
        proof (cases r)
          case None
          with st e wd b r False obtain m where
            m: "get_link_master w s = Some m" "f pre post1 m (Some d) s = Some True" by auto
          from IH [OF m(2)] have "chan_access pre post2 m (Some d) s = Some True" by simp
          with wd b r m(1) None False show ?thesis by (simp add: chan_access_master)
        next
          case (Some p)
          with st e wd b r False obtain cf where
            "cflag_at s p = Some cf" "post1 w d cf = Some True" by auto
          with imp wd b r Some False show ?thesis by (simp add: chan_access_entry)
        qed
      qed
    qed
  qed
  then show ?thesis by blast
qed

lemma can_do_mono:
  assumes "can_do f1 l1 u c s = Some True"
    and "\<And>w. f1 w \<Longrightarrow> f2 w" and "l2 (cfg s) \<le> l1 (cfg s)"
  shows "can_do f2 l2 u c s = Some True"
  using assms(1) unfolding can_do_def
  by (rule chan_access_mono) (use assms(2,3) in \<open>auto simp: can_entry_def split: if_splits\<close>)

text \<open>Ranks: 3 owner, 2 co-owner, 1 protected, 0 the rest.\<close>

definition acl_rank :: "uflags \<Rightarrow> nat" where
  "acl_rank f = (if has_flag f UFLAG_OWNER then 3 else if has_flag f UFLAG_COOWNER then 2
     else if has_flag f UFLAG_PROTECT then 1 else 0)"

lemma outranks_rank:
  "outranks f1 f2 \<longleftrightarrow> acl_rank f2 < acl_rank f1 \<or> (acl_rank f1 = acl_rank f2 \<and> acl_rank f1 \<noteq> 1)"
  by (auto simp: outranks_def acl_rank_def any_rank_def)

text \<open>Who may op may halfop, and who may halfop may voice, when the configured levels are in this order.\<close>

lemma status_chain:
  assumes "cfg_chlev_halfop (cfg s) \<le> cfg_chlev_op (cfg s)"
    and "cfg_chlev_voice (cfg s) \<le> cfg_chlev_halfop (cfg s)"
    and "ChannelCanOp u c s = Some True"
  shows "ChannelCanHalfop u c s = Some True \<and> ChannelCanVoice u c s = Some True"
proof
  show h: "ChannelCanHalfop u c s = Some True"
    using assms(3) unfolding ChannelCanOp_def ChannelCanHalfop_def
    by (rule can_do_mono) (use assms(1) in simp_all)
  show "ChannelCanVoice u c s = Some True"
    using h unfolding ChannelCanHalfop_def ChannelCanVoice_def
    by (rule can_do_mono) (use assms(2) in auto)
qed

end
