(* ===== verification/Examples.thy ===== *)
theory Examples
  imports Quit AccessLaws
begin

section \<open>Concrete states\<close>

text \<open>
  The configuration \<open>main\<close> installs before it reads the file, an empty network, and a small one:
  the nick \<open>bob\<close>, logged in to the account \<open>bob\<close>, alone on the channel \<open>#a\<close>, which is registered
  and whose founder is that account. The theorems are applied to them.
\<close>

definition default_config :: config where
  "default_config =
     \<lparr>cfg_nick = ''C'', cfg_name = ''services.geeknode.org'', cfg_ident = ''cserve'',
      cfg_host = ''geeknode.org'', cfg_server = ''localhost'', cfg_port = 4400, cfg_bindip = [], cfg_sid = ''042'',
      cfg_linkpass = ''f00p4ss'', cfg_maxclones = 5, cfg_nick_expire = 45, cfg_chan_expire = 60, cfg_chanperuser = 10,
      cfg_level_oper = 100, cfg_level_admin = 500, cfg_level_root = 900, cfg_level_owner = 1000,
      cfg_mysql_host = ''localhost'', cfg_mysql_db = ''child'', cfg_mysql_login = ''child'',
      cfg_mysql_passwd = ''childp4ss'', cfg_logfile = ''child.log'', cfg_limittime = 5, cfg_savedb_interval = 60,
      cfg_guest_prefix = ''Geek'', cfg_anonymous_global = 0, cfg_sendmail = ''/usr/sbin/sendmail -t'',
      cfg_sendfrom = ''noreply@geeknode.org'', cfg_maxmsgtime = 2, cfg_maxmsgnb = 5,
      cfg_ignoretime = 60, cfg_maxloginatt = 3, cfg_chlev_sadmin = 20, cfg_chlev_admin = 10,
      cfg_chlev_op = 5, cfg_chlev_halfop = 4, cfg_chlev_voice = 3, cfg_chlev_nostatus = -1,
      cfg_chlev_akick = -2, cfg_chlev_akb = -3, cfg_chlev_invite = 1,
      cfg_usercloak = ''.users.geeknode.org'', cfg_emailreg = 0\<rparr>"

definition init_state :: core where
  "init_state =
     \<lparr>users = [], nicks = [], clones = [], trusts = [], links = [], guests = [], chans = [],
      wchans = [], bots = [], fakeusers = [], limits = [], timebans = [], servers = [],
      user_at = (\<lambda>_. None), nick_at = (\<lambda>_. None), clone_at = (\<lambda>_. None), trust_at = (\<lambda>_. None),
      link_at = (\<lambda>_. None), guest_at = (\<lambda>_. None), chan_at = (\<lambda>_. None), wchan_at = (\<lambda>_. None),
      bot_at = (\<lambda>_. None), fake_at = (\<lambda>_. None), member_at = (\<lambda>_. None), cflag_at = (\<lambda>_. None),
      limit_at = (\<lambda>_. None), timeban_at = (\<lambda>_. None), server_at = (\<lambda>_. None), next_ptr = 1,
      cfg = default_config, eos = False, raws = False, startuptime = 0, connected = False,
      remote_server = [], remote_sid = [], my_uid = [], clock = 1000, random_at = (\<lambda>i. i),
      random_pos = 0, salts = 0, outbuf = [], mails = []\<rparr>"

definition ex_nick :: nick where
  "ex_nick =
     \<lparr>n_name = ''bob'', n_ident = ''b'', n_host = ''h'', n_uid = ''001AAAAAA'', n_svid = ''bob'',
      n_hiddenhost = ''h'', n_reshost = ''h'', n_umodes = 0, n_msgtime = 0, n_msgnb = 0,
      n_ignored = False, n_ignoretime = 0, n_loginattempts = 0, n_lasttry = 0, n_account = Some 2,
      n_wchans = [5]\<rparr>"

definition ex_user :: user where
  "ex_user =
     \<lparr>u_nick = ''bob'', u_authed = 1, u_level = 1, u_md5_pass = [], u_pwhash = [], u_lastseen = 0,
      u_timeout = 60, u_options = 0, u_vhost = [], u_email = [], u_regtime = 0, u_cflags = [7],
      u_authed_nick = Some 1\<rparr>"

definition ex_chan :: chan where
  "ex_chan =
     \<lparr>c_name = ''#a'', c_owner = ''bob'', c_options = COPT_AXXFLAGS, c_entrymsg = [], c_mlock = [],
      c_topic = [], c_autolimit = 0, c_lastseen = 0, c_regtime = 0, c_active_autolimit = None,
      c_cflags = [7], c_chanbot = None, c_timebans = []\<rparr>"

definition ex_cflag :: cflag where
  "ex_cflag = \<lparr>cf_chan = 6, cf_user = 2, cf_flags = CHLEV_OWNER, cf_automode = 1, cf_suspended = 0,
     cf_uflags = UFLAG_CHANOWNER\<rparr>"

definition ex_net :: core where
  "ex_net = init_state
     \<lparr>users := [(''bob'', 2)], nicks := [(''bob'', 1)], clones := [(''h'', 3)],
      chans := [(''#a'', 6)], wchans := [(''#a'', 4)],
      user_at := [2 \<mapsto> ex_user], nick_at := [1 \<mapsto> ex_nick],
      clone_at := [3 \<mapsto> \<lparr>cl_host = ''h'', cl_count = 1\<rparr>], chan_at := [6 \<mapsto> ex_chan],
      wchan_at := [4 \<mapsto> \<lparr>w_chname = ''#a'', w_topic = [], w_members = [5]\<rparr>],
      member_at := [5 \<mapsto> \<lparr>m_wchan = 4, m_nick = 1, m_flags = 0\<rparr>],
      cflag_at := [7 \<mapsto> ex_cflag], next_ptr := 8\<rparr>"

lemmas ex_defs = init_state_def ex_net_def ex_nick_def ex_user_def ex_chan_def ex_cflag_def

lemma ex_net_nicks: "nicks_ok ex_net"
  by (simp add: nicks_ok_def table_ok_def om_ok_def ex_defs)

lemma ex_net_clones: "clones_ok ex_net"
proof -
  have find: "tfind (clones ex_net) h = (if lc ''h'' = lc h then Some 3 else None)" for h
    by (simp add: om_find_def om_entry_def strcasecmp_zero_iff ex_defs)
  have cnt: "host_count ex_net h = (if lc ''h'' = lc h then 1 else 0)" for h
    by (simp add: host_count_def on_host_def ex_defs)
  have "howmanyclones h ex_net = Some (int (host_count ex_net h))" for h
    using find [of h] cnt [of h]
    by (cases "lc ''h'' = lc h") (simp_all add: howmanyclones_Some howmanyclones_None, simp add: ex_defs)
  moreover have "table_ok cl_host (clones ex_net) (clone_at ex_net)"
    by (simp add: table_ok_def om_ok_def ex_defs)
  ultimately show ?thesis using find cnt by (simp add: clones_ok_def)
qed

lemma ex_net_auth: "auth_ok ex_net"
  by (simp add: auth_ok_def ex_defs)

lemma ex_net_lists: "member_lists_ok ex_net"
  by (simp add: member_lists_ok_def ex_defs)

lemma ex_net_members: "members_ok ex_net"
  using ex_net_lists
  by (simp add: members_ok_def wchans_ok_def limits_ok_def table_ok_def om_ok_def ex_defs)

lemma ex_net_ok: "net_ok ex_net"
  by (simp add: net_ok_def ex_net_nicks ex_net_clones ex_net_auth ex_net_members)

lemma init_state_ok: "nicks_ok init_state" "clones_ok init_state" "heap_ok init_state" "auth_ok init_state"
  by (simp_all add: nicks_ok_def clones_ok_def heap_ok_def auth_ok_def howmanyclones_def find_clone_def
      host_count_def init_state_def table_ok_def)

lemma ex_net_access: "access_ok ex_net"
  by (simp add: access_ok_def table_ok_def om_ok_def ex_defs)

lemma ex_net_masters: "masters_end ex_net"
proof -
  have "tfind [] k = None" for k :: string by simp
  then have "\<not> link_step ex_net u m" for u m
    by (auto simp: link_step_def get_link_master_def find_link_def ex_defs split: option.splits if_splits)
  then show ?thesis by (simp add: masters_end_def)
qed

end
