(* ===== verification/Commands.thy ===== *)
theory Commands
  imports Core
begin

section \<open>The command table: src/src/commands.c and src/src/commands.h\<close>

text \<open>
  The commands that the modules register, in the order of the list \<open>core_get_commands ()\<close>. A
  command is found by its position in the list. The function of a command is the name of a C
  function; the dispatchers of the modules are given what these names mean.
\<close>

definition CMDLEN :: nat where "CMDLEN = 200"

definition CMD_BASE :: int where "CMD_BASE = 0"
definition CMD_NICK :: int where "CMD_NICK = 1"
definition CMD_CHAN :: int where "CMD_CHAN = 2"
definition CMD_OPER :: int where "CMD_OPER = 3"
definition CMD_HOST :: int where "CMD_HOST = 4"
definition CMD_BOT :: int where "CMD_BOT = 5"
definition CMD_HELP :: int where "CMD_HELP = 6"

definition CMD_HELP_NICK :: int where "CMD_HELP_NICK = 1"
definition CMD_HELP_CHAN :: int where "CMD_HELP_CHAN = 2"
definition CMD_HELP_OPER :: int where "CMD_HELP_OPER = 3"
definition CMD_HELP_HOST :: int where "CMD_HELP_HOST = 4"
definition CMD_HELP_BOT :: int where "CMD_HELP_BOT = 5"
definition CMD_HELP_NICK_SET :: int where "CMD_HELP_NICK_SET = 6"
definition CMD_HELP_CHAN_SET :: int where "CMD_HELP_CHAN_SET = 7"
definition CMD_CHAN_SET :: int where "CMD_CHAN_SET = 1"
definition CMD_NICK_SET :: int where "CMD_NICK_SET = 1"

lemmas cmd_defs = CMD_BASE_def CMD_NICK_def CMD_CHAN_def CMD_OPER_def CMD_HOST_def CMD_BOT_def
  CMD_HELP_def CMD_HELP_NICK_def CMD_HELP_CHAN_def CMD_HELP_OPER_def CMD_HELP_HOST_def
  CMD_HELP_BOT_def CMD_HELP_NICK_SET_def CMD_HELP_CHAN_SET_def CMD_CHAN_SET_def CMD_NICK_SET_def

record command =
  cmd_name :: string
  cmd_desc :: string
  cmd_type :: int
  cmd_subtype :: int
  cmd_level :: int
  cmd_func :: string

definition addCommand :: "string \<Rightarrow> int \<Rightarrow> string \<Rightarrow> cstring \<Rightarrow> int \<Rightarrow> int \<Rightarrow> command list \<Rightarrow> command list" where
  "addCommand name ty func desc subtype level cs =
     cs @ [\<lparr>cmd_name = strncpy name CMDLEN, cmd_desc = (case desc of None \<Rightarrow> [] | Some d \<Rightarrow> strncpy d CMDLEN),
            cmd_type = ty, cmd_subtype = subtype, cmd_level = level, cmd_func = func\<rparr>]"

definition is_command :: "cstring \<Rightarrow> int \<Rightarrow> int \<Rightarrow> command \<Rightarrow> bool" where
  "is_command name ty subtype c \<longleftrightarrow>
     streq (Some (cmd_name c)) name \<and> cmd_type c = ty \<and> cmd_subtype c = subtype"

definition find_command :: "cstring \<Rightarrow> int \<Rightarrow> int \<Rightarrow> command list \<Rightarrow> nat option" where
  "find_command name ty subtype cs = position (is_command name ty subtype) cs"

definition delCommand :: "nat \<Rightarrow> command list \<Rightarrow> command list" where
  "delCommand i cs = take i cs @ drop (Suc i) cs"

definition deleteCommand :: "cstring \<Rightarrow> int \<Rightarrow> int \<Rightarrow> command list \<Rightarrow> int \<times> command list" where
  "deleteCommand name ty subtype cs =
     (case find_command name ty subtype cs of None \<Rightarrow> (0, cs) | Some i \<Rightarrow> (1, delCommand i cs))"

text \<open>The tail of each branch of \<open>setcmdlev\<close>: no command, or its level written.\<close>

definition write_level :: "nat option \<Rightarrow> int \<Rightarrow> command list \<Rightarrow> int \<times> command list" where
  "write_level cmd level cs =
     (case cmd of None \<Rightarrow> (0, cs) | Some i \<Rightarrow> (1, cs[i := (cs ! i)\<lparr>cmd_level := level\<rparr>]))"

definition base_type :: "cstring \<Rightarrow> int option" where
  "base_type base =
     (if streq base (Some ''nick'') then Some CMD_NICK else if streq base (Some ''chan'') then Some CMD_CHAN
      else if streq base (Some ''oper'') then Some CMD_OPER else if streq base (Some ''host'') then Some CMD_HOST
      else if streq base (Some ''bot'') then Some CMD_BOT else if streq base (Some ''help'') then Some CMD_HELP
      else None)"

definition sub_type :: "int \<Rightarrow> cstring \<Rightarrow> int option" where
  "sub_type ibase ty =
     (if ibase = CMD_NICK then Some (if streq ty (Some ''set'') then CMD_NICK_SET else 0)
      else if ibase = CMD_CHAN then Some (if streq ty (Some ''set'') then CMD_CHAN_SET else 0)
      else if ibase = CMD_HELP then
        (if streq ty (Some ''nick'') then Some CMD_HELP_NICK else if streq ty (Some ''chan'') then Some CMD_HELP_CHAN
         else if streq ty (Some ''oper'') then Some CMD_HELP_OPER else if streq ty (Some ''host'') then Some CMD_HELP_HOST
         else if streq ty (Some ''bot'') then Some CMD_HELP_BOT else None)
      else Some 0)"

text \<open>
  The second \<open>switch\<close> reads \<open>itype\<close>, where the values of \<open>CMD_NICK_SET\<close> and \<open>CMD_CHAN_SET\<close> are that of
  \<open>CMD_HELP_NICK\<close>: \<open>None\<close> is an \<open>isubtype\<close> of zero.
\<close>

definition set_type :: "int \<Rightarrow> cstring \<Rightarrow> int option" where
  "set_type itype subtype =
     (if itype = CMD_HELP_NICK \<and> streq subtype (Some ''set'') then Some CMD_HELP_NICK_SET
      else if itype = CMD_HELP_CHAN \<and> streq subtype (Some ''set'') then Some CMD_HELP_CHAN_SET
      else None)"

definition setcmdlev ::
  "config \<Rightarrow> cstring \<Rightarrow> cstring \<Rightarrow> cstring \<Rightarrow> cstring \<Rightarrow> int \<Rightarrow> command list \<Rightarrow> int \<times> command list" where
  "setcmdlev c base ty subtype en level cs =
     (if cfg_level_owner c < level then (0, cs)
      else case base_type base of None \<Rightarrow> (0, cs)
      | Some ibase \<Rightarrow>
          (case sub_type ibase ty of None \<Rightarrow> (0, cs)
           | Some itype \<Rightarrow>
               (case set_type itype subtype of
                  Some it \<Rightarrow>
                    write_level
                      (if \<not> is_empty en then find_command en ibase it cs
                       else find_command subtype ibase
                              (if it = CMD_HELP_NICK_SET then CMD_HELP_NICK else CMD_HELP_CHAN) cs) level cs
                | None \<Rightarrow>
                    if itype \<noteq> 0 then
                      write_level
                        (if \<not> is_empty subtype then find_command subtype ibase itype cs
                         else find_command ty ibase 0 cs) level cs
                    else
                      write_level
                        (if \<not> is_empty ty then find_command ty ibase 0 cs
                         else find_command base CMD_BASE 0 cs) level cs)))"

definition setcmdlev2 :: "config \<Rightarrow> cstring \<Rightarrow> command list \<Rightarrow> int \<times> command list" where
  "setcmdlev2 c data cs =
     (let (arg1, r) = SeperateWord data; (arg2, r) = SeperateWord r; (arg3, r) = SeperateWord r;
          (arg4, r) = SeperateWord r; (arg5, r) = SeperateWord r in
      if is_empty arg1 \<or> is_empty arg2 then (0, cs)
      else if is_empty arg3 then setcmdlev c arg1 None None None (atoi (the arg2)) cs
      else if is_empty arg4 then setcmdlev c arg1 arg2 None None (atoi (the arg3)) cs
      else if is_empty arg5 then setcmdlev c arg1 arg2 arg3 None (atoi (the arg4)) cs
      else setcmdlev c arg1 arg2 arg3 arg4 (atoi (the arg5)) cs)"

subsection \<open>The registration macros\<close>

text \<open>The arguments are the name, the function and the level.\<close>

type_synonym registration = "string \<times> string \<times> int"

definition add_all :: "int \<Rightarrow> int \<Rightarrow> registration list \<Rightarrow> command list \<Rightarrow> command list" where
  "add_all ty subtype rs cs = fold (\<lambda>(n, f, l). addCommand n ty f None subtype l) rs cs"

definition del_all :: "int \<Rightarrow> int \<Rightarrow> string list \<Rightarrow> command list \<Rightarrow> command list" where
  "del_all ty subtype ns cs = fold (\<lambda>n cs. snd (deleteCommand (Some n) ty subtype cs)) ns cs"

subsection \<open>Lemmas\<close>

text \<open>What every way of setting a level has in common.\<close>

definition level_set :: "int \<Rightarrow> command list \<Rightarrow> int \<times> command list \<Rightarrow> bool" where
  "level_set level cs r \<longleftrightarrow>
     r = (0, cs) \<or> (\<exists>i < length cs. r = (1, cs[i := (cs ! i)\<lparr>cmd_level := level\<rparr>]))"

lemma level_set_write:
  "level_set level cs (write_level (find_command n t u cs) level cs)"
proof (cases "find_command n t u cs")
  case (Some i)
  then have "i < length cs" by (auto simp: find_command_def dest: position_Some)
  with Some show ?thesis by (auto simp: write_level_def level_set_def)
qed (simp add: write_level_def level_set_def)

lemma level_set_refused [simp]: "level_set level cs (0, cs)"
  by (simp add: level_set_def)

lemma setcmdlev_level_set: "level_set level cs (setcmdlev c base ty subtype en level cs)"
  unfolding setcmdlev_def
  by (auto simp: level_set_write split: option.split)

lemma del_first:
  "\<forall>c \<in> set cs. \<not> is_command n t u c \<Longrightarrow> is_command n t u d \<Longrightarrow>
    deleteCommand n t u (cs @ d # ds) = (1, cs @ ds)"
  by (auto simp: deleteCommand_def find_command_def position_append delCommand_def
      position_None [THEN iffD2])

lemma find_command_level:
  assumes "setcmdlev c base ty subtype en level cs = (r, cs')"
  shows "find_command n t u cs' = find_command n t u cs"
proof -
  have "position (is_command n t u) (xs[i := (xs ! i)\<lparr>cmd_level := l\<rparr>]) = position (is_command n t u) xs"
    for xs i l
  proof (induction xs arbitrary: i)
    case (Cons x xs)
    then show ?case by (cases i) (auto simp: is_command_def)
  qed simp
  moreover have "level_set level cs (r, cs')" using setcmdlev_level_set [of level cs] assms by metis
  ultimately show ?thesis by (auto simp: level_set_def find_command_def)
qed

end
