(* ===== verification/Modules.thy ===== *)
theory Modules
  imports Commands
begin

section \<open>Modules and hooks: src/src/modules.c and src/src/modules.h\<close>

text \<open>
  The table of modules, each with the list of its hooks. The dynamic linker is outside: what
  \<open>dlopen\<close> and \<open>dlsym\<close> find and what the functions of a module do are arguments. The hook
  functions work on a state of any type, that of the service.
\<close>

definition HOOK_JOIN :: "64 word" where "HOOK_JOIN = 0x0001"
definition HOOK_NICKCHANGE :: "64 word" where "HOOK_NICKCHANGE = 0x0002"
definition HOOK_NICKCREATE :: "64 word" where "HOOK_NICKCREATE = 0x0004"
definition HOOK_PING :: "64 word" where "HOOK_PING = 0x0008"
definition HOOK_QUIT :: "64 word" where "HOOK_QUIT = 0x0010"
definition HOOK_UMODE :: "64 word" where "HOOK_UMODE = 0x0020"
definition HOOK_PRE_PRIVMSG :: "64 word" where "HOOK_PRE_PRIVMSG = 0x0080"
definition HOOK_PRIVMSG :: "64 word" where "HOOK_PRIVMSG = 0x0100"
definition HOOK_RAW :: "64 word" where "HOOK_RAW = 0x0200"
definition HOOK_PRE_JOIN :: "64 word" where "HOOK_PRE_JOIN = 0x0400"
definition HOOK_KILL :: "64 word" where "HOOK_KILL = 0x0800"
definition HOOK_LOADDB :: "64 word" where "HOOK_LOADDB = 0x1000"
definition HOOK_SAVEDB :: "64 word" where "HOOK_SAVEDB = 0x2000"
definition HOOK_CONNECTED :: "64 word" where "HOOK_CONNECTED = 0x4000"
definition HOOK_SASL :: "64 word" where "HOOK_SASL = 0x8000"

definition MOD_STOP :: int where "MOD_STOP = 0"
definition MOD_CONTINUE :: int where "MOD_CONTINUE = 1"

record hook =
  hk_name :: string
  hk_modname :: string
  hk_mask :: "64 word"
  hk_ptr :: string

record modul =
  md_name :: string
  md_nodreload :: int
  md_hooks :: "hook list"

type_synonym modules = "(string, modul) omap"

definition find_module :: "cstring \<Rightarrow> modules \<Rightarrow> modul option" where
  "find_module name ms = Option.bind name (tfind ms)"

definition find_hook :: "modul \<Rightarrow> cstring \<Rightarrow> hook option" where
  "find_hook m name = find (\<lambda>h. streq (Some (hk_name h)) name) (md_hooks m)"

text \<open>Writing to the module with a name, through its pointer.\<close>

definition on_module :: "string \<Rightarrow> (modul \<Rightarrow> modul) \<Rightarrow> modules \<Rightarrow> modules" where
  "on_module name f ms = map (\<lambda>e. if lc (fst e) = lc name then (fst e, f (snd e)) else e) ms"

definition AddHook :: "64 word \<Rightarrow> string \<Rightarrow> string \<Rightarrow> string \<Rightarrow> modules \<Rightarrow> hook option \<times> modules" where
  "AddHook msk fptr name modname ms =
     (case find_module (Some modname) ms of None \<Rightarrow> (None, ms)
      | Some m \<Rightarrow>
          if find_hook m (Some name) \<noteq> None then (None, ms)
          else (let h = \<lparr>hk_name = strncpy name 50, hk_modname = strncpy modname 50, hk_mask = msk,
                         hk_ptr = fptr\<rparr>
                in (Some h, on_module modname (\<lambda>m. m\<lparr>md_hooks := md_hooks m @ [h]\<rparr>) ms)))"

definition DelHook :: "string \<Rightarrow> hook \<Rightarrow> modules \<Rightarrow> modules" where
  "DelHook modname h ms = on_module modname (\<lambda>m. m\<lparr>md_hooks := remove1 h (md_hooks m)\<rparr>) ms"

text \<open>
  \<open>loadmodule\<close>: the path of the file is printed into 60 bytes. \<open>opens\<close> says whether \<open>dlopen\<close> opens
  it, \<open>has_init\<close> whether it has a \<open>child_init\<close>, and \<open>init\<close> is that function.
\<close>

definition loadmodule ::
  "(string \<Rightarrow> bool) \<Rightarrow> (string \<Rightarrow> bool) \<Rightarrow> (string \<Rightarrow> modules \<times> 'w \<Rightarrow> (modules \<times> 'w) option) \<Rightarrow> string \<Rightarrow>
   modules \<times> 'w \<Rightarrow> (bool \<times> modules \<times> 'w) option" where
  "loadmodule opens has_init init name st =
     (let (ms, w) = st; path = ''./src/modules/'' @ name @ ''.so'' in
      if find_module (Some name) ms \<noteq> None then Some (False, st)
      else if 60 \<le> length path then None
      else if \<not> opens path \<or> \<not> has_init path then Some (False, st)
      else (let m = \<lparr>md_name = strncpy name 50, md_nodreload = 0, md_hooks = []\<rparr> in
        if tfind ms (md_name m) \<noteq> None then Some (False, st)
        else map_option (Pair True) (init name (tinsert (md_name m) m ms, w))))"

text \<open>\<open>cleanup\<close> is \<open>child_cleanup\<close>, \<open>has_cleanup\<close> whether there is one.\<close>

definition unloadmodule ::
  "(string \<Rightarrow> bool) \<Rightarrow> (string \<Rightarrow> modules \<times> 'w \<Rightarrow> (modules \<times> 'w) option) \<Rightarrow> string \<Rightarrow>
   modules \<times> 'w \<Rightarrow> (int \<times> modules \<times> 'w) option" where
  "unloadmodule has_cleanup cleanup name st =
     (let (ms, w) = st in
      case find_module (Some name) ms of None \<Rightarrow> Some (0, st)
      | Some m \<Rightarrow>
          do { let ms = fold (DelHook name) (md_hooks m) ms;
               (ms, w) \<leftarrow> (if has_cleanup name then cleanup name (ms, w) else Some (ms, w));
               Some (1, terase (md_name m) ms, w) })"

definition unloadallmod ::
  "(string \<Rightarrow> bool) \<Rightarrow> (string \<Rightarrow> modules \<times> 'w \<Rightarrow> (modules \<times> 'w) option) \<Rightarrow> modules \<times> 'w \<Rightarrow>
   (modules \<times> 'w) option" where
  "unloadallmod has_cleanup cleanup st =
     foldM (\<lambda>e st. map_option snd (unloadmodule has_cleanup cleanup (md_name (snd e)) st)) (fst st) st"

text \<open>
  \<open>RunHooks\<close> calls every hook with the mask, of every module, in order; \<open>call\<close> is what a hook
  function does with the arguments it is given. The answer is \<open>MOD_STOP\<close> when one of them gave it.
\<close>

definition hooks_for :: "64 word \<Rightarrow> modules \<Rightarrow> hook list" where
  "hooks_for msk ms = filter (\<lambda>h. has_flag (hk_mask h) msk) (concat (map (md_hooks \<circ> snd) ms))"

definition run_hook :: "(string \<Rightarrow> 'w \<Rightarrow> (int \<times> 'w) option) \<Rightarrow> hook \<Rightarrow> bool \<times> 'w \<Rightarrow> (bool \<times> 'w) option" where
  "run_hook call h st =
     map_option (\<lambda>(r, w). (fst st \<or> r = MOD_STOP, w)) (call (hk_ptr h) (snd st))"

definition RunHooks ::
  "(string \<Rightarrow> 'w \<Rightarrow> (int \<times> 'w) option) \<Rightarrow> 64 word \<Rightarrow> modules \<Rightarrow> 'w \<Rightarrow> (int \<times> 'w) option" where
  "RunHooks call msk ms w =
     map_option (\<lambda>(stop, w). (if stop then MOD_STOP else MOD_CONTINUE, w))
       (foldM (run_hook call) (hooks_for msk ms) (False, w))"

subsection \<open>Lemmas\<close>

text \<open>A property of the state that every hook keeps is kept by running them.\<close>

lemma RunHooks_ok:
  assumes "P w"
    and step: "\<And>h v. h \<in> set (hooks_for msk ms) \<Longrightarrow> P v \<Longrightarrow> \<exists>r v'. call (hk_ptr h) v = Some (r, v') \<and> P v'"
  shows "\<exists>r w'. RunHooks call msk ms w = Some (r, w') \<and> P w' \<and> r \<in> {MOD_STOP, MOD_CONTINUE}"
proof -
  have loop: "\<exists>b' w'. foldM (run_hook call) hs (b, v) = Some (b', w') \<and> P w'"
    if "set hs \<subseteq> set (hooks_for msk ms)" "P v" for hs b v
    using that
  proof (induction hs arbitrary: b v)
    case Nil
    then show ?case by simp
  next
    case (Cons h hs)
    then obtain r v' where v': "call (hk_ptr h) v = Some (r, v')" "P v'" using step [of h v] by auto
    have "run_hook call h (b, v) = Some (b \<or> r = MOD_STOP, v')" using v'(1) by (simp add: run_hook_def)
    with Cons.IH [of v' "b \<or> r = MOD_STOP"] Cons.prems(1) v'(2) show ?case by simp
  qed
  obtain b w' where "foldM (run_hook call) (hooks_for msk ms) (False, w) = Some (b, w')" "P w'"
    using loop [OF subset_refl assms(1)] by blast
  then show ?thesis by (simp add: RunHooks_def)
qed

text \<open>No hook stops another: all of them run, whatever they answer.\<close>

lemma RunHooks_pure:
  assumes "\<And>h v. call h v = Some (ans h, upd h v)"
  shows "RunHooks call msk ms w =
    Some (if \<exists>h \<in> set (hooks_for msk ms). ans (hk_ptr h) = MOD_STOP then MOD_STOP else MOD_CONTINUE,
          fold (\<lambda>h. upd (hk_ptr h)) (hooks_for msk ms) w)"
proof -
  have "foldM (run_hook call) hs (b, w) =
    Some (b \<or> (\<exists>h \<in> set hs. ans (hk_ptr h) = MOD_STOP), fold (\<lambda>h. upd (hk_ptr h)) hs w)" for hs b
    by (induction hs arbitrary: b w) (auto simp: run_hook_def assms)
  then show ?thesis by (simp add: RunHooks_def)
qed

end
