(* ===== verification/Secserv.thy ===== *)
theory Secserv
  imports Quit Modules
begin

section \<open>The protection module: src/src/modules/secserv.c\<close>

text \<open>
  The static variables of the module are the record \<open>secserv\<close>; its functions work on that record
  and the core. The level 0 disables the protection, 4 kills every new nick; \<open>perm\<close> 1 forbids to
  lower the level automatically and 2 to change it automatically.
\<close>

record secserv =
  kills :: int
  seclev :: int
  perm :: int
  old_maxclones :: int
  glines :: int
  rmode :: bool

definition logchan :: string where "logchan = ''#stats''"
definition sec_modes :: string where "sec_modes = ''R''"
definition maxkills :: int where "maxkills = 50"
definition maxglines :: int where "maxglines = 50"
definition gline_expire :: int where "gline_expire = 60 * 60 * 24 * 7"

type_synonym sec = "secserv \<times> core"

text \<open>\<open>child_init\<close>, less the registration of its hooks and command.\<close>

definition secserv_init :: "sec \<Rightarrow> sec" where
  "secserv_init st =
     (let (v, s) = st in
      (v\<lparr>kills := 0, perm := 0, rmode := False, seclev := 1, old_maxclones := cfg_maxclones (cfg s)\<rparr>,
       MsgToChan logchan ''[SecServ] Hi !'' s))"

definition secserv_hooks :: "modules \<Rightarrow> modules" where
  "secserv_hooks ms =
     snd (AddHook HOOK_PING ''reset_vars'' ''reset_vars'' ''secserv''
       (snd (AddHook HOOK_NICKCHANGE ''check_nick'' ''check_nickchange'' ''secserv''
         (snd (AddHook HOOK_NICKCREATE ''check_nick'' ''check_nickcreate'' ''secserv'' ms)))))"

definition secserv_commands :: "config \<Rightarrow> command list \<Rightarrow> command list" where
  "secserv_commands c cs =
     addCommand ''seclev'' CMD_HELP ''secserv_help'' (Some ''Manage security level'') CMD_HELP_OPER (cfg_level_admin c)
       (addCommand ''seclev'' CMD_OPER ''secserv_cmds'' None 0 (cfg_level_admin c) cs)"

definition secserv_cleanup :: "command list \<times> core \<Rightarrow> command list \<times> core" where
  "secserv_cleanup st =
     (del_all CMD_HELP CMD_HELP_OPER [''seclev''] (del_all CMD_OPER 0 [''seclev''] (fst st)),
      MsgToChan logchan ''[SecServ] Bye :('' (snd st))"

definition secserv_help :: "ptr \<Rightarrow> core \<Rightarrow> core option" where
  "secserv_help nptr =
     foldM (NoticeToUser nptr)
       [''Syntax: '' @ bold ''seclev'' @ '' [level] [perm]'',
        ''   Level 0:   disable protection'',
        ''   Level 1:   Kill bad nicks'',
        ''   Level 2:   Gline bad nicks, set maxclones limit to 2'',
        ''   Level 3:   Same as level 2 and set mode +'' @ sec_modes @ '' on all chans'',
        ''   Level 4:   Kill all new users (this level is NEVER automatically enabled)'',
        '' '',
        ''   Perm 0: Automatic increasing and decreasing allowed'',
        ''   Perm 1: Automatic increasing only'',
        ''   Perm 2: Permanent level'']"

definition match_bad_pattern :: "string \<Rightarrow> nat" where
  "match_bad_pattern s = length (takeWhile isdigit (take (NICKLEN + 1) (tl s)))"

definition mode_allchans :: "string \<Rightarrow> core \<Rightarrow> core option" where
  "mode_allchans sign s =
     foldM (\<lambda>p s. do { c \<leftarrow> chan_at s p;
              Some (send_raw (''MODE '' @ c_name c @ '' '' @ sign @ sec_modes) s) }) (map snd (chans s)) s"

definition set_mode_allchans :: "sec \<Rightarrow> sec option" where
  "set_mode_allchans st =
     (let (v, s) = st in
      if rmode v then Some st else map_option (\<lambda>s. (v\<lparr>rmode := True\<rparr>, s)) (mode_allchans ''+'' s))"

definition remove_mode_allchans :: "sec \<Rightarrow> sec option" where
  "remove_mode_allchans st =
     (let (v, s) = st in
      if \<not> rmode v then Some st else map_option (\<lambda>s. (v\<lparr>rmode := False\<rparr>, s)) (mode_allchans ''-'' s))"

definition say :: "string \<Rightarrow> sec \<Rightarrow> sec" where
  "say msg st = (fst st, MsgToChan logchan msg (snd st))"

definition Global :: "string \<Rightarrow> sec \<Rightarrow> sec" where
  "Global msg st = (fst st, send_global ''*'' msg (snd st))"

definition put_level :: "int \<Rightarrow> int \<Rightarrow> sec \<Rightarrow> sec" where
  "put_level l m st =
     ((fst st)\<lparr>seclev := l\<rparr>, (snd st)\<lparr>cfg := (cfg (snd st))\<lparr>cfg_maxclones := m\<rparr>\<rparr>)"

definition back_to_normal :: "sec \<Rightarrow> sec option" where
  "back_to_normal st =
     (if 2 < seclev (fst st)
      then map_option (Global ''[Security] Back to normal security level.'') (remove_mode_allchans st)
      else Some st)"

definition set_seclev :: "int \<Rightarrow> sec \<Rightarrow> (int \<times> sec) option" where
  "set_seclev level st =
     (let lev = seclev (fst st); d = dec level in
      if level = 0 then
        (if lev = 0 then Some (MOD_STOP, st)
         else do { st \<leftarrow> back_to_normal st;
                   Some (0, say (''Security level '' @ [CHR 0x03] @ ''3disabled'' @ [CHR 0x03])
                     (put_level 0 (old_maxclones (fst st)) st)) })
      else if level = 1 then
        (if lev = 1 then Some (MOD_STOP, st)
         else do { st \<leftarrow> back_to_normal st;
                   Some (0, say (''Security level set to '' @ bold d)
                     (put_level 1 (old_maxclones (fst st)) st)) })
      else if level = 2 then
        (if lev = 2 then Some (MOD_STOP, st)
         else do { st \<leftarrow> back_to_normal st;
                   Some (0, say (''Security level set to'' @ [CHR 0x03] @ ''4 '' @ d @ [CHR 0x03])
                     (put_level 2 2 st)) })
      else if level = 3 then
        (if lev = 3 then Some (MOD_STOP, st)
         else do { st \<leftarrow> set_mode_allchans
                     (Global (if lev = 4
                        then ''[Security] Decreasing security level, new connections now allowed.''
                        else ''[Security] Possible clones attack, protecting channels.'') st);
                   Some (0, say (''Security level set to'' @ [CHR 0x03] @ ''4 '' @ d @ [CHR 0x03])
                     (put_level 3 2 st)) })
      else if level = 4 then
        (if lev = 4 then Some (MOD_STOP, st)
         else Some (0, say (''['' @ [CHR 0x02, CHR 0x03] @ ''4CRITICAL'' @ [CHR 0x02, CHR 0x03] @
                  ''] Security level set to '' @ [CHR 0x03] @ ''4'' @ bold d @ [CHR 0x03])
                (put_level 4 1 (Global
                  ''[Security] Possible huge clones attack, new connections currently denied.'' st))))
      else Some (0, st))"

text \<open>The hook of PING lowers the level by one and resets the counters.\<close>

definition lower_level :: "sec \<Rightarrow> sec option" where
  "lower_level st =
     (if 1 < seclev (fst st) \<and> perm (fst st) = 0
      then do { (_, st) \<leftarrow> set_seclev (seclev (fst st) - 1) st;
                Some (say (''Security level decreased ('' @ dec (seclev (fst st) + 1) @ '' -> '' @
                  dec (seclev (fst st)) @ '')'') st) }
      else Some st)"

definition reset_counters :: "sec \<Rightarrow> sec" where
  "reset_counters st =
     (let st = (if 0 < kills (fst st) \<and> perm (fst st) = 0 then say ''Kills counter reset'' st else st);
          st = ((fst st)\<lparr>kills := 0\<rparr>, snd st);
          st = (if 0 < glines (fst st) \<and> perm (fst st) = 0 then say ''Glines counter reset'' st else st)
      in ((fst st)\<lparr>glines := 0\<rparr>, snd st))"

definition reset_vars :: "sec \<Rightarrow> (int \<times> sec) option" where
  "reset_vars st = map_option (\<lambda>st. (MOD_CONTINUE, reset_counters st)) (lower_level st)"

text \<open>The command \<open>oper seclev\<close>.\<close>

definition notice :: "ptr \<Rightarrow> string \<Rightarrow> sec \<Rightarrow> sec option" where
  "notice nptr msg st = map_option (Pair (fst st)) (NoticeToUser nptr msg (snd st))"

text \<open>What the arguments ask for: a refusal, or the level and the permanence to set.\<close>

definition asked :: "config \<Rightarrow> user \<Rightarrow> int \<Rightarrow> string \<Rightarrow> cstring \<Rightarrow> string + int \<times> int" where
  "asked c u prm arg2 arg3 =
     (let lev = atoi arg2 in
      if (u_level u < cfg_level_root c \<or> u_authed u \<noteq> 1) \<and> lev = 4 then Inl ''Access denied''
      else if u_level u < cfg_level_owner c \<and> lev = 4 \<and> prm = 2
      then Inl ''Access denied, only the owner can do that''
      else if is_empty arg3 then Inr (lev, prm)
      else (let p = atoi (the arg3) in
        if u_level u < cfg_level_root c \<and> p = 2 then Inl ''Access denied''
        else if u_level u < cfg_level_owner c \<and> p = 2 \<and> lev = 4
        then Inl ''Access denied, only the owner can do that''
        else Inr (lev, p)))"

definition change_seclev :: "ptr \<Rightarrow> int \<Rightarrow> int \<Rightarrow> sec \<Rightarrow> sec option" where
  "change_seclev nptr lev prm st =
     do { (_, st) \<leftarrow> set_seclev lev ((fst st)\<lparr>perm := prm\<rparr>, snd st);
          notice nptr (''Security level set to '' @ dec (seclev (fst st))) st }"

definition secserv_cmds :: "ptr \<Rightarrow> ptr option \<Rightarrow> cstring \<Rightarrow> sec \<Rightarrow> sec option" where
  "secserv_cmds nptr uptr all st =
     (let (arg2, r) = SeperateWord all; (arg3, _) = SeperateWord r; (v, s) = st in
      if is_empty arg2 then
        notice nptr (''Current security level : '' @ bold (dec (seclev v)) @ ''. Perm level : '' @ dec (perm v)) st
      else do {
        u \<leftarrow> Option.bind uptr (user_at s);
        case asked (cfg s) u (perm v) (the arg2) arg3 of
          Inl msg \<Rightarrow> notice nptr msg st
        | Inr (lev, prm) \<Rightarrow> change_seclev nptr lev prm st })"

text \<open>
  The hook of new nicks and of nick changes, in its three cases. After \<open>killuser\<close> on level 1 the
  message reads the ident and the host of the nick that was freed.
\<close>

definition raise_level :: "bool \<Rightarrow> int \<Rightarrow> string \<Rightarrow> sec \<Rightarrow> sec option" where
  "raise_level b level msg st = (if b then map_option snd (set_seclev level (say msg st)) else Some st)"

definition who :: "nick \<Rightarrow> string" where
  "who n = ''User '' @ n_name n @ ''!'' @ n_ident n @ CHR 0x40 # n_host n"

definition kill_new :: "nick \<Rightarrow> sec \<Rightarrow> (int \<times> sec) option" where
  "kill_new n st =
     (let (v, s) = st in
      do { s \<leftarrow> killuser (n_name n) ''We are undergoing a clones attack. New connections are currently denied, please try again later.'' (cfg_nick (cfg s)) s;
           Some (MOD_STOP, (v\<lparr>kills := kills v + 1\<rparr>, s)) })"

definition kill_bad :: "ptr \<Rightarrow> nick \<Rightarrow> sec \<Rightarrow> (int \<times> sec) option" where
  "kill_bad nptr n st =
     (let (v, s) = st in
      do { s \<leftarrow> killuser (n_name n) ''Your nick may be an evil bot nick, please change it.'' (cfg_nick (cfg s)) s;
           n \<leftarrow> nick_at s nptr;
           let st = say (bold (who n @ '' killed (Bad nick)'')) (v\<lparr>kills := kills v + 1\<rparr>, s);
           map_option (Pair MOD_STOP) (raise_level (maxkills \<le> kills (fst st) \<and> perm (fst st) < 2) 2
             (bold (''Maxkills limit exceeded, switching to security level'' @ [CHR 0x03] @ ''4 2'' @ [CHR 0x03]))
             st) })"

definition gline_bad :: "nick \<Rightarrow> sec \<Rightarrow> (int \<times> sec) option" where
  "gline_bad n st =
     (let (v, s) = st;
          st = say (bold (who n @ '' '' @ [CHR 0x03] @ ''4G-Lined'' @ [CHR 0x03] @ '' (Possible clones attack)''))
            (v\<lparr>glines := glines v + 1\<rparr>,
             glineuser (n_ident n) (n_host n) gline_expire ''Possible clones attack'' s) in
      map_option (Pair MOD_STOP)
        (raise_level (maxglines \<le> glines (fst st) \<and> seclev (fst st) = 2 \<and> perm (fst st) < 2) 3
          (bold (''Maxglines limit exceeded, switching to security level'' @ [CHR 0x03] @ ''4 3'' @ [CHR 0x03]))
          st))"

definition local_host :: "nick \<Rightarrow> bool" where
  "local_host n \<longleftrightarrow> streq (Some (n_host n)) (Some ''127.0.0.1'') \<or> streq (Some (n_host n)) (Some ''localhost'')"

definition bad_nick :: "nick \<Rightarrow> bool" where
  "bad_nick x \<longleftrightarrow> 3 \<le> match_bad_pattern (n_name x)"

definition check_nick :: "ptr option \<Rightarrow> sec \<Rightarrow> (int \<times> sec) option" where
  "check_nick np st =
     (case np of None \<Rightarrow> Some (MOD_CONTINUE, st)
      | Some nptr \<Rightarrow> do {
          n \<leftarrow> nick_at (snd st) nptr;
          if n_name n = [] then Some (MOD_CONTINUE, st)
          else if seclev (fst st) = 4 then kill_new n st
          else if bad_nick n \<and> seclev (fst st) = 1 then kill_bad nptr n st
          else if bad_nick n \<and> (seclev (fst st) = 2 \<or> seclev (fst st) = 3) \<and> \<not> local_host n then gline_bad n st
          else Some (MOD_CONTINUE, st) })"

subsection \<open>The invariant of the module\<close>

text \<open>
  The level is one of the five; the channels are closed to unregistered users on level 3, and only
  from there on; the limit of clones is that of the level.
\<close>

definition level_clones :: "secserv \<Rightarrow> int" where
  "level_clones v = (if seclev v \<le> 1 then old_maxclones v else if seclev v \<le> 3 then 2 else 1)"

definition sec_ok :: "sec \<Rightarrow> bool" where
  "sec_ok st \<longleftrightarrow> seclev (fst st) \<in> {0..4} \<and> (rmode (fst st) \<longrightarrow> 3 \<le> seclev (fst st)) \<and>
     (seclev (fst st) = 3 \<longrightarrow> rmode (fst st)) \<and> cfg_maxclones (cfg (snd st)) = level_clones (fst st)"

text \<open>What the module changes of the core beside the nicks it kills.\<close>

definition sec_core :: "core \<Rightarrow> core" where
  "sec_core s = s\<lparr>outbuf := [], cfg := (cfg s)\<lparr>cfg_maxclones := 0\<rparr>\<rparr>"

definition sec_out :: "core \<Rightarrow> core \<Rightarrow> bool" where
  "sec_out s t \<longleftrightarrow> sec_core t = sec_core s"

lemma sec_core_upd [simp]:
  "sec_core (s\<lparr>outbuf := b\<rparr>) = sec_core s"
  "sec_core (s\<lparr>cfg := (cfg s)\<lparr>cfg_maxclones := m\<rparr>\<rparr>) = sec_core s"
  "sec_core (s\<lparr>outbuf := b, cfg := (cfg s)\<lparr>cfg_maxclones := m\<rparr>\<rparr>) = sec_core s"
  by (simp_all add: sec_core_def)

lemma sec_out_refl [simp]: "sec_out s s"
  by (simp add: sec_out_def)

lemma sec_core_raw [simp]: "sec_core (send_raw m s) = sec_core s"
  by (metis send_raw_outbuf sec_core_upd(1))

lemma sec_core_out [simp]:
  "sec_core (MsgToChan c m s) = sec_core s" "sec_core (send_global t m s) = sec_core s"
  "sec_core (glineuser a b i d s) = sec_core s" "sec_core (send_kill x y z s) = sec_core s"
  by (simp_all add: out_defs)

lemma sec_out_sel:
  assumes "sec_out s t"
  shows "nick_at t = nick_at s" "nicks t = nicks s" "chans t = chans s" "chan_at t = chan_at s"
    "clones t = clones s" "clone_at t = clone_at s" "user_at t = user_at s" "next_ptr t = next_ptr s"
    "member_at t = member_at s" "wchans t = wchans s" "wchan_at t = wchan_at s"
    "limit_at t = limit_at s" "limits t = limits s"
proof -
  have "t = (sec_core t)\<lparr>outbuf := outbuf t, cfg := cfg t\<rparr>" by (simp add: sec_core_def)
  also have "\<dots> = s\<lparr>outbuf := outbuf t, cfg := cfg t\<rparr>"
    using assms by (simp only: sec_out_def) (simp add: sec_core_def)
  finally obtain b c where t: "t = s\<lparr>outbuf := b, cfg := c\<rparr>" by blast
  show "nick_at t = nick_at s" "nicks t = nicks s" "chans t = chans s" "chan_at t = chan_at s"
    "clones t = clones s" "clone_at t = clone_at s" "user_at t = user_at s" "next_ptr t = next_ptr s"
    "member_at t = member_at s" "wchans t = wchans s" "wchan_at t = wchan_at s"
    "limit_at t = limit_at s" "limits t = limits s"
    by (simp_all add: t)
qed

lemma sec_out_net_ok:
  assumes "sec_out s t"
  shows "net_ok t = net_ok s"
  using sec_out_sel [OF assms] nicks_ok_cong [of t s] clones_ok_cong [of t s] auth_ok_cong [of t s]
    member_lists_ok_cong [of t s] wchans_ok_cong [of t s] limits_ok_cong [of t s]
  by (simp add: net_ok_def members_ok_def)

lemma mode_allchans_out:
  assumes "table_ok c_name (chans s) (chan_at s)"
  shows "\<exists>t. mode_allchans sign s = Some t \<and> sec_out s t \<and> cfg t = cfg s"
proof -
  have "\<exists>t. foldM (\<lambda>p s. do { c \<leftarrow> chan_at s p;
              Some (send_raw (''MODE '' @ c_name c @ '' '' @ sign @ sec_modes) s) }) ps u = Some t \<and>
            sec_out u t \<and> cfg t = cfg u"
    if "\<forall>p \<in> set ps. chan_at u p \<noteq> None" for ps u
    using that
  proof (induction ps arbitrary: u)
    case (Cons p ps)
    then obtain c where c: "chan_at u p = Some c" by auto
    let ?u = "send_raw (''MODE '' @ c_name c @ '' '' @ sign @ sec_modes) u"
    have "chan_at ?u = chan_at u" "cfg ?u = cfg u" by (simp_all add: send_raw_def Let_def)
    with Cons.IH [of ?u] Cons.prems c show ?case by (auto simp: sec_out_def)
  qed (simp add: sec_out_def)
  note loop = this
  have "\<forall>p \<in> set (map snd (chans s)). chan_at s p \<noteq> None" using assms by (auto simp: table_ok_def)
  from loop [OF this] show ?thesis unfolding mode_allchans_def .
qed


lemma say_simps [simp]:
  "fst (say m st) = fst st" "sec_core (snd (say m st)) = sec_core (snd st)"
  "cfg (snd (say m st)) = cfg (snd st)"
  "fst (Global m st) = fst st" "sec_core (snd (Global m st)) = sec_core (snd st)"
  "cfg (snd (Global m st)) = cfg (snd st)"
  by (simp_all add: say_def Global_def) (simp_all add: out_defs send_raw_def Let_def)

lemma put_level_simps [simp]:
  "fst (put_level l m st) = (fst st)\<lparr>seclev := l\<rparr>" "sec_core (snd (put_level l m st)) = sec_core (snd st)"
  "cfg_maxclones (cfg (snd (put_level l m st))) = m"
  by (simp_all add: put_level_def)

lemma set_mode_allchans_ok:
  assumes "table_ok c_name (chans (snd st)) (chan_at (snd st))"
  shows "\<exists>st'. set_mode_allchans st = Some st' \<and> fst st' = (fst st)\<lparr>rmode := True\<rparr> \<and>
    sec_core (snd st') = sec_core (snd st)"
  using mode_allchans_out [OF assms, of "''+''"]
  by (cases st; cases "rmode (fst st)") (auto simp: set_mode_allchans_def sec_out_def)

lemma remove_mode_allchans_ok:
  assumes "table_ok c_name (chans (snd st)) (chan_at (snd st))"
  shows "\<exists>st'. remove_mode_allchans st = Some st' \<and> fst st' = (fst st)\<lparr>rmode := False\<rparr> \<and>
    sec_core (snd st') = sec_core (snd st)"
  using mode_allchans_out [OF assms, of "''-''"]
  by (cases st; cases "rmode (fst st)") (auto simp: remove_mode_allchans_def sec_out_def)

lemma back_to_normal_ok:
  assumes "table_ok c_name (chans (snd st)) (chan_at (snd st))" and "rmode (fst st) \<longrightarrow> 3 \<le> seclev (fst st)"
  shows "\<exists>st'. back_to_normal st = Some st' \<and> fst st' = (fst st)\<lparr>rmode := False\<rparr> \<and>
    sec_core (snd st') = sec_core (snd st)"
proof (cases "2 < seclev (fst st)")
  case True
  obtain b where "remove_mode_allchans st = Some b" "fst b = (fst st)\<lparr>rmode := False\<rparr>"
    "sec_core (snd b) = sec_core (snd st)"
    using remove_mode_allchans_ok [OF assms(1)] by blast
  with True show ?thesis by (simp add: back_to_normal_def)
next
  case False
  with assms(2) have "fst st = (fst st)\<lparr>rmode := False\<rparr>" by (cases "fst st") auto
  with False show ?thesis by (simp add: back_to_normal_def)
qed

lemma sec_core_table:
  "sec_core t = sec_core s \<Longrightarrow> table_ok c_name (chans t) (chan_at t) = table_ok c_name (chans s) (chan_at s)"
  using sec_out_sel(3,4) [of s t] by (simp add: sec_out_def)

text \<open>The counters and the permanence are left alone by a change of level.\<close>

definition sec_frame :: "secserv \<Rightarrow> secserv \<Rightarrow> bool" where
  "sec_frame v w \<longleftrightarrow> perm w = perm v \<and> kills w = kills v \<and> glines w = glines v \<and>
     old_maxclones w = old_maxclones v"

lemma set_seclev_ok:
  assumes ok: "sec_ok st" and t: "table_ok c_name (chans (snd st)) (chan_at (snd st))"
  shows "\<exists>r st'. set_seclev l st = Some (r, st') \<and> sec_ok st' \<and> sec_frame (fst st) (fst st') \<and>
    seclev (fst st') = (if l \<in> {0..4} then l else seclev (fst st)) \<and> sec_out (snd st) (snd st')"
proof -
  have rm: "rmode (fst st) \<longrightarrow> 3 \<le> seclev (fst st)" using ok by (simp add: sec_ok_def)
  obtain b where b: "back_to_normal st = Some b" "fst b = (fst st)\<lparr>rmode := False\<rparr>"
    "sec_core (snd b) = sec_core (snd st)"
    using back_to_normal_ok [OF t rm] by blast
  consider "l = seclev (fst st)" | "l \<notin> {0..4}" | "l \<noteq> seclev (fst st)" "l \<in> {0, 1, 2}"
    | "l \<noteq> seclev (fst st)" "l = 3" | "l \<noteq> seclev (fst st)" "l = 4" by force
  then show ?thesis
  proof cases
    case 1
    have "l = 0 \<or> l = 1 \<or> l = 2 \<or> l = 3 \<or> l = 4" using 1 ok by (auto simp: sec_ok_def)
    with 1 have "set_seclev l st = Some (MOD_STOP, st)" by (auto simp: set_seclev_def Let_def)
    with 1 ok show ?thesis by (simp add: sec_frame_def)
  next
    case 2
    then have "set_seclev l st = Some (0, st)" by (auto simp: set_seclev_def Let_def)
    with 2 ok show ?thesis by (auto simp add: sec_frame_def)
  next
    case 3
    then obtain msg m where e: "set_seclev l st = Some (0, say msg (put_level l m b))"
      and m: "m = (if l = 2 then 2 else old_maxclones (fst b))"
      using b(1) by (auto simp: set_seclev_def Let_def)
    let ?t = "say msg (put_level l m b)"
    have "sec_ok ?t" using 3 b(2) m by (auto simp: sec_ok_def level_clones_def)
    with 3 b e show ?thesis
      by (intro exI [of _ 0] exI [of _ ?t]) (auto simp: sec_frame_def sec_out_def)
  next
    case 4
    let ?g = "Global (if seclev (fst st) = 4
       then ''[Security] Decreasing security level, new connections now allowed.''
       else ''[Security] Possible clones attack, protecting channels.'') st"
    have "table_ok c_name (chans (snd ?g)) (chan_at (snd ?g))"
      using t sec_core_table [of "snd ?g" "snd st"] by simp
    from set_mode_allchans_ok [OF this] obtain b where b: "set_mode_allchans ?g = Some b"
      "fst b = (fst st)\<lparr>rmode := True\<rparr>" "sec_core (snd b) = sec_core (snd st)" by auto
    then obtain msg where e: "set_seclev l st = Some (0, say msg (put_level 3 2 b))"
      using 4 by (auto simp: set_seclev_def Let_def)
    let ?t = "say msg (put_level 3 2 b)"
    have "sec_ok ?t" using b(2) by (auto simp: sec_ok_def level_clones_def)
    with 4 b e show ?thesis
      by (intro exI [of _ 0] exI [of _ ?t]) (auto simp: sec_frame_def sec_out_def)
  next
    case 5
    then obtain msg msg' where e: "set_seclev l st = Some (0, say msg (put_level 4 1 (Global msg' st)))"
      by (auto simp: set_seclev_def Let_def)
    let ?t = "say msg (put_level 4 1 (Global msg' st))"
    have "sec_ok ?t" by (auto simp: sec_ok_def level_clones_def)
    with 5 e show ?thesis
      by (intro exI [of _ 0] exI [of _ ?t]) (auto simp: sec_frame_def sec_out_def)
  qed
qed


subsection \<open>The hooks\<close>

lemma net_ok_chans: "net_ok s \<Longrightarrow> table_ok c_name (chans s) (chan_at s)"
  by (simp add: net_ok_def members_ok_def limits_ok_def)

lemma reset_counters_ok:
  assumes "sec_ok st"
  shows "sec_ok (reset_counters st)" "sec_out (snd st) (snd (reset_counters st))"
    "seclev (fst (reset_counters st)) = seclev (fst st)" "perm (fst (reset_counters st)) = perm (fst st)"
    "kills (fst (reset_counters st)) = 0" "glines (fst (reset_counters st)) = 0"
  using assms
  by (auto simp: reset_counters_def sec_ok_def level_clones_def say_def Let_def MsgToChan_def FakeMsg_def sec_out_def)

lemma lower_level_ok:
  assumes ok: "sec_ok st" and t: "table_ok c_name (chans (snd st)) (chan_at (snd st))"
  shows "\<exists>st'. lower_level st = Some st' \<and> sec_ok st' \<and> sec_out (snd st) (snd st') \<and>
    perm (fst st') = perm (fst st) \<and> seclev (fst st') =
      (if 1 < seclev (fst st) \<and> perm (fst st) = 0 then seclev (fst st) - 1 else seclev (fst st))"
proof (cases "1 < seclev (fst st) \<and> perm (fst st) = 0")
  case True
  obtain r u where u: "set_seclev (seclev (fst st) - 1) st = Some (r, u)" "sec_ok u" "sec_frame (fst st) (fst u)"
    "seclev (fst u) = (if seclev (fst st) - 1 \<in> {0..4} then seclev (fst st) - 1 else seclev (fst st))"
    "sec_out (snd st) (snd u)"
    using set_seclev_ok [OF ok t, of "seclev (fst st) - 1"] by blast
  let ?m = "''Security level decreased ('' @ dec (seclev (fst u) + 1) @ '' -> '' @ dec (seclev (fst u)) @ '')''"
  have "lower_level st = Some (say ?m u)" using True u(1) by (simp only: lower_level_def) simp
  moreover have "sec_ok (say ?m u)" using u(2) by (simp add: sec_ok_def level_clones_def)
  ultimately show ?thesis
    using True u(3-5) ok by (intro exI [of _ "say ?m u"]) (auto simp: sec_ok_def sec_frame_def sec_out_def)
qed (use ok in \<open>auto simp: lower_level_def simp del: split_paired_Ex\<close>)

lemma reset_vars_ok:
  assumes ok: "sec_ok st" and net: "net_ok (snd st)"
  shows "\<exists>st'. reset_vars st = Some (MOD_CONTINUE, st') \<and> sec_ok st' \<and> net_ok (snd st') \<and>
    seclev (fst st') = (if 1 < seclev (fst st) \<and> perm (fst st) = 0 then seclev (fst st) - 1 else seclev (fst st)) \<and>
    perm (fst st') = perm (fst st) \<and> kills (fst st') = 0 \<and> glines (fst st') = 0"
proof -
  obtain u where u: "lower_level st = Some u" "sec_ok u" "sec_out (snd st) (snd u)" "perm (fst u) = perm (fst st)"
    "seclev (fst u) = (if 1 < seclev (fst st) \<and> perm (fst st) = 0 then seclev (fst st) - 1 else seclev (fst st))"
    using lower_level_ok [OF ok net_ok_chans [OF net]] by blast
  then show ?thesis
    using reset_counters_ok [OF u(2)] sec_out_net_ok [of "snd u" "snd (reset_counters u)"]
      sec_out_net_ok [OF u(3)] net
    by (intro exI [of _ "reset_counters u"]) (simp add: reset_vars_def)
qed

text \<open>Raising the level after too many kills or glines.\<close>

lemma raise_level_ok:
  assumes ok: "sec_ok st" and t: "table_ok c_name (chans (snd st)) (chan_at (snd st))" and l: "l \<in> {0..4}"
  shows "\<exists>st'. raise_level b l m st = Some st' \<and> sec_ok st' \<and>
    sec_out (snd st) (snd st') \<and> seclev (fst st') = (if b then l else seclev (fst st)) \<and>
    perm (fst st') = perm (fst st)"
proof (cases b)
  case True
  have "sec_ok (say m st)" using ok by (simp add: sec_ok_def level_clones_def)
  moreover have "table_ok c_name (chans (snd (say m st))) (chan_at (snd (say m st)))"
    using t sec_core_table [of "snd (say m st)" "snd st"] by simp
  ultimately obtain r u where "set_seclev l (say m st) = Some (r, u)" "sec_ok u" "sec_frame (fst st) (fst u)"
    "seclev (fst u) = l" "sec_out (snd st) (snd u)"
    using set_seclev_ok [of "say m st" l] l by (auto simp: sec_out_def simp del: split_paired_Ex)
  with True show ?thesis by (simp add: raise_level_def sec_frame_def del: split_paired_Ex)
qed (use ok in \<open>simp add: raise_level_def del: split_paired_Ex\<close>)

lemma gline_bad_ok:
  assumes ok: "sec_ok st" and net: "net_ok (snd st)"
  shows "\<exists>st'. gline_bad x st = Some (MOD_STOP, st') \<and> sec_ok st' \<and> net_ok (snd st') \<and>
    perm (fst st') = perm (fst st) \<and>
    (seclev (fst st') = seclev (fst st) \<or> seclev (fst st) = 2 \<and> seclev (fst st') = 3 \<and> perm (fst st) < 2)"
proof -
  obtain v s where st: "st = (v, s)" by (cases st)
  obtain m where m: "m = bold (who x @ '' '' @ [CHR 0x03] @ ''4G-Lined'' @ [CHR 0x03] @ '' (Possible clones attack)'')"
    by blast
  obtain g where g: "g = glineuser (n_ident x) (n_host x) gline_expire ''Possible clones attack'' s" by blast
  let ?u = "say m (v\<lparr>glines := glines v + 1\<rparr>, g)"
  have "cfg g = cfg s" by (simp add: g glineuser_def)
  then have oku: "sec_ok ?u" using ok st by (simp add: sec_ok_def level_clones_def)
  have out: "sec_out s (snd ?u)" by (simp add: sec_out_def g)
  have t: "table_ok c_name (chans (snd ?u)) (chan_at (snd ?u))"
    using net_ok_chans [OF net] sec_core_table [of "snd ?u" s] st by (simp add: g)
  let ?b = "maxglines \<le> glines (fst ?u) \<and> seclev (fst ?u) = 2 \<and> perm (fst ?u) < 2"
  obtain w where w: "raise_level ?b 3
      (bold (''Maxglines limit exceeded, switching to security level'' @ [CHR 0x03] @ ''4 3'' @ [CHR 0x03])) ?u = Some w"
    "sec_ok w" "sec_out (snd ?u) (snd w)" "seclev (fst w) = (if ?b then 3 else seclev (fst ?u))"
    "perm (fst w) = perm (fst ?u)"
    using raise_level_ok [OF oku t, of 3 ?b] by force
  have "gline_bad x st = Some (MOD_STOP, w)"
    by (simp only: gline_bad_def st Let_def prod.case m [symmetric] g [symmetric] w(1) option.map)
  moreover have "net_ok (snd w)" using sec_out_net_ok [OF out] sec_out_net_ok [OF w(3)] net st by simp
  ultimately show ?thesis using w(2,4,5) st by (auto simp del: split_paired_Ex)
qed

lemma kill_new_ok:
  assumes ok: "sec_ok st" and net: "net_ok (snd st)"
  shows "\<exists>st'. kill_new x st = Some (MOD_STOP, st') \<and> sec_ok st' \<and> net_ok (snd st') \<and>
    perm (fst st') = perm (fst st) \<and> seclev (fst st') = seclev (fst st) \<and>
    (\<forall>n. find_nick (Some (n_name x)) (snd st) = Some (Some n) \<longrightarrow> nick_at (snd st') n = None)"
proof -
  obtain v s where st: "st = (v, s)" by (cases st)
  obtain m where m: "m = ''We are undergoing a clones attack. New connections are currently denied, please try again later.''" by blast
  obtain t r where "killuser (n_name x) m (cfg_nick (cfg s)) s = Some t" "net_ok t" "cfg t = cfg s"
    "find_nick (Some (n_name x)) s = Some r" "\<forall>n. r = Some n \<longrightarrow> nick_at t n = None"
    using killuser_ok [of s "n_name x" m "cfg_nick (cfg s)"] net st by auto
  then show ?thesis
    using ok unfolding kill_new_def st m [symmetric] by (simp add: sec_ok_def level_clones_def)
qed

lemma check_nick_ok:
  assumes ok: "sec_ok st" and net: "net_ok (snd st)" and x: "nick_at (snd st) n = Some x"
    and no: "\<not> (seclev (fst st) = 1 \<and> bad_nick x)"
  shows "\<exists>r st'. check_nick (Some n) st = Some (r, st') \<and> sec_ok st' \<and> net_ok (snd st') \<and>
    perm (fst st') = perm (fst st) \<and>
    (seclev (fst st') = seclev (fst st) \<or> seclev (fst st) = 2 \<and> seclev (fst st') = 3 \<and> perm (fst st) < 2) \<and>
    (seclev (fst st) = 4 \<and> n_name x \<noteq> [] \<longrightarrow> r = MOD_STOP \<and>
      (find_nick (Some (n_name x)) (snd st) = Some (Some n) \<longrightarrow> nick_at (snd st') n = None))"
  using kill_new_ok [OF ok net, of x] gline_bad_ok [OF ok net, of x] x ok net no
  unfolding check_nick_def by (auto simp del: split_paired_Ex)

text \<open>On level 1 the hook reads the nick it has just freed.\<close>

lemma check_nick_freed:
  assumes net: "net_ok (snd st)" and x: "nick_at (snd st) n = Some x" and l: "seclev (fst st) = 1"
    and b: "n_name x \<noteq> []" "bad_nick x" and f: "find_nick (Some (n_name x)) (snd st) = Some (Some n)"
  shows "check_nick (Some n) st = None"
proof -
  obtain v s where st: "st = (v, s)" by (cases st)
  obtain m where m: "m = ''Your nick may be an evil bot nick, please change it.''" by blast
  obtain t r where "killuser (n_name x) m (cfg_nick (cfg s)) s = Some t"
    "find_nick (Some (n_name x)) s = Some r" "\<forall>n. r = Some n \<longrightarrow> nick_at t n = None"
    using killuser_ok [of s "n_name x" m "cfg_nick (cfg s)"] net st by auto
  with x l b f show ?thesis
    unfolding check_nick_def kill_bad_def st m [symmetric] by simp
qed

lemma notice_ok:
  assumes "nick_at (snd st) n \<noteq> None"
  shows "\<exists>st'. notice n m st = Some st' \<and> fst st' = fst st \<and> sec_core (snd st') = sec_core (snd st) \<and>
    cfg (snd st') = cfg (snd st)"
  using assms by (auto simp: notice_def NoticeToUser_eq simp del: split_paired_Ex)

lemma change_seclev_ok:
  assumes ok: "sec_ok st" and net: "net_ok (snd st)" and n: "nick_at (snd st) n \<noteq> None"
  shows "\<exists>st'. change_seclev n lev prm st = Some st' \<and> sec_ok st' \<and> sec_out (snd st) (snd st') \<and>
    seclev (fst st') = (if lev \<in> {0..4} then lev else seclev (fst st)) \<and> perm (fst st') = prm"
proof -
  let ?st = "((fst st)\<lparr>perm := prm\<rparr>, snd st)"
  have "sec_ok ?st" using ok by (simp add: sec_ok_def level_clones_def)
  then obtain r w where w: "set_seclev lev ?st = Some (r, w)" "sec_ok w" "sec_out (snd st) (snd w)"
    "sec_frame (fst ?st) (fst w)" "seclev (fst w) = (if lev \<in> {0..4} then lev else seclev (fst st))"
    using set_seclev_ok [of ?st lev] net_ok_chans [OF net] by auto
  have "nick_at (snd w) n \<noteq> None" using n sec_out_sel(1) [OF w(3)] by simp
  from notice_ok [OF this] obtain z where
    z: "notice n (''Security level set to '' @ dec (seclev (fst w))) w = Some z" "fst z = fst w"
    "sec_core (snd z) = sec_core (snd w)" "cfg (snd z) = cfg (snd w)" by blast
  have "sec_ok z" using w(2) z(2,4) by (simp add: sec_ok_def level_clones_def)
  moreover have "change_seclev n lev prm st = Some z" using w(1) z(1) by (simp only: change_seclev_def) simp
  ultimately show ?thesis using z w(3-5) by (simp add: sec_out_def sec_frame_def del: split_paired_Ex)
qed

lemma secserv_cmds_ok:
  assumes ok: "sec_ok st" and net: "net_ok (snd st)" and n: "nick_at (snd st) n \<noteq> None"
    and u: "user_at (snd st) u \<noteq> None"
  shows "\<exists>st'. secserv_cmds n (Some u) all st = Some st' \<and> sec_ok st' \<and> sec_out (snd st) (snd st')"
proof -
  have keep: "\<exists>st'. notice n m st = Some st' \<and> sec_ok st' \<and> sec_out (snd st) (snd st')" for m
    using notice_ok [OF n, of m] ok by (auto simp: sec_ok_def level_clones_def sec_out_def simp del: split_paired_Ex)
  have change: "\<exists>st'. change_seclev n lev prm st = Some st' \<and> sec_ok st' \<and> sec_out (snd st) (snd st')" for lev prm
    using change_seclev_ok [OF ok net n, of lev prm] by blast
  obtain y where y: "user_at (snd st) u = Some y" using u by auto
  obtain arg2 r where 2: "SeperateWord all = (arg2, r)" by (cases "SeperateWord all")
  obtain arg3 r' where 3: "SeperateWord r = (arg3, r')" by (cases "SeperateWord r")
  consider "is_empty arg2" | m where "\<not> is_empty arg2" "asked (cfg (snd st)) y (perm (fst st)) (the arg2) arg3 = Inl m"
    | lev prm where "\<not> is_empty arg2" "asked (cfg (snd st)) y (perm (fst st)) (the arg2) arg3 = Inr (lev, prm)"
    by (cases "asked (cfg (snd st)) y (perm (fst st)) (the arg2) arg3") force+
  then show ?thesis
    by cases (simp_all add: secserv_cmds_def 2 3 y keep change split_def del: split_paired_Ex)
qed

end
