(* ===== verification/Services.thy ===== *)
theory Services
  imports Secserv
begin

section \<open>The whole service and what its function pointers mean\<close>

text \<open>
  The state of the running program: the core, the command table, the modules with their hooks,
  the variables of the protection module, the queries sent to the database and how the process has
  ended, if it has. A command and a hook hold the name of a C function; an \<open>env\<close> says what these
  names do, and holds what is outside the repository.
\<close>

datatype exit_status = Exited int | Aborted

record services =
  svc :: core
  commands :: "command list"
  modules :: modules
  secv :: secserv
  queries :: "string list"
  ended :: "exit_status option"

record env =
  e_lib :: lib
  e_hook :: "string \<Rightarrow> ptr option \<Rightarrow> ptr option \<Rightarrow> ptr option \<Rightarrow> cstring list \<Rightarrow> services \<Rightarrow>
    (int \<times> services) option"
  e_base :: "string \<Rightarrow> ptr \<Rightarrow> ptr option \<Rightarrow> cstring \<Rightarrow> services \<Rightarrow> services option"
  e_bot :: "string \<Rightarrow> ptr \<Rightarrow> ptr option \<Rightarrow> ptr \<Rightarrow> ptr \<Rightarrow> cstring \<Rightarrow> services \<Rightarrow> services option"
  e_version :: string

definition on_core :: "(core \<Rightarrow> core option) \<Rightarrow> services \<Rightarrow> services option" where
  "on_core f w = map_option (\<lambda>s. w\<lparr>svc := s\<rparr>) (f (svc w))"

text \<open>\<open>RunHooks\<close> on the modules that are loaded.\<close>

definition run_hooks ::
  "env \<Rightarrow> 64 word \<Rightarrow> ptr option \<Rightarrow> ptr option \<Rightarrow> ptr option \<Rightarrow> cstring list \<Rightarrow> services \<Rightarrow> (int \<times> services) option" where
  "run_hooks E msk nptr uptr chptr parv w =
     RunHooks (\<lambda>f. e_hook E f nptr uptr chptr parv) msk (modules w) w"

definition fire_hooks ::
  "env \<Rightarrow> 64 word \<Rightarrow> ptr option \<Rightarrow> ptr option \<Rightarrow> ptr option \<Rightarrow> cstring list \<Rightarrow> services \<Rightarrow> services option" where
  "fire_hooks E msk nptr uptr chptr parv w = map_option snd (run_hooks E msk nptr uptr chptr parv w)"

text \<open>
  The test that guards every command: an account that is not identified runs the commands of level
  0, an identified one those up to its own level.
\<close>

definition may_run :: "ptr option \<Rightarrow> int \<Rightarrow> core \<Rightarrow> bool option" where
  "may_run uptr level s =
     do { a \<leftarrow> IsAuthed uptr s;
          if a then do { p \<leftarrow> uptr; u \<leftarrow> user_at s p; Some (level \<le> u_level u) }
          else Some (level = 0) }"

text \<open>The first command with a name and a type.\<close>

definition lookup_command :: "cstring \<Rightarrow> int \<Rightarrow> command list \<Rightarrow> command option" where
  "lookup_command name ty cs = find (\<lambda>c. streq (Some (cmd_name c)) name \<and> cmd_type c = ty) cs"

subsection \<open>Commands on the core\<close>

text \<open>The sender, the account found for it, and the arguments.\<close>

type_synonym nick_cmd = "ptr \<Rightarrow> ptr option \<Rightarrow> cstring \<Rightarrow> core \<Rightarrow> core option"

text \<open>The two first arguments of a command.\<close>

definition args2 :: "cstring \<Rightarrow> cstring \<times> cstring" where
  "args2 all = (let (a, r) = SeperateWord all; (b, _) = SeperateWord r in (a, b))"

definition arg1_of :: "cstring \<Rightarrow> cstring" where
  "arg1_of all = fst (SeperateWord all)"

text \<open>Reading an account through a pointer that may be NULL.\<close>

definition account :: "ptr option \<Rightarrow> core \<Rightarrow> user option" where
  "account uptr s = Option.bind uptr (user_at s)"

text \<open>An operator of the network whose account has the level of one.\<close>

definition staff :: "nick \<Rightarrow> user \<Rightarrow> core \<Rightarrow> bool" where
  "staff n u s \<longleftrightarrow> cfg_level_oper (cfg s) \<le> u_level u \<and> HasUmode n UMODE_OPER"

definition ul :: "string \<Rightarrow> string" where
  "ul s = CHR 0x1F # s @ [CHR 0x1F]"

definition syntax_msg :: "string \<Rightarrow> string" where
  "syntax_msg s = ''Syntax: '' @ bold s"

text \<open>
  Tests one after the other, each with the notice that refuses the command: a test is made only when
  the ones before it have passed.
\<close>

fun guards :: "ptr \<Rightarrow> (bool option \<times> string) list \<Rightarrow> (core \<Rightarrow> core option) \<Rightarrow> core \<Rightarrow> core option" where
  "guards nptr [] body s = body s"
| "guards nptr ((b, m) # gs) body s =
     Option.bind b (\<lambda>x. if x then NoticeToUser nptr m s else guards nptr gs body s)"

definition run_command :: "(string \<Rightarrow> nick_cmd) \<Rightarrow> command \<Rightarrow> nick_cmd" where
  "run_command call cmd nptr uptr all s =
     do { b \<leftarrow> may_run uptr (cmd_level cmd) s;
          if b then call (cmd_func cmd) nptr uptr all s else NoticeToUser nptr ''Access denied'' s }"

text \<open>
  The body that \<open>do_nick\<close> and \<open>do_host\<close> share: the second word of the message names the command.
\<close>

definition do_service :: "string \<Rightarrow> int \<Rightarrow> nick_cmd \<Rightarrow> (string \<Rightarrow> nick_cmd) \<Rightarrow> command list \<Rightarrow> nick_cmd" where
  "do_service name ty help call cs nptr uptr all s =
     do { a \<leftarrow> all;
          buf \<leftarrow> strbuf a 1024;
          let arg2 = snd (args2 (Some buf));
          if is_empty arg2 then
            NoticeToUser nptr (''Type '' @ bold (''/msg '' @ cfg_nick (cfg s) @ '' help '' @ name) @ '' for more informations'') s
          else if streq arg2 (Some ''help'') then help nptr uptr all s
          else (case lookup_command arg2 ty cs of
              None \<Rightarrow> NoticeToUser nptr ''Unknown command'' s
            | Some cmd \<Rightarrow> run_command call cmd nptr uptr (snd (SeperateWord (snd (SeperateWord all)))) s) }"

text \<open>What the names of registered functions mean; any other name is a pointer into nothing.\<close>

definition call_in :: "(string \<times> nick_cmd) list \<Rightarrow> string \<Rightarrow> nick_cmd" where
  "call_in t f nptr uptr all s =
     (case map_of t f of None \<Rightarrow> None | Some g \<Rightarrow> g nptr uptr all s)"

subsection \<open>Lemmas\<close>

lemma on_core_Some: "f (svc w) = Some s \<Longrightarrow> on_core f w = Some (w\<lparr>svc := s\<rparr>)"
  by (simp add: on_core_def)

lemma run_hooks_none:
  "hooks_for msk (modules w) = [] \<Longrightarrow> run_hooks E msk n u c parv w = Some (MOD_CONTINUE, w)"
  by (simp add: run_hooks_def RunHooks_def)

lemma may_run_returns:
  assumes "\<And>p. u = Some p \<Longrightarrow> user_at s p \<noteq> None"
  shows "\<exists>b. may_run u l s = Some b"
  using assms by (cases u) (auto simp: may_run_def IsAuthed_def)

end
