(* ===== verification/Messages.thy ===== *)
theory Messages
  imports Services
begin

section \<open>Joins, kicks, kills and modes: handlers of src/src/parseline.c\<close>

text \<open>
  One definition per handler. A handler that runs no hook works on the core, the others on the
  whole service. The sender and the rest of the line are the strings that \<open>parse_line\<close> cuts; the
  first character of the sender is the colon, which the handlers skip. A NULL string that is read
  or copied is \<open>None\<close>.
\<close>

subsection \<open>Hosts, idents, joins, parts\<close>

definition with_nick :: "cstring \<Rightarrow> (ptr \<Rightarrow> core \<Rightarrow> core option) \<Rightarrow> core \<Rightarrow> core option" where
  "with_nick name f s =
     do { r \<leftarrow> find_nick name s; case r of None \<Rightarrow> Some s | Some nptr \<Rightarrow> f nptr s }"

definition m_chghost :: "cstring \<Rightarrow> core \<Rightarrow> core option" where
  "m_chghost tail s =
     (let (target, r) = SeperateWord tail; (newhost, _) = SeperateWord r in
      with_nick target (\<lambda>n s. do { h \<leftarrow> newhost; upd_nick n (nick_set_hiddenhost h) s }) s)"

definition m_chgident :: "cstring \<Rightarrow> core \<Rightarrow> core option" where
  "m_chgident tail s =
     (let (target, r) = SeperateWord tail; (newident, _) = SeperateWord r in
      with_nick target (\<lambda>n s. do { i \<leftarrow> newident; upd_nick n (nick_set_ident i) s }) s)"

definition m_sethost :: "string \<Rightarrow> cstring \<Rightarrow> core \<Rightarrow> core option" where
  "m_sethost sender tail s =
     with_nick (Some (tl sender))
       (\<lambda>n s. do { h \<leftarrow> fst (SeperateWord tail); upd_nick n (nick_set_hiddenhost h) s }) s"

definition m_setident :: "string \<Rightarrow> cstring \<Rightarrow> core \<Rightarrow> core option" where
  "m_setident sender tail s =
     with_nick (Some (tl sender))
       (\<lambda>n s. do { i \<leftarrow> fst (SeperateWord tail); upd_nick n (nick_set_ident i) s }) s"

definition m_eos :: "core \<Rightarrow> core option" where
  "m_eos s = do { s \<leftarrow> (if eos s then Some s else joinallchans s); Some (s\<lparr>eos := True\<rparr>) }"

definition m_part :: "string \<Rightarrow> cstring \<Rightarrow> core \<Rightarrow> core option" where
  "m_part sender tail s =
     with_nick (Some (tl sender)) (\<lambda>n s.
       (case find_wchan (fst (SeperateWord tail)) s of None \<Rightarrow> Some s
        | Some w \<Rightarrow> DeleteUserFromWchan n w s)) s"

text \<open>
  The status that an access level gives on joining: the letters and whether they were given. The
  levels are compared in the order of the source.
\<close>

definition auto_status :: "config \<Rightarrow> bool \<Rightarrow> int \<Rightarrow> int \<Rightarrow> flags" where
  "auto_status c founder lev automode =
     (let on = (automode = CFLAG_AUTO_ON \<or> automode = CFLAG_AUTO_OP) in
      if founder then (if on then CHFL_OWNER OR CHFL_OP else 0)
      else if cfg_chlev_admin c \<le> lev then (if on then CHFL_PROTECT OR CHFL_OP else 0)
      else if cfg_chlev_op c \<le> lev then (if on then CHFL_OP else 0)
      else if cfg_chlev_halfop c \<le> lev then (if on then CHFL_HALFOP else 0)
      else if cfg_chlev_voice c \<le> lev then (if automode \<noteq> CFLAG_AUTO_OFF then CHFL_VOICE else 0)
      else 0)"

definition kick_msg :: string where "kick_msg = ''Get out of this chan !''"

text \<open>What the entry of a channel without \<open>axxflags\<close> does: whether it gives access, and the state.\<close>

definition join_entry :: "ptr \<Rightarrow> ptr \<Rightarrow> ptr \<Rightarrow> cflag \<Rightarrow> string \<Rightarrow> string \<Rightarrow> core \<Rightarrow> (bool \<times> core) option" where
  "join_entry nptr u c cf name bn s =
     do { fo \<leftarrow> IsFounder (Some u) (Some c) s;
          lev \<leftarrow> (if fo then Some 0 else GetFlag (Some u) (Some c) s);
          x \<leftarrow> user_at s u;
          n \<leftarrow> nick_at s nptr;
          let k = cfg s;
          let st = auto_status k fo lev (cf_automode cf);
          let rank = (fo \<or> cfg_chlev_admin k \<le> lev \<or> cfg_chlev_op k \<le> lev \<or> cfg_chlev_halfop k \<le> lev \<or>
                cfg_chlev_voice k \<le> lev);
          let bad = (\<not> rank \<and> (lev = cfg_chlev_akick k \<or> lev = cfg_chlev_akb k));
          let access = (rank \<or> bad \<or> lev = cfg_chlev_nostatus k);
          s \<leftarrow> (if st \<noteq> 0 then SetStatus (Some nptr) name st True bn s
               else if bad then KickUser bn (u_nick x) name kick_msg
                 (if lev = cfg_chlev_akick k then s
                  else send_raw ('':'' @ bn @ '' MODE '' @ name @ '' +b *!*@'' @ n_hiddenhost n) s)
               else Some s);
          again \<leftarrow> (if access \<and> st = 0
                   then map_option (\<lambda>l. cfg_chlev_voice k \<le> l) (GetFlag (Some u) (Some c) s)
                   else Some False);
          s \<leftarrow> (if again \<and> cf_automode cf \<noteq> CFLAG_AUTO_OFF \<and> cf_automode cf = CFLAG_AUTO_VOICE
               then SetStatus (Some nptr) name CHFL_VOICE True bn s else Some s);
          Some (access, s) }"

definition join_access :: "ptr \<Rightarrow> ptr option \<Rightarrow> ptr \<Rightarrow> string \<Rightarrow> string \<Rightarrow> core \<Rightarrow> (bool \<times> core) option" where
  "join_access nptr uptr c name bn s =
     (case uptr of None \<Rightarrow> Some (False, s)
      | Some u \<Rightarrow> do {
          x \<leftarrow> user_at s u;
          ch \<leftarrow> chan_at s c;
          if u_authed x = 0 \<or> HasCOption ch COPT_NOAUTO then Some (False, s)
          else do {
            r \<leftarrow> find_cflag_recursive c u s;
            case r of None \<Rightarrow> Some (False, s)
            | Some p \<Rightarrow>
                if HasCOption ch COPT_AXXFLAGS then map_option (Pair False) (sync_cflag p s)
                else do { cf \<leftarrow> cflag_at s p; join_entry nptr u c cf name bn s } } })"

definition join_seen :: "ptr option \<Rightarrow> ptr \<Rightarrow> core \<Rightarrow> core option" where
  "join_seen uptr c s =
     do { b \<leftarrow> andM (IsAuthed uptr s)
            (orM (IsFounder uptr (Some c) s) (map_option (\<lambda>l. 0 < l) (GetFlag uptr (Some c) s)));
          if b then upd_chan c (\<lambda>x. x\<lparr>c_lastseen := clock s\<rparr>) s else Some s }"

text \<open>The status given to everybody, or to everybody who is identified on a secure channel.\<close>

definition join_auto :: "ptr \<Rightarrow> ptr option \<Rightarrow> ptr \<Rightarrow> bool \<Rightarrow> string \<Rightarrow> string \<Rightarrow> core \<Rightarrow> core option" where
  "join_auto nptr uptr c hasaccess name bn s =
     do { ch \<leftarrow> chan_at s c;
          a \<leftarrow> IsAuthed uptr s;
          if \<not> HasCOption ch COPT_NOAUTO \<and> \<not> hasaccess \<and> (HasCOption ch COPT_SECURE \<longrightarrow> a) then
            do { s \<leftarrow> (if HasCOption ch COPT_AVOICE then SetStatus (Some nptr) name CHFL_VOICE True bn s
                      else Some s);
                 if HasCOption ch COPT_AOP then SetStatus (Some nptr) name CHFL_OP True bn s else Some s }
          else Some s }"

definition nick_mask :: "nick \<Rightarrow> string \<Rightarrow> string" where
  "nick_mask n host = take 255 (n_name n @ ''!'' @ n_ident n @ CHR 0x40 # host)"

text \<open>The first timed ban that matches one of the two masks of the nick.\<close>

fun matching_ban :: "lib \<Rightarrow> string \<Rightarrow> string \<Rightarrow> (ptr \<Rightarrow> timeban option) \<Rightarrow> ptr list \<Rightarrow> timeban option option" where
  "matching_ban L m1 m2 h [] = Some None"
| "matching_ban L m1 m2 h (t # ts) =
     Option.bind (h t) (\<lambda>tb.
     Option.bind (orM (match_mask (regex_match L) (tb_mask tb) m1) (match_mask (regex_match L) (tb_mask tb) m2)) (\<lambda>b.
       if b then Some (Some tb) else matching_ban L m1 m2 h ts))"

definition join_bans :: "lib \<Rightarrow> ptr \<Rightarrow> ptr \<Rightarrow> string \<Rightarrow> string \<Rightarrow> core \<Rightarrow> core option" where
  "join_bans L nptr c name bn s =
     do { n \<leftarrow> nick_at s nptr;
          ch \<leftarrow> chan_at s c;
          r \<leftarrow> matching_ban L (nick_mask n (n_hiddenhost n)) (nick_mask n (n_host n)) (timeban_at s) (c_timebans ch);
          case r of None \<Rightarrow> Some s
          | Some tb \<Rightarrow> KickUser bn (n_name n) name (tb_reason tb)
              (send_raw ('':'' @ bn @ '' MODE '' @ name @ '' +b *!*@'' @ n_hiddenhost n) s) }"

definition join_wchan :: "ptr \<Rightarrow> string \<Rightarrow> core \<Rightarrow> core option" where
  "join_wchan nptr name s =
     do { (w, s) \<leftarrow> (case find_wchan (Some name) s of Some w \<Rightarrow> Some (w, s)
            | None \<Rightarrow> (case CreateWchan name s of (Some w, s) \<Rightarrow> Some (w, s) | (None, _) \<Rightarrow> None));
          map_option snd (AddUserToWchan nptr w s) }"

definition join_registered :: "lib \<Rightarrow> ptr \<Rightarrow> ptr option \<Rightarrow> ptr \<Rightarrow> string \<Rightarrow> string \<Rightarrow> core \<Rightarrow> core option" where
  "join_registered L nptr uptr c name bn s =
     do { (hasaccess, s) \<leftarrow> join_access nptr uptr c name bn s;
          s \<leftarrow> join_seen uptr c s;
          s \<leftarrow> join_auto nptr uptr c hasaccess name bn s;
          ch \<leftarrow> chan_at s c;
          if c_entrymsg ch \<noteq> [] then FakeNotice bn nptr (''['' @ c_name ch @ ''] '' @ c_entrymsg ch) s
          else Some s }"

definition join_chan :: "env \<Rightarrow> ptr \<Rightarrow> ptr option \<Rightarrow> string \<Rightarrow> services \<Rightarrow> services option" where
  "join_chan E nptr uptr name w =
     do { w \<leftarrow> on_core (join_wchan nptr name) w;
          let chptr = find_channel (Some name) (svc w);
          (r, w) \<leftarrow> run_hooks E HOOK_PRE_JOIN (Some nptr) uptr chptr [Some name] w;
          if r = MOD_STOP then Some w
          else (case chptr of None \<Rightarrow> Some w
            | Some c \<Rightarrow> do {
                bn \<leftarrow> channel_botname c (svc w);
                w \<leftarrow> on_core (join_registered (e_lib E) nptr uptr c name bn) w;
                w \<leftarrow> fire_hooks E HOOK_JOIN (Some nptr) uptr chptr [] w;
                on_core (join_bans (e_lib E) nptr c name bn) w }) }"

definition m_join :: "env \<Rightarrow> string \<Rightarrow> cstring \<Rightarrow> services \<Rightarrow> services option" where
  "m_join E sender tail w =
     (case fst (SeperateWord tail) of None \<Rightarrow> Some w
      | Some chanjoined \<Rightarrow>
          if chanjoined = [] then Some w
          else do {
            let names = (if hd chanjoined = CHR '':'' then tl chanjoined else chanjoined);
            r \<leftarrow> find_nick (Some (tl sender)) (svc w);
            case r of None \<Rightarrow> Some w
            | Some nptr \<Rightarrow> do {
                uptr \<leftarrow> find_account nptr (svc w);
                buf \<leftarrow> strbuf names 1024;
                foldM (join_chan E nptr uptr) (strtok CHR '','' buf) w } })"

subsection \<open>Kicks and kills\<close>

definition m_kick :: "string \<Rightarrow> cstring \<Rightarrow> core \<Rightarrow> core option" where
  "m_kick sender tail s =
     (let (chan, r) = SeperateWord tail; (nick, _) = SeperateWord r; sender = tl sender in
      case (chan, find_wchan chan s) of
        (Some name, Some wchan) \<Rightarrow>
          do { own \<leftarrow> (case find_channel chan s of None \<Rightarrow> Some None
                 | Some c \<Rightarrow> do { bn \<leftarrow> channel_botname c s;
                                 Some (if streq nick (Some bn) then Some bn else None) });
               case own of
                 Some bn \<Rightarrow>
                   do { s \<leftarrow> JoinChannel bn name s;
                        s \<leftarrow> KickUser bn sender name ''are you mad ?'' s;
                        with_nick (Some sender) (\<lambda>n s. DeleteUserFromWchan n wchan s) s }
               | None \<Rightarrow> with_nick nick (\<lambda>n s. DeleteUserFromWchan n wchan s) s }
      | _ \<Rightarrow> Some s)"

text \<open>A fake user of the services was killed: it is introduced again, unless it is still listed.\<close>

definition respawn :: "string \<Rightarrow> core \<Rightarrow> (bool \<times> core) option" where
  "respawn nick s =
     (if streq (Some nick) (Some (cfg_nick (cfg s))) then
        do { (uid, s) \<leftarrow> generate_uid s;
             s \<leftarrow> fakeuser (cfg_nick (cfg s)) (cfg_ident (cfg s)) (cfg_host (cfg s)) uid MY_UMODES (s\<lparr>my_uid := uid\<rparr>);
             Some (True, s) }
      else (case find_bot (Some nick) s of None \<Rightarrow> Some (False, s)
        | Some p \<Rightarrow>
            do { (uid, s) \<leftarrow> generate_uid s;
                 s \<leftarrow> upd_bot p (\<lambda>b. b\<lparr>b_uid := uid\<rparr>) s;
                 b \<leftarrow> bot_at s p;
                 s \<leftarrow> fakeuser (b_nick b) (b_ident b) (b_host b) (b_uid b) BOTSERV_UMODES s;
                 Some (True, s) }))"

definition rejoin_chan :: "string \<Rightarrow> ptr \<Rightarrow> core \<Rightarrow> core option" where
  "rejoin_chan nick c s =
     do { bn \<leftarrow> channel_botname c s;
          ch \<leftarrow> chan_at s c;
          if streq (Some bn) (Some nick) \<and> (\<not> HasCOption ch COPT_NOJOIN \<or> c_chanbot ch \<noteq> None)
          then JoinChannel bn (c_name ch) s else Some s }"

definition m_kill :: "env \<Rightarrow> string \<Rightarrow> cstring \<Rightarrow> services \<Rightarrow> services option" where
  "m_kill E sender tail w =
     (case fst (SeperateWord tail) of None \<Rightarrow> Some w
      | Some nick \<Rightarrow>
          if nick = [] then Some w
          else do {
            r \<leftarrow> find_nick (Some nick) (svc w);
            case r of
              None \<Rightarrow>
                do { (mine, s) \<leftarrow> respawn nick (svc w);
                     if \<not> mine then Some (w\<lparr>svc := s\<rparr>)
                     else do { s \<leftarrow> foldM (rejoin_chan nick) (map snd (chans s)) s;
                               s \<leftarrow> killuser (tl sender) ''That is something not recommended...'' (cfg_nick (cfg s)) s;
                               Some (w\<lparr>svc := s\<rparr>) } }
            | Some nptr \<Rightarrow>
                do { (r, w) \<leftarrow> run_hooks E HOOK_KILL (Some nptr) (find_user (Some nick) (svc w)) None [] w;
                     if r = MOD_STOP then Some w else on_core (userquit nick) w } })"

subsection \<open>User modes\<close>

definition umode_table :: "(char \<times> flags) list" where
  "umode_table = [(CHR ''o'', UMODE_OPER), (CHR ''a'', UMODE_SADMIN), (CHR ''A'', UMODE_ADMIN),
     (CHR ''N'', UMODE_NADMIN), (CHR ''B'', UMODE_BOT), (CHR ''S'', UMODE_SERVICE), (CHR ''q'', UMODE_NOKICK)]"

definition apply_umodes :: "ptr \<Rightarrow> string \<Rightarrow> core \<Rightarrow> core option" where
  "apply_umodes nptr umode s =
     (if first_is (CHR ''+'') (Some umode) then
        do { s \<leftarrow> upd_nick nptr (fold (\<lambda>(c, m) n. if IsCharInString c umode then SetUmode m n else n) umode_table) s;
             n \<leftarrow> nick_at s nptr;
             Some (if IsCharInString (CHR ''o'') umode
                   then globops (bold (n_name n) @ '' is now an IRC Operator'') s else s) }
      else if first_is (CHR ''-'') (Some umode) then
        upd_nick nptr
          ((\<lambda>n. if IsCharInString (CHR ''x'') umode then nick_set_hiddenhost (n_host n) n else n) \<circ>
           fold (\<lambda>(c, m) n. if IsCharInString c umode then ClearUmode m n else n) umode_table) s
      else Some s)"

definition umode_change :: "env \<Rightarrow> cstring \<Rightarrow> string \<Rightarrow> services \<Rightarrow> services option" where
  "umode_change E nick umode w =
     do { r \<leftarrow> find_nick nick (svc w);
          case r of None \<Rightarrow> Some w
          | Some nptr \<Rightarrow> do {
              uptr \<leftarrow> find_account nptr (svc w);
              w \<leftarrow> on_core (apply_umodes nptr umode) w;
              fire_hooks E HOOK_UMODE (Some nptr) uptr None [Some umode] w } }"

definition m_umode :: "env \<Rightarrow> string \<Rightarrow> cstring \<Rightarrow> services \<Rightarrow> services option" where
  "m_umode E sender tail w =
     (case (strtok (CHR '':'') sender, fst (SeperateWord tail)) of
        (nick # _, Some umode) \<Rightarrow> if umode = [] then Some w else umode_change E (Some nick) umode w
      | _ \<Rightarrow> Some w)"

subsection \<open>Channel modes\<close>

text \<open>
  The check against the locked modes of a channel: \<open>a\<close> is the sign the change starts with, \<open>b\<close> the
  other one. Each mode of the change that the lock has with the other sign sends the lock again.
\<close>

definition after :: "char \<Rightarrow> string \<Rightarrow> string" where
  "after a s = (case split_at1 a s of None \<Rightarrow> [] | Some (_, t) \<Rightarrow> t)"

definition before :: "char \<Rightarrow> string \<Rightarrow> string" where
  "before a s = takeWhile (\<lambda>c. c \<noteq> a) s"

definition clashes :: "char \<Rightarrow> char \<Rightarrow> string \<Rightarrow> string \<Rightarrow> nat" where
  "clashes a b modes mlock =
     length (filter (\<lambda>c. IsCharInString c (before a (after b mlock))) (before b modes)) +
     length (filter (\<lambda>c. IsCharInString c (before b (after a mlock))) (after b modes))"

definition check_mlock :: "string \<Rightarrow> string \<Rightarrow> chan \<Rightarrow> core \<Rightarrow> core option" where
  "check_mlock bn modes c s =
     (if c_mlock c = [] \<or> hd modes \<notin> {CHR ''+'', CHR ''-''} then Some s
      else do {
        m \<leftarrow> strbuf modes 32;
        l \<leftarrow> strbuf (c_mlock c) 32;
        let k = (if hd m = CHR ''+'' then clashes (CHR ''+'') (CHR ''-'') m l
                 else clashes (CHR ''-'') (CHR ''+'') m l);
        Some ((send_raw ('':'' @ bn @ '' MODE '' @ c_name c @ '' '' @ c_mlock c) ^^ k) s) })"

text \<open>
  The variables that live across the modes of a change, and the fixed data of the change: the
  channel with its name, its registration and its bot, the sender and the arguments. An argument
  past the end of the array was never written.
\<close>

record mode_vars =
  v_warg :: nat
  v_nptr2 :: "ptr option"
  v_member :: "ptr option"
  v_uptr :: "ptr option"

record mode_ctx =
  x_chan :: string
  x_wchan :: ptr
  x_chptr :: "ptr option"
  x_bot :: cstring
  x_sender :: string
  x_args :: "cstring list"

definition arg_at :: "mode_ctx \<Rightarrow> mode_vars \<Rightarrow> cstring option" where
  "arg_at x v = (if v_warg v < length (x_args x) then Some (x_args x ! v_warg v) else None)"

definition status_flag :: "char \<Rightarrow> flags" where
  "status_flag c =
     (if c = CHR ''q'' then CHFL_OWNER else if c = CHR ''a'' then CHFL_PROTECT
      else if c = CHR ''o'' then CHFL_OP else if c = CHR ''h'' then CHFL_HALFOP
      else if c = CHR ''v'' then CHFL_VOICE else 0)"

definition takes_arg :: "char \<Rightarrow> bool" where
  "takes_arg c \<longleftrightarrow> c \<in> set ''beIfjklL''"

definition next_arg :: "mode_vars \<Rightarrow> mode_vars" where
  "next_arg v = v\<lparr>v_warg := v_warg v + 1\<rparr>"

definition set_status :: "mode_ctx \<Rightarrow> mode_vars \<Rightarrow> char \<Rightarrow> bool \<Rightarrow> core \<Rightarrow> core option" where
  "set_status x v c what s = SetStatus (v_nptr2 v) (x_chan x) (status_flag c) what (pr (x_bot x)) s"

text \<open>Whose status a \<open>+\<close> gives: \<open>True\<close> when the mode is done, the target being unknown or barred.\<close>

definition plus_target :: "mode_ctx \<Rightarrow> char \<Rightarrow> mode_vars \<Rightarrow> core \<Rightarrow> (bool \<times> mode_vars \<times> core) option" where
  "plus_target x c v s =
     do { a \<leftarrow> arg_at x v;
          r \<leftarrow> find_nick a s;
          let v = v\<lparr>v_nptr2 := r\<rparr>;
          case r of None \<Rightarrow> Some (True, next_arg v, s)
          | Some n \<Rightarrow> do {
              m \<leftarrow> find_member (x_wchan x) n s;
              let v = v\<lparr>v_member := m\<rparr>;
              if m = None then Some (True, next_arg v, s)
              else do {
                u \<leftarrow> find_account n s;
                let v = v\<lparr>v_uptr := u\<rparr>;
                f \<leftarrow> GetFlag u (x_chptr x) s;
                barred \<leftarrow> andM (Some (f = cfg_chlev_nostatus (cfg s))) (IsAuthed u s);
                if barred then do { s \<leftarrow> set_status x v c False s; Some (True, next_arg v, s) }
                else Some (False, v, s) } } }"

text \<open>Whether the account has the right to the status, and is identified.\<close>

definition entitled :: "mode_ctx \<Rightarrow> char \<Rightarrow> mode_vars \<Rightarrow> core \<Rightarrow> bool option" where
  "entitled x c v s =
     andM (if c = CHR ''q'' then IsFounder (v_uptr v) (x_chptr x) s
           else map_option (\<lambda>f. (if c = CHR ''a'' then cfg_chlev_admin (cfg s)
              else if c = CHR ''o'' then cfg_chlev_op (cfg s) else cfg_chlev_halfop (cfg s)) \<le> f)
              (GetFlag (v_uptr v) (x_chptr x) s))
       (IsAuthed (v_uptr v) s)"

text \<open>A status that is not due is taken back on a \<open>strictop\<close> channel, and op also from a lone member.\<close>

definition plus_refused :: "mode_ctx \<Rightarrow> char \<Rightarrow> mode_vars \<Rightarrow> core \<Rightarrow> bool option" where
  "plus_refused x c v s =
     (case x_chptr x of None \<Rightarrow> Some False
      | Some p \<Rightarrow>
          if c = CHR ''v'' then Some False
          else do {
            due \<leftarrow> entitled x c v s;
            ch \<leftarrow> chan_at s p;
            w \<leftarrow> wchan_at s (x_wchan x);
            Some (\<not> due \<and> (HasCOption ch COPT_STRICTOP \<or> c = CHR ''o'' \<and> members_num w = 1)) })"

definition plus_mode :: "mode_ctx \<Rightarrow> char \<Rightarrow> mode_vars \<Rightarrow> core \<Rightarrow> (mode_vars \<times> core) option" where
  "plus_mode x c v s =
     (if status_flag c \<noteq> 0 then
        do { (stop, v, s) \<leftarrow> plus_target x c v s;
             if stop then Some (v, s)
             else do {
               no \<leftarrow> plus_refused x c v s;
               s \<leftarrow> (if no then set_status x v c False s
                    else do { m \<leftarrow> v_member v; upd_member m (SetChanFlag (status_flag c)) s });
               Some (next_arg v, s) } }
      else Some (if takes_arg c then next_arg v else v, s))"

text \<open>
  On a \<open>-\<close> the nick is not tested: \<open>find_account\<close> reads through a NULL pointer when no nick has the
  name.
\<close>

definition minus_target :: "mode_ctx \<Rightarrow> mode_vars \<Rightarrow> core \<Rightarrow> mode_vars option" where
  "minus_target x v s =
     do { a \<leftarrow> arg_at x v;
          r \<leftarrow> find_nick a s;
          n \<leftarrow> r;
          m \<leftarrow> find_member (x_wchan x) n s;
          u \<leftarrow> find_account n s;
          Some (v\<lparr>v_nptr2 := r, v_member := m, v_uptr := u\<rparr>) }"

definition account_name :: "ptr option \<Rightarrow> core \<Rightarrow> cstring option" where
  "account_name u s = (case u of None \<Rightarrow> Some None | Some p \<Rightarrow> map_option (Some \<circ> u_nick) (user_at s p))"

definition minus_refused :: "mode_ctx \<Rightarrow> char \<Rightarrow> mode_vars \<Rightarrow> core \<Rightarrow> bool option" where
  "minus_refused x c v s =
     (case x_chptr x of None \<Rightarrow> Some False
      | Some p \<Rightarrow>
          if c = CHR ''h'' \<or> c = CHR ''v'' then Some False
          else do {
            a \<leftarrow> account_name (v_uptr v) s;
            ch \<leftarrow> chan_at s p;
            andM (Some (\<not> streq a (Some (x_sender x))))
              (andM (entitled x c v s) (Some (HasCOption ch COPT_PROTECTOPS))) })"

text \<open>Taking \<open>a\<close> or \<open>o\<close> from the bot of a registered channel gives it back.\<close>

definition deop_by_bot :: "mode_ctx \<Rightarrow> char \<Rightarrow> mode_vars \<Rightarrow> core \<Rightarrow> cstring option" where
  "deop_by_bot x c v s =
     (case x_chptr x of None \<Rightarrow> Some None
      | Some p \<Rightarrow>
          if c = CHR ''a'' \<or> c = CHR ''o'' then
            do { bn \<leftarrow> channel_botname p s;
                 a \<leftarrow> arg_at x v;
                 Some (if streq (Some bn) a then Some bn else None) }
          else Some None)"

definition minus_mode :: "mode_ctx \<Rightarrow> char \<Rightarrow> mode_vars \<Rightarrow> core \<Rightarrow> (mode_vars \<times> core) option" where
  "minus_mode x c v s =
     (if status_flag c \<noteq> 0 then
        do { v \<leftarrow> minus_target x v s;
             mine \<leftarrow> deop_by_bot x c v s;
             case mine of
               Some bn \<Rightarrow>
                 Some (next_arg v,
                   send_raw ('':'' @ bn @ '' MODE '' @ x_chan x @ '' +'' @ [c] @ '' '' @ pr (x_bot x)) s)
             | None \<Rightarrow>
                 (case v_member v of None \<Rightarrow> Some (next_arg v, s)
                  | Some m \<Rightarrow> do {
                      no \<leftarrow> minus_refused x c v s;
                      s \<leftarrow> (if no then set_status x v c True s
                           else upd_member m (ClearChanFlag (status_flag c)) s);
                      Some (next_arg v, s) }) }
      else Some (if takes_arg c then next_arg v else v, s))"

fun mode_loop :: "mode_ctx \<Rightarrow> bool \<Rightarrow> string \<Rightarrow> mode_vars \<Rightarrow> core \<Rightarrow> core option" where
  "mode_loop x up [] v s = Some s"
| "mode_loop x up (c # cs) v s =
     (if up \<and> c = CHR ''-'' then mode_loop x False cs v s
      else if \<not> up \<and> c = CHR ''+'' then mode_loop x True cs v s
      else Option.bind (if up then plus_mode x c v s else minus_mode x c v s)
        (\<lambda>(v, s). mode_loop x up cs v s))"

definition mode_start :: mode_vars where
  "mode_start = \<lparr>v_warg = 0, v_nptr2 = None, v_member = None, v_uptr = None\<rparr>"

text \<open>The array of 50 arguments: the words, a NULL behind them, and a second one if there is no word.\<close>

definition mode_args :: "cstring \<Rightarrow> cstring list option" where
  "mode_args r =
     (let ws = parse_words 50 r in
      if length ws = 50 then None
      else Some (if ws = [] then [None, None] else map Some ws @ [None]))"

definition chan_mode :: "string \<Rightarrow> cstring \<Rightarrow> core \<Rightarrow> core option" where
  "chan_mode sender tail s =
     (let (chan, r) = SeperateWord tail; (modes, r) = SeperateWord r in
      case (chan, modes) of
        (Some name, Some ms) \<Rightarrow>
          if ms = [] then Some s
          else do {
            args \<leftarrow> mode_args r;
            case find_wchan chan s of None \<Rightarrow> Some s
            | Some w \<Rightarrow> do {
                let chptr = find_channel chan s;
                bn \<leftarrow> (case chptr of None \<Rightarrow> Some None | Some c \<Rightarrow> map_option Some (channel_botname c s));
                s \<leftarrow> (case chptr of None \<Rightarrow> Some s
                     | Some c \<Rightarrow> do { ch \<leftarrow> chan_at s c; check_mlock (pr bn) ms ch s });
                let x = \<lparr>x_chan = name, x_wchan = w, x_chptr = chptr, x_bot = bn, x_sender = tl sender,
                         x_args = args\<rparr>;
                if hd ms = CHR ''+'' then mode_loop x True (tl ms) mode_start s
                else if hd ms = CHR ''-'' then mode_loop x False (tl ms) mode_start s
                else Some s } }
      | _ \<Rightarrow> Some s)"

definition m_mode :: "env \<Rightarrow> string \<Rightarrow> cstring \<Rightarrow> services \<Rightarrow> services option" where
  "m_mode E sender tail w =
     do { t \<leftarrow> tail;
          if CHR '':'' \<in> set t then
            (let (nick, r) = SeperateWord tail; (umode, _) = SeperateWord r in
             case (nick, umode) of
               (Some n, Some u) \<Rightarrow>
                 if n = [] \<or> u = [] \<or> hd n = CHR ''#'' then Some w else umode_change E nick (tl u) w
             | _ \<Rightarrow> Some w)
          else on_core (chan_mode sender tail) w }"

end
