(* ===== verification/Base64.thy ===== *)
theory Base64
  imports CStrings
begin

section \<open>Base 64: src/src/base64.c\<close>

text \<open>
  \<open>b64_decode\<close> is the state machine of the source: \<open>state\<close> counts the 6-bit groups of the
  current quantum, \<open>target\<close> is the output array of \<open>targsize\<close> bytes (of \<open>8 word\<close>). A result
  \<open>None\<close> is the error value -1. \<open>b64_encode\<close> is not in the source: it is the encoding of
  RFC 4648, against which the decoder is verified.
\<close>

definition Base64 :: string where
  "Base64 = ''ABCDEFGHIJKLMNOPQRSTUVWXYZabcdefghijklmnopqrstuvwxyz0123456789+/''"

definition Pad64 :: char where
  "Pad64 = CHR ''=''"

fun index_of :: "char \<Rightarrow> string \<Rightarrow> nat option" where
  "index_of c [] = None"
| "index_of c (d # ds) = (if c = d then Some 0 else map_option Suc (index_of c ds))"

type_synonym byte = "8 word"

text \<open>The six bits of a digit in their places of the bytes of the quantum.\<close>

definition hi6 :: "nat \<Rightarrow> byte" where "hi6 v = push_bit 2 (of_nat v)"
definition lo2 :: "nat \<Rightarrow> byte" where "lo2 v = drop_bit 4 (of_nat v)"
definition hi4 :: "nat \<Rightarrow> byte" where "hi4 v = push_bit 4 (of_nat v AND 0x0f)"
definition lo4 :: "nat \<Rightarrow> byte" where "lo4 v = drop_bit 2 (of_nat v)"
definition hi2 :: "nat \<Rightarrow> byte" where "hi2 v = push_bit 6 (of_nat v AND 0x03)"
definition lo6 :: "nat \<Rightarrow> byte" where "lo6 v = of_nat v"

text \<open>
  Array accesses are checked: \<open>None\<close> is an access outside \<open>target\<close>. Inside it, the value
  \<open>None\<close> of the result is the error -1.
\<close>

definition load :: "byte list \<Rightarrow> nat \<Rightarrow> byte option" where
  "load t i = (if i < length t then Some (t ! i) else None)"

definition store :: "nat \<Rightarrow> byte \<Rightarrow> byte list \<Rightarrow> byte list option" where
  "store i v t = (if i < length t then Some (t[i := v]) else None)"

definition or_store :: "nat \<Rightarrow> byte \<Rightarrow> byte list \<Rightarrow> byte list option" where
  "or_store i v t = do { x \<leftarrow> load t i; store i (x OR v) t }"

text \<open>One digit: the new state, index and array, or the error of an array that is full.\<close>

type_synonym b64_state = "nat \<times> nat \<times> byte list" \<comment> \<open>\<open>state\<close>, \<open>tarindex\<close>, \<open>target\<close>\<close>

definition b64_digit :: "nat \<Rightarrow> b64_state \<Rightarrow> b64_state option option" where
  "b64_digit v = (\<lambda>(state, tarindex, target).
     let targsize = length target in
     if state = 0 then
       (if targsize \<le> tarindex then Some None
        else do { t \<leftarrow> store tarindex (hi6 v) target; Some (Some (1, tarindex, t)) })
     else if state = 1 then
       (if targsize \<le> tarindex + 1 then Some None
        else do { t \<leftarrow> or_store tarindex (lo2 v) target;
                  t \<leftarrow> store (tarindex + 1) (hi4 v) t;
                  Some (Some (2, tarindex + 1, t)) })
     else if state = 2 then
       (if targsize \<le> tarindex + 1 then Some None
        else do { t \<leftarrow> or_store tarindex (lo4 v) target;
                  t \<leftarrow> store (tarindex + 1) (hi2 v) t;
                  Some (Some (3, tarindex + 1, t)) })
     else
       (if targsize \<le> tarindex then Some None
        else do { t \<leftarrow> or_store tarindex (lo6 v) target; Some (Some (0, tarindex + 1, t)) }))"

text \<open>What follows a pad character: \<open>rest\<close> is the input after the first \<open>=\<close>.\<close>

definition b64_finish :: "string \<Rightarrow> b64_state \<Rightarrow> (nat \<times> byte list) option option" where
  "b64_finish rest = (\<lambda>(state, tarindex, target).
     if state = 0 \<or> state = 1 then Some None
     else
       (let rest1 = (if state = 2
                     then (case dropWhile isspace rest of
                             [] \<Rightarrow> None
                           | c # cs \<Rightarrow> if c = Pad64 then Some cs else None)
                     else Some rest)
        in case rest1 of None \<Rightarrow> Some None
           | Some r \<Rightarrow>
               if dropWhile isspace r \<noteq> [] then Some None
               else do { x \<leftarrow> load target tarindex;
                         if x \<noteq> 0 then Some None else Some (Some (tarindex, target)) }))"

fun b64_loop :: "string \<Rightarrow> b64_state \<Rightarrow> (nat \<times> byte list) option option" where
  "b64_loop [] s = (if fst s \<noteq> 0 then Some None else Some (Some (snd s)))"
| "b64_loop (ch # src) s =
     (if isspace ch then b64_loop src s
      else if ch = Pad64 then b64_finish src s
      else case index_of ch Base64 of None \<Rightarrow> Some None
        | Some v \<Rightarrow>
            do { r \<leftarrow> b64_digit v s;
                 case r of None \<Rightarrow> Some None | Some s' \<Rightarrow> b64_loop src s' })"

definition b64_decode :: "string \<Rightarrow> byte list \<Rightarrow> (nat \<times> byte list) option option" where
  "b64_decode src target = b64_loop src (0, 0, target)"

text \<open>
  \<open>decode_ip\<close> gives the first 4 or 16 bytes of its array to libc, for an IPv4 or an IPv6
  address; \<open>None\<close> when the decoder did not write all of them. The result is the family
  (\<open>True\<close> for IPv4) and the bytes in network order.
\<close>

definition decode_ip :: "string \<Rightarrow> (bool \<times> byte list) option" where
  "decode_ip buf =
     do { r \<leftarrow> b64_decode buf (replicate 25 0);
          (n, targ) \<leftarrow> r;
          let len = (if length buf \<le> 8 then 4 else 16);
          if n < len then None else Some (len = 4, take len targ) }"

text \<open>\<open>base64_to_int\<close>: the base 64 of the server protocol; digits -1 are the illegal characters. The
  first character is read before the end of the string is tested, so the empty string is read
  past its end.\<close>

definition int6_digits :: string where
  "int6_digits = ''0123456789ABCDEFGHIJKLMNOPQRSTUVWXYZabcdefghijklmnopqrstuvwxyz{}''"

definition base64_to_int6_map :: "char \<Rightarrow> 32 word" where
  "base64_to_int6_map c = (case index_of c int6_digits of Some v \<Rightarrow> of_nat v | None \<Rightarrow> - 1)"

definition base64_to_int :: "string \<Rightarrow> int option" where
  "base64_to_int b64 =
     (case b64 of [] \<Rightarrow> None
      | c # cs \<Rightarrow> Some (sint (foldl (\<lambda>v d. push_bit 6 v + base64_to_int6_map d) (base64_to_int6_map c) cs)))"

subsection \<open>Memory safety\<close>

definition b64_ok :: "b64_state \<Rightarrow> bool" where
  "b64_ok = (\<lambda>(state, tarindex, target).
     state < 4 \<and> tarindex \<le> length target \<and> (state \<noteq> 0 \<longrightarrow> tarindex < length target))"

lemmas b64_access = load_def store_def or_store_def

lemma b64_digit_ok:
  assumes "b64_ok s"
  shows "\<exists>r. b64_digit v s = Some r \<and>
    (\<forall>s'. r = Some s' \<longrightarrow> b64_ok s' \<and> length (snd (snd s')) = length (snd (snd s)))"
  using assms by (cases s) (auto simp: b64_ok_def b64_digit_def b64_access Let_def)

lemma b64_finish_ok:
  assumes "b64_ok s"
  shows "\<exists>r. b64_finish src s = Some r \<and>
    (\<forall>n t. r = Some (n, t) \<longrightarrow> n \<le> length t \<and> length t = length (snd (snd s)))"
  using assms
  by (cases s) (auto simp: b64_ok_def b64_finish_def b64_access Let_def split: list.splits option.splits)

lemma b64_loop_ok:
  "b64_ok s \<Longrightarrow> \<exists>r. b64_loop src s = Some r \<and>
    (\<forall>n t. r = Some (n, t) \<longrightarrow> n \<le> length t \<and> length t = length (snd (snd s)))"
proof (induction src s rule: b64_loop.induct)
  case (1 s)
  then show ?case by (auto simp: b64_ok_def)
next
  case (2 ch src s)
  show ?case
  proof (cases "isspace ch \<or> ch = Pad64")
    case True
    then show ?thesis using 2 b64_finish_ok [of s src] by auto
  next
    case False
    show ?thesis
    proof (cases "index_of ch Base64")
      case None
      with False show ?thesis by simp
    next
      case (Some v)
      obtain r where r: "b64_digit v s = Some r"
        "\<forall>s'. r = Some s' \<longrightarrow> b64_ok s' \<and> length (snd (snd s')) = length (snd (snd s))"
        using b64_digit_ok [OF "2.prems"] by blast
      show ?thesis
      proof (cases r)
        case None
        with False Some r(1) show ?thesis by simp
      next
        case s': (Some s')
        with r(2) have "b64_ok s'" "length (snd (snd s')) = length (snd (snd s))" by auto
        with "2.IH"(2) [of v r s'] False Some r(1) s' show ?thesis by auto
      qed
    qed
  qed
qed

subsection \<open>The decoder inverts the encoding of RFC 4648\<close>

text \<open>The four 6-bit groups of three bytes.\<close>

definition q0 :: "byte \<Rightarrow> byte" where "q0 a = drop_bit 2 a"
definition q1 :: "byte \<Rightarrow> byte \<Rightarrow> byte" where "q1 a b = push_bit 4 (a AND 3) OR drop_bit 4 b"
definition q2 :: "byte \<Rightarrow> byte \<Rightarrow> byte" where "q2 b c = push_bit 2 (b AND 15) OR drop_bit 6 c"
definition q3 :: "byte \<Rightarrow> byte" where "q3 c = c AND 63"

definition b64_char :: "byte \<Rightarrow> char" where
  "b64_char w = Base64 ! unat w"

fun b64_encode :: "byte list \<Rightarrow> string" where
  "b64_encode [] = []"
| "b64_encode [a] = [b64_char (q0 a), b64_char (q1 a 0), Pad64, Pad64]"
| "b64_encode [a, b] = [b64_char (q0 a), b64_char (q1 a b), b64_char (q2 b 0), Pad64]"
| "b64_encode (a # b # c # r) =
     b64_char (q0 a) # b64_char (q1 a b) # b64_char (q2 b c) # b64_char (q3 c) # b64_encode r"

lemma index_of_nth:
  "distinct xs \<Longrightarrow> i < length xs \<Longrightarrow> index_of (xs ! i) xs = Some i"
  by (induction xs arbitrary: i) (auto simp: nth_Cons split: nat.splits)

lemma Base64_facts: "distinct Base64" "length Base64 = 64"
  "list_all (\<lambda>c. \<not> isspace c \<and> c \<noteq> Pad64) Base64"
  by (code_simp)+

lemma b64_char_facts:
  assumes "w < (64 :: byte)"
  shows "index_of (b64_char w) Base64 = Some (unat w)"
    and "\<not> isspace (b64_char w)" and "b64_char w \<noteq> Pad64"
proof -
  from assms have "unat w < length Base64" by (simp add: Base64_facts word_less_nat_alt)
  then show "index_of (b64_char w) Base64 = Some (unat w)"
    and "\<not> isspace (b64_char w)" and "b64_char w \<noteq> Pad64"
    using Base64_facts by (auto simp: b64_char_def index_of_nth list_all_length)
qed


lemma byte_less_64I: "take_bit 6 w = w \<Longrightarrow> (w :: byte) < 64"
proof -
  assume "take_bit 6 w = w"
  then have "take_bit 6 (unat w) = unat w" by (metis unsigned_take_bit_eq)
  then have "unat w < 2 ^ 6" by (simp only: take_bit_nat_eq_self_iff)
  then show ?thesis by (simp add: word_less_nat_alt)
qed

lemma mask_numerals: "(3 :: byte) = mask 2" "(15 :: byte) = mask 4" "(63 :: byte) = mask 6"
  by (simp_all add: mask_eq_exp_minus_1)

lemma less_8: "n < (8 :: nat) \<longleftrightarrow> n \<in> {0, 1, 2, 3, 4, 5, 6, 7}"
  by auto

lemma byte_bits: "bit (a :: byte) n \<Longrightarrow> n < 8"
  by (drule bit_imp_le_length) simp

lemmas b64_parts = hi6_def lo2_def hi4_def lo4_def hi2_def lo6_def
lemmas b64_groups = q0_def q1_def q2_def q3_def

lemma groups_less: "q0 a < 64" "q1 a b < 64" "q2 b c < 64" "q3 c < 64"
  unfolding mask_numerals b64_groups
  by (rule byte_less_64I, rule bit_word_eqI, auto simp: bit_simps dest: byte_bits)+

lemma joins:
  "hi6 (unat (q0 a)) OR lo2 (unat (q1 a b)) = a"
  "hi4 (unat (q1 a b)) OR lo4 (unat (q2 b c)) = b"
  "hi2 (unat (q2 b c)) OR lo6 (unat (q3 c)) = c"
  unfolding mask_numerals b64_groups b64_parts
  by (rule bit_word_eqI,
      auto simp: bit_simps less_8 numeral_2_eq_2 [symmetric] dest: byte_bits)+

lemma joins_zero: "hi4 (unat (q1 a 0)) = 0" "hi2 (unat (q2 b 0)) = 0"
  unfolding mask_numerals b64_groups b64_parts
  by (rule bit_word_eqI,
      auto simp: bit_simps less_8 numeral_2_eq_2 [symmetric] dest: byte_bits)+



lemma b64_loop_digit:
  assumes "w < 64"
  shows "b64_loop (b64_char w # src) s =
    Option.bind (b64_digit (unat w) s)
      (\<lambda>r. case r of None \<Rightarrow> Some None | Some s' \<Rightarrow> b64_loop src s')"
  using b64_char_facts [OF assms] by simp

lemma b64_loop_pad: "b64_loop (Pad64 # src) s = b64_finish src s"
  by (simp add: Pad64_def isspace_def)

lemma Pad64_not_space: "\<not> isspace Pad64"
  by (simp add: Pad64_def isspace_def)

lemmas b64_step = b64_loop_digit [OF groups_less(1)] b64_loop_digit [OF groups_less(2)]
  b64_loop_digit [OF groups_less(3)] b64_loop_digit [OF groups_less(4)] b64_loop_pad

declare b64_loop.simps(2) [simp del]

lemma b64_loop_quantum:
  assumes "i + 2 < length t"
  shows "b64_loop (b64_encode (a # b # c # r)) (0, i, t) =
    b64_loop (b64_encode r) (0, i + 3, t[i := a, i + 1 := b, i + 2 := c])"
  using assms
  by (simp add: b64_step b64_digit_def Let_def b64_access joins eval_nat_numeral)

text \<open>From the index on, the array is as it was, or zero.\<close>

definition untouched :: "nat \<Rightarrow> byte list \<Rightarrow> byte list \<Rightarrow> bool" where
  "untouched n t t' \<longleftrightarrow> length t' = length t \<and>
     (\<forall>k. n \<le> k \<longrightarrow> k < length t \<longrightarrow> t' ! k = t ! k \<or> t' ! k = 0)"

lemma b64_loop_rest:
  assumes "i + length bs < length t" and "0 < length bs" and "length bs < 3"
  shows "\<exists>t'. b64_loop (b64_encode bs) (0, i, t) = Some (Some (i + length bs, t')) \<and>
    take (i + length bs) t' = take i t @ bs \<and> untouched (i + length bs) t t'"
proof -
  consider a where "bs = [a]" | a b where "bs = [a, b]"
    using assms(2,3) by (cases bs; cases "tl bs"; cases "tl (tl bs)") auto
  then show ?thesis
  proof cases
    case 1
    with assms show ?thesis
      by (simp add: b64_step b64_digit_def Let_def b64_access joins joins_zero b64_finish_def
          Pad64_not_space take_Suc_conv_app_nth untouched_def nth_list_update)
  next
    case 2
    with assms show ?thesis
      by (simp add: b64_step b64_digit_def Let_def b64_access joins joins_zero b64_finish_def
          Pad64_not_space take_Suc_conv_app_nth untouched_def nth_list_update)
  qed
qed

lemma b64_loop_encode:
  "i + length bs < length t \<Longrightarrow>
    \<exists>t'. b64_loop (b64_encode bs) (0, i, t) = Some (Some (i + length bs, t')) \<and>
      take (i + length bs) t' = take i t @ bs \<and> untouched (i + length bs) t t'"
proof (induction bs arbitrary: i t rule: b64_encode.induct)
  case (4 a b c r)
  let ?t = "t[i := a, i + 1 := b, i + 2 := c]"
  have "i + 3 + length r < length ?t" using 4(2) by simp
  from 4(1) [OF this] obtain t' where
    "b64_loop (b64_encode r) (0, i + 3, ?t) = Some (Some (i + 3 + length r, t'))"
    "take (i + 3 + length r) t' = take (i + 3) ?t @ r" "untouched (i + 3 + length r) ?t t'" by blast
  moreover from this(3) have "untouched (i + 3 + length r) t t'"
    by (auto simp: untouched_def nth_list_update)
  moreover have "take (i + 3) ?t = take i t @ [a, b, c]"
    using 4(2) by (simp add: take_Suc_conv_app_nth eval_nat_numeral)
  moreover have "b64_loop (b64_encode (a # b # c # r)) (0, i, t) =
      b64_loop (b64_encode r) (0, i + 3, ?t)"
    using 4(2) by (intro b64_loop_quantum) simp
  moreover have "i + length (a # b # c # r) = i + 3 + length r" by simp
  ultimately show ?case by (simp only: append.simps append_assoc) auto
next
  case (2 a)
  then show ?case by (intro b64_loop_rest) auto
next
  case (3 a b)
  then show ?case by (intro b64_loop_rest) auto
qed (simp add: untouched_def)

end
