(* ===== verification/Parseline.thy ===== *)
theory Parseline
  imports Messages Base64
begin

section \<open>Nicks, messages, servers and the dispatch of a line: src/src/parseline.c\<close>

subsection \<open>A change of nick\<close>

text \<open>A nick takes the name of a registered account: it is logged over to it, or warned.\<close>

definition nick_registered :: "ptr \<Rightarrow> string \<Rightarrow> string \<Rightarrow> ptr option \<Rightarrow> ptr \<Rightarrow> core \<Rightarrow> core option" where
  "nick_registered nptr oldnick newnick uptr uptr2 s =
     do { a \<leftarrow> IsAuthed uptr s;
          linked \<leftarrow> (if a then do { l1 \<leftarrow> find_link2 (Some oldnick) (Some newnick) s;
                                  if l1 \<noteq> None then Some True
                                  else map_option (\<lambda>l. l \<noteq> None) (find_link2 (Some newnick) (Some oldnick) s) }
                    else Some False);
          if linked then do { s \<leftarrow> user_logout nptr uptr s; user_login nptr uptr2 s }
          else do {
            s \<leftarrow> NoticeToUser nptr
              (if a then ''This nick is registered and you are already logged in, please take another nick.''
               else ''This nick is registered. Please identify yourself or take another nick.'') s;
            u2 \<leftarrow> user_at s uptr2;
            Some (if HasUOption u2 UOPT_PROTECT then snd (AddGuest newnick (u_timeout u2) (clock s) s) else s) } }"

definition rename_nick :: "ptr \<Rightarrow> string \<Rightarrow> string \<Rightarrow> core \<Rightarrow> core option" where
  "rename_nick nptr oldnick newnick s =
     do { let s = DeleteGuest oldnick s;
          s \<leftarrow> upd_nick nptr (nick_set_name newnick) (s\<lparr>nicks := terase oldnick (nicks s)\<rparr>);
          Some (if tfind (nicks s) newnick \<noteq> None then s
                else s\<lparr>nicks := tinsert newnick nptr (nicks s)\<rparr>) }"

definition m_nick_msg :: "env \<Rightarrow> string \<Rightarrow> cstring \<Rightarrow> services \<Rightarrow> services option" where
  "m_nick_msg E sender tail w =
     do { r \<leftarrow> find_nick (Some (tl sender)) (svc w);
          case r of None \<Rightarrow> Some w
          | Some nptr \<Rightarrow> do {
              n \<leftarrow> nick_at (svc w) nptr;
              let oldnick = strncpy (n_name n) NICKLEN;
              newnick \<leftarrow> fst (SeperateWord tail);
              s \<leftarrow> rename_nick nptr oldnick newnick (svc w);
              if streq (Some newnick) (Some oldnick) then Some (w\<lparr>svc := s\<rparr>)
              else do {
                let uptr2 = find_user (Some newnick) s;
                s \<leftarrow> (case uptr2 of None \<Rightarrow> Some s
                     | Some u2 \<Rightarrow> nick_registered nptr oldnick newnick (find_user (Some oldnick) s) u2 s);
                fire_hooks E HOOK_NICKCHANGE (Some nptr) uptr2 None [Some oldnick] (w\<lparr>svc := s\<rparr>) } } }"

subsection \<open>Pings, SASL, the handshake\<close>

definition m_ping :: "env \<Rightarrow> string \<Rightarrow> services \<Rightarrow> services option" where
  "m_ping E command w =
     fire_hooks E HOOK_PING None None None [] (w\<lparr>svc := send_raw (''PONG '' @ tl command) (svc w)\<rparr>)"

definition m_sasl :: "env \<Rightarrow> string \<Rightarrow> cstring \<Rightarrow> services \<Rightarrow> services option" where
  "m_sasl E sender tail w = fire_hooks E HOOK_SASL None None None [Some sender, tail] w"

definition is_sid :: "string \<Rightarrow> bool" where
  "is_sid s \<longleftrightarrow> strcasecmp (take 4 s) ''SID='' = 0"

text \<open>The value of the first token \<open>SID=\<close>; \<open>strtok\<close> on NULL goes on with the string of another call.\<close>

definition protoctl_sid :: "string \<Rightarrow> cstring \<Rightarrow> cstring option" where
  "protoctl_sid command tail =
     (if is_sid command then Some (Some (drop 4 command))
      else do { t \<leftarrow> tail; Some (map_option (drop 4) (find is_sid (strtok CHR '' '' t))) })"

definition m_protoctl :: "env \<Rightarrow> string \<Rightarrow> cstring \<Rightarrow> services \<Rightarrow> services option" where
  "m_protoctl E command tail w =
     do { sid \<leftarrow> protoctl_sid command tail;
          case sid of None \<Rightarrow> Some w
          | Some v \<Rightarrow> do {
              let s = (svc w)\<lparr>remote_sid := strncpy v SIDLEN\<rparr>;
              known \<leftarrow> (if remote_server s = [] then Some True
                       else map_option (\<lambda>r. r \<noteq> None) (find_server (Some (remote_server s)) s));
              s \<leftarrow> (if known then Some s
                   else map_option snd (add_server (remote_server s) (remote_sid s) None s));
              s \<leftarrow> loadallfakes s;
              fire_hooks E HOOK_CONNECTED None None None [] (w\<lparr>svc := s\<rparr>) } }"

subsection \<open>Private messages\<close>

text \<open>
  The flood control of messages to the services: \<open>True\<close> when the message is dropped. A nick that
  sends too much is ignored for a while.
\<close>

definition flood_step :: "config \<Rightarrow> int \<Rightarrow> nick \<Rightarrow> bool \<times> nick" where
  "flood_step c now n =
     (if n_ignored n then
        (if now - n_ignoretime n > cfg_ignoretime c
         then (False, nick_set_ignoretime 0 (nick_set_ignored False n)) else (True, n))
      else if n_msgtime n = 0 \<or> n_msgnb n = 0 then (False, nick_set_msgnb 1 (nick_set_msgtime now n))
      else if now - n_msgtime n \<le> cfg_maxmsgtime c \<and> cfg_maxmsgnb c \<le> n_msgnb n
      then (True, nick_set_ignoretime now (nick_set_ignored True n))
      else if now - n_msgtime n > cfg_maxmsgtime c \<and> n_msgnb n \<le> cfg_maxmsgnb c
      then (False, nick_set_msgnb 1 (nick_set_msgtime now n))
      else (False, nick_set_msgnb (n_msgnb n + 1) n))"

definition flood_check :: "ptr \<Rightarrow> string \<Rightarrow> core \<Rightarrow> (bool \<times> core) option" where
  "flood_check nptr target s =
     do { n \<leftarrow> nick_at s nptr;
          if first_is (CHR ''#'') (Some target) \<or> HasUmode n UMODE_OPER then Some (False, s)
          else (let (drop, n') = flood_step (cfg s) (clock s) n in
            map_option (Pair drop) (upd_nick nptr (\<lambda>_. n') s)) }"

definition channel_command ::
  "env \<Rightarrow> ptr \<Rightarrow> ptr option \<Rightarrow> ptr option \<Rightarrow> ptr option \<Rightarrow> string \<Rightarrow> cstring \<Rightarrow> services \<Rightarrow> services option" where
  "channel_command E nptr uptr chptr wchan arg1 rest w =
     (case (chptr, wchan) of
        (Some c, Some wc) \<Rightarrow>
          (case lookup_command (Some arg1) CMD_BOT (commands w) of None \<Rightarrow> Some w
           | Some cmd \<Rightarrow> do {
               b \<leftarrow> may_run uptr (cmd_level cmd) (svc w);
               if b then e_bot E (cmd_func cmd) nptr uptr c wc rest w else Some w })
      | _ \<Rightarrow> Some w)"

definition for_me :: "string \<Rightarrow> core \<Rightarrow> bool" where
  "for_me target s \<longleftrightarrow>
     streq (Some target) (Some (cfg_nick (cfg s))) \<or>
     streq (Some target) (Some (take 255 (cfg_nick (cfg s) @ CHR 0x40 # cfg_name (cfg s)))) \<or>
     streq (Some target) (Some (my_uid s))"

definition ctcp_version :: string where
  "ctcp_version = CHR 0x01 # ''VERSION'' @ [CHR 0x01]"

definition base_command ::
  "env \<Rightarrow> ptr \<Rightarrow> ptr option \<Rightarrow> string \<Rightarrow> string \<Rightarrow> cstring list \<Rightarrow> services \<Rightarrow> services option" where
  "base_command E nptr uptr arg1 msg args w =
     (if streq (Some arg1) (Some ctcp_version)
      then on_core (NoticeToUser nptr (CHR 0x01 # ''VERSION '' @ e_version E @ [CHR 0x01])) w
      else (case lookup_command (Some arg1) CMD_BASE (commands w) of
        Some cmd \<Rightarrow> do {
          b \<leftarrow> may_run uptr (cmd_level cmd) (svc w);
          if b then e_base E (cmd_func cmd) nptr uptr (Some msg) w
          else on_core (NoticeToUser nptr ''Access denied'') w }
      | None \<Rightarrow> do {
          (r, w) \<leftarrow> run_hooks E HOOK_PRIVMSG (Some nptr) uptr None args w;
          if r = MOD_STOP then Some w else on_core (NoticeToUser nptr ''Unknown command'') w }))"

text \<open>
  The text of a message starts behind the first colon; cutting the target off the line also cuts a
  text that starts within it.
\<close>

definition message_of :: "string \<Rightarrow> cstring" where
  "message_of tail =
     (let target = takeWhile (\<lambda>c. \<not> word_end c) tail in
      if CHR '':'' \<in> set target then map_option snd (split_at1 (CHR '':'') target)
      else map_option snd (split_at1 (CHR '':'') tail))"

definition deliver :: "env \<Rightarrow> ptr \<Rightarrow> string \<Rightarrow> string \<Rightarrow> string \<Rightarrow> string \<Rightarrow> services \<Rightarrow> services option" where
  "deliver E nptr target raw msg arg1 w =
     do { let onchan = first_is (CHR ''#'') (Some target);
          let chptr = (if onchan then find_channel (Some target) (svc w) else None);
          let wchan = (if onchan then find_wchan (Some target) (svc w) else None);
          uptr \<leftarrow> find_account nptr (svc w);
          let args = [Some target, Some (take 1023 raw)];
          (r, w) \<leftarrow> run_hooks E HOOK_PRE_PRIVMSG (Some nptr) uptr chptr args w;
          if r = MOD_STOP then Some w
          else if onchan then channel_command E nptr uptr chptr wchan arg1 (snd (SeperateWord (Some msg))) w
          else if \<not> for_me target (svc w) then Some w
          else base_command E nptr uptr arg1 msg args w }"

definition m_privmsg :: "env \<Rightarrow> string \<Rightarrow> cstring \<Rightarrow> services \<Rightarrow> services option" where
  "m_privmsg E sender tail w =
     (case tail of None \<Rightarrow> Some w
      | Some t \<Rightarrow>
          (case message_of t of None \<Rightarrow> Some w
           | Some raw \<Rightarrow> do {
               msg \<leftarrow> StripBlanks (Some raw);
               arg1 \<leftarrow> first_word_buf msg 1024;
               if msg = [] then Some w
               else do {
                 r \<leftarrow> find_nick (Some (tl sender)) (svc w);
                 case r of None \<Rightarrow> Some w
                 | Some nptr \<Rightarrow> do {
                     let target = takeWhile (\<lambda>c. \<not> word_end c) t;
                     (drop, s) \<leftarrow> flood_check nptr target (svc w);
                     if drop then Some (w\<lparr>svc := s\<rparr>)
                     else deliver E nptr target raw msg arg1 (w\<lparr>svc := s\<rparr>) } } }))"

subsection \<open>A new nick\<close>

definition uid_table :: "(char \<times> flags) list" where
  "uid_table = [(CHR ''o'', UMODE_OPER), (CHR ''a'', UMODE_SADMIN), (CHR ''A'', UMODE_ADMIN),
     (CHR ''r'', UMODE_REGISTERED), (CHR ''N'', UMODE_NADMIN), (CHR ''B'', UMODE_BOT),
     (CHR ''S'', UMODE_SERVICE), (CHR ''q'', UMODE_NOKICK), (CHR ''z'', UMODE_SSL)]"

definition uid_modes :: "string \<Rightarrow> flags" where
  "uid_modes umode = fold (\<lambda>(c, m) w. if IsCharInString c umode then w OR m else w) uid_table 0"

text \<open>The address behind the nick; the last byte of the array is not cleared.\<close>

definition client_ip :: "lib \<Rightarrow> string \<Rightarrow> string \<Rightarrow> string option" where
  "client_ip L nickip host =
     (if first_is (CHR ''*'') (Some nickip) then strbuf host HOSTLEN
      else do { b \<leftarrow> decode_ip nickip; strbuf (inet_ntop L b) HOSTLEN })"

definition clone_limit :: "lib \<Rightarrow> string \<Rightarrow> string \<Rightarrow> core \<Rightarrow> int option" where
  "clone_limit L host ip s =
     do { t \<leftarrow> (case find_trust_strict (Some host) s of Some p \<Rightarrow> Some (Some p) | None \<Rightarrow> find_trust L ip s);
          case t of None \<Rightarrow> Some (cfg_maxclones (cfg s)) | Some p \<Rightarrow> map_option t_limit (trust_at s p) }"

text \<open>The mode \<open>+r\<close> without an account: taken for a login, or taken away.\<close>

definition uid_registered :: "ptr \<Rightarrow> ptr option \<Rightarrow> core \<Rightarrow> core option" where
  "uid_registered nptr uptr s =
     do { n \<leftarrow> nick_at s nptr;
          if \<not> HasUmode n UMODE_REGISTERED \<or> n_account n \<noteq> None then Some s
          else do {
            free \<leftarrow> (case uptr of None \<Rightarrow> Some False
                    | Some p \<Rightarrow> map_option (\<lambda>u. u_authed u \<noteq> 1 \<and> \<not> HasUOption u UOPT_SUSPENDED) (user_at s p));
            case (free, uptr) of
              (True, Some p) \<Rightarrow> user_login nptr p s
            | _ \<Rightarrow> upd_nick nptr (ClearUmode UMODE_REGISTERED)
                    (send_raw (''SVS2MODE '' @ n_name n @ '' -r'') s) } }"

definition uid_protect :: "ptr \<Rightarrow> ptr option \<Rightarrow> core \<Rightarrow> core option" where
  "uid_protect nptr uptr s =
     (case uptr of None \<Rightarrow> Some s
      | Some p \<Rightarrow> do {
          n \<leftarrow> nick_at s nptr;
          u \<leftarrow> user_at s p;
          if HasUmode n UMODE_REGISTERED \<or> HasUOption u UOPT_SUSPENDED then Some s
          else do {
            s \<leftarrow> NoticeToUser nptr ''This nick is registered. Please identify yourself or take another nick.'' s;
            Some (if HasUOption u UOPT_PROTECT
                  then snd (AddGuest (n_name n) (u_timeout u) (clock s) s) else s) } })"

definition uid_accept ::
  "env \<Rightarrow> ptr \<Rightarrow> string \<Rightarrow> string \<Rightarrow> string \<Rightarrow> string \<Rightarrow> string \<Rightarrow> string \<Rightarrow> string \<Rightarrow> string \<Rightarrow> services \<Rightarrow> services option" where
  "uid_accept E server nick ident host uid svid umode hiddenhost ip w =
     do { (r, s) \<leftarrow> new_nick nick ident host uid hiddenhost (uid_modes umode) ip (svc w);
          nptr \<leftarrow> r;
          s \<leftarrow> upd_nick nptr (nick_set_svid svid) s;
          s \<leftarrow> upd_server server (\<lambda>v. v\<lparr>sv_nicks := sv_nicks v @ [nptr]\<rparr>) s;
          uptr \<leftarrow> find_account nptr s;
          w \<leftarrow> fire_hooks E HOOK_NICKCREATE (Some nptr) uptr None [] (w\<lparr>svc := s\<rparr>);
          n \<leftarrow> nick_at (svc w) nptr;
          let named = find_user (Some (n_name n)) (svc w);
          w \<leftarrow> on_core (uid_registered nptr named) w;
          on_core (uid_protect nptr named) w }"

text \<open>The words are nick, hops, time, ident, host, uid, svid, modes, vhost, cloaked host and address.\<close>

definition m_uid :: "env \<Rightarrow> string \<Rightarrow> cstring \<Rightarrow> services \<Rightarrow> services option" where
  "m_uid E sender tail w =
     do { r \<leftarrow> find_server (Some (tl sender)) (svc w);
          case (r, parse_words 11 tail) of
            (Some server, [nick, _, _, ident, host, uid, svid, umode, _, hiddenhost, nickip]) \<Rightarrow>
              if [] \<in> set [nick, ident, host, umode, uid, hiddenhost, nickip] then Some w
              else do {
                ip \<leftarrow> client_ip (e_lib E) nickip host;
                lim \<leftarrow> clone_limit (e_lib E) host ip (svc w);
                clones \<leftarrow> howmanyclones ip (svc w);
                if lim \<le> clones
                then on_core (\<lambda>s. Some (send_kill nick ''Max clones limit exceeded'' (cfg_nick (cfg s)) s)) w
                else uid_accept E server nick ident host uid svid umode hiddenhost ip w }
          | _ \<Rightarrow> Some w }"

definition m_quit :: "env \<Rightarrow> string \<Rightarrow> services \<Rightarrow> services option" where
  "m_quit E sender w =
     do { r \<leftarrow> find_nick (Some (tl sender)) (svc w);
          case r of None \<Rightarrow> Some w
          | Some nptr \<Rightarrow> do {
              uptr \<leftarrow> find_account nptr (svc w);
              (r, w) \<leftarrow> run_hooks E HOOK_QUIT (Some nptr) uptr None [] w;
              if r = MOD_STOP then Some w
              else do { n \<leftarrow> nick_at (svc w) nptr; on_core (userquit (n_name n)) w } } }"

subsection \<open>Topics\<close>

definition m_topic :: "cstring \<Rightarrow> core \<Rightarrow> core option" where
  "m_topic tail s =
     (let (chan, r) = SeperateWord tail in
      do { r \<leftarrow> r;
           case split_at1 (CHR '':'') r of None \<Rightarrow> Some s
           | Some (_, topic) \<Rightarrow>
               (case find_channel chan s of None \<Rightarrow> Some s
                | Some c \<Rightarrow> do {
                    ch \<leftarrow> chan_at s c;
                    if HasCOption ch COPT_ENFTOPIC then
                      do { bn \<leftarrow> channel_botname c s;
                           Some (send_raw ('':'' @ bn @ '' TOPIC '' @ pr chan @ '' :'' @ c_topic ch) s) }
                    else upd_chan c (\<lambda>x. x\<lparr>c_topic := strncpy topic TOPICLEN\<rparr>) s }) })"

definition m_stopic :: "string \<Rightarrow> cstring \<Rightarrow> core \<Rightarrow> core option" where
  "m_stopic chname tail s =
     do { ts \<leftarrow> snd (SeperateWord tail);
          w \<leftarrow> find_wchan (Some chname) s;
          (_, topic) \<leftarrow> split_at1 (CHR '':'') ts;
          s \<leftarrow> upd_wchan w (\<lambda>x. x\<lparr>w_topic := strncpy topic TOPICLEN\<rparr>) s;
          case find_channel (Some chname) s of None \<Rightarrow> Some s
          | Some c \<Rightarrow> upd_chan c (\<lambda>x. if c_topic x = [] then x\<lparr>c_topic := strncpy topic TOPICLEN\<rparr> else x) s }"

subsection \<open>Servers\<close>

definition m_squit :: "string \<Rightarrow> core \<Rightarrow> core option" where
  "m_squit sname s =
     do { r \<leftarrow> find_server (Some sname) s;
          case r of None \<Rightarrow> Some s | Some v \<Rightarrow> detach_server_recursive v s }"

definition m_sid :: "string \<Rightarrow> cstring \<Rightarrow> core \<Rightarrow> core option" where
  "m_sid sender tail s =
     (let (sname, r) = SeperateWord tail; (_, r) = SeperateWord r; (sid, _) = SeperateWord r in
      do { r \<leftarrow> find_server (Some (tl sender)) s;
           case r of None \<Rightarrow> Some s
           | Some sptr \<Rightarrow> do {
               r1 \<leftarrow> find_server sname s;
               r2 \<leftarrow> find_server sid s;
               if r1 \<noteq> None \<or> r2 \<noteq> None then Some s
               else do { n \<leftarrow> sname; i \<leftarrow> sid; map_option snd (add_server n i (Some sptr) s) } } })"

definition m_server :: "string \<Rightarrow> core \<Rightarrow> core option" where
  "m_server command s =
     do { let s = s\<lparr>remote_server := strncpy command SERVERNAMELEN\<rparr>;
          known \<leftarrow> (if remote_sid s = [] then Some True
                   else map_option (\<lambda>r. r \<noteq> None) (find_server (Some (remote_sid s)) s));
          if known then Some s
          else map_option snd (add_server (remote_server s) (remote_sid s) None s) }"

subsection \<open>Bursts of channels\<close>

definition sjoin_prefix :: "char \<Rightarrow> flags" where
  "sjoin_prefix c =
     (if c = CHR ''*'' then CHFL_OWNER else if c = CHR 0x7E then CHFL_PROTECT
      else if c = CHR 0x40 then CHFL_OP else if c = CHR 0x25 then CHFL_HALFOP
      else if c = CHR ''+'' then CHFL_VOICE else 0)"

definition sjoin_list :: "char \<Rightarrow> bool" where
  "sjoin_list c \<longleftrightarrow> c = CHR 0x26 \<or> c = CHR 0x22 \<or> c = CHR 0x27"

text \<open>The status letters of an element and the name behind them; no name for a ban or an exception.\<close>

fun sjoin_elem :: "flags \<Rightarrow> string \<Rightarrow> flags \<times> cstring" where
  "sjoin_elem f [] = (f, None)"
| "sjoin_elem f (c # cs) =
     (if sjoin_prefix c \<noteq> 0 then sjoin_elem (f OR sjoin_prefix c) cs
      else if sjoin_list c then (f, None) else (f, Some (c # cs)))"

definition sjoin_add :: "string \<Rightarrow> ptr \<Rightarrow> ptr \<Rightarrow> flags \<Rightarrow> core \<Rightarrow> core option" where
  "sjoin_add chname wchan nptr f s =
     do { (m, s) \<leftarrow> AddUserToWchan nptr wchan s;
          s \<leftarrow> upd_member m (\<lambda>x. x\<lparr>m_flags := f\<rparr>) s;
          case find_channel (Some chname) s of None \<Rightarrow> Some s
          | Some c \<Rightarrow> do {
              uptr \<leftarrow> find_account nptr s;
              case uptr of None \<Rightarrow> Some s
              | Some u \<Rightarrow> do {
                  x \<leftarrow> user_at s u;
                  if u_authed x = 0 then Some s
                  else do {
                    r \<leftarrow> find_cflag_recursive c u s;
                    case r of None \<Rightarrow> Some s | Some p \<Rightarrow> sync_cflag p s } } } }"

definition sjoin_one :: "string \<Rightarrow> ptr \<Rightarrow> string \<Rightarrow> core \<Rightarrow> core option" where
  "sjoin_one chname wchan e s =
     (case sjoin_elem 0 e of (_, None) \<Rightarrow> Some s
      | (f, Some name) \<Rightarrow>
          with_nick (Some name) (\<lambda>nptr s.
            do { r \<leftarrow> find_member wchan nptr s;
                 if r \<noteq> None then Some s else sjoin_add chname wchan nptr f s }) s)"

text \<open>
  The modes and the buffer: cut at \<open> :\<close>, or at the first colon when there are no modes. A channel
  that cannot be created, because its name collides once it is cut to \<open>CHANLEN\<close>, is the NULL that
  \<open>find_member\<close> reads.
\<close>

definition sjoin_split :: "string \<Rightarrow> (string \<times> string) option" where
  "sjoin_split r =
     (case split_at2 CHR '' '' (CHR '':'') r of Some p \<Rightarrow> Some p | None \<Rightarrow> split_at1 (CHR '':'') r)"

definition m_sjoin :: "env \<Rightarrow> string \<Rightarrow> cstring \<Rightarrow> services \<Rightarrow> services option" where
  "m_sjoin E sender tail w =
     (let (_, r) = SeperateWord tail; (chname, r) = SeperateWord r in
      do { r \<leftarrow> r;
           name \<leftarrow> chname;
           (modes, buf) \<leftarrow> sjoin_split r;
           (wchan, w) \<leftarrow> (case find_wchan chname (svc w) of Some c \<Rightarrow> Some (c, w)
              | None \<Rightarrow> (case CreateWchan name (svc w) of
                  (Some c, s) \<Rightarrow> Some (c, w\<lparr>svc := s\<rparr>) | (None, _) \<Rightarrow> None));
           w \<leftarrow> m_mode E sender (Some (take 1022 (name @ '' '' @ modes))) w;
           on_core (foldM (sjoin_one name wchan) (strtok CHR '' '' buf)) w })"

subsection \<open>The dispatch\<close>

type_synonym handler = "env \<Rightarrow> string \<Rightarrow> cstring \<Rightarrow> services \<Rightarrow> services option"

text \<open>The two tables of \<open>parse_line\<close>: by the sender, then by the command.\<close>

definition senders :: "(string \<times> handler) list" where
  "senders =
     [(''PING'', \<lambda>E c t. m_ping E c),
      (''PROTOCTL'', m_protoctl),
      (''TOPIC'', \<lambda>E c t. on_core (m_stopic c t)),
      (''NETINFO'', \<lambda>E c t. on_core m_eos),
      (''SERVER'', \<lambda>E c t. on_core (m_server c)),
      (''SQUIT'', \<lambda>E c t. on_core (m_squit c))]"

definition line_commands :: "(string \<times> handler) list" where
  "line_commands =
     [(''NICK'', m_nick_msg),
      (''KICK'', \<lambda>E s t. on_core (m_kick s t)),
      (''JOIN'', m_join),
      (''QUIT'', \<lambda>E s t. m_quit E s),
      (''KILL'', m_kill),
      (''MODE'', m_mode),
      (''UMODE2'', m_umode),
      (''PART'', \<lambda>E s t. on_core (m_part s t)),
      (''SETHOST'', \<lambda>E s t. on_core (m_sethost s t)),
      (''SETIDENT'', \<lambda>E s t. on_core (m_setident s t)),
      (''CHGHOST'', \<lambda>E s t. on_core (m_chghost t)),
      (''CHGIDENT'', \<lambda>E s t. on_core (m_chgident t)),
      (''PRIVMSG'', m_privmsg),
      (''TOPIC'', \<lambda>E s t. on_core (m_topic t)),
      (''UID'', m_uid),
      (''SASL'', m_sasl),
      (''SID'', \<lambda>E s t. on_core (m_sid s t)),
      (''SJOIN'', m_sjoin)]"

definition lookup_handler :: "string \<Rightarrow> (string \<times> handler) list \<Rightarrow> handler option" where
  "lookup_handler word t = map_option snd (find (\<lambda>e. streq (Some word) (Some (fst e))) t)"

definition parse_line :: "env \<Rightarrow> string \<Rightarrow> services \<Rightarrow> (int \<times> services) option" where
  "parse_line E line w =
     (let (sender, r) = SeperateWord (StripBlanks (Some line)); (command, tail) = SeperateWord r in
      case (sender, command) of
        (Some snd1, Some cmd) \<Rightarrow>
          if snd1 = [] \<or> cmd = [] then Some (0, w)
          else do {
            (r, w) \<leftarrow> run_hooks E HOOK_RAW None None None [sender, command, tail] w;
            if r = MOD_STOP then Some (0, w)
            else (case lookup_handler snd1 senders of
              Some h \<Rightarrow> map_option (Pair 1) (h E cmd tail w)
            | None \<Rightarrow>
                (case lookup_handler cmd line_commands of
                  Some h \<Rightarrow> map_option (Pair 1) (h E snd1 tail w)
                | None \<Rightarrow> Some (1, w))) }
      | _ \<Rightarrow> Some (0, w))"

end
