(* ===== verification/Guards.thy ===== *)
theory Guards
  imports Parseline
begin

section \<open>What a message can do: flood control and levels\<close>

subsection \<open>Flood control\<close>

text \<open>The messages of one nick to the services, at the given times: which of them are dropped.\<close>

fun flood_run :: "ptr \<Rightarrow> string \<Rightarrow> int list \<Rightarrow> core \<Rightarrow> (bool list \<times> core) option" where
  "flood_run n target [] s = Some ([], s)"
| "flood_run n target (t # ts) s =
     Option.bind (flood_check n target (s\<lparr>clock := t\<rparr>)) (\<lambda>(d, s).
     map_option (\<lambda>(ds, s). (d # ds, s)) (flood_run n target ts s))"

definition counts_as :: "string \<Rightarrow> nick \<Rightarrow> bool" where
  "counts_as target x \<longleftrightarrow> \<not> first_is (CHR ''#'') (Some target) \<and> \<not> HasUmode x UMODE_OPER"

lemma flood_check_step:
  assumes "nick_at s n = Some x" "counts_as target x"
  shows "flood_check n target s =
    Some (fst (flood_step (cfg s) (clock s) x),
          s\<lparr>nick_at := (nick_at s)(n \<mapsto> snd (flood_step (cfg s) (clock s) x))\<rparr>)"
  using assms by (auto simp: flood_check_def counts_as_def upd_defs split: prod.split)

lemma counts_as_step: "counts_as target (snd (flood_step c t x)) = counts_as target x"
  by (auto simp: counts_as_def flood_step_def HasUmode_def nick_set_ignoretime_def nick_set_ignored_def
      nick_set_msgnb_def nick_set_msgtime_def)

text \<open>The counters of a nick over a list of times.\<close>

fun step_run :: "config \<Rightarrow> int list \<Rightarrow> nick \<Rightarrow> bool list \<times> nick" where
  "step_run c [] x = ([], x)"
| "step_run c (t # ts) x =
     (let (d, x) = flood_step c t x; (ds, x) = step_run c ts x in (d # ds, x))"

lemma flood_run_steps:
  assumes "nick_at s n = Some x" "counts_as target x"
  shows "\<exists>t. flood_run n target ts s = Some (fst (step_run (cfg s) ts x), t) \<and> cfg t = cfg s \<and>
    nick_at t n = Some (snd (step_run (cfg s) ts x))"
  using assms
proof (induction ts arbitrary: s x)
  case (Cons t ts)
  let ?x = "snd (flood_step (cfg s) t x)"
  let ?s = "s\<lparr>clock := t, nick_at := (nick_at s)(n \<mapsto> ?x)\<rparr>"
  have "flood_check n target (s\<lparr>clock := t\<rparr>) = Some (fst (flood_step (cfg s) t x), ?s)"
    using flood_check_step [of "s\<lparr>clock := t\<rparr>" n x target] Cons.prems by simp
  moreover have "counts_as target ?x" using Cons.prems(2) by (simp add: counts_as_step)
  then obtain u where "flood_run n target ts ?s = Some (fst (step_run (cfg s) ts ?x), u)"
    "cfg u = cfg s" "nick_at u n = Some (snd (step_run (cfg s) ts ?x))"
    using Cons.IH [of ?s ?x] by auto
  ultimately show ?case by (simp add: split_def Let_def)
qed simp

lemma step_run_ignored:
  assumes "n_ignored x" "\<forall>t \<in> set ts. t - n_ignoretime x \<le> cfg_ignoretime c"
  shows "step_run c ts x = (replicate (length ts) True, x)"
  using assms by (induction ts) (auto simp: flood_step_def)

definition burst :: "config \<Rightarrow> nat" where
  "burst c = nat (max 1 (cfg_maxmsgnb c))"

lemma step_run_window:
  assumes "\<not> n_ignored x" "n_msgtime x \<noteq> 0" "0 < n_msgnb x" "nat (n_msgnb x) \<le> burst c" "sorted ts"
    and w: "\<forall>t \<in> set ts. n_msgtime x \<le> t \<and> t - n_msgtime x \<le> cfg_maxmsgtime c \<and> t - n_msgtime x \<le> cfg_ignoretime c"
  shows "fst (step_run c ts x) = map (\<lambda>i. burst c \<le> i + nat (n_msgnb x)) [0..<length ts]"
  using assms
proof (induction ts arbitrary: x)
  case (Cons t ts)
  have tx: "t - n_msgtime x \<le> cfg_maxmsgtime c" using Cons.prems(6) by simp
  show ?case
  proof (cases "cfg_maxmsgnb c \<le> n_msgnb x")
    case True
    let ?x = "nick_set_ignoretime t (nick_set_ignored True x)"
    have "flood_step c t x = (True, ?x)"
      using True Cons.prems(1-3) tx by (simp add: flood_step_def)
    moreover have "\<forall>u \<in> set ts. u - n_ignoretime ?x \<le> cfg_ignoretime c"
      using Cons.prems(5,6) by (force simp: nick_set_ignoretime_def)
    then have "step_run c ts ?x = (replicate (length ts) True, ?x)"
      by (intro step_run_ignored) (simp_all add: nick_set_ignoretime_def nick_set_ignored_def)
    moreover have "burst c \<le> i + nat (n_msgnb x)" for i
      using True Cons.prems(3) by (simp add: burst_def nat_le_iff)
    ultimately show ?thesis
      by (simp add: map_upt_Suc map_replicate_trivial del: upt_Suc)
  next
    case False
    let ?x = "nick_set_msgnb (n_msgnb x + 1) x"
    have "flood_step c t x = (False, ?x)"
      using False Cons.prems(1-3) tx by (simp add: flood_step_def)
    moreover have "fst (step_run c ts ?x) = map (\<lambda>i. burst c \<le> i + nat (n_msgnb ?x)) [0..<length ts]"
      using Cons.prems False by (intro Cons.IH) (auto simp: nick_set_msgnb_def burst_def)
    moreover have "\<not> burst c \<le> nat (n_msgnb x)" using False by (simp add: burst_def nat_le_iff)
    ultimately show ?thesis
      using Cons.prems(3) by (simp add: split_def map_upt_Suc nick_set_msgnb_def nat_add_distrib del: upt_Suc)
  qed
qed simp

lemma step_run_fresh:
  assumes "\<not> n_ignored x" "n_msgtime x = 0 \<or> n_msgnb x = 0" "sorted ts" "0 < hd ts"
    and w: "\<forall>t \<in> set ts. t - hd ts \<le> cfg_maxmsgtime c \<and> t - hd ts \<le> cfg_ignoretime c"
  shows "fst (step_run c ts x) = map (\<lambda>i. burst c \<le> i) [0..<length ts]"
proof (cases ts)
  case (Cons t us)
  let ?x = "nick_set_msgnb 1 (nick_set_msgtime t x)"
  have "flood_step c t x = (False, ?x)" using assms(1,2) by (simp add: flood_step_def)
  moreover have "fst (step_run c us ?x) = map (\<lambda>i. burst c \<le> i + nat (n_msgnb ?x)) [0..<length us]"
    using assms Cons by (intro step_run_window) (auto simp: nick_set_msgnb_def nick_set_msgtime_def burst_def)
  moreover have "\<not> burst c \<le> 0" by (simp add: burst_def)
  ultimately show ?thesis
    using Cons by (simp add: split_def map_upt_Suc nick_set_msgnb_def del: upt_Suc)
qed simp

lemma flood_step_heard:
  assumes "n_ignored x \<longrightarrow> cfg_ignoretime c < t - n_ignoretime x"
    "\<not> n_ignored x \<longrightarrow> cfg_maxmsgtime c < t - n_msgtime x"
  shows "\<not> fst (flood_step c t x) \<and> \<not> n_ignored (snd (flood_step c t x))"
  using assms by (auto simp: flood_step_def nick_set_ignoretime_def nick_set_ignored_def
      nick_set_msgnb_def nick_set_msgtime_def)

lemma flood_check_heard:
  assumes "nick_at s n = Some x"
    and "n_ignored x \<longrightarrow> cfg_ignoretime (cfg s) < clock s - n_ignoretime x"
    and "\<not> n_ignored x \<longrightarrow> cfg_maxmsgtime (cfg s) < clock s - n_msgtime x"
  shows "\<exists>t. flood_check n target s = Some (False, t)"
proof (cases "counts_as target x")
  case True
  with flood_check_step [OF assms(1) True] flood_step_heard [OF assms(2,3)] show ?thesis by simp
qed (use assms(1) in \<open>auto simp: flood_check_def counts_as_def\<close>)

lemma flood_check_frame:
  assumes "flood_check n target s = Some (d, t)"
  shows "find_account m t = find_account m s" "user_at t = user_at s" "chans t = chans s" "wchans t = wchans s"
    "cfg t = cfg s" "my_uid t = my_uid s" "may_run u l t = may_run u l s"
proof -
  have e: "n_name (snd (flood_step c k x)) = n_name x \<and> n_account (snd (flood_step c k x)) = n_account x" for c k x
    by (auto simp: flood_step_def nick_set_ignoretime_def nick_set_ignored_def nick_set_msgnb_def nick_set_msgtime_def)
  obtain x where x: "nick_at s n = Some x" using assms by (auto simp: flood_check_def split: option.splits)
  then have "t = s \<or> t = s\<lparr>nick_at := (nick_at s)(n \<mapsto> snd (flood_step (cfg s) (clock s) x))\<rparr>"
    using assms by (auto simp: flood_check_def upd_defs split_def Let_def split: if_splits)
  then show "find_account m t = find_account m s" "user_at t = user_at s" "chans t = chans s" "wchans t = wchans s"
    "cfg t = cfg s" "my_uid t = my_uid s" "may_run u l t = may_run u l s"
    using e x by (auto simp: find_account_def find_user_def may_run_def IsAuthed_def cong: if_cong option.case_cong)
qed

subsection \<open>Levels\<close>

text \<open>A message has the effect of the commands its sender may run, whatever the others would do.\<close>

lemma lookup_command_in: "lookup_command n ty cs = Some cmd \<Longrightarrow> cmd \<in> set cs"
  by (auto simp: lookup_command_def find_Some_iff in_set_conv_nth)

lemma channel_command_allowed:
  assumes "\<And>cmd. cmd \<in> set (commands w) \<Longrightarrow> may_run u (cmd_level cmd) (svc w) = Some True \<Longrightarrow>
    T (cmd_func cmd) = e_bot E (cmd_func cmd)"
  shows "channel_command (E\<lparr>e_base := B, e_bot := T\<rparr>) n u c wc a r w = channel_command E n u c wc a r w"
  unfolding channel_command_def
  by (auto intro!: Option.bind_cong simp: assms dest!: lookup_command_in split: option.splits)

lemma base_command_allowed:
  assumes "\<And>cmd. cmd \<in> set (commands w) \<Longrightarrow> may_run u (cmd_level cmd) (svc w) = Some True \<Longrightarrow>
    B (cmd_func cmd) = e_base E (cmd_func cmd)"
  shows "base_command (E\<lparr>e_base := B, e_bot := T\<rparr>) n u a m args w = base_command E n u a m args w"
  unfolding base_command_def
  by (auto intro!: Option.bind_cong simp: assms run_hooks_def dest!: lookup_command_in split: option.splits)

lemma deliver_allowed:
  assumes "hooks_for HOOK_PRE_PRIVMSG (modules w) = []"
    and a: "\<And>u cmd. find_account n (svc w) = Some u \<Longrightarrow> cmd \<in> set (commands w) \<Longrightarrow>
      may_run u (cmd_level cmd) (svc w) = Some True \<Longrightarrow>
      B (cmd_func cmd) = e_base E (cmd_func cmd) \<and> T (cmd_func cmd) = e_bot E (cmd_func cmd)"
  shows "deliver (E\<lparr>e_base := B, e_bot := T\<rparr>) n target raw msg arg1 w = deliver E n target raw msg arg1 w"
proof (cases "find_account n (svc w)")
  case (Some u)
  have "channel_command (E\<lparr>e_base := B, e_bot := T\<rparr>) n u c wc x r w = channel_command E n u c wc x r w"
    "base_command (E\<lparr>e_base := B, e_bot := T\<rparr>) n u x m args w = base_command E n u x m args w"
    for c wc x r m args
    using a [OF Some] by (intro channel_command_allowed base_command_allowed; simp)+
  then show ?thesis
    using run_hooks_none [OF assms(1)] Some
    by (simp add: deliver_def MOD_STOP_def MOD_CONTINUE_def Let_def)
qed (simp add: deliver_def)

lemma m_privmsg_allowed:
  assumes "hooks_for HOOK_PRE_PRIVMSG (modules w) = []"
    and a: "\<And>n u cmd. find_nick (Some (tl sender)) (svc w) = Some (Some n) \<Longrightarrow>
      find_account n (svc w) = Some u \<Longrightarrow> cmd \<in> set (commands w) \<Longrightarrow>
      may_run u (cmd_level cmd) (svc w) = Some True \<Longrightarrow>
      B (cmd_func cmd) = e_base E (cmd_func cmd) \<and> T (cmd_func cmd) = e_bot E (cmd_func cmd)"
  shows "m_privmsg (E\<lparr>e_base := B, e_bot := T\<rparr>) sender tail w = m_privmsg E sender tail w"
proof -
  have d: "deliver (E\<lparr>e_base := B, e_bot := T\<rparr>) n target raw msg arg1 (w\<lparr>svc := s\<rparr>) =
      deliver E n target raw msg arg1 (w\<lparr>svc := s\<rparr>)"
    if "find_nick (Some (tl sender)) (svc w) = Some (Some n)" "flood_check n target' (svc w) = Some (b, s)"
    for n target target' raw msg arg1 b s
    using a [OF that(1)] flood_check_frame [OF that(2)] assms(1)
    by (intro deliver_allowed) auto
  show ?thesis
    unfolding m_privmsg_def Let_def
    by (intro option.case_cong refl Option.bind_cong if_cong) (auto simp: d split: prod.splits intro!: Option.bind_cong)
qed

text \<open>The services with a second level: \<open>/msg C nick ...\<close>, \<open>/msg C host ...\<close>.\<close>

lemma do_service_allowed:
  assumes "\<And>cmd. cmd \<in> set cs \<Longrightarrow> may_run u (cmd_level cmd) s = Some True \<Longrightarrow>
    call' (cmd_func cmd) = call (cmd_func cmd)"
  shows "do_service name ty help call' cs n u all s = do_service name ty help call cs n u all s"
proof -
  have r: "run_command call' cmd n u rest s = run_command call cmd n u rest s"
    if "lookup_command a ty cs = Some cmd" for a cmd rest
    using assms [OF lookup_command_in [OF that]]
    by (cases "may_run u (cmd_level cmd) s") (auto simp: run_command_def)
  show ?thesis
    unfolding do_service_def
    by (intro Option.bind_cong refl) (auto simp: r Let_def split: option.splits)
qed

end
