(* ===== verification/NickServ.thy ===== *)
theory NickServ
  imports Services
begin

section \<open>The commands on nicks: src/src/modules/m\_nick.c\<close>

text \<open>
  One definition per command, on the core: the sender, the account found for it and the arguments.
  Commands are called through their names, by \<open>do_nick\<close> and \<open>nick_set\<close>. \<open>operlog\<close> is left out. An argument that fills the buffer it is
  copied to is \<open>None\<close>; the lines of the protocol are shorter.
\<close>

definition nick_commands :: "command list \<Rightarrow> command list" where
  "nick_commands cs =
     add_all CMD_NICK CMD_NICK_SET
       [(''timeout'', ''nick_set_timeout'', 1), (''protect'', ''nick_set_protect'', 1),
        (''private'', ''nick_set_private'', 1), (''password'', ''nick_set_password'', 1),
        (''noauto'', ''nick_set_noauto'', 1), (''master'', ''nick_set_master'', 1),
        (''hidemail'', ''nick_set_hidemail'', 1), (''email'', ''nick_set_email'', 1),
        (''cloak'', ''nick_set_cloak'', 1)]
       (add_all CMD_NICK 0
         [(''unlink'', ''nick_unlink'', 1), (''set'', ''nick_set'', 1),
          (''requestpassword'', ''nick_requestpassword'', 0), (''register'', ''nick_register'', 0),
          (''link'', ''nick_link'', 1), (''info'', ''nick_info'', 1), (''identify'', ''nick_identify'', 0),
          (''ghost'', ''nick_ghost'', 0), (''drop'', ''nick_drop'', 1)]
         (add_all CMD_BASE 0 [(''nick'', ''do_nick'', 0)] cs))"

definition nick_cleanup :: "command list \<Rightarrow> command list" where
  "nick_cleanup cs =
     del_all CMD_NICK CMD_NICK_SET
       [''password'', ''email'', ''private'', ''protect'', ''timeout'', ''master'', ''noauto'', ''hidemail'', ''cloak'']
       (del_all CMD_NICK 0
         [''link'', ''unlink'', ''ghost'', ''identify'', ''register'', ''drop'', ''info'', ''set'', ''requestpassword'']
         (del_all CMD_BASE 0 [''nick''] cs))"

subsection \<open>What the commands share\<close>

text \<open>
  The test of an address: a character before the first \<open>@\<close>, a dot behind it and two more characters.
  It looks at the byte before the argument, \<open>prev\<close>, when the \<open>@\<close> comes first, and past the end of the
  string when the dot comes last.
\<close>

definition valid_email :: "char option \<Rightarrow> string \<Rightarrow> bool option" where
  "valid_email prev a =
     (case split_at1 CHR 0x40 a of None \<Rightarrow> Some False
      | Some (name, rest) \<Rightarrow>
          (case split_at1 (CHR ''.'') rest of None \<Rightarrow> Some False
           | Some (_, t) \<Rightarrow>
               if t = [] then None else if length t = 1 then Some False
               else if name \<noteq> [] then Some True else map_option (\<lambda>c. c \<noteq> CHR 0x00) prev))"

subsection \<open>Links\<close>

definition link_to :: "lib \<Rightarrow> ptr \<Rightarrow> ptr \<Rightarrow> string \<Rightarrow> string \<Rightarrow> ptr \<Rightarrow> nick \<Rightarrow> core \<Rightarrow> core option" where
  "link_to L nptr uptr arg3 arg4 user n s =
     do { (r, s) \<leftarrow> check_user_password L (Some uptr) arg4 s;
          if r = -1 then NoticeToUser nptr ''Wrong password.'' s
          else do {
            let s = snd (AddLink arg3 (n_name n) s);
            u \<leftarrow> user_at s user;
            s \<leftarrow> upd_user uptr (\<lambda>x. x\<lparr>u_vhost := (if u_vhost u \<noteq> [] then strncpy (u_vhost u) HOSTLEN else u_vhost x),
                   u_options := u_options u, u_timeout := u_timeout u\<rparr>) s;
            NoticeToUser nptr (''Your nick is now linked with '' @ bold (u_nick u)) s } }"

definition nick_link :: "lib \<Rightarrow> nick_cmd" where
  "nick_link L nptr uptr all s =
     (let (arg3, arg4) = args2 all in
      do { a \<leftarrow> IsAuthed uptr s;
           n \<leftarrow> nick_at s nptr;
           if \<not> a then NoticeToUser nptr ''You are not identified'' s
           else if is_empty arg3 \<or> is_empty arg4
           then NoticeToUser nptr (syntax_msg (''NICK LINK '' @ ul ''username'' @ '' '' @ ul ''password'')) s
           else if streq arg3 (Some (n_name n)) then NoticeToUser nptr ''You cannot link with yourself...'' s
           else (case find_user arg3 s of
               None \<Rightarrow> NoticeToUser nptr ''This user is not registered'' s
             | Some user \<Rightarrow>
                 if find_link (Some (n_name n)) s \<noteq> None
                 then NoticeToUser nptr ''You are already linked with another nick.'' s
                 else do {
                   l \<leftarrow> find_link2 (Some (n_name n)) arg3 s;
                   if l \<noteq> None
                   then NoticeToUser nptr ''You are already linked to this nick. If you want to change the master, use the SET MASTER command.'' s
                   else do { p \<leftarrow> uptr; link_to L nptr p (the arg3) (the arg4) user n s } }) })"

definition nick_unlink :: "nick_cmd" where
  "nick_unlink nptr uptr all s =
     (let arg3 = arg1_of all in
      do { a \<leftarrow> IsAuthed uptr s;
           n \<leftarrow> nick_at s nptr;
           if \<not> a then NoticeToUser nptr ''You are not identified'' s
           else if is_empty arg3 then NoticeToUser nptr (syntax_msg (''NICK UNLINK '' @ ul ''username'')) s
           else if streq arg3 (Some (n_name n)) then NoticeToUser nptr ''You cannot be linked with yourself ...'' s
           else (case find_user arg3 s of
               None \<Rightarrow> NoticeToUser nptr ''This user is not registered'' s
             | Some user \<Rightarrow> do {
                 l1 \<leftarrow> find_link2 (Some (n_name n)) arg3 s;
                 l \<leftarrow> (case l1 of Some l \<Rightarrow> Some (Some l) | None \<Rightarrow> find_link2 arg3 (Some (n_name n)) s);
                 case l of None \<Rightarrow> NoticeToUser nptr ''You are not linked to this nick.'' s
                 | Some p \<Rightarrow> do {
                     lk \<leftarrow> link_at s p;
                     u \<leftarrow> user_at s user;
                     NoticeToUser nptr (''You are no longer linked to '' @ bold (u_nick u))
                       (DeleteLink (l_slave lk) s) } }) })"

definition swap_master :: "ptr \<Rightarrow> string \<Rightarrow> core \<Rightarrow> core option" where
  "swap_master l arg1 s =
     upd_link l (\<lambda>x. x\<lparr>l_slave := strncpy (l_master x) NICKLEN, l_master := strncpy arg1 NICKLEN\<rparr>) s"

definition nick_set_master :: "nick_cmd" where
  "nick_set_master nptr uptr all s =
     (let arg1 = arg1_of all in
      do { n \<leftarrow> nick_at s nptr;
           if streq (Some (n_name n)) arg1 then
             (case find_link (Some (n_name n)) s of
                None \<Rightarrow> NoticeToUser nptr ''You are already the master or you are not linked'' s
              | Some l \<Rightarrow> do { s \<leftarrow> swap_master l (the arg1) s;
                              NoticeToUser nptr (''The master has been set to '' @ the arg1) s })
           else do {
             r \<leftarrow> find_link2 (Some (n_name n)) arg1 s;
             case r of None \<Rightarrow> NoticeToUser nptr (''You are not linked to '' @ pr arg1) s
             | Some l \<Rightarrow> do { s \<leftarrow> swap_master l (the arg1) s;
                             NoticeToUser nptr (''The master has been set to '' @ the arg1) s } } })"

subsection \<open>Identification\<close>

definition nick_ghost :: "lib \<Rightarrow> nick_cmd" where
  "nick_ghost L nptr uptr all s =
     (let (arg3, arg4) = args2 all in
      do { n \<leftarrow> nick_at s nptr;
           if is_empty arg3 \<or> is_empty arg4
           then NoticeToUser nptr (syntax_msg (''NICK GHOST '' @ ul ''username'' @ '' '' @ ul ''password'')) s
           else if streq arg3 (Some (n_name n)) then NoticeToUser nptr ''You want to ghost yourself ? Uh ..'' s
           else if find_user arg3 s = None then NoticeToUser nptr ''This user is not registered'' s
           else do {
             r \<leftarrow> find_nick arg3 s;
             case r of None \<Rightarrow> NoticeToUser nptr ''This user is not online'' s
             | Some nptr2 \<Rightarrow> do {
                 (ok, s) \<leftarrow> check_user_password L uptr (the arg4) s;
                 if ok = -1 then NoticeToUser nptr ''Wrong password.'' s
                 else do {
                   m \<leftarrow> nick_at s nptr2;
                   s \<leftarrow> killuser (n_name m) (''GHOST command used by '' @ n_name n) (cfg_nick (cfg s)) s;
                   NoticeToUser nptr ''Done.'' s } } } })"

text \<open>A wrong password: after too many within a minute the nick is killed.\<close>

definition login_failed :: "ptr \<Rightarrow> core \<Rightarrow> core option" where
  "login_failed nptr s =
     do { s \<leftarrow> NoticeToUser nptr ''Wrong password.'' s;
          s \<leftarrow> upd_nick nptr (\<lambda>n. n\<lparr>n_loginattempts := n_loginattempts n + 1,
                 n_lasttry := (if n_lasttry n = 0 then clock s else n_lasttry n)\<rparr>) s;
          n \<leftarrow> nick_at s nptr;
          let late = (60 \<le> clock s - n_lasttry n);
          let many = (cfg_maxloginatt (cfg s) \<le> n_loginattempts n);
          if many \<and> \<not> late then killuser (n_name n) ''Max login attempts exceeded'' (cfg_nick (cfg s)) s
          else if \<not> many \<and> late
          then upd_nick nptr (nick_set_lasttry (clock s) \<circ> nick_set_loginattempts 1) s
          else Some s }"

definition login_ghost :: "ptr \<Rightarrow> user \<Rightarrow> core \<Rightarrow> core option" where
  "login_ghost nptr u s =
     (if u_authed u \<noteq> 1 then Some s
      else do {
        p \<leftarrow> u_authed_nick u;
        m \<leftarrow> nick_at s p;
        s \<leftarrow> NoticeToUser nptr (''Nick '' @ bold (n_name m) @ '' was already identified with this account, killing it.'') s;
        killuser (n_name m) ''Ghosted by new account identification'' (cfg_nick (cfg s)) s })"

definition login_ok :: "ptr \<Rightarrow> ptr \<Rightarrow> user \<Rightarrow> core \<Rightarrow> core option" where
  "login_ok nptr user u s =
     (if HasUOption u UOPT_SUSPENDED then NoticeToUser nptr ''Your account has been suspended.'' s
      else do {
        s \<leftarrow> login_ghost nptr u s;
        s \<leftarrow> user_login nptr user s;
        if HasUOption u UOPT_NOAUTO then Some s else sync_user user s })"

definition nick_identify :: "lib \<Rightarrow> nick_cmd" where
  "nick_identify L nptr uptr all s =
     (let arg3 = arg1_of all in
      do { n \<leftarrow> nick_at s nptr;
           if is_empty arg3 then NoticeToUser nptr (syntax_msg (''NICK IDENTIFY '' @ ul ''password'')) s
           else (case n_account n of
               Some a \<Rightarrow> do {
                 u \<leftarrow> user_at s a;
                 NoticeToUser nptr (''You are already identified to account '' @ bold (u_nick u) @
                   ''. Please reconnect if you wish to identify to another account.'') s }
             | None \<Rightarrow>
                 (case find_user (Some (n_name n)) s of
                   None \<Rightarrow> NoticeToUser nptr ''This nickname is not registered.'' s
                 | Some user \<Rightarrow> do {
                     (ok, s) \<leftarrow> check_user_password L (Some user) (the arg3) s;
                     if ok = -1 then login_failed nptr s
                     else do { u \<leftarrow> user_at s user; login_ok nptr user u s } })) })"

subsection \<open>Registration\<close>

text \<open>The byte before the second argument: a NUL, unless several blanks separate it from the first.\<close>

definition byte_before :: "cstring \<Rightarrow> cstring \<Rightarrow> cstring \<Rightarrow> char option" where
  "byte_before all a r =
     (case (all, a, r) of
        (Some t, Some w, Some v) \<Rightarrow>
          Some (if length t = length w + 1 + length v then CHR 0x00 else t ! (length t - length v - 1))
      | _ \<Rightarrow> None)"

text \<open>The two mails; the first is printed into 512 bytes, without a limit.\<close>

definition mail_to :: "config \<Rightarrow> user \<Rightarrow> string \<Rightarrow> string" where
  "mail_to k u subject =
     ''From: Child <'' @ cfg_sendfrom k @ ''>'' @ crlf @ ''To: '' @ u_nick u @ '' <'' @ u_email u @ ''>'' @ crlf @
     ''Subject: '' @ subject @ crlf @ crlf"

definition mail_info :: "config \<Rightarrow> user \<Rightarrow> string \<Rightarrow> string" where
  "mail_info k u newpass =
     ''Your user info:'' @ crlf @ [CHR 0x09] @ ''Login: '' @ u_nick u @ crlf @ [CHR 0x09] @ ''Password: '' @ newpass @ crlf @ crlf @
     ''You can auth with the following command: /msg '' @ cfg_nick k @ '' nick identify '' @ newpass @ crlf"

definition mail_registered :: "ptr \<Rightarrow> string \<Rightarrow> core \<Rightarrow> core option" where
  "mail_registered user newpass s =
     do { u \<leftarrow> user_at s user;
          m \<leftarrow> strbuf (mail_to (cfg s) u ''IRC account information'' @ mail_info (cfg s) u newpass) 512;
          Some (sendmail (u_email u) m s) }"

definition mail_requested :: "ptr \<Rightarrow> ptr \<Rightarrow> string \<Rightarrow> core \<Rightarrow> core option" where
  "mail_requested nptr user newpass s =
     do { u \<leftarrow> user_at s user;
          n \<leftarrow> nick_at s nptr;
          let m = mail_to (cfg s) u ''Request of password'' @ n_name n @ '' ('' @ n_ident n @ ''@'' @ n_host n @
            '') requested new password.'' @ crlf @ mail_info (cfg s) u newpass;
          Some (sendmail (u_email u) (take 1022 m) s) }"

definition register :: "lib \<Rightarrow> ptr \<Rightarrow> nick \<Rightarrow> string \<Rightarrow> string \<Rightarrow> core \<Rightarrow> core option" where
  "register L nptr n pass email s =
     do { let first = (users s = []);
          let s = snd (AddUser (n_name n) (if first then cfg_level_owner (cfg s) else 1) s);
          s \<leftarrow> (if first then NoticeToUser nptr
                 (''You have now the level '' @ bold (dec (cfg_level_owner (cfg s)))) s else Some s);
          case find_user (Some (n_name n)) s of None \<Rightarrow> Some s
          | Some user \<Rightarrow> do {
              let mail = (cfg_emailreg (cfg s) = 1);
              (newpass, s) \<leftarrow> (if mail then gen_rand_string ''A-Za-z0-9'' 12 s else Some (pass, s));
              (_, s) \<leftarrow> set_user_password L (Some user) newpass s;
              s \<leftarrow> upd_user user (\<lambda>u. u\<lparr>u_email := strncpy email EMAILLEN, u_regtime := clock s,
                     u_lastseen := clock s\<rparr>) s;
              s \<leftarrow> NoticeToUser nptr ''You are now registered.'' s;
              if mail then do {
                s \<leftarrow> mail_registered user newpass s;
                NoticeToUser nptr ''A password has been generated and sent to your specified e-mail address (this mean that the password you've specified doesn't work).'' s }
              else user_login nptr user s } }"

definition nick_register :: "lib \<Rightarrow> nick_cmd" where
  "nick_register L nptr uptr all s =
     (let (arg3, r) = SeperateWord all; (arg4, _) = SeperateWord r in
      if uptr \<noteq> None then NoticeToUser nptr ''This nick is already registered'' s
      else if is_empty arg3 \<or> is_empty arg4
      then NoticeToUser nptr (syntax_msg (''NICK REGISTER '' @ ul ''password'' @ '' '' @ ul ''email'')) s
      else do {
        v \<leftarrow> valid_email (byte_before all arg3 r) (the arg4);
        if \<not> v then NoticeToUser nptr ''Please set a valid email address'' s
        else do { n \<leftarrow> nick_at s nptr; register L nptr n (the arg3) (the arg4) s } })"

definition nick_drop :: "nick_cmd" where
  "nick_drop nptr uptr all s =
     (let arg3 = arg1_of all in
      do { a \<leftarrow> IsAuthed uptr s;
           if \<not> a then NoticeToUser nptr ''You are not identified'' s
           else do {
             p \<leftarrow> uptr;
             if is_empty arg3 then do { s \<leftarrow> userdrop p s; NoticeToUser nptr ''Your nick has been dropped.'' s }
             else do {
               u \<leftarrow> user_at s p;
               n \<leftarrow> nick_at s nptr;
               if \<not> staff n u s then NoticeToUser nptr ''Access denied'' s
               else (case find_user arg3 s of
                   None \<Rightarrow> NoticeToUser nptr ''This nick is not registered'' s
                 | Some uptr2 \<Rightarrow> do {
                     u2 \<leftarrow> user_at s uptr2;
                     if u_level u \<le> u_level u2 then NoticeToUser nptr ''Access denied'' s
                     else do {
                       s \<leftarrow> userdrop uptr2 s;
                       s \<leftarrow> NoticeToUser nptr (''The nick '' @ the arg3 @ '' has been dropped'') s;
                       Some (globops (n_name n @ '' used '' @ bold ''DROP'' @ '' on '' @ the arg3) s) } }) } } })"

definition nick_requestpassword :: "lib \<Rightarrow> nick_cmd" where
  "nick_requestpassword L nptr uptr all s =
     (let arg1 = arg1_of all in
      if is_empty arg1 then NoticeToUser nptr (syntax_msg (''NICK REQUESTPASSWORD '' @ ul ''username'')) s
      else (case find_user arg1 s of None \<Rightarrow> NoticeToUser nptr ''This user does not exist'' s
        | Some p \<Rightarrow> do {
            u \<leftarrow> user_at s p;
            if u_authed u = 1 then
              NoticeToUser nptr (''This user is authed. You can change your password by typing /msg C nick set password '' @ bold ''newpass'') s
            else if u_email u = [] then NoticeToUser nptr ''Email address is not set'' s
            else do {
              (newpass, s) \<leftarrow> gen_rand_string ''A-Za-z0-9'' 12 s;
              (_, s) \<leftarrow> set_user_password L (Some p) newpass s;
              s \<leftarrow> mail_requested nptr p newpass s;
              NoticeToUser nptr ''New password generated and sent to your email address'' s } }))"

subsection \<open>Information\<close>

definition info_options :: "user \<Rightarrow> core \<Rightarrow> string" where
  "info_options u s =
     (let o1 = (if HasUOption u UOPT_PROTECT then ''Protect '' else []) @
               (if HasUOption u UOPT_PRIVATE then ''Private '' else []) @
               (if HasUOption u UOPT_NOEXPIRE \<or> cfg_level_oper (cfg s) \<le> u_level u then ''Noexpire '' else []) @
               (if HasUOption u UOPT_NOAUTO then ''Noauto '' else []) @
               (if HasUOption u UOPT_HIDEMAIL then ''Hidemail '' else [])
      in if o1 = [] then ''None'' else o1)"

text \<open>The lines on an account; \<open>full\<close> when the sender may see everything.\<close>

definition info_lines :: "lib \<Rightarrow> user \<Rightarrow> bool \<Rightarrow> core \<Rightarrow> string list" where
  "info_lines L u full s =
     [''Informations for '' @ bold (u_nick u) @ '' :'',
      ''   Level :             '' @ dec (u_level u),
      ''   Online:             '' @ (if u_authed u = 1 then ''yes'' else ''no'')] @
     (if full \<or> \<not> HasUOption u UOPT_HIDEMAIL then [''   Email:              '' @ u_email u] else []) @
     [''   Options:            '' @ info_options u s] @
     (if HasUOption u UOPT_PROTECT then [''   Timeout:            '' @ dec (u_timeout u)] else []) @
     (if HasUOption u UOPT_SUSPENDED then [''   Account suspended''] else []) @
     [''   Last seen: '' @ ctime_of L (u_lastseen u),
      ''   Registration time: '' @ (if u_regtime u \<noteq> 0 then ctime_of L (u_regtime u) else ''Unknown'')]"

definition info_link :: "ptr \<Rightarrow> cstring \<Rightarrow> ptr \<Rightarrow> core \<Rightarrow> core option" where
  "info_link nptr arg3 p s =
     do { l \<leftarrow> link_at s p;
          s \<leftarrow> (if streq (Some (l_master l)) arg3
               then NoticeToUser nptr (''       '' @ l_slave l @ '' (Master: '' @ l_master l @ '')'') s else Some s);
          if streq (Some (l_slave l)) arg3
          then NoticeToUser nptr (''       '' @ l_master l @ '' (Master)'') s else Some s }"

definition info_access :: "ptr \<Rightarrow> ptr \<Rightarrow> core \<Rightarrow> core option" where
  "info_access nptr p s =
     do { cf \<leftarrow> cflag_at s p;
          c \<leftarrow> chan_at s (cf_chan cf);
          NoticeToUser nptr (''      '' @ c_name c @ '' ('' @
            (if HasCOption c COPT_AXXFLAGS then get_uflags_string (cf_uflags cf) else dec (cf_flags cf)) @ '')'') s }"

definition nick_info :: "lib \<Rightarrow> nick_cmd" where
  "nick_info L nptr uptr all s =
     (let arg3 = arg1_of all in
      do { a \<leftarrow> IsAuthed uptr s;
           if \<not> a then NoticeToUser nptr ''You are not identified'' s
           else if is_empty arg3 then NoticeToUser nptr (syntax_msg (''NICK INFO '' @ ul ''nick'')) s
           else (case find_user arg3 s of None \<Rightarrow> NoticeToUser nptr ''This user does not exist'' s
             | Some p \<Rightarrow> do {
                 me \<leftarrow> account uptr s;
                 n \<leftarrow> nick_at s nptr;
                 u \<leftarrow> user_at s p;
                 let full = (streq (Some (n_name n)) arg3 \<or> staff n me s);
                 if HasUOption u UOPT_PRIVATE \<and> \<not> streq (Some (u_nick u)) (Some (u_nick me)) \<and> \<not> staff n me s
                 then NoticeToUser nptr (''The nick '' @ u_nick u @ '' is private.'') s
                 else do {
                   s \<leftarrow> foldM (NoticeToUser nptr) (info_lines L u full s) s;
                   if \<not> full then Some s
                   else do {
                     s \<leftarrow> NoticeToUser nptr ''   Linked nicks:'' s;
                     s \<leftarrow> foldM (info_link nptr arg3) (map snd (links s)) s;
                     s \<leftarrow> NoticeToUser nptr ''   Has access on :'' s;
                     foldM (info_access nptr) (u_cflags u) s } } }) })"

subsection \<open>Options\<close>

text \<open>The options that are only on or off: the bit, and the three answers.\<close>

definition switch_option :: "flags \<Rightarrow> string \<Rightarrow> string \<Rightarrow> string \<Rightarrow> nick_cmd" where
  "switch_option bit1 setmsg unsetmsg name nptr uptr all s =
     (let arg1 = arg1_of all in
      if streq arg1 (Some ''on'') then
        do { p \<leftarrow> uptr; s \<leftarrow> upd_user p (SetUOption bit1) s; NoticeToUser nptr setmsg s }
      else if streq arg1 (Some ''off'') then
        do { p \<leftarrow> uptr; s \<leftarrow> upd_user p (ClearUOption bit1) s; NoticeToUser nptr unsetmsg s }
      else NoticeToUser nptr
        (syntax_msg (''NICK SET '' @ ul name @ '' ['' @ ul ''on'' @ ''|'' @ ul ''off'' @ '']'')) s)"

definition opt_msg :: "string \<Rightarrow> string \<Rightarrow> string" where
  "opt_msg name what = ''The option '' @ bold name @ '' has been '' @ what"

definition nick_set_protect :: "nick_cmd" where
  "nick_set_protect = switch_option UOPT_PROTECT (opt_msg ''PROTECT'' ''set.'') (opt_msg ''PROTECT'' ''unset.'') ''protect''"
definition nick_set_private :: "nick_cmd" where
  "nick_set_private = switch_option UOPT_PRIVATE (opt_msg ''PRIVATE'' ''set'') (opt_msg ''PRIVATE'' ''unset'') ''private''"
definition nick_set_noauto :: "nick_cmd" where
  "nick_set_noauto = switch_option UOPT_NOAUTO (opt_msg ''NOAUTO'' ''set'') (opt_msg ''NOAUTO'' ''unset'') ''noauto''"
definition nick_set_hidemail :: "nick_cmd" where
  "nick_set_hidemail = switch_option UOPT_HIDEMAIL (opt_msg ''HIDEMAIL'' ''set'') (opt_msg ''HIDEMAIL'' ''unset'') ''hidemail''"

definition nick_set_timeout :: "nick_cmd" where
  "nick_set_timeout nptr uptr all s =
     do { a \<leftarrow> arg1_of all;
          p \<leftarrow> uptr;
          let t = to_int (strtol a);
          if t = 0 then
            do { s \<leftarrow> upd_user p (\<lambda>u. u\<lparr>u_timeout := TIMEOUT_DFLT\<rparr>) s;
                 NoticeToUser nptr (''The timeout has been set to the default value ('' @ dec TIMEOUT_DFLT @ '' seconds)'') s }
          else do { s \<leftarrow> upd_user p (\<lambda>u. u\<lparr>u_timeout := t\<rparr>) s;
                    NoticeToUser nptr (''The timeout has been set to '' @ dec t @ '' seconds'') s } }"

definition nick_set_cloak :: "nick_cmd" where
  "nick_set_cloak nptr uptr all s =
     (let arg1 = arg1_of all in
      if streq arg1 (Some ''on'') then
        do { p \<leftarrow> uptr;
             s \<leftarrow> upd_user p (SetUOption UOPT_CLOAKED) s;
             u \<leftarrow> user_at s p;
             let host = u_nick u @ cfg_usercloak (cfg s);
             s \<leftarrow> upd_nick nptr (nick_set_hiddenhost (take (HOSTLEN + NICKLEN) host))
               (send_raw (''CHGHOST '' @ u_nick u @ '' '' @ host) s);
             NoticeToUser nptr ''Your host is now cloaked'' s }
      else if streq arg1 (Some ''off'') then
        do { p \<leftarrow> uptr;
             s \<leftarrow> upd_user p (ClearUOption UOPT_CLOAKED) s;
             NoticeToUser nptr ''Cloak removed, but you still need to /umode -x to completely remove it (you can then do /umode +x to set the normal cloak)'' s }
      else NoticeToUser nptr
        (syntax_msg (''NICK SET '' @ ul ''cloak'' @ '' ['' @ ul ''on'' @ ''|'' @ ul ''off'' @ '']'')) s)"

definition nick_set_email :: "nick_cmd" where
  "nick_set_email nptr uptr all s =
     do { a \<leftarrow> arg1_of all;
          v \<leftarrow> valid_email None a;
          if \<not> v then NoticeToUser nptr ''Please set a valid email address'' s
          else do { p \<leftarrow> uptr;
                    s \<leftarrow> upd_user p (\<lambda>u. u\<lparr>u_email := strncpy a EMAILLEN\<rparr>) s;
                    NoticeToUser nptr (''Email address set to '' @ a) s } }"

definition nick_set_password :: "lib \<Rightarrow> nick_cmd" where
  "nick_set_password L nptr uptr all s =
     (let (arg1, arg2) = args2 all in
      if is_empty arg2 then
        do { a \<leftarrow> arg1;
             (_, s) \<leftarrow> set_user_password L uptr a s;
             NoticeToUser nptr ''Your password has been changed'' s }
      else do {
        u \<leftarrow> account uptr s;
        n \<leftarrow> nick_at s nptr;
        if \<not> staff n u s then NoticeToUser nptr ''Access denied'' s
        else (case find_user arg1 s of
            None \<Rightarrow> NoticeToUser nptr (''The nick '' @ bold (pr arg1) @ '' is not registered'') s
          | Some p2 \<Rightarrow> do {
              u2 \<leftarrow> user_at s p2;
              if u_level u \<le> u_level u2
              then NoticeToUser nptr ''You cannot change password of a user outranking you'' s
              else do {
                (_, s) \<leftarrow> set_user_password L uptr (the arg2) s;
                s \<leftarrow> NoticeToUser nptr ''Password changed.'' s;
                Some (globops (n_name n @ '' used '' @ bold ''PASSWORD'' @ '' on nick '' @ u_nick u2) s) } }) })"

subsection \<open>The dispatch of commands and of options\<close>

text \<open>
  Without arguments the buffer of \<open>nick_set\<close> is read uninitialised.
\<close>

definition nick_set :: "(string \<Rightarrow> nick_cmd) \<Rightarrow> command list \<Rightarrow> nick_cmd" where
  "nick_set call cs nptr uptr all s =
     do { a \<leftarrow> all;
          buf \<leftarrow> strbuf a 512;
          let (arg3, arg4) = args2 (Some buf);
          if is_empty arg3 \<or> is_empty arg4
          then NoticeToUser nptr (syntax_msg (''NICK SET '' @ ul ''option'' @ '' '' @ ul ''value'')) s
          else (case find (\<lambda>c. is_command arg3 CMD_NICK CMD_NICK_SET c) cs of
              None \<Rightarrow> NoticeToUser nptr ''Unknown option'' s
            | Some cmd \<Rightarrow> run_command call cmd nptr uptr (snd (SeperateWord all)) s) }"

definition do_nick :: "nick_cmd \<Rightarrow> (string \<Rightarrow> nick_cmd) \<Rightarrow> command list \<Rightarrow> nick_cmd" where
  "do_nick = do_service ''nick'' CMD_NICK"

text \<open>What the names of the registered functions mean; any other name is a pointer into nothing.\<close>

definition nick_set_functions :: "lib \<Rightarrow> (string \<times> nick_cmd) list" where
  "nick_set_functions L =
     [(''nick_set_timeout'', nick_set_timeout), (''nick_set_protect'', nick_set_protect),
      (''nick_set_private'', nick_set_private), (''nick_set_password'', nick_set_password L),
      (''nick_set_noauto'', nick_set_noauto), (''nick_set_master'', nick_set_master),
      (''nick_set_hidemail'', nick_set_hidemail), (''nick_set_email'', nick_set_email),
      (''nick_set_cloak'', nick_set_cloak)]"

definition nick_functions :: "lib \<Rightarrow> command list \<Rightarrow> (string \<times> nick_cmd) list" where
  "nick_functions L cs =
     [(''nick_unlink'', nick_unlink), (''nick_set'', nick_set (call_in (nick_set_functions L)) cs),
      (''nick_requestpassword'', nick_requestpassword L), (''nick_register'', nick_register L),
      (''nick_link'', nick_link L), (''nick_info'', nick_info L), (''nick_identify'', nick_identify L),
      (''nick_ghost'', nick_ghost L), (''nick_drop'', nick_drop)] @ nick_set_functions L"

end
