(* ===== verification/Sasl.thy ===== *)
theory Sasl
  imports Services Base64
begin

section \<open>SASL authentication: src/src/modules/sasl.c\<close>

text \<open>
  Both hooks of the module. The first checks the credentials a client sends while it connects, the
  second logs the nick in once the UID with its account name has come. The only mechanism is PLAIN:
  base 64 of the identity, a NUL, the account, a NUL and the password.
\<close>

definition sasl_fail :: "string \<Rightarrow> string \<Rightarrow> string \<Rightarrow> core \<Rightarrow> core" where
  "sasl_fail target sender uid =
     send_raw ('':'' @ target @ '' SASL '' @ sender @ '' '' @ uid @ '' D F'')"

definition bytes_str :: "byte list \<Rightarrow> string" where
  "bytes_str bs = map (\<lambda>b. char_of (unat b)) (takeWhile (\<lambda>b. b \<noteq> 0) bs)"

text \<open>
  The two calls of \<open>memchr\<close> on the \<open>ret\<close> bytes decoded: account and password, each up to its NUL.
  The buffer of 401 bytes was cleared, so that the password ends at the latest behind them.
\<close>

definition plain_split :: "byte list \<Rightarrow> nat \<Rightarrow> (string \<times> string) option" where
  "plain_split d ret =
     (case position (\<lambda>b. b = 0) (take ret d) of None \<Rightarrow> None
      | Some i \<Rightarrow>
          (let authcid = drop (Suc i) d; ret = ret - Suc i in
           case position (\<lambda>b. b = 0) (take ret authcid) of None \<Rightarrow> None
           | Some j \<Rightarrow> Some (bytes_str authcid, bytes_str (drop (Suc j) authcid))))"

definition sasl_plain :: "lib \<Rightarrow> string \<Rightarrow> string \<Rightarrow> string \<Rightarrow> string \<Rightarrow> core \<Rightarrow> core option" where
  "sasl_plain L target sender uid msg s =
     do { r \<leftarrow> b64_decode msg (replicate 400 0);
          case Option.bind r (\<lambda>(ret, d). plain_split d ret) of
            None \<Rightarrow> Some (sasl_fail target sender uid s)
          | Some (authcid, password) \<Rightarrow>
              (case find_user (Some authcid) s of None \<Rightarrow> Some (sasl_fail target sender uid s)
               | Some u \<Rightarrow> do {
                   (ok, s) \<leftarrow> check_user_password L (Some u) password s;
                   if ok = -1 then Some (sasl_fail target sender uid s)
                   else Some (send_raw ('':'' @ target @ '' SASL '' @ sender @ '' '' @ uid @ '' D S'')
                     (send_raw ('':'' @ target @ '' SVSLOGIN * '' @ uid @ '' '' @ authcid) s)) }) }"

definition sasl_start_session :: "lib \<Rightarrow> cstring list \<Rightarrow> core \<Rightarrow> (int \<times> core) option" where
  "sasl_start_session L parv s =
     (case parv of
        [Some sender0, Some tail] \<Rightarrow>
          (let sender = tl sender0 in
           case take 10 (strtok CHR '' '' tail) of
             target # uid # command # msg # _ \<Rightarrow>
               map_option (Pair MOD_CONTINUE)
                 (if command = ''S'' then
                    (if msg \<noteq> ''PLAIN'' then
                       Some (sasl_fail target sender uid
                         (send_raw ('':'' @ target @ '' SASL '' @ sender @ '' '' @ uid @ '' M PLAIN'') s))
                     else Some (send_raw ('':'' @ target @ '' SASL '' @ sender @ '' '' @ uid @ '' C +'') s))
                  else if command = ''C'' then sasl_plain L target sender uid msg s
                  else Some s)
           | _ \<Rightarrow> Some (MOD_CONTINUE, s))
      | [Some _, None] \<Rightarrow> Some (MOD_CONTINUE, s)
      | _ \<Rightarrow> None)"

text \<open>\<open>uptr\<close> is the account the caller found for the nick, by its name when it has no account.\<close>

definition sasl_finish_session :: "ptr \<Rightarrow> ptr option \<Rightarrow> core \<Rightarrow> (int \<times> core) option" where
  "sasl_finish_session nptr uptr s =
     do { n \<leftarrow> nick_at s nptr;
          if streq (Some (n_svid n)) (Some ''0'') then Some (MOD_CONTINUE, s)
          else (case (case uptr of Some u \<Rightarrow> Some u | None \<Rightarrow> find_user (Some (n_svid n)) s) of
            None \<Rightarrow> map_option (Pair MOD_CONTINUE) (user_logout nptr None s)
          | Some u \<Rightarrow> do {
              a \<leftarrow> IsAuthed (Some u) s;
              s \<leftarrow> (if a then do {
                      x \<leftarrow> user_at s u;
                      p \<leftarrow> u_authed_nick x;
                      m \<leftarrow> nick_at s p;
                      killuser (n_name m) ''Ghosted by new account identification'' (cfg_nick (cfg s)) s }
                    else Some s);
              map_option (Pair MOD_CONTINUE) (user_login nptr u s) }) }"

definition sasl_hooks :: "modules \<Rightarrow> modules" where
  "sasl_hooks ms =
     snd (AddHook HOOK_NICKCREATE ''sasl_finish_session'' ''sasl_finish_session'' ''sasl''
       (snd (AddHook HOOK_SASL ''sasl_start_session'' ''sasl_start_session'' ''sasl'' ms)))"

end
