(* ===== verification/Identify.thy ===== *)
theory Identify
  imports NickServ Sasl Quit
begin

section \<open>Who gets logged in\<close>

subsection \<open>Passwords\<close>

text \<open>A check of a password changes at most the hashes of the account.\<close>

definition rehashed :: "ptr \<Rightarrow> core \<Rightarrow> core \<Rightarrow> bool" where
  "rehashed u s t \<longleftrightarrow> (\<exists>m h k. t = s\<lparr>salts := k, user_at := (user_at s)(u := map_option
     (\<lambda>y. y\<lparr>u_md5_pass := m y, u_pwhash := h y\<rparr>) (user_at s u))\<rparr>)"

lemma rehashed_refl [simp]: "rehashed u s s"
  unfolding rehashed_def
  by (intro exI [of _ u_md5_pass] exI [of _ u_pwhash] exI [of _ "salts s"])
    (simp add: fun_upd_idem_iff option.map_ident)

lemma check_password:
  assumes "user_at s u \<noteq> None"
  shows "\<exists>ok t. check_user_password L (Some u) pw s = Some (ok, t) \<and> rehashed u s t"
proof -
  obtain y where y: "user_at s u = Some y" using assms by auto
  obtain st h where p: "pwhash_str L (salts s) pw = (st, h)" by (cases "pwhash_str L (salts s) pw")
  let ?t = "s\<lparr>salts := Suc (salts s), user_at := (user_at s)(u \<mapsto> y\<lparr>u_md5_pass := [], u_pwhash := h\<rparr>)\<rparr>"
  have "rehashed u s ?t"
    unfolding rehashed_def using y
    by (intro exI [of _ "\<lambda>_. []"] exI [of _ "\<lambda>_. h"] exI [of _ "Suc (salts s)"]) simp
  then show ?thesis
    using y p by (auto simp: check_user_password_def set_user_password_def upd_defs)
qed

lemma rehashed_sel:
  assumes "rehashed u s t"
  shows "nicks t = nicks s" "users t = users s" "nick_at t = nick_at s" "clones t = clones s" "clone_at t = clone_at s"
    "chans t = chans s" "wchans t = wchans s" "chan_at t = chan_at s" "wchan_at t = wchan_at s"
    "member_at t = member_at s" "limit_at t = limit_at s" "next_ptr t = next_ptr s" "cfg t = cfg s" "clock t = clock s"
    "find_nick k t = find_nick k s"
    "user_at s v = Some y \<Longrightarrow> \<exists>z. user_at t v = Some z \<and> u_authed z = u_authed y \<and> u_authed_nick z = u_authed_nick y \<and>
      u_options z = u_options y \<and> u_nick z = u_nick y \<and> u_cflags z = u_cflags y"
    "map_option u_authed (user_at t v) = map_option u_authed (user_at s v)"
    "map_option u_authed_nick (user_at t v) = map_option u_authed_nick (user_at s v)"
  using assms by (auto simp: rehashed_def find_nick_def option.map_comp o_def cong: map_option_cong)

text \<open>The invariant reads of an account only whether and by whom it is used.\<close>

lemma auth_ok_users:
  assumes a: "auth_ok s" and n: "nick_at t = nick_at s"
    and u: "\<And>v. map_option u_authed (user_at t v) = map_option u_authed (user_at s v)"
      "\<And>v. map_option u_authed_nick (user_at t v) = map_option u_authed_nick (user_at s v)"
  shows "auth_ok t"
proof -
  have e: "\<exists>y'. user_at s v = Some y' \<and> u_authed y' = u_authed y \<and> u_authed_nick y' = u_authed_nick y"
    if "user_at t v = Some y" for v y
    using u [of v] that by (cases "user_at s v") auto
  have e': "\<exists>y'. user_at t v = Some y' \<and> u_authed y' = u_authed y \<and> u_authed_nick y' = u_authed_nick y"
    if "user_at s v = Some y" for v y
    using u [of v] that by (cases "user_at t v") auto
  show ?thesis
    unfolding auth_ok_def n
  proof (intro conjI allI impI)
    show "\<exists>y. user_at t v = Some y \<and> u_authed y = 1 \<and> u_authed_nick y = Some m"
      if "nick_at s m = Some x" "n_account x = Some v" for m x v
      using auth_okD(1) [OF a that] e' by force
    show "(u_authed y = 1) = (u_authed_nick y \<noteq> None)" if "user_at t v = Some y" for v y
      using e [OF that] auth_okD(2) [OF a] by force
    show "\<exists>x. nick_at s m = Some x \<and> n_account x = Some v"
      if "user_at t v = Some y" "u_authed_nick y = Some m" for v y m
      using e [OF that(1)] that(2) auth_okD(3) [OF a] by force
  qed
qed

lemma rehashed_net_ok: "rehashed u s t \<Longrightarrow> net_ok s \<Longrightarrow> net_ok t"
proof -
  assume r: "rehashed u s t" and ok: "net_ok s"
  note sel = rehashed_sel [OF r]
  have "auth_ok t" using auth_ok_users [of s t] sel(3,17,18) ok by (simp add: net_ok_def)
  moreover have "nicks_ok t = nicks_ok s" "clones_ok t = clones_ok s" "member_lists_ok t = member_lists_ok s"
    "wchans_ok t = wchans_ok s" "limits_ok t = limits_ok s"
    using nicks_ok_cong [of t s] clones_ok_cong [of t s] member_lists_ok_cong [of t s] wchans_ok_cong [of t s]
      limits_ok_cong [of t s] sel by simp_all
  ultimately show ?thesis using ok by (simp add: net_ok_def members_ok_def)
qed

subsection \<open>A login keeps the network\<close>

lemma user_login_net:
  assumes ok: "net_ok s" and x: "nick_at s n = Some x" and y: "user_at s u = Some y"
    and free: "n_account x = None" "u_authed y \<noteq> 1"
  shows "\<exists>t. user_login n u s = Some t \<and> net_ok t \<and> find_account n t = Some (Some u) \<and>
    IsAuthed (Some u) t = Some True \<and> (\<forall>m. m \<noteq> n \<longrightarrow> nick_at t m = nick_at s m)"
proof -
  obtain t z where t: "user_login n u s = Some t" "same_nick x z"
    "nick_step (s\<lparr>user_at := (user_at s)(u \<mapsto> logged_in (clock s) n y)\<rparr>) n z t"
    using user_login_shape [OF x y] by blast
  have "nicks_ok t" "clones_ok t" "members_ok t"
    using nick_step_invs [OF t(3) _ t(2)] ok x by (simp_all add: user_update_invs net_ok_def)
  moreover have "nick_at t = (nick_at s)(n \<mapsto> z)" using nick_step_sel(2) [OF t(3)] by simp
  ultimately show ?thesis
    using user_login_auth [OF _ x y free] ok t(1) by (auto simp: net_ok_def)
qed

lemma notice_out: "nick_at s n \<noteq> None \<Longrightarrow> \<exists>b. NoticeToUser n m s = Some (s\<lparr>outbuf := b\<rparr>)"
proof -
  assume "nick_at s n \<noteq> None"
  then obtain k where "NoticeToUser n m s = Some (send_raw k s)" by (auto simp: NoticeToUser_eq)
  moreover obtain b where "send_raw k s = s\<lparr>outbuf := b\<rparr>" using send_raw_outbuf by blast
  ultimately have "NoticeToUser n m s = Some (s\<lparr>outbuf := b\<rparr>)" by simp
  then show ?thesis by blast
qed

lemma out_find_nick [simp]: "find_nick k (s\<lparr>outbuf := b\<rparr>) = find_nick k s"
  by (simp add: find_nick_def)

lemma forget_wchans_account: "forget_wchans x = forget_wchans y \<Longrightarrow> n_account x = n_account y"
  by (drule arg_cong [where f = n_account]) (simp add: forget_wchans_def)

text \<open>Writing to a nick without touching what identifies it.\<close>

lemma net_nick_write:
  assumes ok: "net_ok s" and x: "nick_at s n = Some x" "same_nick x z" "n_account z = n_account x"
  shows "net_ok (s\<lparr>nick_at := (nick_at s)(n \<mapsto> z)\<rparr>)"
proof -
  let ?t = "s\<lparr>nick_at := (nick_at s)(n \<mapsto> z)\<rparr>"
  have "nick_step s n z ?t" by (simp add: nick_step_def)
  from nick_step_invs [OF this x(1,2)] have "nicks_ok ?t" "clones_ok ?t" "members_ok ?t"
    using ok by (simp_all add: net_ok_def)
  moreover have "auth_ok ?t" using auth_ok_cong [of ?t s] x ok by (simp add: net_ok_def)
  ultimately show ?thesis by (simp add: net_ok_def)
qed

lemma scan_same:
  assumes "\<And>p. map_option P (h p) = map_option P (g p)"
  shows "scan h P ps = scan g P ps"
proof (induction ps)
  case (Cons p ps)
  then show ?case using assms [of p] by (cases "h p"; cases "g p") auto
qed simp

lemma find_nick_write:
  assumes "nick_at s n = Some x" "same_nick x z"
  shows "find_nick k (s\<lparr>outbuf := b, nick_at := (nick_at s)(n \<mapsto> z)\<rparr>) = find_nick k s"
  unfolding find_nick_def
  using assms by (auto intro!: scan_same simp: same_nick_def)

lemma net_ok_outbuf [simp]: "net_ok (s\<lparr>outbuf := b\<rparr>) = net_ok s"
  by (simp add: net_ok_def outbuf_invs)

text \<open>A nick that is already in the account is killed first.\<close>

lemma login_ghost_ok:
  assumes ok: "net_ok s" and x: "nick_at s n = Some x" "n_account x = None"
    and y: "user_at s u = Some y"
    and addr: "\<And>p z. u_authed_nick y = Some p \<Longrightarrow> nick_at s p = Some z \<Longrightarrow>
      find_nick (Some (n_name z)) s = Some (Some p)"
  shows "\<exists>t y' x'. login_ghost n y s = Some t \<and> net_ok t \<and> nick_at t n = Some x' \<and> n_account x' = None \<and>
    user_at t u = Some y' \<and> u_authed y' \<noteq> 1 \<and> (\<forall>p. u_authed_nick y = Some p \<longrightarrow> p \<noteq> n \<and> nick_at t p = None)"
proof -
  have a: "auth_ok s" using ok by (simp add: net_ok_def)
  show ?thesis
  proof (cases "u_authed y = 1")
    case False
    then show ?thesis using ok x y auth_okD(2) [OF a y] by (simp add: login_ghost_def)
  next
    case True
    then obtain p where p: "u_authed_nick y = Some p" using auth_okD(2) [OF a y] by auto
    then obtain z where z: "nick_at s p = Some z" "n_account z = Some u" using auth_okD(3) [OF a y] by blast
    then have np: "p \<noteq> n" using x by auto
    obtain b where b: "NoticeToUser n (''Nick '' @ bold (n_name z) @
        '' was already identified with this account, killing it.'') s = Some (s\<lparr>outbuf := b\<rparr>)"
      using notice_out [of s n] x by blast
    let ?s = "s\<lparr>outbuf := b\<rparr>"
    have f: "find_nick (Some (n_name z)) ?s = Some (Some p)" using addr [OF p z(1)] by simp
    obtain m where m: "m = ''Ghosted by new account identification''" by blast
    obtain t where t: "killuser (n_name z) m (cfg_nick (cfg s)) ?s = Some t" "net_ok t" "quit_frame p ?s t"
      using killuser_frame [OF _ f] ok by (auto simp: net_ok_def outbuf_invs)
    have "login_ghost n y s = Some t"
      using True p z(1) b t(1) by (simp add: login_ghost_def m)
    moreover have "map_option forget_wchans (nick_at t n) = Some (forget_wchans x)"
      using t(3) np x(1) by (auto simp: quit_frame_def)
    then obtain x' where "nick_at t n = Some x'" "forget_wchans x' = forget_wchans x" by blast
    moreover have "n_account x' = None"
      using forget_wchans_account [OF \<open>forget_wchans x' = forget_wchans x\<close>] x(2) by simp
    moreover have "user_at t u = Some (logged_out (clock s) y)" "nick_at t p = None"
      using t(3) y z by (simp_all add: quit_frame_def logged_off_def)
    ultimately show ?thesis using t(2) np p by (simp add: logged_out_def)
  qed
qed

definition synced :: "ptr \<Rightarrow> user \<Rightarrow> core \<Rightarrow> core option" where
  "synced u y t = (if HasUOption y UOPT_NOAUTO then Some t else sync_user u t)"

lemma identify_right:
  assumes ok: "net_ok s" and x: "nick_at s n = Some x" "n_account x = None"
    and u: "find_user (Some (n_name x)) s = Some u" and y: "user_at s u = Some y"
    and pw: "fst (SeperateWord all) = Some pw" "pw \<noteq> []"
    and chk: "check_user_password L (Some u) pw s = Some (r, s1)" "r \<noteq> -1"
    and susp: "\<not> HasUOption y UOPT_SUSPENDED"
    and addr: "\<And>p z. u_authed_nick y = Some p \<Longrightarrow> nick_at s p = Some z \<Longrightarrow>
      find_nick (Some (n_name z)) s = Some (Some p)"
  shows "\<exists>t. nick_identify L n uptr all s = synced u y t \<and> net_ok t \<and> find_account n t = Some (Some u) \<and>
    IsAuthed (Some u) t = Some True \<and> (\<forall>p. u_authed_nick y = Some p \<longrightarrow> nick_at t p = None)"
proof -
  have r: "rehashed u s s1" using check_password [of s u L pw] y chk(1) by auto
  note sel = rehashed_sel [OF r]
  obtain y1 where y1: "user_at s1 u = Some y1" "u_authed y1 = u_authed y" "u_authed_nick y1 = u_authed_nick y"
    "u_options y1 = u_options y" using sel(16) [OF y] by blast
  have ok1: "net_ok s1" using rehashed_net_ok [OF r ok] .
  have x1: "nick_at s1 n = Some x" using x(1) sel(3) by simp
  obtain t y2 x2 where t: "login_ghost n y1 s1 = Some t" "net_ok t" "nick_at t n = Some x2" "n_account x2 = None"
    "user_at t u = Some y2" "u_authed y2 \<noteq> 1" "\<forall>p. u_authed_nick y1 = Some p \<longrightarrow> p \<noteq> n \<and> nick_at t p = None"
    using login_ghost_ok [OF ok1 x1 x(2) y1(1)] addr sel(3,15) y1(3) by metis
  obtain t' where t': "user_login n u t = Some t'" "net_ok t'" "find_account n t' = Some (Some u)"
    "IsAuthed (Some u) t' = Some True" "\<forall>m. m \<noteq> n \<longrightarrow> nick_at t' m = nick_at t m"
    using user_login_net [OF t(2,3,5,4,6)] by blast
  have "HasUOption y1 o' = HasUOption y o'" for o' using y1(4) by (simp add: HasUOption_def)
  then have "login_ok n u y1 s1 = synced u y t'"
    using susp t(1) t'(1) by (simp add: login_ok_def synced_def)
  then have "nick_identify L n uptr all s = synced u y t'"
    using x u pw chk y1(1) by (simp add: nick_identify_def arg1_of_def is_empty_def Let_def)
  then show ?thesis using t' t(7) y1(3) by (intro exI [of _ t']) auto
qed

text \<open>A wrong password.\<close>

lemma login_failed_ok:
  assumes ok: "net_ok s" and x: "nick_at s n = Some x" "n_account x = None"
    and addr: "find_nick (Some (n_name x)) s = Some (Some n)"
  shows "\<exists>t. login_failed n s = Some t \<and> net_ok t \<and> user_at t = user_at s \<and>
    (nick_at t n = None \<or> (\<exists>z. nick_at t n = Some z \<and> n_account z = None)) \<and>
    (cfg_maxloginatt (cfg s) \<le> n_loginattempts x + 1 \<and>
     clock s - (if n_lasttry x = 0 then clock s else n_lasttry x) < 60 \<longrightarrow> nick_at t n = None)"
proof -
  define z where "z = x\<lparr>n_loginattempts := n_loginattempts x + 1,
    n_lasttry := (if n_lasttry x = 0 then clock s else n_lasttry x)\<rparr>"
  define late where "late = (60 \<le> clock s - n_lasttry z)"
  define many where "many = (cfg_maxloginatt (cfg s) \<le> n_loginattempts z)"
  obtain w where w: "w = ''Wrong password.''" by blast
  obtain m where m: "m = ''Max login attempts exceeded''" by blast
  obtain b where b: "NoticeToUser n w s = Some (s\<lparr>outbuf := b\<rparr>)"
    using notice_out [of s n] x by blast
  let ?s = "s\<lparr>outbuf := b, nick_at := (nick_at s)(n \<mapsto> z)\<rparr>"
  have same: "same_nick x z" "n_account z = None" "n_name z = n_name x" using x by (simp_all add: z_def same_nick_def)
  have ok': "net_ok ?s" using net_nick_write [of "s\<lparr>outbuf := b\<rparr>" n x z] ok x same by simp
  have step: "login_failed n s =
      (if many \<and> \<not> late then killuser (n_name x) m (cfg_nick (cfg s)) ?s
       else if \<not> many \<and> late then upd_nick n (nick_set_lasttry (clock s) \<circ> nick_set_loginattempts 1) ?s
       else Some ?s)"
    unfolding login_failed_def w [symmetric] m [symmetric] b bind.bind_lunit
    using x by (simp add: upd_defs z_def [symmetric] same(3) many_def late_def Let_def split del: if_split cong: if_cong)
  consider (kill) "many" "\<not> late" | (again) "\<not> many" "late" | (count) "many \<longleftrightarrow> late" by blast
  then show ?thesis
  proof cases
    case kill
    have f: "find_nick (Some (n_name x)) ?s = Some (Some n)"
      using addr find_nick_write [OF x(1) same(1)] by simp
    obtain t where t: "killuser (n_name x) m (cfg_nick (cfg s)) ?s = Some t" "net_ok t" "quit_frame n ?s t"
      using killuser_frame [OF ok' f] by blast
    then have "login_failed n s = Some t" unfolding step using kill by simp
    moreover have "user_at t = user_at s" "nick_at t n = None"
      using t(3) same(2) by (simp_all add: quit_frame_def logged_off_def)
    ultimately show ?thesis using t(2) by simp
  next
    case again
    let ?z = "(nick_set_lasttry (clock s) \<circ> nick_set_loginattempts 1) z"
    have "same_nick z ?z" "n_account ?z = n_account z" by (simp_all add: same_nick_def nick_set_defs)
    then have "net_ok (?s\<lparr>nick_at := (nick_at s)(n \<mapsto> ?z)\<rparr>)"
      using net_nick_write [OF ok', of n z ?z] by simp
    then show ?thesis
      using again same(2) x unfolding step by (simp add: upd_defs many_def late_def z_def nick_set_defs)
  next
    case count
    then show ?thesis
      using ok' same(2) x unfolding step by (auto simp: many_def late_def z_def)
  qed
qed

lemma identify_wrong:
  assumes ok: "net_ok s" and x: "nick_at s n = Some x" "n_account x = None"
    and u: "find_user (Some (n_name x)) s = Some u" and y: "user_at s u = Some y"
    and pw: "fst (SeperateWord all) = Some pw" "pw \<noteq> []"
    and chk: "check_user_password L (Some u) pw s = Some (-1, s1)"
    and addr: "find_nick (Some (n_name x)) s = Some (Some n)"
  shows "\<exists>t. nick_identify L n uptr all s = Some t \<and> net_ok t \<and>
    (\<forall>v. map_option u_authed (user_at t v) = map_option u_authed (user_at s v)) \<and>
    (nick_at t n = None \<or> (\<exists>z. nick_at t n = Some z \<and> n_account z = None)) \<and>
    (cfg_maxloginatt (cfg s) \<le> n_loginattempts x + 1 \<and>
     clock s - (if n_lasttry x = 0 then clock s else n_lasttry x) < 60 \<longrightarrow> nick_at t n = None)"
proof -
  have r: "rehashed u s s1" using check_password [of s u L pw] y chk by auto
  note sel = rehashed_sel [OF r]
  obtain t where t: "login_failed n s1 = Some t" "net_ok t" "user_at t = user_at s1"
    "nick_at t n = None \<or> (\<exists>z. nick_at t n = Some z \<and> n_account z = None)"
    "cfg_maxloginatt (cfg s) \<le> n_loginattempts x + 1 \<and>
     clock s - (if n_lasttry x = 0 then clock s else n_lasttry x) < 60 \<longrightarrow> nick_at t n = None"
    using login_failed_ok [OF rehashed_net_ok [OF r ok], of n x] x sel(3,13,14,15) addr
    by (auto split del: if_split cong: if_cong)
  have "nick_identify L n uptr all s = Some t"
    using x u pw chk y t(1) by (simp add: nick_identify_def arg1_of_def is_empty_def Let_def)
  with t sel(17) show ?thesis by (intro exI [of _ t]) simp
qed

subsection \<open>SASL\<close>

definition bytes_of :: "string \<Rightarrow> byte list" where
  "bytes_of s = map of_char s"

lemma byte_of_char: "char_of (unat (of_char c :: byte)) = c"
proof -
  have "(of_char c :: byte) = of_nat (of_char c)" by (rule of_nat_of_char [symmetric])
  then have "unat (of_char c :: byte) = of_char c mod 256" by (simp only: unat_of_nat) simp
  then show ?thesis by simp
qed

lemma bytes_str_bytes_of:
  assumes "CHR 0x00 \<notin> set s"
  shows "bytes_str (bytes_of s @ 0 # r) = s"
proof -
  have "(of_char c :: byte) \<noteq> 0" if "c \<in> set s" for c
  proof
    assume "(of_char c :: byte) = 0"
    then have "char_of (unat (of_char c :: byte)) = (char_of (0::nat) :: char)" by simp
    moreover have "char_of (0::nat) = CHR 0x00" by (simp add: char_of_def)
    ultimately show False using that assms by (simp only: byte_of_char)
  qed
  then have "takeWhile (\<lambda>b. b \<noteq> 0) (bytes_of s @ 0 # r) = bytes_of s"
    by (subst takeWhile_append2) (auto simp: bytes_of_def)
  then show ?thesis by (simp add: bytes_str_def bytes_of_def byte_of_char o_def)
qed

lemma position_first: "\<forall>x \<in> set xs. \<not> P x \<Longrightarrow> P y \<Longrightarrow> position P (xs @ y # ys) = Some (length xs)"
  by (induction xs) auto

lemma bytes_of_nonzero: "CHR 0x00 \<notin> set s \<Longrightarrow> \<forall>b \<in> set (bytes_of s). b \<noteq> 0"
proof
  fix b
  assume s: "CHR 0x00 \<notin> set s" and "b \<in> set (bytes_of s)"
  then obtain c where c: "c \<in> set s" "b = of_char c" by (auto simp: bytes_of_def)
  have "char_of (0::nat) = CHR 0x00" by (simp add: char_of_def)
  then show "b \<noteq> 0" using c s byte_of_char [of c] by auto
qed

text \<open>The message of PLAIN: an identity, a NUL, the account, a NUL and the password.\<close>

definition plain_bytes :: "string \<Rightarrow> string \<Rightarrow> string \<Rightarrow> byte list" where
  "plain_bytes authz user pass = bytes_of authz @ 0 # bytes_of user @ 0 # bytes_of pass"

lemma plain_split_bytes:
  assumes "CHR 0x00 \<notin> set authz" "CHR 0x00 \<notin> set user" "CHR 0x00 \<notin> set pass"
  shows "plain_split (plain_bytes authz user pass @ 0 # r) (length (plain_bytes authz user pass)) = Some (user, pass)"
proof -
  have 1: "position (\<lambda>b. b = 0) (bytes_of authz @ 0 # bytes_of user @ 0 # bytes_of pass) = Some (length authz)"
    using position_first [of "bytes_of authz" "\<lambda>b. b = 0" 0] bytes_of_nonzero [OF assms(1)] by (simp add: bytes_of_def)
  have 2: "position (\<lambda>b. b = 0) (bytes_of user @ 0 # bytes_of pass) = Some (length user)"
    using position_first [of "bytes_of user" "\<lambda>b. b = 0" 0] bytes_of_nonzero [OF assms(2)] by (simp add: bytes_of_def)
  have l: "length (bytes_of x) = length x" for x by (simp add: bytes_of_def)
  show ?thesis
    using 1 2 bytes_str_bytes_of [OF assms(2), of "bytes_of pass @ 0 # r"] bytes_str_bytes_of [OF assms(3), of r]
    by (simp add: plain_split_def plain_bytes_def l Let_def)
qed

lemma sasl_plain_answer:
  assumes nul: "CHR 0x00 \<notin> set authz" "CHR 0x00 \<notin> set user" "CHR 0x00 \<notin> set pass"
    and len: "length (plain_bytes authz user pass) < 400"
    and u: "find_user (Some user) s = Some u" and y: "user_at s u \<noteq> None"
  shows "\<exists>ok t. check_user_password L (Some u) pass s = Some (ok, t) \<and>
    sasl_plain L target sender uid (b64_encode (plain_bytes authz user pass)) s =
      Some (if ok = -1 then sasl_fail target sender uid t
            else send_raw ('':'' @ target @ '' SASL '' @ sender @ '' '' @ uid @ '' D S'')
              (send_raw ('':'' @ target @ '' SVSLOGIN * '' @ uid @ '' '' @ user) t))"
proof -
  let ?bs = "plain_bytes authz user pass"
  obtain d where d: "b64_loop (b64_encode ?bs) (0, 0, replicate 400 0) = Some (Some (length ?bs, d))"
    "take (length ?bs) d = ?bs" "untouched (length ?bs) (replicate 400 0) d"
    using b64_loop_encode [of 0 ?bs "replicate 400 0"] len by auto
  have "drop (length ?bs) d \<noteq> []" "hd (drop (length ?bs) d) = 0"
    using d(3) len by (auto simp: untouched_def hd_drop_conv_nth)
  then obtain r where "d = ?bs @ 0 # r" using d(2) append_take_drop_id [of "length ?bs" d]
    by (metis list.collapse)
  then have sp: "plain_split d (length ?bs) = Some (user, pass)" using plain_split_bytes [OF nul] by simp
  obtain ok t where t: "check_user_password L (Some u) pass s = Some (ok, t)" using check_password [OF y] by blast
  obtain m1 m2 where m: "m1 = '':'' @ target @ '' SASL '' @ sender @ '' '' @ uid @ '' D S''"
    "m2 = '':'' @ target @ '' SVSLOGIN * '' @ uid @ '' '' @ user" by blast
  have "sasl_plain L target sender uid (b64_encode ?bs) s =
      Some (if ok = -1 then sasl_fail target sender uid t else send_raw m1 (send_raw m2 t))"
    using d(1) sp u t by (simp add: sasl_plain_def b64_decode_def m)
  with t m show ?thesis by blast
qed

text \<open>The words of a request.\<close>

lemma strtok_from_word: "d \<notin> set w \<Longrightarrow> strtok_from d v (w @ r) = strtok_from d (v @ w) r"
  by (induction w arbitrary: v) auto

lemma strtok_cons: "d \<notin> set w \<Longrightarrow> w \<noteq> [] \<Longrightarrow> strtok d (w @ d # r) = w # strtok d r"
  by (simp add: strtok_def strtok_from_word)

lemma strtok_last: "d \<notin> set w \<Longrightarrow> w \<noteq> [] \<Longrightarrow> strtok d w = [w]"
  using strtok_from_word [of d w "[]" "[]"] by (simp add: strtok_def)

lemma b64_encode_chars: "c \<in> set (b64_encode bs) \<Longrightarrow> \<not> isspace c"
  by (induction bs rule: b64_encode.induct)
    (auto simp: Pad64_not_space b64_char_facts groups_less)

lemma isspace_blank: "isspace CHR '' ''"
  by (simp add: isspace_def)

lemma b64_encode_nonempty: "bs \<noteq> [] \<Longrightarrow> b64_encode bs \<noteq> []"
  by (cases bs rule: b64_encode.cases) auto

lemma sasl_session_answer:
  assumes w: "CHR '' '' \<notin> set target" "target \<noteq> []" "CHR '' '' \<notin> set uid" "uid \<noteq> []"
    and p: "CHR 0x00 \<notin> set authz" "CHR 0x00 \<notin> set user" "CHR 0x00 \<notin> set pass"
      "length (plain_bytes authz user pass) < 400"
      "find_user (Some user) s = Some u" "user_at s u \<noteq> None"
  shows "\<exists>ok t. check_user_password L (Some u) pass s = Some (ok, t) \<and>
    sasl_start_session L [Some (c # sender),
        Some (target @ '' '' @ uid @ '' C '' @ b64_encode (plain_bytes authz user pass))] s =
      Some (MOD_CONTINUE, if ok = -1 then sasl_fail target sender uid t
            else send_raw ('':'' @ target @ '' SASL '' @ sender @ '' '' @ uid @ '' D S'')
              (send_raw ('':'' @ target @ '' SVSLOGIN * '' @ uid @ '' '' @ user) t))"
proof -
  let ?m = "b64_encode (plain_bytes authz user pass)"
  have m: "CHR '' '' \<notin> set ?m" "?m \<noteq> []"
    using b64_encode_chars isspace_blank b64_encode_nonempty [of "plain_bytes authz user pass"]
    by (auto simp: plain_bytes_def)
  have st: "strtok CHR '' '' (target @ '' '' @ uid @ '' C '' @ ?m) = [target, uid, ''C'', ?m]"
    using strtok_cons [OF w(1,2)] strtok_cons [OF w(3,4)] strtok_cons [of "CHR '' ''" "''C''"] strtok_last [OF m]
    by simp
  show ?thesis
    using sasl_plain_answer [OF p, of L target sender uid] st
    by (simp add: sasl_start_session_def Let_def)
qed

text \<open>The second step takes the account that \<open>m_uid\<close> found by the name of the nick.\<close>

lemma sasl_finish_by_name:
  assumes ok: "net_ok s" and x: "nick_at s n = Some x" "n_account x = None" "\<not> streq (Some (n_svid x)) (Some ''0'')"
    and u: "find_user (Some (n_name x)) s = Some u" and y: "user_at s u = Some y" "u_authed y \<noteq> 1"
  shows "\<exists>t. find_account n s = Some (Some u) \<and> sasl_finish_session n (Some u) s = Some (MOD_CONTINUE, t) \<and>
    net_ok t \<and> find_account n t = Some (Some u) \<and> IsAuthed (Some u) t = Some True"
proof -
  obtain t where t: "user_login n u s = Some t" "net_ok t" "find_account n t = Some (Some u)"
    "IsAuthed (Some u) t = Some True" using user_login_net [OF ok x(1) y(1) x(2) y(2)] by blast
  have "IsAuthed (Some u) s = Some False" using y by (simp add: IsAuthed_def)
  then have "sasl_finish_session n (Some u) s = Some (MOD_CONTINUE, t)"
    using x t(1) by (simp add: sasl_finish_session_def)
  with t x u show ?thesis by (auto simp: find_account_def)
qed

end
