(* ===== verification/Modes.thy ===== *)
theory Modes
  imports Parseline
begin

section \<open>Changes of channel modes\<close>

text \<open>
  Taking a status from a name that no nick has: \<open>find_account\<close> reads through the NULL that
  \<open>find_nick\<close> returns. The names differ in what a send of \<open>check_mlock\<close> leaves alone.
\<close>

lemma check_mlock_nicks:
  assumes "check_mlock bn ms c s = Some t"
  shows "find_nick k t = find_nick k s"
proof -
  have "find_nick k ((send_raw m ^^ i) s) = find_nick k s" for m i
  proof (induction i)
    case (Suc i)
    have "find_nick k (send_raw m t) = find_nick k t" for t by (simp add: find_nick_def send_raw_def Let_def)
    with Suc show ?case by simp
  qed simp
  with assms show ?thesis by (auto simp: check_mlock_def Let_def split: if_splits)
qed

lemma mode_loop_minus_unknown:
  assumes "status_flag c \<noteq> 0" "x_args x = [Some name, None]" "find_nick (Some name) s = Some None"
  shows "mode_loop x False [c] mode_start s = None"
  using assms
  by (auto simp: minus_mode_def minus_target_def arg_at_def mode_start_def status_flag_def)

lemma chan_mode_unknown:
  assumes p: "plain_word chan" "plain_word name" and c: "status_flag c \<noteq> 0"
    and w: "find_wchan (Some chan) s \<noteq> None" and n: "find_nick (Some name) s = Some None"
  shows "chan_mode sender (Some (join_words [chan, [CHR ''-'', c], name])) s = None"
proof -
  have pc: "plain_word [CHR ''-'', c]" using c by (auto simp: plain_word_def status_flag_def word_end_def split: if_splits)
  have 1: "SeperateWord (Some (join_words [chan, [CHR ''-'', c], name])) =
      (Some chan, Some (join_words [[CHR ''-'', c], name]))"
    using SeperateWord_append [OF p(1)] join_words_hd [of "[[CHR ''-'', c], name]"] p pc by simp
  have 2: "SeperateWord (Some (join_words [[CHR ''-'', c], name])) = (Some [CHR ''-'', c], Some name)"
    using SeperateWord_append [OF pc, of name] join_words_hd [of "[name]"] p by simp
  have 3: "parse_words 50 (Some name) = [name]"
    using SeperateWord_last [OF p(2)] by (simp add: numeral_eq_Suc)
  obtain wc where wc: "find_wchan (Some chan) s = Some wc" using w by auto
  have none: "Option.bind a f = None" if "\<And>z. a = Some z \<Longrightarrow> f z = None" for a :: "'x option" and f :: "'x \<Rightarrow> 'y option"
    using that by (cases a) auto
  have stop: "mode_loop x False [c] mode_start t = None"
    if "x_args x = [Some name, None]" "t = s \<or> check_mlock b m ch s = Some t" for x t b m ch
    using mode_loop_minus_unknown [OF c that(1), of t] check_mlock_nicks [of b m ch s t] n that(2) by auto
  show ?thesis
    by (cases "find_channel (Some chan) s")
      (auto simp: chan_mode_def Let_def mode_args_def 1 2 3 wc simp del: mode_loop.simps join_words.simps intro!: none stop)
qed

lemma m_mode_unknown:
  assumes "plain_word chan" "plain_word name" "CHR '':'' \<notin> set chan" "CHR '':'' \<notin> set name" "status_flag c \<noteq> 0"
    and "find_wchan (Some chan) (svc w) \<noteq> None" "find_nick (Some name) (svc w) = Some None"
  shows "m_mode E sender (Some (join_words [chan, [CHR ''-'', c], name])) w = None"
proof -
  have "c \<noteq> CHR '':''" using assms(5) by (auto simp: status_flag_def)
  then have "CHR '':'' \<notin> set (join_words [chan, [CHR ''-'', c], name])" using assms(3,4) by simp
  then show ?thesis using chan_mode_unknown [OF assms(1,2,5-7)] by (simp add: m_mode_def on_core_def)
qed

end
