(* ===== verification/HostServ.thy ===== *)
theory HostServ
  imports Services
begin

section \<open>The commands on virtual hosts: src/src/modules/m\_host.c\<close>

definition host_commands :: "config \<Rightarrow> command list \<Rightarrow> command list" where
  "host_commands c cs =
     add_all CMD_HOST 0
       [(''set'', ''host_set'', cfg_level_oper c), (''list'', ''host_list'', cfg_level_oper c)]
       (add_all CMD_BASE 0 [(''host'', ''do_host'', cfg_level_oper c)] cs)"

definition host_cleanup :: "command list \<Rightarrow> command list" where
  "host_cleanup cs = del_all CMD_HOST 0 [''set'', ''list''] (del_all CMD_BASE 0 [''host''] cs)"

definition host_set :: "nick_cmd" where
  "host_set nptr uptr all s =
     (let (arg3, arg4) = args2 all in
      if is_empty arg3 then
        NoticeToUser nptr (''Syntax: '' @ bold (''set '' @ ul ''nick'' @ '' ['' @ ul ''vhost'' @ '']'')) s
      else (case find_user arg3 s of None \<Rightarrow> NoticeToUser nptr ''This user does not exist'' s
        | Some p \<Rightarrow>
            if is_empty arg4 then do {
              s \<leftarrow> upd_user p (\<lambda>u. u\<lparr>u_vhost := []\<rparr>) s;
              s \<leftarrow> NoticeToUser nptr (''Vhost for '' @ bold (the arg3) @ '' deleted'') s;
              r \<leftarrow> find_nick arg3 s;
              Some (if r \<noteq> None then send_raw (''SVSMODE '' @ the arg3 @ '' -x+x'') s else s) }
            else do {
              s \<leftarrow> upd_user p (\<lambda>u. u\<lparr>u_vhost := strncpy (the arg4) HOSTLEN\<rparr>) s;
              s \<leftarrow> NoticeToUser nptr (''Vhost for '' @ bold (the arg3) @ '' set to '' @ bold (the arg4)) s;
              r \<leftarrow> find_nick arg3 s;
              Some (if r \<noteq> None then send_raw (''CHGHOST '' @ the arg3 @ '' '' @ the arg4) s else s) }))"

definition host_list :: "nick_cmd" where
  "host_list nptr uptr all s =
     do { s \<leftarrow> foldM (\<lambda>p s. do {
                 u \<leftarrow> user_at s p;
                 if u_vhost u \<noteq> [] then NoticeToUser nptr (u_nick u @ ''             '' @ u_vhost u) s
                 else Some s }) (map snd (users s)) s;
          NoticeToUser nptr ''End of list.'' s }"

definition do_host :: "nick_cmd \<Rightarrow> (string \<Rightarrow> nick_cmd) \<Rightarrow> command list \<Rightarrow> nick_cmd" where
  "do_host = do_service ''host'' CMD_HOST"

definition host_functions :: "(string \<times> nick_cmd) list" where
  "host_functions = [(''host_set'', host_set), (''host_list'', host_list)]"

end
