(* ===== verification/ChanServ.thy ===== *)
theory ChanServ
  imports Services
begin

section \<open>The commands on channels: src/src/modules/m\_chan.c\<close>

text \<open>
  A command gets the sender, its account, the registered channel that the third word of the message
  names, or NULL, and the arguments. The command \<open>chan_access\<close> of the source is \<open>chan_access_cmd\<close>
  here and \<open>__chan_access\<close> is \<open>level_access\<close>. \<open>operlog\<close> is left out.
\<close>

type_synonym chan_cmd = "ptr \<Rightarrow> ptr option \<Rightarrow> ptr option \<Rightarrow> cstring \<Rightarrow> core \<Rightarrow> core option"

definition chan_commands :: "config \<Rightarrow> command list \<Rightarrow> command list" where
  "chan_commands c cs =
     add_all CMD_CHAN CMD_CHAN_SET
       [(''strictop'', ''chan_set_strictop'', 1), (''secure'', ''chan_set_secure'', 1),
        (''protectops'', ''chan_set_protectops'', 1), (''private'', ''chan_set_private'', 1),
        (''nojoin'', ''chan_set_nojoin'', 1), (''noauto'', ''chan_set_noauto'', 1),
        (''mlock'', ''chan_set_mlock'', 1), (''mass'', ''chan_set_mass'', 1),
        (''founder'', ''chan_set_founder'', 1), (''enftopic'', ''chan_set_enftopic'', 1),
        (''axxflags'', ''chan_set_axxflags'', 1), (''avoice'', ''chan_set_avoice'', 1),
        (''autolimit'', ''chan_set_autolimit'', 1), (''aop'', ''chan_set_aop'', 1)]
       (add_all CMD_CHAN 0
         [(''voice'', ''chan_voice'', 1), (''unsuspend'', ''chan_unsuspend'', 1),
          (''unbanall'', ''chan_unbanall'', 1), (''unassign'', ''chan_unassign'', 1),
          (''topic'', ''chan_topic'', 1), (''suspend'', ''chan_suspend'', 1), (''set'', ''chan_set'', 1),
          (''resync'', ''chan_resync'', 1), (''register'', ''chan_register'', 1), (''op'', ''chan_op'', 1),
          (''kick'', ''chan_kick'', 1), (''invite'', ''chan_invite'', 1), (''info'', ''chan_info'', 1),
          (''halfop'', ''chan_halfop'', 1), (''entrymsg'', ''chan_entrymsg'', 1), (''drop'', ''chan_drop'', 1),
          (''devoice'', ''chan_devoice'', 1), (''deop'', ''chan_deop'', 1),
          (''delbot'', ''chan_delbot'', cfg_level_oper c), (''dehalfop'', ''chan_dehalfop'', 1),
          (''clearmodes'', ''chan_clearmodes'', 1), (''clearchan'', ''chan_clearchan'', 1),
          (''clearbans'', ''chan_clearbans'', 1), (''botlist'', ''chan_botlist'', 1),
          (''banlist'', ''chan_banlist'', 1), (''assign'', ''chan_assign'', 1),
          (''addbot'', ''chan_addbot'', cfg_level_oper c), (''access'', ''chan_access'', 1)]
         (add_all CMD_BASE 0 [(''chan'', ''do_chan'', 0)] cs))"

definition chan_cleanup :: "command list \<Rightarrow> command list" where
  "chan_cleanup cs =
     del_all CMD_CHAN CMD_CHAN_SET
       [''founder'', ''avoice'', ''aop'', ''nojoin'', ''noauto'', ''private'', ''strictop'', ''protectops'', ''mlock'',
        ''autolimit'', ''secure'', ''mass'', ''enftopic'', ''axxflags'']
       (del_all CMD_CHAN 0
         [''register'', ''drop'', ''access'', ''op'', ''deop'', ''voice'', ''devoice'', ''halfop'', ''dehalfop'', ''invite'',
          ''set'', ''info'', ''entrymsg'', ''clearchan'', ''clearmodes'', ''unbanall'', ''kick'', ''assign'', ''unassign'',
          ''botlist'', ''addbot'', ''delbot'', ''resync'', ''suspend'', ''unsuspend'', ''clearbans'', ''banlist'', ''topic'']
         (del_all CMD_BASE 0 [''chan''] cs))"

subsection \<open>What the commands share\<close>

text \<open>The name of a channel is there, and starts with \<open>#\<close>.\<close>

definition chan_arg :: "cstring \<Rightarrow> bool" where
  "chan_arg a \<longleftrightarrow> \<not> is_empty a \<and> hd (the a) = CHR ''#''"

text \<open>The tests \<open>ChannelCan... || IsFounder\<close>, and those that admit the staff.\<close>

definition allowed ::
  "(ptr option \<Rightarrow> ptr option \<Rightarrow> core \<Rightarrow> bool option) \<Rightarrow> ptr option \<Rightarrow> ptr option \<Rightarrow> core \<Rightarrow> bool option" where
  "allowed can uptr chptr s = orM (can uptr chptr s) (IsFounder uptr chptr s)"

definition is_staff :: "ptr \<Rightarrow> ptr option \<Rightarrow> core \<Rightarrow> bool option" where
  "is_staff nptr uptr s = do { u \<leftarrow> account uptr s; n \<leftarrow> nick_at s nptr; Some (staff n u s) }"

definition founder_or_staff :: "ptr \<Rightarrow> ptr option \<Rightarrow> ptr \<Rightarrow> core \<Rightarrow> bool option" where
  "founder_or_staff nptr uptr c s = orM (IsFounder uptr (Some c) s) (is_staff nptr uptr s)"

definition no_chan :: string where "no_chan = ''This channel does not exist''"
definition no_chan_named :: "cstring \<Rightarrow> string" where
  "no_chan_named ch = ''Channel '' @ pr ch @ '' does not exist.''"
definition denied :: string where "denied = ''Access denied''"

text \<open>The opening of most commands: syntax, existence, permission.\<close>

definition on_channel ::
  "bool \<Rightarrow> string \<Rightarrow> string \<Rightarrow> string \<Rightarrow> (ptr \<Rightarrow> core \<Rightarrow> bool option) \<Rightarrow> (ptr \<Rightarrow> core \<Rightarrow> core option) \<Rightarrow>
   ptr \<Rightarrow> ptr option \<Rightarrow> core \<Rightarrow> core option" where
  "on_channel ok syn missing refused test body nptr chptr s =
     (if \<not> ok then NoticeToUser nptr syn s
      else (case chptr of None \<Rightarrow> NoticeToUser nptr missing s
        | Some c \<Rightarrow> do { a \<leftarrow> test c s; if a then body c s else NoticeToUser nptr refused s }))"

subsection \<open>Registering and dropping\<close>

definition has_op :: "ptr option \<Rightarrow> core \<Rightarrow> bool option" where
  "has_op m s = (case m of None \<Rightarrow> Some False | Some p \<Rightarrow> map_option (\<lambda>x. HasChanFlag x CHFL_OP) (member_at s p))"

definition chan_register :: "chan_cmd" where
  "chan_register nptr uptr chptr all s =
     (let arg3 = arg1_of all in
      if \<not> chan_arg arg3 then NoticeToUser nptr (syntax_msg (''CHAN REGISTER '' @ ul ''#channel'')) s
      else if chptr \<noteq> None then NoticeToUser nptr ''This channel is already registered'' s
      else do {
        n \<leftarrow> nick_at s nptr;
        k \<leftarrow> chansreg (n_name n) s;
        many \<leftarrow> andM (Some (cfg_chanperuser (cfg s) \<le> int k))
                  (map_option (\<lambda>u. u_level u < cfg_level_oper (cfg s)) (account uptr s));
        if many then NoticeToUser nptr
          (''You have registered too many channels ('' @ dec (cfg_chanperuser (cfg s)) @ '' max).'') s
        else (case find_wchan arg3 s of None \<Rightarrow> NoticeToUser nptr ''This channel is empty.'' s
          | Some w \<Rightarrow> do {
              m \<leftarrow> find_member w nptr s;
              b \<leftarrow> has_op m s;
              if \<not> b then NoticeToUser nptr ''You must be a channel operator to register a channel'' s
              else do {
                u \<leftarrow> account uptr s;
                (r, s) \<leftarrow> CreateChannel (the arg3) (u_nick u) 0 s;
                c \<leftarrow> r;
                s \<leftarrow> upd_chan c (\<lambda>x. x\<lparr>c_regtime := clock s\<rparr>) s;
                s \<leftarrow> JoinChannel (cfg_nick (cfg s)) (the arg3) s;
                NoticeToUser nptr ''Channel registered'' s } }) })"

definition chan_drop :: "chan_cmd" where
  "chan_drop nptr uptr chptr all s =
     (let arg3 = arg1_of all in
      on_channel (chan_arg arg3) (''Syntax: '' @ bold ''CHAN DROP'' @ '' '' @ ul ''#channel'') no_chan denied
        (founder_or_staff nptr uptr)
        (\<lambda>c s. do {
           fo \<leftarrow> IsFounder uptr (Some c) s;
           n \<leftarrow> nick_at s nptr;
           s \<leftarrow> chandrop c (if fo then s else globops (n_name n @ '' used '' @ bold ''DROP'' @ '' on channel '' @ the arg3) s);
           NoticeToUser nptr ''Channel dropped'' s }) nptr chptr s)"

subsection \<open>The access list by levels\<close>

definition access_syntax :: "string \<Rightarrow> string \<Rightarrow> string" where
  "access_syntax lev close =
     syntax_msg (''CHAN ACCESS '' @ ul ''#channel'' @ '' {add|auto|del|list} ['' @ ul ''nick'' @ '' ['' @ ul lev @ close)"

text \<open>The test of most subcommands: a level at least \<open>l\<close>, or the founder, or the staff.\<close>

definition level_or_top :: "int \<Rightarrow> ptr \<Rightarrow> ptr option \<Rightarrow> ptr \<Rightarrow> core \<Rightarrow> bool option" where
  "level_or_top l nptr uptr c s =
     orM (map_option (\<lambda>f. l \<le> f) (GetFlag uptr (Some c) s)) (founder_or_staff nptr uptr c s)"

text \<open>Whether an entry of level \<open>l\<close> is out of reach: not below one's own, without being the founder or staff.\<close>

definition out_of_reach :: "int \<Rightarrow> ptr \<Rightarrow> ptr option \<Rightarrow> ptr \<Rightarrow> core \<Rightarrow> bool option" where
  "out_of_reach l nptr uptr c s =
     andM (map_option (\<lambda>f. f \<le> l) (GetFlag uptr (Some c) s)) (map_option Not (founder_or_staff nptr uptr c s))"

definition access_put :: "ptr \<Rightarrow> ptr \<Rightarrow> ptr \<Rightarrow> string \<Rightarrow> string \<Rightarrow> int \<Rightarrow> core \<Rightarrow> core option" where
  "access_put nptr uptr2 c arg3 arg5 newlevel s =
     do { s \<leftarrow> DeleteUserFromChannel uptr2 c s;
          (_, s) \<leftarrow> AddUserToChannel uptr2 c newlevel 0 s;
          NoticeToUser nptr (''The user '' @ bold arg5 @ '' has been added to '' @ bold arg3 @ '' with level '' @
            bold (dec newlevel)) s }"

definition access_add :: "ptr \<Rightarrow> ptr option \<Rightarrow> ptr \<Rightarrow> string \<Rightarrow> string \<Rightarrow> string \<Rightarrow> core \<Rightarrow> core option" where
  "access_add nptr uptr c arg3 arg5 arg6 s =
     guards nptr [(map_option Not (level_or_top (cfg_chlev_admin (cfg s)) nptr uptr c s), denied)] (\<lambda>s.
       case find_user (Some arg5) s of
         None \<Rightarrow> NoticeToUser nptr (''The nick '' @ arg5 @ '' is not registered'') s
       | Some uptr2 \<Rightarrow>
           (let newlevel = to_int (strtol arg6) in
            guards nptr
              [(Option.bind (GetFlag (Some uptr2) (Some c) s) (\<lambda>f2. out_of_reach f2 nptr uptr c s),
                ''You cannot modify the access level of someone outranking you''),
               (out_of_reach newlevel nptr uptr c s, ''You cannot add a user with a level higher than yours''),
               (Some (CHLEV_OWNER \<le> newlevel), ''Maximum level is '' @ dec (CHLEV_OWNER - 1) @ '', user not added'')]
              (\<lambda>s. do {
                 ch \<leftarrow> chan_at s c;
                 u2 \<leftarrow> user_at s uptr2;
                 guards nptr
                   [(Some (streq (Some (c_owner ch)) (Some (u_nick u2))),
                     u_nick u2 @ '' is already the founder of '' @ c_name ch),
                    (andM (Some (newlevel = CHLEV_COOWNER))
                       (map_option (\<lambda>r. r \<noteq> None) (scan (cflag_at s) (\<lambda>x. cf_flags x = CHLEV_COOWNER) (c_cflags ch))),
                     ''There is already a co-owner for this channel.'')]
                   (access_put nptr uptr2 c arg3 arg5 newlevel) s }) s)) s"

definition auto_of :: "cstring \<Rightarrow> int option" where
  "auto_of a =
     (if streq a (Some ''op'') then Some CFLAG_AUTO_OP else if streq a (Some ''voice'') then Some CFLAG_AUTO_VOICE
      else if streq a (Some ''off'') then Some CFLAG_AUTO_OFF else if streq a (Some ''default'') then Some CFLAG_AUTO_ON
      else None)"

definition set_auto :: "ptr \<Rightarrow> ptr \<Rightarrow> ptr \<Rightarrow> string \<Rightarrow> core \<Rightarrow> core option" where
  "set_auto nptr uptr2 c arg6 s =
     do { r \<leftarrow> find_cflag c uptr2 s;
          case r of None \<Rightarrow> Some s
          | Some p \<Rightarrow>
              (case auto_of (Some arg6) of
                 None \<Rightarrow> NoticeToUser nptr (syntax_msg (''CHAN ACCESS '' @ ul ''#channel'' @ '' auto ['' @ ul ''op'' @ ''|'' @
                     ul ''voice'' @ ''|'' @ ul ''default'' @ ''|'' @ ul ''off'' @ '']'')) s
               | Some m \<Rightarrow> do {
                   f2 \<leftarrow> GetFlag (Some uptr2) (Some c) s;
                   let m = (if f2 < cfg_chlev_halfop (cfg s) \<and> m = CFLAG_AUTO_OP then CFLAG_AUTO_VOICE else m);
                   s \<leftarrow> upd_cflag p (\<lambda>x. x\<lparr>cf_automode := m\<rparr>) s;
                   NoticeToUser nptr ''Automode successfully set.'' s }) }"

definition access_auto :: "ptr \<Rightarrow> ptr option \<Rightarrow> ptr \<Rightarrow> string \<Rightarrow> string \<Rightarrow> core \<Rightarrow> core option" where
  "access_auto nptr uptr c arg5 arg6 s =
     guards nptr [(map_option Not (level_or_top 3 nptr uptr c s), denied)] (\<lambda>s.
       case find_user (Some arg5) s of
         None \<Rightarrow> NoticeToUser nptr (''User '' @ bold arg5 @ '' does not exist.'') s
       | Some uptr2 \<Rightarrow> do {
           n \<leftarrow> nick_at s nptr;
           ok \<leftarrow> orM (Some (streq (Some arg5) (Some (n_name n))))
                  (do { f \<leftarrow> GetFlag uptr (Some c) s;
                        f2 \<leftarrow> GetFlag (Some uptr2) (Some c) s;
                        Some (10 \<le> f \<and> f2 < f) });
           if ok then set_auto nptr uptr2 c arg6 s else NoticeToUser nptr denied s }) s"

definition access_del_other :: "ptr \<Rightarrow> ptr option \<Rightarrow> ptr \<Rightarrow> string \<Rightarrow> string \<Rightarrow> core \<Rightarrow> core option" where
  "access_del_other nptr uptr c arg3 arg5 s =
     guards nptr [(map_option Not (level_or_top (cfg_chlev_admin (cfg s)) nptr uptr c s), denied)] (\<lambda>s.
       case find_user (Some arg5) s of
         None \<Rightarrow> NoticeToUser nptr (''The user '' @ arg5 @ '' is not registered'') s
       | Some uptr2 \<Rightarrow>
           guards nptr
             [(map_option (\<lambda>f. f = 0) (GetFlag (Some uptr2) (Some c) s),
               ''The user '' @ arg5 @ '' is not on the access list of '' @ arg3),
              (Option.bind (GetFlag (Some uptr2) (Some c) s) (\<lambda>f2. out_of_reach f2 nptr uptr c s),
               ''You cannot remove a user outranking you''),
              (do { u2 \<leftarrow> user_at s uptr2; ch \<leftarrow> chan_at s c; Some (streq (Some (u_nick u2)) (Some (c_owner ch))) },
               ''You cannot remove the owner...'')]
             (\<lambda>s. do { s \<leftarrow> DeleteUserFromChannel uptr2 c s;
                       NoticeToUser nptr (''The user '' @ arg5 @ '' has been removed from '' @ arg3) s }) s) s"

definition access_del :: "ptr \<Rightarrow> ptr option \<Rightarrow> ptr \<Rightarrow> string \<Rightarrow> string \<Rightarrow> core \<Rightarrow> core option" where
  "access_del nptr uptr c arg3 arg5 s =
     do { f \<leftarrow> GetFlag uptr (Some c) s;
          n \<leftarrow> nick_at s nptr;
          if f \<noteq> 0 \<and> streq (Some arg5) (Some (n_name n)) then
            do { p \<leftarrow> uptr;
                 s \<leftarrow> DeleteUserFromChannel p c s;
                 NoticeToUser nptr (''You have been removed from channel '' @ arg3) s }
          else access_del_other nptr uptr c arg3 arg5 s }"

definition auto_name :: "int \<Rightarrow> string" where
  "auto_name m =
     (if m = CFLAG_AUTO_ON then ''default'' else if m = CFLAG_AUTO_OFF then ''off''
      else if m = CFLAG_AUTO_VOICE then ''voice'' else if m = CFLAG_AUTO_OP then ''op'' else ''unknown'')"

definition stat_name :: "int \<Rightarrow> string" where
  "stat_name x = (if x = 0 then ''Normal'' else if x = 1 then ''Suspended'' else ''Unknown'')"

definition access_line :: "ptr \<Rightarrow> ptr \<Rightarrow> core \<Rightarrow> core option" where
  "access_line nptr p s =
     do { cf \<leftarrow> cflag_at s p;
          if cf_flags cf < CHLEV_OWNER then do {
            u \<leftarrow> user_at s (cf_user cf);
            NoticeToUser nptr (stat_name (cf_suspended cf) @ ''   '' @ auto_name (cf_automode cf) @ ''   '' @
              dec (cf_flags cf) @ ''    '' @ u_nick u) s }
          else Some s }"

definition access_list :: "ptr \<Rightarrow> ptr option \<Rightarrow> ptr \<Rightarrow> string \<Rightarrow> core \<Rightarrow> core option" where
  "access_list nptr uptr c arg3 s =
     guards nptr [(map_option Not (level_or_top 1 nptr uptr c s), denied)] (\<lambda>s. do {
       s \<leftarrow> NoticeToUser nptr (''Access list for '' @ arg3 @ '':'') s;
       s \<leftarrow> NoticeToUser nptr (bold ''Status'' @ ''     '' @ bold ''Auto'' @ ''       '' @ bold ''Lev'' @ ''   '' @ bold ''Nick'') s;
       ch \<leftarrow> chan_at s c;
       s \<leftarrow> foldM (access_line nptr) (c_cflags ch) s;
       NoticeToUser nptr ''End of access list'' s }) s"

text \<open>The four words of the arguments.\<close>

definition level_access :: "chan_cmd" where
  "level_access nptr uptr chptr all s =
     (let (arg3, r) = SeperateWord all; (arg4, r) = SeperateWord r; (arg5, r) = SeperateWord r; (arg6, _) = SeperateWord r in
      if is_empty arg3 \<or> is_empty arg4 \<or> hd (the arg3) \<noteq> CHR ''#'' then NoticeToUser nptr (access_syntax ''level]'' '']'') s
      else (case chptr of None \<Rightarrow> NoticeToUser nptr no_chan s
        | Some c \<Rightarrow> do {
            ch \<leftarrow> chan_at s c;
            if HasCOption ch COPT_AXXFLAGS
            then NoticeToUser nptr (''The '' @ bold ''AXXFLAGS'' @ '' option must be disabled in order to use this command.'') s
            else if streq arg4 (Some ''add'') then
              (if is_empty arg5 \<or> is_empty arg6 then NoticeToUser nptr (access_syntax ''level'' '']]'') s
               else access_add nptr uptr c (the arg3) (the arg5) (the arg6) s)
            else if streq arg4 (Some ''auto'') then
              (if is_empty arg5 \<or> is_empty arg6 then NoticeToUser nptr (access_syntax ''level'' '']]'') s
               else access_auto nptr uptr c (the arg5) (the arg6) s)
            else if streq arg4 (Some ''del'') then
              (case arg5 of None \<Rightarrow> NoticeToUser nptr (access_syntax ''level'' '']]'') s
               | Some a \<Rightarrow> access_del nptr uptr c (the arg3) a s)
            else if streq arg4 (Some ''list'') then access_list nptr uptr c (the arg3) s
            else NoticeToUser nptr (access_syntax ''level]'' '']'') s }))"

end
