(* ===== verification/ChanSet.thy ===== *)
theory ChanSet
  imports ChanServ
begin

section \<open>The options of a channel, its modes, its members: src/src/modules/m\_chan.c\<close>

text \<open>A command that needs one of the access flags.\<close>

definition with_access ::
  "bool \<Rightarrow> string \<Rightarrow> string \<Rightarrow> string \<Rightarrow> (ptr option \<Rightarrow> ptr option \<Rightarrow> core \<Rightarrow> bool option) \<Rightarrow>
   (ptr \<Rightarrow> core \<Rightarrow> core option) \<Rightarrow> ptr \<Rightarrow> ptr option \<Rightarrow> ptr option \<Rightarrow> core \<Rightarrow> core option" where
  "with_access ok syn missing refused can body nptr uptr chptr s =
     on_channel ok syn missing refused (\<lambda>c. allowed can uptr (Some c)) body nptr chptr s"

subsection \<open>Giving and taking status\<close>

text \<open>
  \<open>op\<close>, \<open>deop\<close>, \<open>voice\<close> and the others: for oneself with the access \<open>can\<close>, for another nick with the
  access \<open>other\<close> too.
\<close>

definition status_cmd ::
  "string \<Rightarrow> (ptr option \<Rightarrow> ptr option \<Rightarrow> core \<Rightarrow> bool option) \<Rightarrow> (ptr option \<Rightarrow> ptr option \<Rightarrow> core \<Rightarrow> bool option) option \<Rightarrow>
   flags \<Rightarrow> bool \<Rightarrow> chan_cmd" where
  "status_cmd name can other flag what nptr uptr chptr all s =
     (let (arg3, arg4) = args2 all in
      with_access (chan_arg arg3) (''Syntax: '' @ bold (''CHAN '' @ name @ '' #channel ['' @ ul ''nick'' @ '']'')) no_chan denied can
        (\<lambda>c s.
           if is_empty arg4 then do { bn \<leftarrow> channel_botname c s; SetStatus (Some nptr) (the arg3) flag what bn s }
           else guards nptr
             (case other of None \<Rightarrow> [] | Some can2 \<Rightarrow> [(map_option Not (allowed can2 uptr (Some c) s), denied)])
             (\<lambda>s. do {
                r \<leftarrow> find_nick arg4 s;
                case r of None \<Rightarrow> Some s
                | Some nptr2 \<Rightarrow> do { bn \<leftarrow> channel_botname c s; SetStatus (Some nptr2) (the arg3) flag what bn s } }) s)
        nptr uptr chptr s)"

definition chan_op :: "chan_cmd" where "chan_op = status_cmd ''OP'' ChannelCanOp None CHFL_OP True"
definition chan_deop :: "chan_cmd" where "chan_deop = status_cmd ''DEOP'' ChannelCanOp None CHFL_OP False"
definition chan_voice :: "chan_cmd" where
  "chan_voice = status_cmd ''VOICE'' ChannelCanVoice (Some ChannelCanHalfop) CHFL_VOICE True"
definition chan_devoice :: "chan_cmd" where
  "chan_devoice = status_cmd ''DEVOICE'' ChannelCanVoice (Some ChannelCanHalfop) CHFL_VOICE False"
definition chan_halfop :: "chan_cmd" where
  "chan_halfop = status_cmd ''HALFOP'' ChannelCanHalfop (Some ChannelCanOp) CHFL_HALFOP True"
definition chan_dehalfop :: "chan_cmd" where
  "chan_dehalfop = status_cmd ''DEHALFOP'' ChannelCanHalfop (Some ChannelCanOp) CHFL_HALFOP False"

definition chan_invite :: "chan_cmd" where
  "chan_invite nptr uptr chptr all s =
     (let arg3 = arg1_of all in
      with_access (chan_arg arg3) (''Syntax: '' @ bold ''CHAN INVITE #channel'') no_chan denied ChannelCanInvite
        (\<lambda>c s. do { n \<leftarrow> nick_at s nptr; Some (InviteUser (n_name n) (the arg3) s) }) nptr uptr chptr s)"

subsection \<open>Options\<close>

text \<open>
  The functions of the options are also found by \<open>do_chan\<close> itself, which does not look at the subtype of
  a command: the channel may then be NULL.
\<close>

definition option_msg :: "string \<Rightarrow> string \<Rightarrow> chan \<Rightarrow> string" where
  "option_msg name what ch = ''The option '' @ bold name @ '' has been set to '' @ bold what @ '' for '' @ bold (c_name ch)"

definition put_option :: "string \<Rightarrow> flags \<Rightarrow> bool \<Rightarrow> ptr \<Rightarrow> ptr \<Rightarrow> core \<Rightarrow> core option" where
  "put_option name bit1 on nptr c s =
     do { s \<leftarrow> upd_chan c (if on then SetCOption bit1 else ClearCOption bit1) s;
          ch \<leftarrow> chan_at s c;
          NoticeToUser nptr (option_msg name (if on then ''on'' else ''off'') ch) s }"

definition option_syntax :: "string \<Rightarrow> string" where
  "option_syntax name = ''Syntax: '' @ bold (''CHAN SET #channel '' @ name @ '' {on|off}'')"

definition switch_chan ::
  "string \<Rightarrow> string \<Rightarrow> flags \<Rightarrow> (ptr option \<Rightarrow> ptr option \<Rightarrow> core \<Rightarrow> bool option) \<Rightarrow> chan_cmd" where
  "switch_chan name small bit1 can nptr uptr chptr all s =
     (let arg1 = arg1_of all in
      guards nptr [(map_option Not (can uptr chptr s), denied)] (\<lambda>s.
        if streq arg1 (Some ''on'') then do { c \<leftarrow> chptr; put_option name bit1 True nptr c s }
        else if streq arg1 (Some ''off'') then do { c \<leftarrow> chptr; put_option name bit1 False nptr c s }
        else NoticeToUser nptr (option_syntax small) s) s)"

abbreviation "can_set \<equiv> allowed ChannelCanSet"

definition chan_set_private :: "chan_cmd" where
  "chan_set_private = switch_chan ''PRIVATE'' ''private'' COPT_PRIVATE can_set"
definition chan_set_noauto :: "chan_cmd" where
  "chan_set_noauto = switch_chan ''NOAUTO'' ''noauto'' COPT_NOAUTO can_set"
definition chan_set_avoice :: "chan_cmd" where
  "chan_set_avoice = switch_chan ''AVOICE'' ''avoice'' COPT_AVOICE can_set"
definition chan_set_aop :: "chan_cmd" where
  "chan_set_aop = switch_chan ''AOP'' ''aop'' COPT_AOP can_set"
definition chan_set_secure :: "chan_cmd" where
  "chan_set_secure = switch_chan ''SECURE'' ''secure'' COPT_SECURE can_set"
definition chan_set_strictop :: "chan_cmd" where
  "chan_set_strictop = switch_chan ''STRICTOP'' ''strictop'' COPT_STRICTOP can_set"
definition chan_set_mass :: "chan_cmd" where
  "chan_set_mass = switch_chan ''MASS'' ''mass'' COPT_MASS can_set"
definition chan_set_protectops :: "chan_cmd" where
  "chan_set_protectops = switch_chan ''PROTECTOPS'' ''protectops'' COPT_PROTECTOPS can_set"
definition chan_set_enftopic :: "chan_cmd" where
  "chan_set_enftopic = switch_chan ''ENFTOPIC'' ''enftopic'' COPT_ENFTOPIC can_set"
definition chan_set_axxflags :: "chan_cmd" where
  "chan_set_axxflags = switch_chan ''AXXFLAGS'' ''axxflags'' COPT_AXXFLAGS IsFounder"

definition chan_set_nojoin :: "chan_cmd" where
  "chan_set_nojoin nptr uptr chptr all s =
     (let arg1 = arg1_of all in
      guards nptr
        [(map_option Not (can_set uptr chptr s), denied),
         (do { c \<leftarrow> chptr; ch \<leftarrow> chan_at s c; Some (c_chanbot ch \<noteq> None) },
          ''You cannot change NOJOIN option if a bot is assigned to the channel.'')]
        (\<lambda>s. do {
           c \<leftarrow> chptr;
           ch \<leftarrow> chan_at s c;
           if streq arg1 (Some ''on'') then do {
             s \<leftarrow> put_option ''NOJOIN'' COPT_NOJOIN True nptr c s;
             Some (send_raw ('':'' @ cfg_nick (cfg s) @ '' PART '' @ c_name ch @ '' :I won't idle any more on this lame channel.'') s) }
           else if streq arg1 (Some ''off'') then do {
             s \<leftarrow> put_option ''NOJOIN'' COPT_NOJOIN False nptr c s;
             JoinChannel (cfg_nick (cfg s)) (c_name ch) s }
           else NoticeToUser nptr (option_syntax ''nojoin'') s }) s)"

definition chan_set_autolimit :: "chan_cmd" where
  "chan_set_autolimit nptr uptr chptr all s =
     guards nptr [(map_option Not (can_set uptr chptr s), denied)] (\<lambda>s. do {
       a \<leftarrow> arg1_of all;
       c \<leftarrow> chptr;
       let lim = atoi a;
       s \<leftarrow> upd_chan c (\<lambda>x. x\<lparr>c_autolimit := (if 0 < lim then lim else 0)\<rparr>) s;
       ch \<leftarrow> chan_at s c;
       if 0 < lim then do {
         s \<leftarrow> NoticeToUser nptr (''The autolimit for '' @ bold (c_name ch) @ '' set to '' @ bold (dec lim)) s;
         map_option snd (AddLimit c s) }
       else NoticeToUser nptr (''The autolimit for '' @ bold (c_name ch) @ '' disabled.'') s }) s"

text \<open>The rest of the line, not only a word, becomes the lock.\<close>

definition chan_set_mlock :: "chan_cmd" where
  "chan_set_mlock nptr uptr chptr all s =
     guards nptr [(map_option Not (can_set uptr chptr s), denied)] (\<lambda>s.
       if \<not> is_empty all \<and> hd (the all) \<notin> {CHR ''+'', CHR ''-''}
       then NoticeToUser nptr (''The modes param must start by '' @ [CHR 0x27] @ ''+'' @ [CHR 0x27] @ '' or '' @ [CHR 0x27] @ ''-'' @ [CHR 0x27]) s
       else do {
         c \<leftarrow> chptr;
         let lock = (if is_empty all \<or> tl (the all) = [] then [] else strncpy (the all) 50);
         s \<leftarrow> upd_chan c (\<lambda>x. x\<lparr>c_mlock := lock\<rparr>) s;
         ch \<leftarrow> chan_at s c;
         if lock = [] then NoticeToUser nptr (''Mlock removed for channel '' @ c_name ch) s
         else do {
           s \<leftarrow> NoticeToUser nptr (''Mlock for channel '' @ c_name ch @ '' set to '' @ bold lock) s;
           bn \<leftarrow> channel_botname c s;
           Some (send_raw ('':'' @ bn @ '' MODE '' @ c_name ch @ '' '' @ lock) s) } }) s"

definition chan_set_founder :: "chan_cmd" where
  "chan_set_founder nptr uptr chptr all s =
     (let arg1 = arg1_of all in
      guards nptr [(map_option Not (orM (IsTrueOwner uptr chptr s) (is_staff nptr uptr s)), denied)] (\<lambda>s.
        case find_user arg1 s of
          None \<Rightarrow> NoticeToUser nptr (''The user '' @ pr arg1 @ '' is not registered'') s
        | Some uptr2 \<Rightarrow> do {
            c \<leftarrow> chptr;
            ch \<leftarrow> chan_at s c;
            uptr3 \<leftarrow> find_user (Some (c_owner ch)) s;
            s \<leftarrow> DeleteUserFromChannel uptr3 c s;
            s \<leftarrow> upd_chan c (\<lambda>x. x\<lparr>c_owner := strncpy (the arg1) NICKLEN\<rparr>) s;
            s \<leftarrow> DeleteUserFromChannel uptr2 c s;
            (_, s) \<leftarrow> AddUserToChannel uptr2 c CHLEV_OWNER UFLAG_CHANOWNER s;
            NoticeToUser nptr (''Founder of '' @ c_name ch @ '' changed to '' @ bold (the arg1)) s }) s)"

text \<open>Without arguments the buffer of \<open>chan_set\<close> is read uninitialised.\<close>

definition chan_set :: "(string \<Rightarrow> chan_cmd) \<Rightarrow> command list \<Rightarrow> chan_cmd" where
  "chan_set call cs nptr uptr chptr all s =
     do { a \<leftarrow> all;
          buf \<leftarrow> strbuf a 512;
          let (arg3, r) = SeperateWord (Some buf);
          let (arg4, arg5) = args2 r;
          if \<not> chan_arg arg3 \<or> is_empty arg4 \<or> is_empty arg5
          then NoticeToUser nptr (syntax_msg (''CHAN SET '' @ ul ''#channel'' @ '' '' @ ul ''option'' @ '' '' @ ul ''value'')) s
          else if chptr = None then NoticeToUser nptr no_chan s
          else (case find (\<lambda>c. is_command arg4 CMD_CHAN CMD_CHAN_SET c) cs of
              None \<Rightarrow> NoticeToUser nptr ''Unknown option'' s
            | Some cmd \<Rightarrow>
                run_command (\<lambda>f nptr uptr. call f nptr uptr chptr) cmd nptr uptr
                  (snd (SeperateWord (snd (SeperateWord all)))) s) }"

end
