(* ===== verification/ChanCmds.thy ===== *)
theory ChanCmds
  imports ChanSet
begin

section \<open>The other commands on channels: src/src/modules/m\_chan.c\<close>

definition not_suspended_private :: "ptr \<Rightarrow> ptr option \<Rightarrow> ptr \<Rightarrow> core \<Rightarrow> bool option" where
  "not_suspended_private nptr uptr c s =
     do { ch \<leftarrow> chan_at s c;
          if HasCOption ch COPT_PRIVATE
          then orM (ChannelCanReadACL uptr (Some c) s) (founder_or_staff nptr uptr c s) else Some True }"

definition option_names :: "(flags \<times> string) list" where
  "option_names =
     [(COPT_NOJOIN, ''Nojoin ''), (COPT_NOAUTO, ''Noauto ''), (COPT_AVOICE, ''Avoice ''), (COPT_AOP, ''Aop ''),
      (COPT_PRIVATE, ''Private ''), (COPT_STRICTOP, ''Strictop ''), (COPT_SECURE, ''Secure ''),
      (COPT_PROTECTOPS, ''Protectops ''), (COPT_MASS, ''Mass ''), (COPT_ENFTOPIC, ''Enftopic ''),
      (COPT_AXXFLAGS, ''Axxflags ''), (COPT_NOEXPIRE, ''Noexpire '')]"

definition option_line :: "chan \<Rightarrow> string" where
  "option_line ch =
     (let opt = concat (map (\<lambda>(f, n). if HasCOption ch f then n else []) option_names) in
      if opt = [] then ''None'' else opt)"

definition chan_info_lines :: "lib \<Rightarrow> chan \<Rightarrow> string list" where
  "chan_info_lines L ch =
     [''Founder: '' @ c_owner ch, ''Options: '' @ option_line ch] @
     (if c_mlock ch \<noteq> [] then [''Mlock: '' @ c_mlock ch] else []) @
     (if 0 < c_autolimit ch then [''Autolimit: '' @ dec (c_autolimit ch)] else []) @
     [''Registration time: '' @ (if c_regtime ch \<noteq> 0 then ctime_of L (c_regtime ch) else ''Unknown'')] @
     (if HasCOption ch COPT_SUSPENDED then [''Channel suspended''] else [])"

definition chan_info :: "lib \<Rightarrow> chan_cmd" where
  "chan_info L nptr uptr chptr all s =
     (let arg3 = arg1_of all in
      on_channel (chan_arg arg3) (''Syntax: '' @ bold ''CHAN INFO #channel'') no_chan
        (''The channel '' @ pr arg3 @ '' is private.'') (not_suspended_private nptr uptr)
        (\<lambda>c s. do {
           ch \<leftarrow> chan_at s c;
           s \<leftarrow> NoticeToUser nptr (''Informations for channel '' @ bold (the arg3) @ '':'') s;
           foldM (NoticeToUser nptr) (chan_info_lines L ch) s }) nptr chptr s)"

definition chan_entrymsg :: "chan_cmd" where
  "chan_entrymsg nptr uptr chptr all s =
     (let (arg3, r) = SeperateWord all in
      with_access (chan_arg arg3) (syntax_msg (''CHAN ENTRYMSG '' @ ul ''#channel'' @ '' ['' @ ul ''entrymsg'' @ '']''))
        no_chan denied ChannelCanSet
        (\<lambda>c s.
           if is_empty r then do {
             s \<leftarrow> upd_chan c (\<lambda>x. x\<lparr>c_entrymsg := []\<rparr>) s;
             NoticeToUser nptr (''Entrymsg removed for '' @ the arg3) s }
           else do {
             s \<leftarrow> upd_chan c (\<lambda>x. x\<lparr>c_entrymsg := strncpy (the r) 249\<rparr>) s;
             NoticeToUser nptr (''Entrymsg set for '' @ the arg3) s }) nptr uptr chptr s)"

subsection \<open>Clearing modes\<close>

text \<open>The three commands that only send lines.\<close>

definition clear_cmd ::
  "string \<Rightarrow> (ptr option \<Rightarrow> ptr option \<Rightarrow> core \<Rightarrow> bool option) \<Rightarrow> (string \<Rightarrow> string list) \<Rightarrow> chan_cmd" where
  "clear_cmd name can lines nptr uptr chptr all s =
     (let arg3 = arg1_of all in
      with_access (chan_arg arg3) (syntax_msg (''CHAN '' @ name @ '' '' @ ul ''#channel'')) no_chan denied can
        (\<lambda>c s. NoticeToUser nptr ''Done.'' (fold send_raw (lines (the arg3)) s)) nptr uptr chptr s)"

definition mode_clear :: "string \<Rightarrow> string" where
  "mode_clear ch = ''MODE '' @ ch @ '' -cfijklmnprstzACGMKLNOQRSTVu''"

definition chan_clearchan :: "chan_cmd" where
  "chan_clearchan = clear_cmd ''CLEARCHAN'' ChannelCanProtect
     (\<lambda>ch. [mode_clear ch, ''SVSMODE '' @ ch @ '' -beIqaohv''])"
definition chan_clearmodes :: "chan_cmd" where
  "chan_clearmodes = clear_cmd ''CLEARMODES'' ChannelCanProtect (\<lambda>ch. [mode_clear ch])"
definition chan_unbanall :: "chan_cmd" where
  "chan_unbanall = clear_cmd ''UNBANALL'' ChannelCanOp (\<lambda>ch. [''SVSMODE '' @ ch @ '' -b''])"

subsection \<open>Kicking\<close>

definition requested :: "string \<Rightarrow> string" where
  "requested nick = ''('' @ nick @ '') Requested''"

text \<open>
  A walk over the members, with a body that may delete the one it is at. The walk reads the list again
  after each one: the channel, freed with its last member, is then read after it was freed.
\<close>

definition each_member :: "ptr \<Rightarrow> (ptr \<Rightarrow> core \<Rightarrow> core option) \<Rightarrow> core \<Rightarrow> core option" where
  "each_member w body s =
     do { wc \<leftarrow> wchan_at s w;
          foldM (\<lambda>m s. do {
            mb \<leftarrow> member_at s m;
            s \<leftarrow> body (m_nick mb) s;
            if wchan_at s w = None then None else Some s }) (w_members wc) s }"

definition kick_all :: "ptr \<Rightarrow> ptr \<Rightarrow> string \<Rightarrow> core \<Rightarrow> core option" where
  "kick_all nptr c bn s =
     do { ch \<leftarrow> chan_at s c;
          case find_wchan (Some (c_name ch)) s of None \<Rightarrow> Some s
          | Some w \<Rightarrow>
              each_member w (\<lambda>x s.
                if x = nptr then Some s
                else do {
                  n \<leftarrow> nick_at s x;
                  me \<leftarrow> nick_at s nptr;
                  if HasUmode n UMODE_OPER then Some s
                  else KickUser bn (n_name n) (c_name ch) (''('' @ n_name me @ '') Kicking all users'') s }) s }"

text \<open>Whether the target is identified and outranks the sender.\<close>

definition kick_refused :: "ptr option \<Rightarrow> string \<Rightarrow> ptr \<Rightarrow> core \<Rightarrow> bool option" where
  "kick_refused uptr arg4 c s =
     (case find_user (Some arg4) s of None \<Rightarrow> Some False
      | Some u2 \<Rightarrow> andM (IsAuthed (Some u2) s) (do {
          ch \<leftarrow> chan_at s c;
          if HasCOption ch COPT_AXXFLAGS
          then map_option Not (ChannelCanOverride uptr (Some u2) (Some c) s)
          else do { f \<leftarrow> GetFlag uptr (Some c) s; f2 \<leftarrow> GetFlag (Some u2) (Some c) s; Some (f < f2) } }))"

definition kick_nick :: "ptr \<Rightarrow> ptr option \<Rightarrow> ptr \<Rightarrow> string \<Rightarrow> string \<Rightarrow> cstring \<Rightarrow> core \<Rightarrow> core option" where
  "kick_nick nptr uptr c bn arg4 reason s =
     do { no \<leftarrow> kick_refused uptr arg4 c s;
          if no then NoticeToUser nptr (''Cannot kick '' @ bold arg4 @ '' (insufficient access level)'') s
          else do {
            ch \<leftarrow> chan_at s c;
            n \<leftarrow> nick_at s nptr;
            KickUser bn arg4 (c_name ch)
              (if is_empty reason then requested (n_name n) else ''('' @ n_name n @ '') '' @ the reason) s } }"

definition chan_kick :: "chan_cmd" where
  "chan_kick nptr uptr chptr all s =
     (let (arg3, r) = SeperateWord all; (arg4, reason) = SeperateWord r in
      with_access (chan_arg arg3)
        (syntax_msg (''CHAN KICK '' @ ul ''#channel'' @ '' '' @ ul ''nick'' @ '' ['' @ ul ''reason'' @ '']'')) no_chan denied
        ChannelCanHalfop
        (\<lambda>c s. do {
           bn \<leftarrow> channel_botname c s;
           ch \<leftarrow> chan_at s c;
           n \<leftarrow> nick_at s nptr;
           if is_empty arg4 then KickUser bn (n_name n) (c_name ch) (requested (n_name n)) s
           else if streq arg4 (Some bn)
           then KickUser bn (n_name n) (c_name ch) (''Don'' @ [CHR 0x27] @ ''t touch !'') s
           else if streq arg4 (Some ''*'') then kick_all nptr c bn s
           else kick_nick nptr uptr c bn (the arg4) reason s }) nptr uptr chptr s)"

subsection \<open>Bots\<close>

definition chan_assign :: "chan_cmd" where
  "chan_assign nptr uptr chptr all s =
     (let (arg1, arg2) = args2 all in
      on_channel (chan_arg arg1 \<and> \<not> is_empty arg2)
        (syntax_msg (''CHAN ASSIGN '' @ ul ''#channel'' @ '' '' @ ul ''botnick'')) no_chan denied (founder_or_staff nptr uptr)
        (\<lambda>c s. do {
           ch \<leftarrow> chan_at s c;
           if c_chanbot ch \<noteq> None
           then NoticeToUser nptr ''There is already a bot assigned to this channel. Please unassign it before.'' s
           else (case find_bot arg2 s of None \<Rightarrow> NoticeToUser nptr ''This bot does not exist'' s
             | Some b \<Rightarrow> do {
                 s \<leftarrow> PartChannel c s;
                 s \<leftarrow> upd_chan c (\<lambda>x. SetCOption COPT_NOJOIN (x\<lparr>c_chanbot := Some b\<rparr>)) s;
                 s \<leftarrow> JoinChannel (the arg2) (the arg1) s;
                 NoticeToUser nptr (''Bot '' @ bold (the arg2) @ '' assigned to channel '' @ bold (the arg1)) s }) })
        nptr chptr s)"

definition chan_unassign :: "chan_cmd" where
  "chan_unassign nptr uptr chptr all s =
     (let arg1 = arg1_of all in
      on_channel (chan_arg arg1) (syntax_msg (''CHAN UNASSIGN '' @ ul ''#channel'')) no_chan denied
        (founder_or_staff nptr uptr)
        (\<lambda>c s. do {
           ch \<leftarrow> chan_at s c;
           case c_chanbot ch of None \<Rightarrow> NoticeToUser nptr ''There is no bot assigned to this channel'' s
           | Some b \<Rightarrow> do {
               bt \<leftarrow> bot_at s b;
               s \<leftarrow> upd_chan c (\<lambda>x. x\<lparr>c_chanbot := None\<rparr>)
                     (send_raw ('':'' @ b_nick bt @ '' PART '' @ the arg1 @ '' :Channel unassigned'') s);
               NoticeToUser nptr (''Channel unassigned. You can now either let the channel without bot or make '' @
                 cfg_nick (cfg s) @ '' join it with command /msg '' @ cfg_nick (cfg s) @ '' chan set '' @ the arg1 @
                 '' nojoin off'') s } }) nptr chptr s)"

definition chan_botlist :: "chan_cmd" where
  "chan_botlist nptr uptr chptr all s =
     do { s \<leftarrow> NoticeToUser nptr ''List of available bots :'' s;
          s \<leftarrow> foldM (\<lambda>p s. do {
                 b \<leftarrow> bot_at s p;
                 NoticeToUser nptr (''     '' @ bold (b_nick b) @ '' ('' @ b_ident b @ ''@'' @ b_host b @ '')'') s })
               (map snd (bots s)) s;
          NoticeToUser nptr (''End of list ('' @ dec (int (length (bots s))) @ '' entries).'') s }"

text \<open>A bot whose name is too long for the table may already be there: \<open>add_bot\<close> then returns NULL.\<close>

definition chan_addbot :: "chan_cmd" where
  "chan_addbot nptr uptr chptr all s =
     (let (arg1, r) = SeperateWord all; (arg2, r) = SeperateWord r; (arg3, _) = SeperateWord r in
      if is_empty arg1 \<or> is_empty arg2 \<or> is_empty arg3 then
        NoticeToUser nptr (syntax_msg (''CHAN ADDBOT '' @ ul ''nick'' @ '' '' @ ul ''ident'' @ '' '' @ ul ''host'')) s
      else if find_bot arg1 s \<noteq> None then NoticeToUser nptr ''This bot already exists'' s
      else do {
        let (r, s) = add_bot (the arg1) (the arg2) (the arg3) s;
        b \<leftarrow> r;
        (uid, s) \<leftarrow> generate_uid s;
        s \<leftarrow> upd_bot b (\<lambda>x. x\<lparr>b_uid := uid\<rparr>) s;
        s \<leftarrow> fakeuser (the arg1) (the arg2) (the arg3) uid BOTSERV_UMODES s;
        NoticeToUser nptr ''Done.'' (send_raw (''SQLINE '' @ the arg1 @ '' :Reserved for services'') s) })"

definition clear_bot :: "ptr \<Rightarrow> ptr \<Rightarrow> core \<Rightarrow> core option" where
  "clear_bot b p s =
     do { ch \<leftarrow> chan_at s p;
          if c_chanbot ch = Some b then upd_chan p (\<lambda>x. x\<lparr>c_chanbot := None\<rparr>) s else Some s }"

definition chan_delbot :: "chan_cmd" where
  "chan_delbot nptr uptr chptr all s =
     (case find_bot (arg1_of all) s of None \<Rightarrow> NoticeToUser nptr ''This bot does not exist'' s
      | Some b \<Rightarrow> do {
          s \<leftarrow> foldM (clear_bot b) (map snd (chans s)) s;
          bt \<leftarrow> bot_at s b;
          s \<leftarrow> fakekill (b_nick bt) ''Bot deleted'' s;
          s \<leftarrow> remove_bot b s;
          NoticeToUser nptr ''Done.'' s })"

subsection \<open>Access to a channel by its name\<close>

text \<open>The opening of the later commands, that name the channel that is not registered.\<close>

definition chan_resync :: "chan_cmd" where
  "chan_resync nptr uptr chptr all s =
     (let ch = arg1_of all in
      with_access (\<not> is_empty ch) (syntax_msg (''CHAN RESYNC '' @ ul ''#channel'')) (no_chan_named ch) denied
        ChannelCanProtect
        (\<lambda>c s. do { s \<leftarrow> acl_resync c s; NoticeToUser nptr ''Channel resynced.'' s }) nptr uptr chptr s)"

definition denied_dot :: string where "denied_dot = ''Access denied.''"

definition outranks_msg :: "string \<Rightarrow> string" where
  "outranks_msg a = ''User '' @ a @ '' outranks you.''"

text \<open>What \<open>suspend\<close> and \<open>unsuspend\<close> share: the account, its entry, the rank, then the new value.\<close>

definition on_entry ::
  "string \<Rightarrow> (ptr \<Rightarrow> ptr \<Rightarrow> ptr \<Rightarrow> string \<Rightarrow> core \<Rightarrow> core option) \<Rightarrow> chan_cmd" where
  "on_entry name body nptr uptr chptr all s =
     (let (ch, arg1) = args2 all in
      with_access (\<not> is_empty ch \<and> \<not> is_empty arg1)
        (''Syntax: CHAN '' @ name @ '' '' @ bold ''#channel'' @ '' '' @ bold ''username'') (no_chan_named ch) denied_dot
        ChannelCanACL
        (\<lambda>c s.
           case find_user arg1 s of None \<Rightarrow> NoticeToUser nptr (''User '' @ the arg1 @ '' does not exist.'') s
           | Some u2 \<Rightarrow> do {
               r \<leftarrow> find_cflag c u2 s;
               case r of None \<Rightarrow> NoticeToUser nptr (''User '' @ the arg1 @ '' is not on channel access list.'') s
               | Some p \<Rightarrow> body c u2 p (the arg1) s }) nptr uptr chptr s)"

definition set_suspended :: "int \<Rightarrow> ptr \<Rightarrow> ptr \<Rightarrow> string \<Rightarrow> core \<Rightarrow> core option" where
  "set_suspended v nptr p msg s =
     do { s \<leftarrow> upd_cflag p (\<lambda>x. x\<lparr>cf_suspended := v\<rparr>) s; NoticeToUser nptr msg s }"

definition rank_axx :: "bool \<Rightarrow> ptr option \<Rightarrow> ptr \<Rightarrow> ptr \<Rightarrow> core \<Rightarrow> bool option" where
  "rank_axx self uptr u2 c s =
     orM (map_option Not (ChannelCanWriteACL uptr (Some u2) (Some c) s)) (Some (self \<and> uptr = Some u2))"

definition is_axx :: "ptr \<Rightarrow> core \<Rightarrow> bool option" where
  "is_axx c s = map_option (\<lambda>ch. HasCOption ch COPT_AXXFLAGS) (chan_at s c)"

definition chan_suspend :: "chan_cmd" where
  "chan_suspend nptr uptr chptr all s =
     on_entry ''SUSPEND'' (\<lambda>c u2 p arg1 s. do {
       a \<leftarrow> is_axx c s;
       guards nptr
         ((if a then [(rank_axx True uptr u2 c s, outranks_msg arg1)]
           else [(map_option (\<lambda>f. f = 0) (GetFlag (Some u2) (Some c) s),
                  ''User '' @ arg1 @ '' is not on channel access list or already suspended.''),
                 (do { f2 \<leftarrow> GetFlag (Some u2) (Some c) s; f \<leftarrow> GetFlag uptr (Some c) s; Some (f \<le> f2) },
                  outranks_msg arg1)]) @
          [(map_option (\<lambda>x. cf_suspended x = 1) (cflag_at s p),
            ''The access of '' @ arg1 @ '' is already suspended.'')])
         (set_suspended 1 nptr p (''The access of '' @ arg1 @ '' is now suspended.'')) s }) nptr uptr chptr all s"

definition chan_unsuspend :: "chan_cmd" where
  "chan_unsuspend nptr uptr chptr all s =
     on_entry ''UNSUSPEND'' (\<lambda>c u2 p arg1 s. do {
       a \<leftarrow> is_axx c s;
       guards nptr
         [(if a then rank_axx False uptr u2 c s
           else do { x \<leftarrow> cflag_at s p; f \<leftarrow> GetFlag uptr (Some c) s; Some (f \<le> cf_flags x) }, outranks_msg arg1),
          (map_option (\<lambda>x. cf_suspended x = 0) (cflag_at s p), ''The access of '' @ arg1 @ '' is not suspended.'')]
         (set_suspended 0 nptr p (''The access of '' @ arg1 @ '' is now restored.'')) s }) nptr uptr chptr all s"

subsection \<open>Timed bans and the topic\<close>

text \<open>The text of \<open>ctime\<close> is cut at its newline, which must be there.\<close>

definition cut_line :: "string \<Rightarrow> string option" where
  "cut_line t = (if strchr t (CHR 0x0A) = None then None else Some (takeWhile (\<lambda>c. c \<noteq> CHR 0x0A) t))"

definition ban_line :: "lib \<Rightarrow> ptr \<Rightarrow> ptr \<Rightarrow> core \<Rightarrow> core option" where
  "ban_line L nptr p s =
     do { tb \<leftarrow> timeban_at s p;
          t1 \<leftarrow> cut_line (ctime_of L (tb_setat tb));
          t2 \<leftarrow> (if tb_duration tb = -1 then Some ''never'' else cut_line (ctime_of L (tb_setat tb + tb_duration tb)));
          NoticeToUser nptr (bold (tb_mask tb) @ '', Set at: '' @ t1 @ '', Expire at: '' @ t2 @ '', Reason: '' @ tb_reason tb) s }"

definition chan_banlist :: "lib \<Rightarrow> chan_cmd" where
  "chan_banlist L nptr uptr chptr all s =
     (let arg = arg1_of all in
      with_access (\<not> is_empty arg) (syntax_msg (''CHAN BANLIST '' @ ul ''#channel'')) (no_chan_named arg) denied_dot
        ChannelCanHalfop
        (\<lambda>c s. do {
           ch \<leftarrow> chan_at s c;
           s \<leftarrow> NoticeToUser nptr (''List of timebans for channel '' @ c_name ch @ '' :'') s;
           s \<leftarrow> foldM (ban_line L nptr) (c_timebans ch) s;
           NoticeToUser nptr ''End of list.'' s }) nptr uptr chptr s)"

definition chan_clearbans :: "chan_cmd" where
  "chan_clearbans nptr uptr chptr all s =
     (let arg = arg1_of all in
      with_access (\<not> is_empty arg) (syntax_msg (''CHAN CLEARBANS '' @ ul ''#channel'')) (no_chan_named arg) denied_dot
        ChannelCanProtect
        (\<lambda>c s. do {
           ch \<leftarrow> chan_at s c;
           s \<leftarrow> foldM DeleteTimeban (c_timebans ch) s;
           NoticeToUser nptr ''Banlist cleared.'' s }) nptr uptr chptr s)"

definition chan_topic :: "chan_cmd" where
  "chan_topic nptr uptr chptr all s =
     (let (arg, topic) = SeperateWord all in
      with_access (\<not> is_empty arg) (''Syntax '' @ bold (''CHAN TOPIC '' @ ul ''#channel'' @ '' ['' @ ul ''topic'' @ '']''))
        (no_chan_named arg) denied_dot ChannelCanTopic
        (\<lambda>c s. do {
           n \<leftarrow> nick_at s nptr;
           let t = (if is_empty topic then [] else the topic);
           s \<leftarrow> upd_chan c (\<lambda>x. x\<lparr>c_topic := strncpy t TOPICLEN\<rparr>) s;
           bn \<leftarrow> channel_botname c s;
           NoticeToUser nptr (if is_empty topic then ''Topic cleared.'' else ''Done.'')
             (send_raw ('':'' @ bn @ '' TOPIC '' @ the arg @ '' '' @ n_name n @ ''!'' @ n_ident n @ ''@'' @ n_hiddenhost n @
               '' '' @ dec (clock s) @ '' :'' @ t) s) }) nptr uptr chptr s)"

subsection \<open>The access list by flags\<close>

definition flags_syntax :: "string \<Rightarrow> string" where
  "flags_syntax name = syntax_msg (''CHAN '' @ name @ '' '' @ ul ''#channel'' @ '' ['' @ ul ''username'' @ '' {+|-}'' @
     ul ''flags'' @ '']'')"

definition flags_line :: "ptr \<Rightarrow> ptr \<Rightarrow> core \<Rightarrow> core option" where
  "flags_line nptr p s =
     do { cf \<leftarrow> cflag_at s p;
          u \<leftarrow> user_at s (cf_user cf);
          NoticeToUser nptr (stat_name (cf_suspended cf) @ ''   '' @ get_uflags_string (cf_uflags cf) @ ''    '' @ u_nick u) s }"

definition flags_list :: "ptr \<Rightarrow> ptr option \<Rightarrow> ptr \<Rightarrow> string \<Rightarrow> core \<Rightarrow> core option" where
  "flags_list nptr uptr c arg1 s =
     guards nptr [(map_option Not (ChannelCanReadACL uptr (Some c) s), denied_dot)] (\<lambda>s. do {
       s \<leftarrow> NoticeToUser nptr (''Access list for '' @ arg1 @ '' :'') s;
       s \<leftarrow> NoticeToUser nptr (bold ''Status'' @ ''       '' @ bold ''Flags'' @ ''       '' @ bold ''Nick'') s;
       ch \<leftarrow> chan_at s c;
       s \<leftarrow> foldM (flags_line nptr) (c_cflags ch) s;
       NoticeToUser nptr ''End of access list.'' s }) s"

definition flags_add :: "ptr \<Rightarrow> ptr \<Rightarrow> ptr \<Rightarrow> uflags \<Rightarrow> core \<Rightarrow> core option" where
  "flags_add nptr u2 c fl s =
     guards nptr
       [(andM (Some (has_flag fl UFLAG_COOWNER)) (map_option (\<lambda>r. r \<noteq> None) (get_coowner c s)),
         ''Cannot set more than one co-owner.''),
        (andM (Some (has_flag fl UFLAG_COOWNER)) (IsTrueOwner (Some u2) (Some c) s),
         ''You are already the owner of this channel. Why the hell do you want to be co-owner ?'')]
       (\<lambda>s. do {
          r \<leftarrow> find_cflag c u2 s;
          s \<leftarrow> (case r of None \<Rightarrow> map_option snd (AddUserToChannel u2 c 0 fl s)
               | Some p \<Rightarrow> upd_cflag p (\<lambda>x. x\<lparr>cf_uflags := cf_uflags x OR fl\<rparr>) s);
          NoticeToUser nptr ''Done.'' s }) s"

definition flags_remove :: "ptr \<Rightarrow> ptr \<Rightarrow> ptr \<Rightarrow> uflags \<Rightarrow> core \<Rightarrow> core option" where
  "flags_remove nptr u2 c fl s =
     do { r \<leftarrow> find_cflag c u2 s;
          case r of None \<Rightarrow> NoticeToUser nptr ''Cannot remove flags from a non existent user'' s
          | Some p \<Rightarrow> do {
              s \<leftarrow> upd_cflag p (\<lambda>x. x\<lparr>cf_uflags := cf_uflags x AND NOT fl\<rparr>) s;
              x \<leftarrow> cflag_at s p;
              s \<leftarrow> (if cf_uflags x = 0 then DeleteUserFromChannel u2 c s else Some s);
              NoticeToUser nptr ''Done.'' s } }"

definition flags_modify :: "ptr \<Rightarrow> ptr option \<Rightarrow> ptr \<Rightarrow> cstring \<Rightarrow> string \<Rightarrow> core \<Rightarrow> core option" where
  "flags_modify nptr uptr c arg2 arg3 s =
     guards nptr [(map_option Not (allowed ChannelCanACL uptr (Some c) s), denied_dot)] (\<lambda>s.
       case find_user arg2 s of None \<Rightarrow> NoticeToUser nptr ''This user does not exist.'' s
       | Some u2 \<Rightarrow>
           (let fl = parse_uflags (tl arg3);
                ret = Option.bind uptr (\<lambda>p. can_modify_uflag p c fl s) in
            guards nptr
              [(Some (hd arg3 \<notin> {CHR ''+'', CHR ''-''}), flags_syntax ''FLAGS''),
               (Some (fl = 0), ''No modification will be done.''),
               (map_option Not (ChannelCanWriteACL uptr (Some u2) (Some c) s), denied_dot),
               (map_option (\<lambda>r. r = 0) ret, denied_dot),
               (map_option (\<lambda>r. r = 1 \<and> uptr \<noteq> Some u2) ret, denied_dot)]
              (if hd arg3 = CHR ''+'' then flags_add nptr u2 c fl else flags_remove nptr u2 c fl) s)) s"

definition chan_flags :: "chan_cmd" where
  "chan_flags nptr uptr chptr all s =
     (let (arg1, r) = SeperateWord all; (arg2, r) = SeperateWord r; (arg3, _) = SeperateWord r in
      if is_empty arg1 then NoticeToUser nptr (flags_syntax ''ACCESS'') s
      else (case chptr of None \<Rightarrow> NoticeToUser nptr (no_chan_named arg1) s
        | Some c \<Rightarrow> do {
            a \<leftarrow> is_axx c s;
            if \<not> a then NoticeToUser nptr
              (''The '' @ bold ''AXXFLAGS'' @ '' option must be enabled in order to use this command.'') s
            else if is_empty arg2 then flags_list nptr uptr c (the arg1) s
            else if is_empty arg3 then NoticeToUser nptr (flags_syntax ''ACCESS'') s
            else flags_modify nptr uptr c arg2 (the arg3) s }))"

subsection \<open>Dispatching\<close>

definition chan_access_cmd :: "chan_cmd" where
  "chan_access_cmd nptr uptr chptr all s =
     (case chptr of None \<Rightarrow> NoticeToUser nptr no_chan s
      | Some c \<Rightarrow> do {
          a \<leftarrow> is_axx c s;
          if a then chan_flags nptr uptr chptr all s else level_access nptr uptr chptr all s })"

text \<open>
  The third word of the message is looked up as a channel before the command is found. The search for
  the command ignores subtypes: \<open>chan mlock\<close> reaches the function of \<open>chan set\<close>.
\<close>

definition do_chan :: "nick_cmd \<Rightarrow> (string \<Rightarrow> chan_cmd) \<Rightarrow> command list \<Rightarrow> nick_cmd" where
  "do_chan help call cs nptr uptr all s =
     (let arg3 = arg1_of (snd (SeperateWord (snd (SeperateWord all)))) in
      do_service ''chan'' CMD_CHAN help (\<lambda>f nptr uptr. call f nptr uptr (find_channel arg3 s)) cs nptr uptr all s)"

definition chan_option_functions :: "(string \<times> chan_cmd) list" where
  "chan_option_functions =
     [(''chan_set_strictop'', chan_set_strictop), (''chan_set_secure'', chan_set_secure),
      (''chan_set_protectops'', chan_set_protectops), (''chan_set_private'', chan_set_private),
      (''chan_set_nojoin'', chan_set_nojoin), (''chan_set_noauto'', chan_set_noauto),
      (''chan_set_mlock'', chan_set_mlock), (''chan_set_mass'', chan_set_mass),
      (''chan_set_founder'', chan_set_founder), (''chan_set_enftopic'', chan_set_enftopic),
      (''chan_set_axxflags'', chan_set_axxflags), (''chan_set_avoice'', chan_set_avoice),
      (''chan_set_autolimit'', chan_set_autolimit), (''chan_set_aop'', chan_set_aop)]"

definition chan_call_in :: "(string \<times> chan_cmd) list \<Rightarrow> string \<Rightarrow> chan_cmd" where
  "chan_call_in t f nptr uptr chptr all s =
     (case map_of t f of None \<Rightarrow> None | Some g \<Rightarrow> g nptr uptr chptr all s)"

definition chan_functions :: "lib \<Rightarrow> command list \<Rightarrow> (string \<times> chan_cmd) list" where
  "chan_functions L cs = chan_option_functions @
     [(''chan_voice'', chan_voice), (''chan_unsuspend'', chan_unsuspend), (''chan_unbanall'', chan_unbanall),
      (''chan_unassign'', chan_unassign), (''chan_topic'', chan_topic), (''chan_suspend'', chan_suspend),
      (''chan_set'', chan_set (chan_call_in chan_option_functions) cs), (''chan_resync'', chan_resync),
      (''chan_register'', chan_register), (''chan_op'', chan_op), (''chan_kick'', chan_kick),
      (''chan_invite'', chan_invite), (''chan_info'', chan_info L), (''chan_halfop'', chan_halfop),
      (''chan_entrymsg'', chan_entrymsg), (''chan_drop'', chan_drop), (''chan_devoice'', chan_devoice),
      (''chan_deop'', chan_deop), (''chan_delbot'', chan_delbot), (''chan_dehalfop'', chan_dehalfop),
      (''chan_clearmodes'', chan_clearmodes), (''chan_clearchan'', chan_clearchan),
      (''chan_clearbans'', chan_clearbans), (''chan_botlist'', chan_botlist), (''chan_banlist'', chan_banlist L),
      (''chan_assign'', chan_assign), (''chan_addbot'', chan_addbot), (''chan_access'', chan_access_cmd)]"

end
