(* ===== verification/Tables.thy ===== *)
theory Tables
  imports NickServ HostServ ChanCmds
begin

section \<open>Loading and unloading a module\<close>

text \<open>Deleting leaves what stands before the first command that matches.\<close>

lemma del_append:
  assumes "\<forall>c \<in> set cs. \<not> is_command n t u c"
  shows "snd (deleteCommand n t u (cs @ ds)) = cs @ snd (deleteCommand n t u ds)"
proof (cases "position (is_command n t u) ds")
  case None
  with assms show ?thesis
    by (simp add: deleteCommand_def find_command_def position_append position_None [THEN iffD2])
next
  case (Some i)
  with assms show ?thesis
    by (simp add: deleteCommand_def find_command_def position_append position_None [THEN iffD2] delCommand_def)
qed

lemma del_all_append:
  assumes "\<forall>n \<in> set ns. \<forall>c \<in> set cs. \<not> is_command (Some n) t u c"
  shows "del_all t u ns (cs @ ds) = cs @ del_all t u ns ds"
  using assms by (induction ns arbitrary: ds) (simp_all add: del_all_def del_append)

lemma add_all_append: "add_all t u rs (cs @ ds) = cs @ add_all t u rs ds"
  by (induction rs arbitrary: ds) (auto simp: add_all_def addCommand_def split_def)

text \<open>No command of a type, nor the base command with a name.\<close>

definition without :: "int \<Rightarrow> string \<Rightarrow> command list \<Rightarrow> bool" where
  "without ty name cs \<longleftrightarrow> (\<forall>c \<in> set cs. cmd_type c \<noteq> ty \<and>
     \<not> (cmd_type c = CMD_BASE \<and> streq (Some (cmd_name c)) (Some name)))"

lemma without_del:
  assumes "without ty name cs"
  shows "del_all CMD_BASE 0 [name] (cs @ ds) = cs @ del_all CMD_BASE 0 [name] ds"
    "del_all ty u ns (cs @ ds) = cs @ del_all ty u ns ds"
  using assms by (intro del_all_append; auto simp: without_def is_command_def)+

lemma nick_unload:
  assumes "without CMD_NICK ''nick'' cs"
  shows "nick_cleanup (nick_commands cs) = cs"
proof -
  have "nick_cleanup (nick_commands (cs @ [])) = cs @ nick_cleanup (nick_commands [])"
    by (simp only: nick_commands_def nick_cleanup_def add_all_append without_del [OF assms])
  moreover have "nick_cleanup (nick_commands []) = []" by code_simp
  ultimately show ?thesis by simp
qed

lemma host_unload:
  assumes "without CMD_HOST ''host'' cs"
  shows "host_cleanup (host_commands k cs) = cs"
proof -
  have "host_cleanup (host_commands k (cs @ [])) = cs @ host_cleanup (host_commands k [])"
    by (simp only: host_commands_def host_cleanup_def add_all_append without_del [OF assms])
  moreover have "host_cleanup (host_commands k []) = []" by code_simp
  ultimately show ?thesis by simp
qed

lemma chan_unload:
  assumes "without CMD_CHAN ''chan'' cs"
  shows "chan_cleanup (chan_commands k cs) = cs"
proof -
  have "chan_cleanup (chan_commands k (cs @ [])) = cs @ chan_cleanup (chan_commands k [])"
    by (simp only: chan_commands_def chan_cleanup_def add_all_append without_del [OF assms])
  moreover have "chan_cleanup (chan_commands k []) = []" by code_simp
  ultimately show ?thesis by simp
qed

end
