(* ===== verification/Scenes.thy ===== *)
theory Scenes
  imports Examples Guards Identify Modes Tables
begin

section \<open>Concrete services\<close>

text \<open>
  A library whose password hash is the password, and the network of \<open>Examples\<close> behind a table with
  one command of level 1000. \<close>

definition ex_lib :: lib where
  "ex_lib =
     \<lparr>md5_digest = (\<lambda>_. None), pwhash_str = (\<lambda>_ p. (0, p)), pwhash_verify = (\<lambda>h p. if h = p then 0 else -1),
      regex_match = (\<lambda>_ _. False), inet_addr = (\<lambda>_. 0), ctime_of = (\<lambda>_. []), inet_ntop = (\<lambda>_. ''h'')\<rparr>"

definition ex_env :: env where
  "ex_env =
     \<lparr>e_lib = ex_lib, e_hook = (\<lambda>_ _ _ _ _ w. Some (MOD_CONTINUE, w)), e_base = (\<lambda>_ _ _ _ w. Some w),
      e_bot = (\<lambda>_ _ _ _ _ _ w. Some w), e_version = ''1''\<rparr>"

definition ex_sec :: secserv where
  "ex_sec = \<lparr>kills = 0, seclev = 1, perm = 0, old_maxclones = 5, glines = 0, rmode = False\<rparr>"

definition ex_world :: services where
  "ex_world = \<lparr>svc = ex_net, commands = addCommand ''die'' CMD_BASE ''oper_die'' None 0 1000 [], modules = [],
     secv = ex_sec, queries = [], ended = None\<rparr>"

text \<open>A network of one nick that is not identified, with an account of its name.\<close>

definition lone :: "string \<Rightarrow> nick" where
  "lone k = ex_nick\<lparr>n_name := k, n_svid := ''0'', n_account := None, n_wchans := []\<rparr>"

definition lone_user :: "string \<Rightarrow> user" where
  "lone_user k = ex_user\<lparr>u_nick := k, u_authed := 0, u_authed_nick := None, u_pwhash := ''s3cret'', u_cflags := []\<rparr>"

definition lone_net :: "string \<Rightarrow> core" where
  "lone_net k = init_state
     \<lparr>users := [(k, 2)], nicks := [(k, 1)], clones := [(''h'', 3)],
      user_at := [2 \<mapsto> lone_user k], nick_at := [1 \<mapsto> lone k],
      clone_at := [3 \<mapsto> \<lparr>cl_host = ''h'', cl_count = 1\<rparr>], next_ptr := 4\<rparr>"

lemmas lone_defs = lone_net_def lone_def lone_user_def ex_defs

lemma lone_nicks: "nicks_ok (lone_net k)"
  by (simp add: nicks_ok_def table_ok_def om_ok_def lone_defs)

lemma lone_clones: "clones_ok (lone_net k)"
proof -
  have find: "tfind (clones (lone_net k)) h = (if lc ''h'' = lc h then Some 3 else None)" for h
    by (simp add: om_find_def om_entry_def strcasecmp_zero_iff lone_defs)
  have cnt: "host_count (lone_net k) h = (if lc ''h'' = lc h then 1 else 0)" for h
    by (simp add: host_count_def on_host_def lone_defs)
  have "howmanyclones h (lone_net k) = Some (int (host_count (lone_net k) h))" for h
    using find [of h] cnt [of h]
    by (cases "lc ''h'' = lc h") (simp_all add: howmanyclones_Some howmanyclones_None, simp add: lone_defs)
  moreover have "table_ok cl_host (clones (lone_net k)) (clone_at (lone_net k))"
    by (simp add: table_ok_def om_ok_def lone_defs)
  ultimately show ?thesis using find cnt by (simp add: clones_ok_def)
qed

lemma lone_net_ok: "net_ok (lone_net k)"
  using lone_nicks [of k] lone_clones [of k]
  by (simp add: net_ok_def auth_ok_def members_ok_def member_lists_ok_def wchans_ok_def limits_ok_def table_ok_def
      om_ok_def lone_defs)

lemma lone_facts:
  "nick_at (lone_net k) 1 = Some (lone k)" "n_account (lone k) = None" "user_at (lone_net k) 2 = Some (lone_user k)"
  "u_authed (lone_user k) = 0" "u_authed_nick (lone_user k) = None" "n_name (lone k) = k"
  "find_user (Some k) (lone_net k) = Some 2"
  "k \<noteq> [] \<Longrightarrow> find_nick (Some k) (lone_net k) = Some (Some 1)"
  by (simp_all add: find_user_def find_nick_def om_find_def om_entry_def strcasecmp_zero_iff streq_Some_iff lone_defs)

lemma lone_sec: "sec_ok (ex_sec, lone_net k)"
  by (simp add: sec_ok_def level_clones_def ex_sec_def lone_defs default_config_def)

end
