(* ===== verification/BotCmds.thy ===== *)
theory BotCmds
  imports ChanCmds Messages "HOL-Library.Signed_Division"
begin

section \<open>The commands said on a channel: src/src/modules/m\_bot.c\<close>

text \<open>
  A command gets the sender, its account, the registered channel and the live one, and the rest of the
  line. Whoever may not run it gets no answer.
\<close>

type_synonym bot_cmd = "ptr \<Rightarrow> ptr option \<Rightarrow> ptr \<Rightarrow> ptr \<Rightarrow> cstring \<Rightarrow> core \<Rightarrow> core option"

definition bot_commands :: "command list \<Rightarrow> command list" where
  "bot_commands =
     add_all CMD_BOT 0
       [(''!voiceall'', ''bot_voiceall'', 1), (''!voice'', ''bot_voice'', 1), (''!unban'', ''bot_unban'', 1),
        (''!topic'', ''bot_topic'', 1), (''!tb'', ''bot_tb'', 1), (''!seen'', ''bot_seen'', 0),
        (''!protect'', ''bot_protect'', 1), (''!owner'', ''bot_owner'', 1), (''!opopop'', ''bot_opopop'', 1),
        (''!opall'', ''bot_opall'', 1), (''!op'', ''bot_op'', 1), (''!moo'', ''bot_moo'', 1), (''!kick'', ''bot_kick'', 1),
        (''!rkick'', ''bot_rkick'', 1), (''!kb'', ''bot_kb'', 1), (''!rkb'', ''bot_rkb'', 1),
        (''!halfopall'', ''bot_halfopall'', 1), (''!halfop'', ''bot_halfop'', 1), (''!god'', ''bot_god'', 1),
        (''!fuckall'', ''bot_fuckall'', 1), (''!devoiceall'', ''bot_devoiceall'', 1), (''!devoice'', ''bot_devoice'', 1),
        (''!deprotect'', ''bot_deprotect'', 1), (''!deowner'', ''bot_deowner'', 1), (''!deopall'', ''bot_deopall'', 1),
        (''!deop'', ''bot_deop'', 1), (''!dehalfopall'', ''bot_dehalfopall'', 1), (''!dehalfop'', ''bot_dehalfop'', 1),
        (''!ban'', ''bot_ban'', 1), (''!admin'', ''bot_admin'', 0)]"

definition bot_cleanup :: "command list \<Rightarrow> command list" where
  "bot_cleanup =
     del_all CMD_BOT 0
       [''!god'', ''!owner'', ''!deowner'', ''!protect'', ''!deprotect'', ''!op'', ''!deop'', ''!halfop'', ''!dehalfop'',
        ''!voice'', ''!devoice'', ''!opall'', ''!deopall'', ''!halfopall'', ''!dehalfopall'', ''!voiceall'', ''!devoiceall'',
        ''!opopop'', ''!kick'', ''!rkick'', ''!kb'', ''!rkb'', ''!unban'', ''!ban'', ''!topic'', ''!moo'', ''!seen'',
        ''!admin'', ''!fuckall'', ''!tb'']"

text \<open>Tests one after the other; the body runs when all pass.\<close>

definition passing :: "bool option list \<Rightarrow> (core \<Rightarrow> core option) \<Rightarrow> core \<Rightarrow> core option" where
  "passing ts body s = do { b \<leftarrow> foldr andM ts (Some True); if b then body s else Some s }"

definition bot_may ::
  "(ptr option \<Rightarrow> ptr option \<Rightarrow> core \<Rightarrow> bool option) \<Rightarrow> ptr option \<Rightarrow> ptr \<Rightarrow> core \<Rightarrow> bool option list" where
  "bot_may can uptr c s = [IsAuthed uptr s, allowed can uptr (Some c) s]"

definition bot_god :: "bot_cmd" where
  "bot_god nptr uptr c wc all s =
     passing
       [IsAuthed uptr s,
        orM (do { u \<leftarrow> uptr; r \<leftarrow> find_cflag c u s; Some (r \<noteq> None) }) (IsFounder uptr (Some c) s)]
       (\<lambda>s. do {
          bn \<leftarrow> channel_botname c s;
          w \<leftarrow> wchan_at s wc;
          n \<leftarrow> nick_at s nptr;
          Some (FakeMsg bn (w_chname w) (''stfu '' @ n_name n) s) }) s"

subsection \<open>Status\<close>

text \<open>A mode set for a member that does not have it, or taken from one that has it.\<close>

definition switch_status :: "flags \<Rightarrow> bool \<Rightarrow> ptr \<Rightarrow> ptr \<Rightarrow> ptr \<Rightarrow> ptr \<Rightarrow> core \<Rightarrow> core option" where
  "switch_status flag what c wc m n s =
     do { mb \<leftarrow> member_at s m;
          if HasChanFlag mb flag = what then Some s
          else do {
            w \<leftarrow> wchan_at s wc;
            bn \<leftarrow> channel_botname c s;
            SetStatus (Some n) (w_chname w) flag what bn s } }"

definition if_member :: "ptr \<Rightarrow> ptr \<Rightarrow> (ptr \<Rightarrow> core \<Rightarrow> core option) \<Rightarrow> core \<Rightarrow> core option" where
  "if_member wc n body s = do { r \<leftarrow> find_member wc n s; case r of None \<Rightarrow> Some s | Some m \<Rightarrow> body m s }"

text \<open>
  For oneself with the access \<open>can\<close>; for another member with the access \<open>other\<close>, and as the founder
  when \<open>fo\<close> is set.
\<close>

definition bot_status ::
  "(ptr option \<Rightarrow> ptr option \<Rightarrow> core \<Rightarrow> bool option) \<Rightarrow> (ptr option \<Rightarrow> ptr option \<Rightarrow> core \<Rightarrow> bool option) \<Rightarrow> bool \<Rightarrow>
   flags \<Rightarrow> bool \<Rightarrow> bot_cmd" where
  "bot_status can other fo flag what nptr uptr c wc all s =
     (let arg2 = arg1_of all in
      passing [IsAuthed uptr s] (if_member wc nptr (\<lambda>m s.
        if is_empty arg2
        then passing [allowed can uptr (Some c) s] (switch_status flag what c wc m nptr) s
        else passing [allowed other uptr (Some c) s] (\<lambda>s. do {
          r \<leftarrow> find_nick arg2 s;
          case r of None \<Rightarrow> Some s
          | Some n2 \<Rightarrow> if_member wc n2 (\<lambda>m s.
              passing (if fo then [IsFounder uptr (Some c) s] else []) (switch_status flag what c wc m n2) s) s }) s)) s)"

definition bot_owner_status :: "bool \<Rightarrow> bot_cmd" where
  "bot_owner_status what nptr uptr c wc all s =
     passing [IsAuthed uptr s] (if_member wc nptr (\<lambda>m s.
       passing [IsFounder uptr (Some c) s] (switch_status CHFL_OWNER what c wc m nptr) s)) s"

definition bot_owner :: "bot_cmd" where "bot_owner = bot_owner_status True"
definition bot_deowner :: "bot_cmd" where "bot_deowner = bot_owner_status False"
definition bot_protect :: "bot_cmd" where
  "bot_protect = bot_status ChannelCanProtect ChannelCanProtect True CHFL_PROTECT True"
definition bot_deprotect :: "bot_cmd" where
  "bot_deprotect = bot_status ChannelCanProtect ChannelCanProtect True CHFL_PROTECT False"
definition bot_op :: "bot_cmd" where "bot_op = bot_status ChannelCanOp ChannelCanOp False CHFL_OP True"
definition bot_deop :: "bot_cmd" where "bot_deop = bot_status ChannelCanOp ChannelCanOp False CHFL_OP False"
definition bot_halfop :: "bot_cmd" where "bot_halfop = bot_status ChannelCanHalfop ChannelCanOp False CHFL_HALFOP True"
definition bot_dehalfop :: "bot_cmd" where "bot_dehalfop = bot_status ChannelCanHalfop ChannelCanOp False CHFL_HALFOP False"
definition bot_voice :: "bot_cmd" where "bot_voice = bot_status ChannelCanVoice ChannelCanHalfop False CHFL_VOICE True"
definition bot_devoice :: "bot_cmd" where "bot_devoice = bot_status ChannelCanVoice ChannelCanHalfop False CHFL_VOICE False"

text \<open>Every member that does not have the mode gets it; it is taken from all in one line.\<close>

definition status_all :: "(ptr option \<Rightarrow> ptr option \<Rightarrow> core \<Rightarrow> bool option) \<Rightarrow> flags \<Rightarrow> bot_cmd" where
  "status_all can flag nptr uptr c wc all s =
     passing (bot_may can uptr c s) (\<lambda>s. do {
       w \<leftarrow> wchan_at s wc;
       foldM (\<lambda>m s. do {
         mb \<leftarrow> member_at s m;
         if HasChanFlag mb flag then Some s
         else do {
           ch \<leftarrow> chan_at s c;
           bn \<leftarrow> channel_botname c s;
           SetStatus (Some (m_nick mb)) (c_name ch) flag True bn s } }) (w_members w) s }) s"

definition status_none :: "(ptr option \<Rightarrow> ptr option \<Rightarrow> core \<Rightarrow> bool option) \<Rightarrow> string \<Rightarrow> bot_cmd" where
  "status_none can letter nptr uptr c wc all s =
     passing (bot_may can uptr c s) (\<lambda>s. do {
       w \<leftarrow> wchan_at s wc;
       Some (send_raw (''SVSMODE '' @ w_chname w @ '' -'' @ letter) s) }) s"

definition bot_opall :: "bot_cmd" where "bot_opall = status_all ChannelCanOp CHFL_OP"
definition bot_deopall :: "bot_cmd" where "bot_deopall = status_none ChannelCanOp ''o''"
definition bot_halfopall :: "bot_cmd" where "bot_halfopall = status_all ChannelCanOp CHFL_HALFOP"
definition bot_dehalfopall :: "bot_cmd" where "bot_dehalfopall = status_none ChannelCanOp ''h''"
definition bot_voiceall :: "bot_cmd" where "bot_voiceall = status_all ChannelCanHalfop CHFL_VOICE"
definition bot_devoiceall :: "bot_cmd" where "bot_devoiceall = status_none ChannelCanHalfop ''v''"

subsection \<open>Kicks and bans\<close>

text \<open>Whether an account outranks the sender, who then may not touch it.\<close>

definition outranked :: "ptr option \<Rightarrow> ptr option \<Rightarrow> ptr \<Rightarrow> core \<Rightarrow> bool option" where
  "outranked uptr uptr2 c s =
     andM (IsAuthed uptr2 s) (do {
       ch \<leftarrow> chan_at s c;
       if HasCOption ch COPT_AXXFLAGS then map_option Not (ChannelCanOverride uptr uptr2 (Some c) s)
       else do { f \<leftarrow> GetFlag uptr (Some c) s; f2 \<leftarrow> GetFlag uptr2 (Some c) s; Some (f < f2) } })"

definition dont_touch :: string where "dont_touch = ''Don'' @ [CHR 0x27] @ ''t touch !''"

definition reason_or :: "cstring \<Rightarrow> string" where
  "reason_or all = (if is_empty all then ''Requested'' else the all)"

definition ban_line_on :: "string \<Rightarrow> string \<Rightarrow> string \<Rightarrow> core \<Rightarrow> core" where
  "ban_line_on bn name msk = send_raw ('':'' @ bn @ '' MODE '' @ name @ '' +b '' @ msk)"

definition host_mask :: "nick \<Rightarrow> string" where
  "host_mask n = ''*!*@'' @ n_hiddenhost n"

text \<open>The members other than the sender and the operators of the network.\<close>

definition kick_others :: "bool \<Rightarrow> string \<Rightarrow> ptr \<Rightarrow> string \<Rightarrow> ptr \<Rightarrow> string \<Rightarrow> core \<Rightarrow> core option" where
  "kick_others ban reason nptr bn wc name =
     each_member wc (\<lambda>n s. do {
       nk \<leftarrow> nick_at s n;
       if n = nptr \<or> HasUmode nk UMODE_OPER then Some s
       else KickUser bn (n_name nk) name reason (if ban then ban_line_on bn name (host_mask nk) s else s) })"

definition bot_opopop :: "bot_cmd" where
  "bot_opopop nptr uptr c wc all s =
     do { bn \<leftarrow> channel_botname c s;
          n \<leftarrow> nick_at s nptr;
          w \<leftarrow> wchan_at s wc;
          KickUser bn (n_name n) (w_chname w) ''Hey, keep quiet !'' s }"

definition bot_kick :: "bot_cmd" where
  "bot_kick nptr uptr c wc all s =
     (let (arg2, rest) = SeperateWord all in
      do { bn \<leftarrow> channel_botname c s;
           passing (bot_may ChannelCanHalfop uptr c s) (\<lambda>s. do {
             n \<leftarrow> nick_at s nptr;
             w \<leftarrow> wchan_at s wc;
             ch \<leftarrow> chan_at s c;
             if is_empty arg2 then KickUser bn (n_name n) (w_chname w) ''Requested'' s
             else if streq arg2 (Some bn) then KickUser bn (n_name n) (w_chname w) dont_touch s
             else if streq arg2 (Some ''*'') \<and> HasCOption ch COPT_MASS
             then kick_others False ''Kicking all users'' nptr bn wc (w_chname w) s
             else do {
               no \<leftarrow> outranked uptr (find_user arg2 s) c s;
               if no then Some s else KickUser bn (the arg2) (w_chname w) (reason_or rest) s } }) s })"

definition bot_fuckall :: "bot_cmd" where
  "bot_fuckall nptr uptr c wc all = bot_kick nptr uptr c wc (Some ''*'')"

text \<open>The regular expression of the sender against the names of the members.\<close>

definition mass_kick ::
  "lib \<Rightarrow> bool \<Rightarrow> string \<Rightarrow> bot_cmd" where
  "mass_kick L ban reason nptr uptr c wc all s =
     (let arg2 = arg1_of all in
      do { bn \<leftarrow> channel_botname c s;
           passing (bot_may ChannelCanHalfop uptr c s @ [map_option (\<lambda>ch. HasCOption ch COPT_MASS) (chan_at s c)]) (\<lambda>s. do {
             me \<leftarrow> nick_at s nptr;
             w \<leftarrow> wchan_at s wc;
             if is_empty arg2
             then KickUser bn (n_name me) (w_chname w) ''Requested''
                    (if ban then ban_line_on bn (w_chname w) (host_mask me) s else s)
             else each_member wc (\<lambda>n s.
               if n = nptr then Some s
               else do {
                 nk \<leftarrow> nick_at s n;
                 let miss = Some (\<not> regex_match L (the arg2) (n_name nk));
                 let spare = do { u2 \<leftarrow> find_account n s; outranked uptr u2 c s };
                 no \<leftarrow> (if ban then orM miss spare else orM spare miss);
                 if no then Some s
                 else KickUser bn (n_name nk) (w_chname w) reason
                        (if ban then ban_line_on bn (w_chname w) (host_mask nk) s else s) }) s }) s })"

definition bot_rkick :: "lib \<Rightarrow> bot_cmd" where "bot_rkick L = mass_kick L False ''regexp kick matching nick''"
definition bot_rkb :: "lib \<Rightarrow> bot_cmd" where "bot_rkb L = mass_kick L True ''regexp kickban matching nick''"

definition bot_kb :: "bot_cmd" where
  "bot_kb nptr uptr c wc all s =
     (let (arg2, rest) = SeperateWord all in
      do { bn \<leftarrow> channel_botname c s;
           passing (bot_may ChannelCanHalfop uptr c s) (\<lambda>s. do {
             n \<leftarrow> nick_at s nptr;
             w \<leftarrow> wchan_at s wc;
             ch \<leftarrow> chan_at s c;
             if is_empty arg2
             then KickUser bn (n_name n) (w_chname w) ''Requested'' (ban_line_on bn (w_chname w) (host_mask n) s)
             else if streq arg2 (Some (cfg_nick (cfg s)))
             then KickUser bn (n_name n) (w_chname w) dont_touch (ban_line_on bn (w_chname w) (n_name n @ ''*!*@*'') s)
             else if streq arg2 (Some ''*'') \<and> HasCOption ch COPT_MASS
             then kick_others True ''Kickbanning all users'' nptr bn wc (w_chname w) s
             else do {
               r \<leftarrow> find_nick arg2 s;
               case r of None \<Rightarrow> Some s
               | Some n2 \<Rightarrow> do {
                   u2 \<leftarrow> find_account n2 s;
                   no \<leftarrow> outranked uptr u2 c s;
                   nk \<leftarrow> nick_at s n2;
                   if no then Some s
                   else KickUser bn (the arg2) (w_chname w) (reason_or rest)
                          (ban_line_on bn (w_chname w) (host_mask nk) s) } } }) s })"

definition bot_unban :: "bot_cmd" where
  "bot_unban nptr uptr c wc all s =
     (let arg2 = arg1_of all in
      do { bn \<leftarrow> channel_botname c s;
           passing (bot_may ChannelCanHalfop uptr c s @ [Some (\<not> is_empty arg2)]) (\<lambda>s. do {
             w \<leftarrow> wchan_at s wc;
             let s = send_raw ('':'' @ bn @ '' MODE '' @ w_chname w @ '' -b '' @ the arg2) s;
             r \<leftarrow> find_timeban c (the arg2) s;
             case r of None \<Rightarrow> Some s | Some tb \<Rightarrow> DeleteTimeban tb s }) s })"

text \<open>The mask of a kind that the sender picks by a number; any other number bans nothing.\<close>

definition picked_mask :: "int \<Rightarrow> nick \<Rightarrow> cstring" where
  "picked_mask k n =
     (if k = 1 then Some (n_name n @ ''!*@*'') else if k = 2 then Some (''*!'' @ n_ident n @ ''@*'')
      else if k = 3 then Some (host_mask n) else None)"

definition bot_ban :: "bot_cmd" where
  "bot_ban nptr uptr c wc all s =
     (let (arg2, arg3) = args2 all in
      do { bn \<leftarrow> channel_botname c s;
           passing (bot_may ChannelCanHalfop uptr c s) (\<lambda>s. do {
             w \<leftarrow> wchan_at s wc;
             n \<leftarrow> nick_at s nptr;
             if is_empty arg2 then Some (ban_line_on bn (w_chname w) (host_mask n) s)
             else do {
               r \<leftarrow> find_nick arg2 s;
               case r of None \<Rightarrow> Some (ban_line_on bn (w_chname w) (the arg2) s)
               | Some n2 \<Rightarrow> do {
                   nk \<leftarrow> nick_at s n2;
                   Some (case (if is_empty arg3 then Some (host_mask nk) else picked_mask (strtol (the arg3)) nk) of
                       None \<Rightarrow> s | Some msk \<Rightarrow> ban_line_on bn (w_chname w) msk s) } } }) s })"

definition bot_topic :: "bot_cmd" where
  "bot_topic nptr uptr c wc all s =
     passing [IsAuthed uptr s, IsTrueOwner uptr (Some c) s, Some (\<not> is_empty all)] (\<lambda>s. do {
       bn \<leftarrow> channel_botname c s;
       w \<leftarrow> wchan_at s wc;
       Some (send_raw ('':'' @ bn @ '' TOPIC '' @ w_chname w @ '' :'' @ the all) s) }) s"

definition bot_moo :: "bot_cmd" where
  "bot_moo nptr uptr c wc all s =
     (let arg2 = arg1_of all in
      passing (bot_may ChannelCanHalfop uptr c s) (\<lambda>s. do {
        bn \<leftarrow> channel_botname c s;
        w \<leftarrow> wchan_at s wc;
        n \<leftarrow> nick_at s nptr;
        Some (FakeMsg bn (w_chname w) (CHR 0x01 # ''ACTION m00s loudly at '' @
          (if is_empty arg2 then n_name n else the arg2) @ [CHR 0x01]) s) }) s)"

subsection \<open>Who has been seen\<close>

definition two :: "int \<Rightarrow> string" where
  "two n = (if n < 10 then ''0'' @ dec n else dec n)"

definition some_of :: "string \<Rightarrow> int \<Rightarrow> string" where
  "some_of unit1 n = bold (dec n) @ '' '' @ unit1 @ (if n = 1 then [] else ''s'')"

text \<open>A time in seconds, when it is at least one.\<close>

definition elapsed :: "int \<Rightarrow> cstring" where
  "elapsed t =
     (let days = t sdiv 86400; hours = (t sdiv 3600) smod 24; mins = (t sdiv 60) smod 60; secs = t smod 60 in
      if 1 \<le> days then Some (some_of ''day'' days @ '', '' @ bold (two hours @ '':'' @ two mins))
      else if 1 \<le> hours then Some (some_of ''hour'' hours @ '', '' @ bold (dec mins) @ '' minutes'')
      else if 1 \<le> mins then Some (some_of ''minute'' mins @ '', '' @ bold (dec secs) @ '' seconds'')
      else if 1 \<le> secs then Some (some_of ''second'' secs) else None)"

definition seen_line :: "string \<Rightarrow> int \<Rightarrow> cstring" where
  "seen_line name t = map_option (\<lambda>x. name @ '' has not been seen for '' @ x) (elapsed t)"

definition seen_account :: "user \<Rightarrow> int \<Rightarrow> cstring" where
  "seen_account u now =
     (if u_authed u = 1 then Some (u_nick u @ '' is right here.'')
      else if u_lastseen u = 0 then Some (u_nick u @ '' is registered but I have no more information'')
      else seen_line (u_nick u) (to_int (now - u_lastseen u)))"

definition bot_seen :: "bot_cmd" where
  "bot_seen nptr uptr c wc all s =
     (let arg2 = arg1_of all in
      if is_empty arg2 then Some s
      else do {
        bn \<leftarrow> channel_botname c s;
        w \<leftarrow> wchan_at s wc;
        let say = (\<lambda>m. Some (FakeMsg bn (w_chname w) m s));
        if streq arg2 (Some bn) then say (''I'' @ [CHR 0x27] @ ''m in a place that you will never guess !'')
        else do {
          r \<leftarrow> find_nick arg2 s;
          case (find_user arg2 s, r) of
            (None, Some n2) \<Rightarrow> do { nk \<leftarrow> nick_at s n2; say (n_name nk @ '' is connected but not registered'') }
          | (None, None) \<Rightarrow> say (''I don'' @ [CHR 0x27] @ ''t know who is '' @ the arg2)
          | (Some p, _) \<Rightarrow> do {
              u \<leftarrow> user_at s p;
              case seen_account u (clock s) of None \<Rightarrow> Some s | Some m \<Rightarrow> say m } } })"

definition rank_name :: "config \<Rightarrow> int \<Rightarrow> string" where
  "rank_name k l =
     (if cfg_level_root k \<le> l then '' + Services Root Administrator''
      else if cfg_level_admin k \<le> l then '' + Services Administrator''
      else if cfg_level_oper k \<le> l then '' + Services Operator'' else [])"

definition bot_admin :: "bot_cmd" where
  "bot_admin nptr uptr c wc all s =
     do { bn \<leftarrow> channel_botname c s;
          foldM (\<lambda>p s. do {
            u \<leftarrow> user_at s p;
            r \<leftarrow> find_nick (Some (u_nick u)) s;
            case r of None \<Rightarrow> Some s
            | Some n \<Rightarrow> do {
                nk \<leftarrow> nick_at s n;
                if HasUmode nk UMODE_OPER \<and> u_authed u = 1
                then FakeNotice bn nptr (u_nick u @ ''     Oper'' @ rank_name (cfg s) (u_level u)) s
                else Some s } }) (map snd (users s)) s }"

subsection \<open>Timed bans\<close>

definition fits_int :: "int \<Rightarrow> bool" where
  "fits_int n \<longleftrightarrow> - (2 ^ 31) \<le> n \<and> n < 2 ^ 31"

text \<open>A product of two \<open>int\<close>s, undefined when it does not fit.\<close>

definition int_mult :: "int \<Rightarrow> int \<Rightarrow> int option" where
  "int_mult a b = (if fits_int (a * b) then Some (a * b) else None)"

text \<open>The number before the first letter of a unit; minutes are looked for first.\<close>

definition cut_at :: "char \<Rightarrow> string \<Rightarrow> string" where
  "cut_at x a = takeWhile (\<lambda>y. y \<noteq> x) a"

definition ban_duration :: "cstring \<Rightarrow> int option" where
  "ban_duration a =
     (if is_empty a then Some 3600
      else (let t = the a; has = (\<lambda>x. strchr t x \<noteq> None); num = (\<lambda>x. atoi (cut_at x t)) in
        if has (CHR ''m'') then int_mult (num (CHR ''m'')) 60
        else if has (CHR ''h'') then int_mult (num (CHR ''h'')) 3600
        else if has (CHR ''d'') then int_mult (num (CHR ''d'')) 86400
        else if has (CHR ''w'') then Option.bind (int_mult (num (CHR ''w'')) 86400) (\<lambda>x. int_mult x 7)
        else Some (atoi t)))"

text \<open>The mask of 256 bytes: a mask is copied, perhaps without its end; a nick becomes one.\<close>

definition effective_mask :: "string \<Rightarrow> ptr option \<Rightarrow> core \<Rightarrow> string option" where
  "effective_mask msk n2 s =
     (if IsMask msk then strbuf msk 256
      else (case n2 of None \<Rightarrow> Some (take 255 (msk @ ''!*@*''))
        | Some p \<Rightarrow> map_option (\<lambda>nk. take 255 (host_mask nk)) (nick_at s p)))"

definition put_timeban :: "ptr \<Rightarrow> string \<Rightarrow> int \<Rightarrow> string \<Rightarrow> core \<Rightarrow> (ptr \<times> core) option" where
  "put_timeban c msk duration reason s =
     do { r \<leftarrow> find_timeban c msk s;
          case r of None \<Rightarrow> AddTimeban c msk duration reason s
          | Some p \<Rightarrow> do {
              tb \<leftarrow> timeban_at s p;
              Some (p, s\<lparr>timeban_at := (timeban_at s)(p \<mapsto> tb\<lparr>tb_duration := duration, tb_setat := clock s\<rparr>)\<rparr>) } }"

text \<open>Here only the comparison of levels asks whether the account is identified.\<close>

definition tb_spared :: "ptr option \<Rightarrow> ptr option \<Rightarrow> ptr \<Rightarrow> core \<Rightarrow> bool option" where
  "tb_spared uptr uptr2 c s =
     (if uptr2 = None then Some False
      else do {
        ch \<leftarrow> chan_at s c;
        if HasCOption ch COPT_AXXFLAGS then map_option Not (ChannelCanOverride uptr uptr2 (Some c) s)
        else andM (IsAuthed uptr2 s)
          (do { f \<leftarrow> GetFlag uptr (Some c) s; f2 \<leftarrow> GetFlag uptr2 (Some c) s; Some (f < f2) }) })"

definition tb_kick :: "ptr option \<Rightarrow> ptr \<Rightarrow> string \<Rightarrow> string \<Rightarrow> (nick \<Rightarrow> bool option) \<Rightarrow> ptr \<Rightarrow> core \<Rightarrow> (bool \<times> core) option" where
  "tb_kick uptr c name reason matches n s =
     do { u2 \<leftarrow> find_account n s;
          no \<leftarrow> tb_spared uptr u2 c s;
          nk \<leftarrow> nick_at s n;
          hit \<leftarrow> (if no then Some False else matches nk);
          if hit then do {
            bn \<leftarrow> channel_botname c s;
            map_option (Pair no) (KickUser bn (n_name nk) name reason s) }
          else Some (no, s) }"

definition bot_tb :: "lib \<Rightarrow> bot_cmd" where
  "bot_tb L nptr uptr c wc all s =
     (let (arg1, r) = SeperateWord all; (arg2, arg3) = SeperateWord r in
      passing [allowed ChannelCanHalfop uptr (Some c) s, Some (\<not> is_empty arg1)] (\<lambda>s. do {
        duration \<leftarrow> ban_duration arg2;
        n2 \<leftarrow> (if IsMask (the arg1) then Some None else find_nick arg1 s);
        msk \<leftarrow> effective_mask (the arg1) n2 s;
        let reason = (if is_empty arg3 then ''You'' @ [CHR 0x27] @ ''re banned from this channel'' else take 255 (the arg3));
        (p, s) \<leftarrow> put_timeban c msk duration reason s;
        w \<leftarrow> wchan_at s wc;
        (spared, s) \<leftarrow> (case n2 of
            Some n \<Rightarrow> tb_kick uptr c (w_chname w) reason (\<lambda>_. Some True) n s
          | None \<Rightarrow> do {
              tb \<leftarrow> timeban_at s p;
              s \<leftarrow> each_member wc (\<lambda>n s. map_option snd (tb_kick uptr c (w_chname w) reason (\<lambda>nk.
                    orM (match_mask (regex_match L) (tb_mask tb) (take 255 (nick_mask nk (n_hiddenhost nk))))
                        (match_mask (regex_match L) (tb_mask tb) (take 255 (nick_mask nk (n_host nk))))) n s)) s;
              Some (False, s) });
        if spared then Some s
        else do {
          bn \<leftarrow> channel_botname c s;
          w \<leftarrow> wchan_at s wc;
          Some (ban_line_on bn (w_chname w) msk s) } }) s)"

definition bot_functions :: "lib \<Rightarrow> (string \<times> bot_cmd) list" where
  "bot_functions L =
     [(''bot_voiceall'', bot_voiceall), (''bot_voice'', bot_voice), (''bot_unban'', bot_unban), (''bot_topic'', bot_topic),
      (''bot_tb'', bot_tb L), (''bot_seen'', bot_seen), (''bot_protect'', bot_protect), (''bot_owner'', bot_owner),
      (''bot_opopop'', bot_opopop), (''bot_opall'', bot_opall), (''bot_op'', bot_op), (''bot_moo'', bot_moo),
      (''bot_kick'', bot_kick), (''bot_rkick'', bot_rkick L), (''bot_kb'', bot_kb), (''bot_rkb'', bot_rkb L),
      (''bot_halfopall'', bot_halfopall), (''bot_halfop'', bot_halfop), (''bot_god'', bot_god),
      (''bot_fuckall'', bot_fuckall), (''bot_devoiceall'', bot_devoiceall), (''bot_devoice'', bot_devoice),
      (''bot_deprotect'', bot_deprotect), (''bot_deowner'', bot_deowner), (''bot_deopall'', bot_deopall),
      (''bot_deop'', bot_deop), (''bot_dehalfopall'', bot_dehalfopall), (''bot_dehalfop'', bot_dehalfop),
      (''bot_ban'', bot_ban), (''bot_admin'', bot_admin)]"

end
