(* ===== verification/OperCmds.thy ===== *)
theory OperCmds
  imports BotCmds
begin

section \<open>The commands of the operators: src/src/modules/m\_oper.c\<close>

text \<open>
  Most of these commands work on the core; those on modules and on the command table work on the whole
  service. \<open>operlog\<close> is left out. \<open>rehash\<close>, \<open>restart\<close> and \<open>die\<close>, which read the
  configuration or end the process, are in the theory Control; \<open>savedb\<close> is with the database.
\<close>

definition oper_commands :: "config \<Rightarrow> command list \<Rightarrow> command list" where
  "oper_commands k cs =
     (let o1 = cfg_level_oper k; a1 = cfg_level_admin k; r1 = cfg_level_root k; w1 = cfg_level_owner k in
      add_all CMD_OPER 0
       [(''userlist'', ''oper_userlist'', o1), (''trustlist'', ''oper_trustlist'', a1),
        (''trustdel'', ''oper_trustdel'', a1), (''trustadd'', ''oper_trustadd'', a1),
        (''suspend'', ''oper_suspend'', a1), (''superadmin'', ''oper_superadmin'', r1),
        (''stats'', ''oper_stats'', o1), (''sglobal'', ''oper_sglobal'', o1), (''setraws'', ''oper_setraws'', w1),
        (''savedb'', ''oper_savedb'', r1), (''restart'', ''oper_restart'', r1),
        (''regexpcheck'', ''oper_regexpcheck'', o1), (''rehash'', ''oper_rehash'', r1), (''raw'', ''oper_raw'', r1),
        (''operlist'', ''oper_operlist'', o1), (''noexpire'', ''oper_noexpire'', a1),
        (''nicklist'', ''oper_nicklist'', o1), (''modunload'', ''oper_modunload'', r1),
        (''modload'', ''oper_modload'', r1), (''modlist'', ''oper_modlist'', r1),
        (''massfakeuser'', ''oper_massfakeuser'', a1), (''massfakekill'', ''oper_massfakekill'', a1),
        (''massfakejoin'', ''oper_massfakejoin'', a1), (''killall'', ''oper_killall'', a1),
        (''glinechan'', ''oper_glinechan'', a1), (''glineall'', ''oper_glineall'', a1), (''jupe'', ''oper_jupe'', a1),
        (''global'', ''oper_global'', o1), (''forceauth'', ''oper_forceauth'', r1),
        (''fakeuser'', ''oper_fakeuser'', o1), (''fakesay'', ''oper_fakesay'', o1),
        (''fakenick'', ''oper_fakenick'', o1), (''fakelist'', ''oper_fakelist'', o1),
        (''fakekill'', ''oper_fakekill'', o1), (''fakejoin'', ''oper_fakejoin'', o1), (''die'', ''oper_die'', r1),
        (''cmdlev'', ''oper_cmdlev'', w1), (''chanlist'', ''oper_chanlist'', o1),
        (''changelev'', ''oper_changelev'', a1)]
       (add_all CMD_BASE 0 [(''oper'', ''do_oper'', o1)] cs))"

definition oper_cleanup :: "command list \<Rightarrow> command list" where
  "oper_cleanup cs =
     del_all CMD_OPER 0
       [''nicklist'', ''userlist'', ''chanlist'', ''killall'', ''glineall'', ''fakeuser'', ''fakenick'', ''forceauth'',
        ''trustadd'', ''trustlist'', ''trustdel'', ''massfakeuser'', ''massfakejoin'', ''massfakekill'', ''modload'',
        ''modunload'', ''modlist'', ''fakejoin'', ''jupe'', ''fakekill'', ''fakesay'', ''operlist'', ''stats'',
        ''changelev'', ''global'', ''raw'', ''savedb'', ''setraws'', ''rehash'', ''restart'', ''die'', ''noexpire'',
        ''suspend'', ''cmdlev'', ''superadmin'', ''sglobal'', ''fakelist'', ''glinechan'', ''regexpcheck'']
       (del_all CMD_BASE 0 [''oper''] cs)"

subsection \<open>Lists\<close>

text \<open>\<open>strcasestr\<close>.\<close>

fun contains :: "string \<Rightarrow> string \<Rightarrow> bool" where
  "contains [] y = (y = [])"
| "contains (c # cs) y = (lc (take (length y) (c # cs)) = lc y \<or> contains cs y)"

text \<open>
  The walks over a table that print the entries in which a filter occurs, and count them. \<open>show_one\<close> gives the
  strings that are searched and what is done with an entry that is kept.
\<close>

definition filtered_list ::
  "(ptr \<Rightarrow> core \<Rightarrow> (string list \<times> (core \<Rightarrow> core option)) option) \<Rightarrow> ptr list \<Rightarrow> ptr \<Rightarrow> cstring \<Rightarrow> core \<Rightarrow> core option" where
  "filtered_list show_one ps nptr filt s =
     do { (n, s) \<leftarrow> foldM (\<lambda>p (n, s). do {
            (keys, print) \<leftarrow> show_one p s;
            if is_empty filt \<or> (\<exists>k \<in> set keys. contains k (the filt))
            then map_option (Pair (n + 1)) (print s) else Some (n, s) }) ps (0 :: int, s);
          NoticeToUser nptr (''End of list ('' @ dec n @ '' entries).'') s }"

definition who_line :: "nick \<Rightarrow> string" where
  "who_line n = bold (n_name n) @ ''!'' @ n_ident n @ ''@'' @ n_host n"

definition oper_nicklist :: "nick_cmd" where
  "oper_nicklist nptr uptr all s =
     filtered_list (\<lambda>p s. map_option (\<lambda>n. ([n_name n, n_ident n, n_host n], NoticeToUser nptr (who_line n))) (nick_at s p))
       (map snd (nicks s)) nptr (arg1_of all) s"

text \<open>The line of an account is used as a format: a \<open>%\<close> in it reads arguments that are not there.\<close>

definition notice_format :: "ptr \<Rightarrow> string \<Rightarrow> core \<Rightarrow> core option" where
  "notice_format nptr m s = (if CHR ''%'' \<in> set m then None else NoticeToUser nptr m s)"

definition user_line :: "bool \<Rightarrow> user \<Rightarrow> nick option \<Rightarrow> string" where
  "user_line filtered u r =
     u_nick u @ ''     '' @ dec (u_level u) @
     (case r of None \<Rightarrow> ''      Not authed, not online''
      | Some n \<Rightarrow> (if filtered then ''     '' else ''      '') @ (if u_authed u = 1 then ''Authed      '' else ''Not authed  '') @
          n_name n @ ''!'' @ n_ident n @ ''@'' @ n_host n)"

definition oper_userlist :: "nick_cmd" where
  "oper_userlist nptr uptr all s =
     (let filt = arg1_of all in
      filtered_list (\<lambda>p s. do {
          u \<leftarrow> user_at s p;
          Some ([u_nick u, u_vhost u], \<lambda>s. do {
            r \<leftarrow> find_nick (Some (u_nick u)) s;
            x \<leftarrow> (case r of None \<Rightarrow> Some None | Some q \<Rightarrow> map_option Some (nick_at s q));
            notice_format nptr (user_line (\<not> is_empty filt) u x) s }) })
        (map snd (users s)) nptr filt s)"

definition oper_chanlist :: "nick_cmd" where
  "oper_chanlist nptr uptr all s =
     filtered_list (\<lambda>p s. map_option (\<lambda>c. ([c_name c, c_owner c], NoticeToUser nptr (c_name c @ ''     '' @ c_owner c)))
         (chan_at s p))
       (map snd (chans s)) nptr (arg1_of all) s"

definition oper_operlist :: "nick_cmd" where
  "oper_operlist nptr uptr all s =
     do { s \<leftarrow> NoticeToUser nptr ''Online operators :'' s;
          (n, s) \<leftarrow> foldM (\<lambda>p (n, s). do {
            x \<leftarrow> nick_at s p;
            if HasUmode x UMODE_OPER
            then map_option (Pair (n + 1)) (NoticeToUser nptr (bold (n_name x) @ ''     '' @ n_ident x @ ''@'' @ n_host x) s)
            else Some (n, s) }) (map snd (nicks s)) (0 :: int, s);
          NoticeToUser nptr (''End of list ('' @ dec n @ '' entries).'') s }"

definition oper_fakelist :: "nick_cmd" where
  "oper_fakelist nptr uptr all s =
     do { s \<leftarrow> NoticeToUser nptr ''Fakeusers list :'' s;
          s \<leftarrow> foldM (\<lambda>p s. do {
            f \<leftarrow> fake_at s p;
            NoticeToUser nptr (bold (f_nick f) @ '' ('' @ f_ident f @ ''@'' @ f_host f @ '')'') s }) (map snd (fakeusers s)) s;
          NoticeToUser nptr ''End of list.'' s }"

definition oper_trustlist :: "nick_cmd" where
  "oper_trustlist nptr uptr all s =
     do { s \<leftarrow> NoticeToUser nptr ''Trustlist :'' s;
          s \<leftarrow> foldM (\<lambda>p s. do {
            t \<leftarrow> trust_at s p;
            NoticeToUser nptr (t_host t @ ''         '' @ dec (t_limit t)) s }) (map snd (trusts s)) s;
          NoticeToUser nptr ''End of list.'' s }"

subsection \<open>Masks\<close>

text \<open>A walk over the nicks that match a mask; the sender may be one of them.\<close>

definition over_matching ::
  "lib \<Rightarrow> string \<Rightarrow> (nick \<Rightarrow> core \<Rightarrow> core option) \<Rightarrow> core \<Rightarrow> (int \<times> core) option" where
  "over_matching L msk body s =
     foldM (\<lambda>p (n, s). do {
       x \<leftarrow> nick_at s p;
       hit \<leftarrow> match_mask (regex_match L) msk (take 255 (nick_mask x (n_host x)));
       if hit then map_option (Pair (n + 1)) (body x s) else Some (n, s) }) (map snd (nicks s)) (0, s)"

definition mask_cmd :: "string \<Rightarrow> (string \<Rightarrow> core \<Rightarrow> core option) \<Rightarrow> nick_cmd" where
  "mask_cmd name body nptr uptr all s =
     (let arg3 = arg1_of all in
      if is_empty arg3 then NoticeToUser nptr (syntax_msg (name @ '' '' @ ul ''mask'')) s
      else if \<not> IsMask (the arg3) then NoticeToUser nptr ''Error: malformed mask'' s
      else body (the arg3) s)"

definition oper_killall :: "lib \<Rightarrow> nick_cmd" where
  "oper_killall L nptr = mask_cmd ''killall'' (\<lambda>msk s. do {
     (_, s) \<leftarrow> over_matching L msk (\<lambda>x s. killuser (n_name x) ''Clearing users'' (cfg_nick (cfg s)) s) s;
     NoticeToUser nptr ''Done.'' s }) nptr"

definition oper_glineall :: "lib \<Rightarrow> nick_cmd" where
  "oper_glineall L nptr = mask_cmd ''glineall'' (\<lambda>msk s. do {
     (_, s) \<leftarrow> over_matching L msk (\<lambda>x s. Some (glineuser ''*'' (n_host x) 86400 ''Clearing users'' s)) s;
     NoticeToUser nptr ''Done.'' s }) nptr"

definition oper_regexpcheck :: "lib \<Rightarrow> nick_cmd" where
  "oper_regexpcheck L nptr = mask_cmd ''regexpcheck'' (\<lambda>msk s. do {
     s \<leftarrow> NoticeToUser nptr ''Affected users :'' s;
     (i, s) \<leftarrow> over_matching L msk (\<lambda>x s.
       NoticeToUser nptr (bold (n_name x) @ ''      ('' @ n_ident x @ ''@'' @ n_host x @ '')'') s) s;
     NoticeToUser nptr (''Total affected users: '' @ bold (dec i) @ ''.'') s }) nptr"

definition oper_glinechan :: "nick_cmd" where
  "oper_glinechan nptr uptr all s =
     (let (chname, r) = SeperateWord all; (duration, reason) = SeperateWord r in
      if is_empty chname \<or> is_empty duration \<or> is_empty reason then
        NoticeToUser nptr (''Syntax: '' @ CHR 0x02 # ''glinechan '' @ ul ''#channel'' @ '' '' @
          ul ''duration (in seconds, 0 for perm)'' @ '' '' @ ul ''reason'') s
      else (case find_wchan chname s of None \<Rightarrow> NoticeToUser nptr ''This channel does not exist.'' s
        | Some w \<Rightarrow> do {
            wc \<leftarrow> wchan_at s w;
            s \<leftarrow> foldM (\<lambda>m s. do {
              mb \<leftarrow> member_at s m;
              n \<leftarrow> nick_at s (m_nick mb);
              Some (if HasUmode n UMODE_OPER then s
                    else glineuser ''*'' (n_host n) (atoi (the duration)) (the reason) s) }) (w_members wc) s;
            NoticeToUser nptr ''Done.'' s }))"

subsection \<open>Fake users\<close>

text \<open>
  \<open>fakeuser\<close> with the identifier NULL: \<open>AddFake\<close> draws one, but the line sent to the network
  prints the NULL pointer.
\<close>

definition fakeuser_drawn :: "string \<Rightarrow> string \<Rightarrow> string \<Rightarrow> string \<Rightarrow> core \<Rightarrow> core option" where
  "fakeuser_drawn nick ident host umodes s =
     do { (r, s) \<leftarrow> AddFake nick ident host None s;
          Some (if r = None then s
                else send_raw (''UID '' @ nick @ '' 1 '' @ dec (clock s) @ '' '' @ ident @ '' '' @ host @ '' '' @ pr None @
                       '' 0 +'' @ umodes @ '' * * * :'' @ ident) s) }"

definition my_nick_msg :: string where
  "my_nick_msg = ''That'' @ [CHR 0x27] @ ''s my nick you sucker''"

definition no_fake :: string where "no_fake = ''This fakeuser does not exist.''"

definition oper_fakeuser :: "nick_cmd" where
  "oper_fakeuser nptr uptr all s =
     (let (arg3, r) = SeperateWord all; (arg4, r) = SeperateWord r; (arg5, _) = SeperateWord r in
      guards nptr
        [(Some (is_empty arg3 \<or> is_empty arg4 \<or> is_empty arg5),
          syntax_msg (''fakeuser '' @ ul ''nick'' @ '' '' @ ul ''ident'' @ '' '' @ ul ''host'')),
         (Some (streq arg3 (Some (cfg_nick (cfg s)))), my_nick_msg @ ''.''),
         (map_option (\<lambda>r. r \<noteq> None) (find_fake arg3 s), ''This fakeuser already exists.'')]
        (fakeuser_drawn (the arg3) (the arg4) (the arg5) ''i'') s)"

text \<open>Two names may be the same in the table, where only their beginning is.\<close>

definition rename_fake :: "ptr \<Rightarrow> string \<Rightarrow> core \<Rightarrow> core option" where
  "rename_fake p name s =
     do { f \<leftarrow> fake_at s p;
          let nk = strncpy name NICKLEN;
          let t = terase (f_nick f) (fakeusers s);
          Some (s\<lparr>fakeusers := (if tfind t nk \<noteq> None then t else tinsert nk p t),
                  fake_at := (fake_at s)(p \<mapsto> f\<lparr>f_nick := nk\<rparr>)\<rparr>) }"

definition oper_fakenick :: "nick_cmd" where
  "oper_fakenick nptr uptr all s =
     (let (arg3, arg4) = args2 all in
      guards nptr
        [(Some (is_empty arg3 \<or> is_empty arg4), syntax_msg (''fakenick '' @ ul ''oldnick'' @ '' '' @ ul ''newnick'')),
         (map_option (\<lambda>r. r = None) (find_fake arg3 s), no_fake),
         (map_option (\<lambda>r. r \<noteq> None) (find_fake arg4 s), ''New nick is already held by another fakeuser.'')]
        (\<lambda>s. do {
           r \<leftarrow> find_fake arg3 s;
           p \<leftarrow> r;
           s \<leftarrow> rename_fake p (the arg4) s;
           Some (send_raw ('':'' @ the arg3 @ '' NICK '' @ the arg4 @ '' '' @ dec (clock s)) s) }) s)"

definition oper_fakejoin :: "nick_cmd" where
  "oper_fakejoin nptr uptr all s =
     (let (arg3, arg4) = args2 all in
      guards nptr
        [(Some (is_empty arg3 \<or> is_empty arg4), syntax_msg (''fakejoin '' @ ul ''nick'' @ '' '' @ ul ''#channel'')),
         (map_option (\<lambda>r. r = None) (find_fake arg3 s), no_fake)]
        (\<lambda>s. Some (fakejoin (the arg3) (the arg4) s)) s)"

definition oper_fakekill :: "nick_cmd" where
  "oper_fakekill nptr uptr all s =
     (let (arg3, rest) = SeperateWord all in
      guards nptr
        [(Some (is_empty arg3), syntax_msg (''fakekill '' @ ul ''nick'' @ '' ['' @ ul ''reason'' @ '']'')),
         (Some (streq arg3 (Some (cfg_nick (cfg s)))), my_nick_msg),
         (map_option (\<lambda>r. r = None) (find_fake arg3 s), no_fake)]
        (fakekill (the arg3) (pr rest)) s)"

definition oper_fakesay :: "nick_cmd" where
  "oper_fakesay nptr uptr all s =
     (let (arg3, r) = SeperateWord all; (arg4, rest) = SeperateWord r in
      guards nptr
        [(Some (is_empty arg3 \<or> is_empty arg4 \<or> is_empty rest),
          syntax_msg (''fakesay '' @ ul ''nick'' @ '' '' @ ul ''#channel'' @ '' '' @ ul ''message'')),
         (map_option (\<lambda>r. r = None) (find_fake arg3 s), no_fake)]
        (\<lambda>s. Some (fakesay (the arg3) (the arg4) (the rest) s)) s)"

text \<open>
  A range of names: the difference of the two numbers and the step past the last one are \<open>int\<close>s, and
  so must fit. The names are printed into 1024 bytes.
\<close>

definition too_many :: "ptr \<Rightarrow> int \<Rightarrow> core \<Rightarrow> bool option" where
  "too_many nptr n s = map_option (\<lambda>x. 1000 < n \<and> \<not> HasUmode x UMODE_SADMIN) (nick_at s nptr)"

definition mass_fake ::
  "(string \<Rightarrow> core \<Rightarrow> core option) \<Rightarrow> ptr \<Rightarrow> string \<Rightarrow> string \<Rightarrow> string \<Rightarrow> core \<Rightarrow> core option" where
  "mass_fake body nptr prefix a b s =
     (let i = to_int (strtol a); j = to_int (strtol b) in
      if \<not> fits_int (j - i) then None
      else guards nptr [(too_many nptr (j - i) s, ''Too many clones. 1000 max. Or be a service admin.'')] (\<lambda>s.
        if i \<le> j \<and> \<not> fits_int (j + 1) then None
        else do {
          s \<leftarrow> foldM (\<lambda>k s. do {
            let name = prefix @ dec k;
            if length name < 1024 then body name s else None }) [i..j] s;
          NoticeToUser nptr ''Done.'' s }) s)"

definition mass_syntax :: "string \<Rightarrow> string \<Rightarrow> string" where
  "mass_syntax name extra = syntax_msg (name @ '' '' @ ul ''prefix'' @ '' '' @ ul ''number-start'' @ '' '' @ ul ''number-end'' @ extra)"

definition oper_massfakeuser :: "nick_cmd" where
  "oper_massfakeuser nptr uptr all s =
     (let (arg3, r) = SeperateWord all; (arg4, r) = SeperateWord r; (arg5, _) = SeperateWord r in
      if is_empty arg3 \<or> is_empty arg4 \<or> is_empty arg5 then NoticeToUser nptr (mass_syntax ''massfakeuser'' []) s
      else mass_fake (\<lambda>name s. fakeuser_drawn name name (cfg_host (cfg s)) ''i'' s) nptr (the arg3) (the arg4) (the arg5) s)"

definition oper_massfakejoin :: "nick_cmd" where
  "oper_massfakejoin nptr uptr all s =
     (let (arg3, r) = SeperateWord all; (arg4, r) = SeperateWord r; (arg5, r) = SeperateWord r; (arg6, _) = SeperateWord r in
      if is_empty arg3 \<or> is_empty arg4 \<or> is_empty arg5 \<or> \<not> chan_arg arg6
      then NoticeToUser nptr (mass_syntax ''massfakejoin'' ('' '' @ ul ''#channel'')) s
      else mass_fake (\<lambda>name s. Some (fakejoin name (the arg6) s)) nptr (the arg3) (the arg4) (the arg5) s)"

definition oper_massfakekill :: "nick_cmd" where
  "oper_massfakekill nptr uptr all s =
     (let (arg3, r) = SeperateWord all; (arg4, r) = SeperateWord r; (arg5, rest) = SeperateWord r in
      if is_empty arg3 \<or> is_empty arg4 \<or> is_empty arg5
      then NoticeToUser nptr (mass_syntax ''massfakekill'' ('' ['' @ ul ''reason'' @ '']'')) s
      else mass_fake (\<lambda>name. fakekill name (pr rest)) nptr (the arg3) (the arg4) (the arg5) s)"

subsection \<open>Accounts and trusts\<close>

definition oper_forceauth :: "nick_cmd" where
  "oper_forceauth nptr uptr all s =
     (let arg3 = arg1_of all in
      if is_empty arg3 then NoticeToUser nptr (syntax_msg (''forceauth '' @ ul ''nick'')) s
      else do {
        r \<leftarrow> find_nick arg3 s;
        case r of None \<Rightarrow> NoticeToUser nptr ''This nick is not connected.'' s
        | Some n2 \<Rightarrow>
            (case find_user arg3 s of None \<Rightarrow> NoticeToUser nptr ''This nick is not registered.'' s
             | Some u2 \<Rightarrow> do {
                 nk \<leftarrow> nick_at s n2;
                 if n_account nk \<noteq> None
                 then NoticeToUser nptr (''This nick is already identified to account '' @ bold (n_svid nk) @ ''.'') s
                 else do {
                   s \<leftarrow> user_login n2 u2 s;
                   NoticeToUser nptr (bold (the arg3) @ '' has been authed.'') s } }) })"

definition oper_trustadd :: "nick_cmd" where
  "oper_trustadd nptr uptr all s =
     (let (arg3, arg4) = args2 all in
      if is_empty arg3 \<or> is_empty arg4 then NoticeToUser nptr (syntax_msg (''trustadd '' @ ul ''hostname'' @ '' '' @ ul ''limit'')) s
      else (let l = to_int (strtol (the arg4)) in
        case find_trust_strict arg3 s of
          Some p \<Rightarrow> do {
            s \<leftarrow> upd_trust p (\<lambda>t. t\<lparr>t_limit := l\<rparr>) s;
            NoticeToUser nptr (''The limit of the trust on '' @ the arg3 @ '' is now '' @ the arg4) s }
        | None \<Rightarrow>
            NoticeToUser nptr (''Trust for '' @ the arg3 @ '' added (max '' @ the arg4 @ '' clones)'')
              (snd (AddTrust (the arg3) l s))))"

definition oper_trustdel :: "nick_cmd" where
  "oper_trustdel nptr uptr all s =
     (let arg3 = arg1_of all in
      if is_empty arg3 then NoticeToUser nptr (syntax_msg (''trustdel '' @ ul ''hostname'')) s
      else (case find_trust_strict arg3 s of None \<Rightarrow> NoticeToUser nptr (''There is no trust on '' @ the arg3) s
        | Some p \<Rightarrow> do {
            s \<leftarrow> DeleteTrust p s;
            NoticeToUser nptr (''Trust for '' @ the arg3 @ '' removed'') s }))"

text \<open>The level asked for is compared as a \<open>long\<close> and stored as an \<open>int\<close>.\<close>

definition oper_changelev :: "nick_cmd" where
  "oper_changelev nptr uptr all s =
     (let (arg3, arg4) = args2 all in
      if is_empty arg3 \<or> is_empty arg4 then NoticeToUser nptr (syntax_msg (''changelev '' @ ul ''nick'' @ '' '' @ ul ''level'')) s
      else (case find_user arg3 s of None \<Rightarrow> NoticeToUser nptr ''This user does not exist'' s
        | Some p \<Rightarrow> do {
            u2 \<leftarrow> user_at s p;
            u \<leftarrow> account uptr s;
            if u_level u \<le> u_level u2 \<or> u_level u \<le> strtol (the arg4)
            then NoticeToUser nptr ''You cannot change the level of a user outranking you'' s
            else do {
              s \<leftarrow> upd_user p (\<lambda>x. x\<lparr>u_level := to_int (strtol (the arg4))\<rparr>) s;
              NoticeToUser nptr (''The level of '' @ bold (the arg3) @ '' is now '' @ bold (the arg4)) s } }))"

definition on_off_syntax :: "string \<Rightarrow> string" where
  "on_off_syntax name = syntax_msg (name @ '' ['' @ ul ''username'' @ ''|'' @ ul ''#channel'' @ ''] [on|off]'')"

definition noexpire_msg :: "string \<Rightarrow> string \<Rightarrow> string \<Rightarrow> string" where
  "noexpire_msg what kind name =
     ''Option '' @ bold ''NOEXPIRE'' @ '' set to '' @ bold what @ '' for '' @ kind @ '' '' @ bold name"

definition noexpire_chan :: "ptr \<Rightarrow> cstring \<Rightarrow> ptr \<Rightarrow> core \<Rightarrow> core option" where
  "noexpire_chan nptr arg4 c s =
     do { ch \<leftarrow> chan_at s c;
          if streq arg4 (Some ''on'') then do {
            s \<leftarrow> upd_chan c (SetCOption COPT_NOEXPIRE) s;
            NoticeToUser nptr (noexpire_msg ''on'' ''channel'' (c_name ch)) s }
          else if streq arg4 (Some ''off'') then do {
            s \<leftarrow> upd_chan c (ClearCOption COPT_NOEXPIRE) s;
            NoticeToUser nptr (noexpire_msg ''off'' ''channel'' (c_name ch)) s }
          else NoticeToUser nptr (on_off_syntax ''noexpire'') s }"

definition noexpire_user :: "ptr \<Rightarrow> cstring \<Rightarrow> ptr \<Rightarrow> core \<Rightarrow> core option" where
  "noexpire_user nptr arg4 p s =
     do { u \<leftarrow> user_at s p;
          if streq arg4 (Some ''on'') then do {
            s \<leftarrow> upd_user p (SetUOption UOPT_NOEXPIRE) s;
            NoticeToUser nptr (noexpire_msg ''on'' ''user'' (u_nick u)) s }
          else if streq arg4 (Some ''off'') then do {
            s \<leftarrow> upd_user p (ClearUOption UOPT_NOEXPIRE) s;
            NoticeToUser nptr (noexpire_msg ''off'' ''user'' (u_nick u)) s }
          else NoticeToUser nptr (on_off_syntax ''noexpire'') s }"

text \<open>The opening that \<open>noexpire\<close> and \<open>suspend\<close> share: a channel or an account, by its first letter.\<close>

definition chan_or_user ::
  "string \<Rightarrow> (ptr \<Rightarrow> cstring \<Rightarrow> ptr \<Rightarrow> core \<Rightarrow> core option) \<Rightarrow> (ptr \<Rightarrow> cstring \<Rightarrow> ptr \<Rightarrow> core \<Rightarrow> core option) \<Rightarrow>
   ptr \<Rightarrow> cstring \<Rightarrow> core \<Rightarrow> core option" where
  "chan_or_user name on_chan on_user nptr all s =
     (let (arg3, arg4) = args2 all in
      if is_empty arg3 \<or> is_empty arg4 then NoticeToUser nptr (on_off_syntax name) s
      else if chan_arg arg3 then
        (case find_channel arg3 s of None \<Rightarrow> NoticeToUser nptr no_chan s | Some c \<Rightarrow> on_chan nptr arg4 c s)
      else (case find_user arg3 s of None \<Rightarrow> NoticeToUser nptr ''This user does not exist'' s
        | Some p \<Rightarrow> on_user nptr arg4 p s))"

definition oper_noexpire :: "nick_cmd" where
  "oper_noexpire nptr uptr all s = chan_or_user ''noexpire'' noexpire_chan noexpire_user nptr all s"

definition suspend_chan :: "ptr \<Rightarrow> cstring \<Rightarrow> ptr \<Rightarrow> core \<Rightarrow> core option" where
  "suspend_chan nptr arg4 c s =
     do { ch \<leftarrow> chan_at s c;
          if streq arg4 (Some ''on'') then do {
            s \<leftarrow> upd_chan c (SetCOption COPT_SUSPENDED) s;
            bn \<leftarrow> channel_botname c s;
            NoticeToUser nptr (''Channel '' @ c_name ch @ '' suspended.'')
              (send_raw ('':'' @ bn @ '' PART '' @ c_name ch @ '' :Channel suspended'') s) }
          else if streq arg4 (Some ''off'') then do {
            s \<leftarrow> upd_chan c (ClearCOption COPT_SUSPENDED) s;
            bn \<leftarrow> channel_botname c s;
            s \<leftarrow> JoinChannel bn (c_name ch) s;
            NoticeToUser nptr (''Channel '' @ c_name ch @ '' unsuspended.'') s }
          else NoticeToUser nptr (on_off_syntax ''suspend'') s }"

definition suspend_user :: "ptr option \<Rightarrow> ptr \<Rightarrow> cstring \<Rightarrow> ptr \<Rightarrow> core \<Rightarrow> core option" where
  "suspend_user uptr nptr arg4 p s =
     do { u2 \<leftarrow> user_at s p;
          u \<leftarrow> account uptr s;
          if u_level u \<le> u_level u2 then NoticeToUser nptr ''Cannot change suspend status of a user outranking you.'' s
          else if streq arg4 (Some ''on'') then do {
            s \<leftarrow> upd_user p (SetUOption UOPT_SUSPENDED) s;
            s \<leftarrow> (case u_authed_nick u2 of None \<Rightarrow> Some s | Some n \<Rightarrow> user_logout n (Some p) s);
            NoticeToUser nptr (''User '' @ u_nick u2 @ '' suspended.'') s }
          else if streq arg4 (Some ''off'') then do {
            s \<leftarrow> upd_user p (ClearUOption UOPT_SUSPENDED) s;
            NoticeToUser nptr (''User '' @ u_nick u2 @ '' unsuspended.'') s }
          else NoticeToUser nptr (on_off_syntax ''suspend'') s }"

definition oper_suspend :: "nick_cmd" where
  "oper_suspend nptr uptr all s = chan_or_user ''suspend'' suspend_chan (suspend_user uptr) nptr all s"

definition oper_superadmin :: "nick_cmd" where
  "oper_superadmin nptr uptr all s =
     (let arg1 = arg1_of all; syn = syntax_msg (''superadmin ['' @ ul ''on'' @ ''|'' @ ul ''off'' @ '']'') in
      if is_empty arg1 then NoticeToUser nptr syn s
      else if streq arg1 (Some ''on'') then do {
        s \<leftarrow> upd_nick nptr (SetUmode UMODE_SUPERADMIN) s;
        NoticeToUser nptr ''SuperAdmin status enabled.'' s }
      else if streq arg1 (Some ''off'') then do {
        s \<leftarrow> upd_nick nptr (ClearUmode UMODE_SUPERADMIN) s;
        NoticeToUser nptr ''SuperAdmin status disabled.'' s }
      else NoticeToUser nptr syn s)"

subsection \<open>Messages to the network\<close>

definition oper_jupe :: "nick_cmd" where
  "oper_jupe nptr uptr all s =
     (let (arg3, rest) = SeperateWord all in
      if is_empty arg3 \<or> is_empty rest then NoticeToUser nptr (syntax_msg (''jupe '' @ ul ''servername'' @ '' '' @ ul ''reason'')) s
      else do {
        n \<leftarrow> nick_at s nptr;
        let s = send_raw (''SQUIT '' @ the arg3 @ '' :Server juped by '' @ n_name n @ '' ('' @ the rest @ '')'') s;
        let s = send_raw (''SERVER '' @ the arg3 @ '' 1 :Server juped ('' @ the rest @ '')'') s;
        s \<leftarrow> NoticeToUser nptr ''Done.'' s;
        Some (globops (''Server '' @ the arg3 @ '' '' @ bold ''JUPED'' @ '' by '' @ n_name n @ '' ('' @ the rest @ '')'') s) })"

definition signed_msg :: "string \<Rightarrow> ptr \<Rightarrow> string \<Rightarrow> core \<Rightarrow> string option" where
  "signed_msg prefix nptr m s =
     (if cfg_anonymous_global (cfg s) \<noteq> 0 then Some (prefix @ m)
      else map_option (\<lambda>n. prefix @ ''['' @ n_name n @ ''] '' @ m) (nick_at s nptr))"

definition oper_global :: "nick_cmd" where
  "oper_global nptr uptr all s =
     (if is_empty all then NoticeToUser nptr (syntax_msg (''global '' @ ul ''message'')) s
      else do { m \<leftarrow> signed_msg ''(Global) '' nptr (the all) s; Some (send_global ''*'' m s) })"

definition oper_sglobal :: "nick_cmd" where
  "oper_sglobal nptr uptr all s =
     (let (serv, message) = SeperateWord all in
      if is_empty serv \<or> is_empty message
      then NoticeToUser nptr (syntax_msg (''sglobal '' @ ul ''server'' @ '' '' @ ul ''message'')) s
      else do { m \<leftarrow> signed_msg ''(sGlobal) '' nptr (the message) s; Some (send_global (the serv) m s) })"

definition oper_raw :: "nick_cmd" where
  "oper_raw nptr uptr all s =
     (if \<not> raws s then NoticeToUser nptr ''The raws are disabled'' s
      else if is_empty all then NoticeToUser nptr (syntax_msg (''raw '' @ ul ''message'')) s
      else Some (send_raw (the all) s))"

definition oper_setraws :: "nick_cmd" where
  "oper_setraws nptr uptr all s =
     (let arg3 = arg1_of all in
      if streq arg3 (Some ''1'') then NoticeToUser nptr ''The raws are now enabled'' (s\<lparr>raws := True\<rparr>)
      else if streq arg3 (Some ''0'') then NoticeToUser nptr ''The raws are now disabled'' (s\<lparr>raws := False\<rparr>)
      else NoticeToUser nptr (syntax_msg ''setraws [1|0]'') s)"

subsection \<open>Statistics\<close>

definition count_nicks :: "(nick \<Rightarrow> bool) \<Rightarrow> core \<Rightarrow> int option" where
  "count_nicks P s =
     foldM (\<lambda>p k. map_option (\<lambda>n. if P n then k + 1 else k) (nick_at s p)) (map snd (nicks s)) 0"

definition uptime_line :: "int \<Rightarrow> string" where
  "uptime_line t =
     (case elapsed t of None \<Rightarrow> ''You discovered a hidden message, congratulations :)'' | Some x \<Rightarrow> ''Uptime: '' @ x)"

definition stats_lines :: "int \<Rightarrow> int \<Rightarrow> int \<Rightarrow> int \<Rightarrow> int \<Rightarrow> int \<Rightarrow> int \<Rightarrow> string list" where
  "stats_lines all fakes j k l m n =
     [''There are '' @ bold (dec (all + fakes)) @ '' online users ('' @ bold (dec j) @ '' opers)'',
      ''   '' @ dec fakes @ '' fakeusers'', ''   '' @ dec k @ '' ircops'', ''   '' @ dec n @ '' bots'',
      ''       '' @ dec l @ '' opers bots'', ''       '' @ dec m @ '' normals bots'',
      ''   '' @ bold (dec (all - l - m - k)) @ '' real users'']"

text \<open>The two figures of memory come from the operating system.\<close>

definition oper_stats :: "int \<times> int \<Rightarrow> nick_cmd" where
  "oper_stats mem nptr uptr all s =
     do { s \<leftarrow> NoticeToUser nptr (''There are '' @ dec (int (length (users s))) @ '' registered users and '' @
              dec (int (length (chans s))) @ '' registered channels'') s;
          let op = (\<lambda>n. HasUmode n UMODE_OPER);
          let bt = (\<lambda>n. HasUmode n UMODE_BOT);
          let sv = (\<lambda>n. HasUmode n UMODE_SERVICE);
          j \<leftarrow> count_nicks op s;
          k \<leftarrow> count_nicks (\<lambda>n. op n \<and> \<not> bt n \<and> \<not> sv n) s;
          l \<leftarrow> count_nicks (\<lambda>n. op n \<and> bt n \<or> sv n) s;
          m \<leftarrow> count_nicks (\<lambda>n. \<not> op n \<and> bt n) s;
          n \<leftarrow> count_nicks (\<lambda>n. bt n \<or> sv n) s;
          s \<leftarrow> foldM (NoticeToUser nptr)
                 (stats_lines (int (length (nicks s))) (int (length (fakeusers s))) j k l m n) s;
          s \<leftarrow> NoticeToUser nptr (uptime_line (to_int (clock s - startuptime s))) s;
          NoticeToUser nptr (''Memory : vsize '' @ dec (fst mem) @ '' ko , rss '' @ dec (snd mem) @ '' ko'') s }"


subsection \<open>Modules and levels\<close>

text \<open>A command on the whole service.\<close>

type_synonym oper_cmd = "ptr \<Rightarrow> ptr option \<Rightarrow> cstring \<Rightarrow> services \<Rightarrow> services option"

definition on_nick :: "nick_cmd \<Rightarrow> oper_cmd" where
  "on_nick f nptr uptr all = on_core (f nptr uptr all)"

definition notice_w :: "ptr \<Rightarrow> string \<Rightarrow> services \<Rightarrow> services option" where
  "notice_w nptr m = on_core (NoticeToUser nptr m)"

text \<open>
  What the dynamic linker finds: whether it opens the file of a module, whether that has the two
  functions, and what these do.
\<close>

record linker =
  ln_opens :: "string \<Rightarrow> bool"
  ln_has_init :: "string \<Rightarrow> bool"
  ln_init :: "string \<Rightarrow> modules \<times> services \<Rightarrow> (modules \<times> services) option"
  ln_has_cleanup :: "string \<Rightarrow> bool"
  ln_cleanup :: "string \<Rightarrow> modules \<times> services \<Rightarrow> (modules \<times> services) option"

definition with_modules :: "modules \<times> services \<Rightarrow> services" where
  "with_modules st = (snd st)\<lparr>modules := fst st\<rparr>"

definition told :: "ptr \<Rightarrow> string \<Rightarrow> string \<Rightarrow> services \<Rightarrow> services option" where
  "told nptr m what w =
     do { w \<leftarrow> notice_w nptr m w;
          n \<leftarrow> nick_at (svc w) nptr;
          Some (w\<lparr>svc := globops (n_name n @ what) (svc w)\<rparr>) }"

definition oper_modload :: "linker \<Rightarrow> oper_cmd" where
  "oper_modload D nptr uptr all w =
     (let arg3 = arg1_of all in
      if is_empty arg3 then notice_w nptr (syntax_msg (''modload '' @ ul ''modname'')) w
      else if find_module arg3 (modules w) \<noteq> None then notice_w nptr (''Module '' @ the arg3 @ '' already loaded'') w
      else do {
        (ok, st) \<leftarrow> loadmodule (ln_opens D) (ln_has_init D) (ln_init D) (the arg3) (modules w, w);
        let w = with_modules st;
        if \<not> ok then notice_w nptr (''Cannot load module '' @ the arg3) w
        else told nptr (''Module '' @ the arg3 @ '' loaded'') ('' loaded module '' @ bold (the arg3)) w })"

definition oper_modunload :: "linker \<Rightarrow> oper_cmd" where
  "oper_modunload D nptr uptr all w =
     (let arg3 = arg1_of all in
      if is_empty arg3 then notice_w nptr (syntax_msg (''modunload '' @ ul ''modname'')) w
      else (case find_module arg3 (modules w) of
          None \<Rightarrow> notice_w nptr (''Module '' @ the arg3 @ '' is not loaded'') w
        | Some m \<Rightarrow>
            if md_nodreload m = 1 then notice_w nptr (''Cannot unload '' @ the arg3 @
              '' through modunload command. Please rehash instead.'') w
            else do {
              (r, st) \<leftarrow> unloadmodule (ln_has_cleanup D) (ln_cleanup D) (the arg3) (modules w, w);
              let w = with_modules st;
              if r = 0 then notice_w nptr (''Cannot unload '' @ the arg3) w
              else told nptr (''Module '' @ the arg3 @ '' unloaded'') ('' unloaded module '' @ bold (the arg3)) w }))"

definition oper_modlist :: "oper_cmd" where
  "oper_modlist nptr uptr all w =
     do { w \<leftarrow> notice_w nptr ''Modules list :'' w;
          w \<leftarrow> foldM (\<lambda>e. notice_w nptr (''   '' @ bold (md_name (snd e)))) (modules w) w;
          notice_w nptr (''End of list. ('' @ dec (int (length (modules w))) @ '' entries)'') w }"

definition oper_cmdlev :: "oper_cmd" where
  "oper_cmdlev nptr uptr all w =
     (let (arg1, r) = SeperateWord all; (arg2, r) = SeperateWord r; (arg3, r) = SeperateWord r;
          (arg4, r) = SeperateWord r; (arg5, _) = SeperateWord r; k = cfg (svc w); cs = commands w in
      if is_empty arg1 \<or> is_empty arg2 then do {
        w \<leftarrow> notice_w nptr (syntax_msg (''cmdlev '' @ ul ''command'' @ '' '' @ ul ''new level'')) w;
        notice_w nptr ''Example: cmdlev chan register 100'' w }
      else (let (ret, cs) =
          (if is_empty arg3 then setcmdlev k arg1 None None None (atoi (the arg2)) cs
           else if is_empty arg4 then setcmdlev k arg1 arg2 None None (atoi (the arg3)) cs
           else if is_empty arg5 then setcmdlev k arg1 arg2 arg3 None (atoi (the arg4)) cs
           else setcmdlev k arg1 arg2 arg3 arg4 (atoi (the arg5)) cs) in
        notice_w nptr (if ret \<noteq> 0 then ''Done.'' else ''Failed.'') (w\<lparr>commands := cs\<rparr>)))"

text \<open>Only operators of the network reach the commands.\<close>

definition do_oper :: "oper_cmd \<Rightarrow> (string \<Rightarrow> oper_cmd) \<Rightarrow> oper_cmd" where
  "do_oper help call nptr uptr all w =
     do { a \<leftarrow> all;
          buf \<leftarrow> strbuf a 1024;
          n \<leftarrow> nick_at (svc w) nptr;
          let arg2 = snd (args2 (Some buf));
          if \<not> HasUmode n UMODE_OPER then do {
            w \<leftarrow> notice_w nptr denied w;
            Some (w\<lparr>svc := globops (''Access denied to OPER commands from '' @ bold (n_name n) @ '' (non-oper)'') (svc w)\<rparr>) }
          else if is_empty arg2 then
            notice_w nptr (''Type '' @ bold (''/msg '' @ cfg_nick (cfg (svc w)) @ '' help oper'') @ '' for more informations'') w
          else if streq arg2 (Some ''help'') then help nptr uptr all w
          else (case lookup_command arg2 CMD_OPER (commands w) of
              None \<Rightarrow> notice_w nptr ''Unknown command'' w
            | Some cmd \<Rightarrow> do {
                b \<leftarrow> may_run uptr (cmd_level cmd) (svc w);
                if b then call (cmd_func cmd) nptr uptr (snd (SeperateWord (snd (SeperateWord all)))) w
                else notice_w nptr denied w }) }"

definition oper_functions :: "lib \<Rightarrow> int \<times> int \<Rightarrow> linker \<Rightarrow> (string \<times> oper_cmd) list" where
  "oper_functions L mem D =
     map (\<lambda>(n, f). (n, on_nick f))
       [(''oper_userlist'', oper_userlist), (''oper_trustlist'', oper_trustlist), (''oper_trustdel'', oper_trustdel),
        (''oper_trustadd'', oper_trustadd), (''oper_suspend'', oper_suspend), (''oper_superadmin'', oper_superadmin),
        (''oper_stats'', oper_stats mem), (''oper_sglobal'', oper_sglobal), (''oper_setraws'', oper_setraws),
        (''oper_regexpcheck'', oper_regexpcheck L), (''oper_raw'', oper_raw), (''oper_operlist'', oper_operlist),
        (''oper_noexpire'', oper_noexpire), (''oper_nicklist'', oper_nicklist),
        (''oper_massfakeuser'', oper_massfakeuser), (''oper_massfakekill'', oper_massfakekill),
        (''oper_massfakejoin'', oper_massfakejoin), (''oper_killall'', oper_killall L),
        (''oper_glinechan'', oper_glinechan), (''oper_glineall'', oper_glineall L), (''oper_jupe'', oper_jupe),
        (''oper_global'', oper_global), (''oper_forceauth'', oper_forceauth), (''oper_fakeuser'', oper_fakeuser),
        (''oper_fakesay'', oper_fakesay), (''oper_fakenick'', oper_fakenick), (''oper_fakelist'', oper_fakelist),
        (''oper_fakekill'', oper_fakekill), (''oper_fakejoin'', oper_fakejoin), (''oper_chanlist'', oper_chanlist),
        (''oper_changelev'', oper_changelev)] @
     [(''oper_modunload'', oper_modunload D), (''oper_modload'', oper_modload D), (''oper_modlist'', oper_modlist),
      (''oper_cmdlev'', oper_cmdlev)]"

end
