(* ===== verification/Database.thy ===== *)
theory Database
  imports OperCmds
begin

section \<open>Saving and loading: src/src/db.c\<close>

text \<open>
  The server of the database is outside. Loading gets the rows that it answers to each query, or nothing
  when it fails; a field is a text or NULL. Saving is the list of the queries that are sent. The
  messages on the terminal are left out.
\<close>

type_synonym row = "cstring list"

definition num :: "cstring \<Rightarrow> int option" where
  "num x = map_option (\<lambda>t. to_int (strtol t)) x"

subsection \<open>One row\<close>

text \<open>The answer is 0, or -1 for a row that is refused. A NULL that is copied is undefined.\<close>

definition load_one_user :: "row \<Rightarrow> core \<Rightarrow> (int \<times> core) option" where
  "load_one_user r s =
     (case r of [name, level, seen, vhost, md5, pwhash, opts, timeout, email, reg] \<Rightarrow> do {
        level \<leftarrow> num level;
        seen \<leftarrow> num seen;
        opts \<leftarrow> num opts;
        timeout \<leftarrow> num timeout;
        reg \<leftarrow> num reg;
        if find_user name s \<noteq> None then Some (-1, s)
        else do {
          name \<leftarrow> name;
          case AddUser name level s of (None, s) \<Rightarrow> Some (-1, s)
          | (Some p, s) \<Rightarrow> do {
              vhost \<leftarrow> vhost;
              md5 \<leftarrow> md5;
              pwhash \<leftarrow> pwhash;
              pwhash \<leftarrow> strbuf pwhash 128;
              email \<leftarrow> email;
              s \<leftarrow> upd_user p (\<lambda>u. u\<lparr>u_lastseen := seen, u_vhost := strncpy vhost HOSTLEN, u_md5_pass := strncpy md5 32,
                     u_pwhash := pwhash, u_options := word_of_int opts,
                     u_timeout := (if timeout = 0 then TIMEOUT_DFLT else timeout),
                     u_email := strncpy email EMAILLEN, u_regtime := reg\<rparr>) s;
              Some (0, s) } } }
      | _ \<Rightarrow> None)"

definition load_one_chan :: "row \<Rightarrow> core \<Rightarrow> (int \<times> core) option" where
  "load_one_chan r s =
     (case r of [name, owner, entrymsg, opts, mlock, autolimit, seen, reg, topic] \<Rightarrow> do {
        opts \<leftarrow> num opts;
        autolimit \<leftarrow> num autolimit;
        seen \<leftarrow> num seen;
        reg \<leftarrow> num reg;
        if find_channel name s \<noteq> None \<or> find_user owner s = None then Some (-1, s)
        else do {
          name \<leftarrow> name;
          owner \<leftarrow> owner;
          (c, s) \<leftarrow> CreateChannel name owner seen s;
          case c of None \<Rightarrow> Some (-1, s)
          | Some c \<Rightarrow> do {
              entrymsg \<leftarrow> entrymsg;
              mlock \<leftarrow> mlock;
              topic \<leftarrow> topic;
              s \<leftarrow> upd_chan c (\<lambda>x. x\<lparr>c_entrymsg := strncpy entrymsg 250, c_options := word_of_int opts,
                     c_mlock := strncpy mlock 50, c_autolimit := autolimit, c_regtime := reg,
                     c_topic := strncpy topic TOPICLEN\<rparr>) s;
              Some (0, s) } } }
      | _ \<Rightarrow> None)"

text \<open>The entry of the owner comes with the channel and is skipped.\<close>

definition load_one_cflag :: "row \<Rightarrow> core \<Rightarrow> (int \<times> core) option" where
  "load_one_cflag r s =
     (case r of [chname, username, level, automode, susp, uflags] \<Rightarrow> do {
        level \<leftarrow> num level;
        automode \<leftarrow> num automode;
        susp \<leftarrow> num susp;
        uflags \<leftarrow> num uflags;
        if level = CHLEV_OWNER then Some (0, s)
        else if CHLEV_OWNER < level then Some (-1, s)
        else (case (find_channel chname s, find_user username s) of
            (Some c, Some u) \<Rightarrow> do {
              old \<leftarrow> find_cflag c u s;
              if old \<noteq> None then Some (-1, s)
              else do {
                (p, s) \<leftarrow> AddUserToChannel u c level (word_of_int uflags) s;
                s \<leftarrow> upd_cflag p (\<lambda>x. x\<lparr>cf_automode := automode, cf_suspended := susp\<rparr>) s;
                Some (0, s) } }
          | _ \<Rightarrow> Some (-1, s)) }
      | _ \<Rightarrow> None)"

definition load_one_trust :: "row \<Rightarrow> core \<Rightarrow> (int \<times> core) option" where
  "load_one_trust r s =
     (case r of [host, nclones] \<Rightarrow> do {
        n \<leftarrow> num nclones;
        if find_trust_strict host s \<noteq> None then Some (-1, s)
        else do { host \<leftarrow> host; let (p, s) = AddTrust host n s; Some (if p = None then -1 else 0, s) } }
      | _ \<Rightarrow> None)"

definition load_one_link :: "row \<Rightarrow> core \<Rightarrow> (int \<times> core) option" where
  "load_one_link r s =
     (case r of [master, slave] \<Rightarrow>
        if find_user master s = None \<or> find_user slave s = None \<or> find_link slave s \<noteq> None then Some (-1, s)
        else do { m \<leftarrow> master; sl \<leftarrow> slave; let (p, s) = AddLink m sl s; Some (if p = None then -1 else 0, s) }
      | _ \<Rightarrow> None)"

definition load_one_botserv_bot :: "row \<Rightarrow> core \<Rightarrow> (int \<times> core) option" where
  "load_one_botserv_bot r s =
     (case r of [name, ident, host] \<Rightarrow>
        if find_bot name s \<noteq> None then Some (-1, s)
        else do {
          n \<leftarrow> name; i \<leftarrow> ident; h \<leftarrow> host;
          let (p, s) = add_bot n i h s;
          Some (if p = None then -1 else 0, s) }
      | _ \<Rightarrow> None)"

definition load_one_botserv_chan :: "row \<Rightarrow> core \<Rightarrow> (int \<times> core) option" where
  "load_one_botserv_chan r s =
     (case r of [chname, botname] \<Rightarrow>
        (case (find_bot botname s, find_channel chname s) of
           (Some b, Some c) \<Rightarrow> do {
             x \<leftarrow> chan_at s c;
             if c_chanbot x \<noteq> None then Some (-1, s)
             else do { s \<leftarrow> upd_chan c (\<lambda>x. x\<lparr>c_chanbot := Some b\<rparr>) s; Some (0, s) } }
         | _ \<Rightarrow> Some (-1, s))
      | _ \<Rightarrow> None)"

subsection \<open>Tables\<close>

text \<open>The rows in turn, up to the first that is refused.\<close>

fun load_rows :: "(row \<Rightarrow> core \<Rightarrow> (int \<times> core) option) \<Rightarrow> row list \<Rightarrow> core \<Rightarrow> (int \<times> core) option" where
  "load_rows f [] s = Some (0, s)"
| "load_rows f (r # rs) s =
     Option.bind (f r s) (\<lambda>(e, s). if e \<noteq> 0 then Some (e, s) else load_rows f rs s)"

definition load_table ::
  "(row \<Rightarrow> core \<Rightarrow> (int \<times> core) option) \<Rightarrow> row list option \<Rightarrow> core \<Rightarrow> (int \<times> core) option" where
  "load_table f result s = (case result of None \<Rightarrow> Some (-1, s) | Some rs \<Rightarrow> load_rows f rs s)"

definition load_user_db where "load_user_db = load_table load_one_user"
definition load_chan_db where "load_chan_db = load_table load_one_chan"
definition load_cflag_db where "load_cflag_db = load_table load_one_cflag"
definition load_trust_db where "load_trust_db = load_table load_one_trust"
definition load_link_db where "load_link_db = load_table load_one_link"
definition load_botserv_bots_db where "load_botserv_bots_db = load_table load_one_botserv_bot"
definition load_botserv_chans_db where "load_botserv_chans_db = load_table load_one_botserv_chan"

text \<open>The answers of the server, one for each query.\<close>

record tables =
  db_users :: "row list option"
  db_links :: "row list option"
  db_trusts :: "row list option"
  db_chans :: "row list option"
  db_cflags :: "row list option"
  db_bots :: "row list option"
  db_botchans :: "row list option"

definition load_steps :: "tables \<Rightarrow> (core \<Rightarrow> (int \<times> core) option) list" where
  "load_steps d =
     [load_user_db (db_users d), load_link_db (db_links d), load_trust_db (db_trusts d), load_chan_db (db_chans d),
      load_cflag_db (db_cflags d), load_botserv_bots_db (db_bots d), load_botserv_chans_db (db_botchans d)]"

fun run_steps :: "(core \<Rightarrow> (int \<times> core) option) list \<Rightarrow> core \<Rightarrow> (int \<times> core) option" where
  "run_steps [] s = Some (0, s)"
| "run_steps (f # fs) s = Option.bind (f s) (\<lambda>(e, s). if e \<noteq> 0 then Some (e, s) else run_steps fs s)"

definition load_all_db :: "env \<Rightarrow> bool \<Rightarrow> tables \<Rightarrow> services \<Rightarrow> (int \<times> services) option" where
  "load_all_db E alive d w =
     (if \<not> alive then Some (-1, w)
      else do {
        (e, s) \<leftarrow> run_steps (load_steps d) (svc w);
        let w = w\<lparr>svc := s\<rparr>;
        if e \<noteq> 0 then Some (e, w)
        else do { w \<leftarrow> fire_hooks E HOOK_LOADDB None None None [] w; Some (0, w) } })"

subsection \<open>Saving\<close>

text \<open>
  A field written by \<open>strtosql\<close> into an array of \<open>room\<close> bytes: undefined when it overruns it or
  leaves it without an end.
\<close>

definition sql_field :: "string \<Rightarrow> nat \<Rightarrow> nat \<Rightarrow> string option" where
  "sql_field src len room =
     (let out = strtosql src len in
      if length out \<le> room \<and> CHR 0x00 \<in> set out then Some (takeWhile (\<lambda>c. c \<noteq> CHR 0x00) out) else None)"

definition sq :: "string \<Rightarrow> string" where
  "sq x = CHR 0x27 # x @ [CHR 0x27]"

fun commas :: "string list \<Rightarrow> string" where
  "commas [] = []"
| "commas [x] = x"
| "commas (x # xs) = x @ CHR '','' # commas xs"

text \<open>A query of at most 1023 bytes.\<close>

definition insert_into :: "string \<Rightarrow> string list \<Rightarrow> string" where
  "insert_into tab vals = take 1023 (''INSERT INTO '' @ tab @ '' VALUES ('' @ commas vals @ '')'')"

definition user_columns :: string where
  "user_columns = ''child_users (username, authlevel, seen, vhost, md5_pass, pwhash, options, timeout, email, regtime)''"

definition insert_user :: "user \<Rightarrow> string option" where
  "insert_user u =
     map_option (\<lambda>name. insert_into user_columns
       [sq name, dec (u_level u), dec (u_lastseen u), sq (u_vhost u), sq (u_md5_pass u), sq (u_pwhash u),
        dec (sint (u_options u)), dec (u_timeout u), sq (u_email u), dec (u_regtime u)])
       (sql_field (u_nick u) 512 512)"

text \<open>The queries that a walk over a table adds to those before it.\<close>

definition queries_of :: "(ptr \<Rightarrow> core \<Rightarrow> string list option) \<Rightarrow> ptr list \<Rightarrow> core \<Rightarrow> string list \<Rightarrow> string list option" where
  "queries_of f ps s qs = foldM (\<lambda>p qs. map_option (\<lambda>new. qs @ new) (f p s)) ps qs"

definition saveuserdb :: "bool \<Rightarrow> core \<Rightarrow> string list option" where
  "saveuserdb alive s =
     (if \<not> alive then Some []
      else queries_of (\<lambda>p s. do { u \<leftarrow> user_at s p; q \<leftarrow> insert_user u; Some [q] }) (map snd (users s)) s
             [''DELETE FROM child_users''])"

definition insert_cflag :: "string \<Rightarrow> ptr \<Rightarrow> core \<Rightarrow> string list option" where
  "insert_cflag chname p s =
     do { cf \<leftarrow> cflag_at s p;
          if CHLEV_OWNER \<le> cf_flags cf then Some []
          else do {
            u \<leftarrow> user_at s (cf_user cf);
            nick \<leftarrow> sql_field (u_nick u) NICKLEN (NICKLEN + 1);
            Some [insert_into ''`child_chan_access`'' [sq chname, sq nick, dec (cf_flags cf), dec (cf_automode cf),
              dec (cf_suspended cf), dec (sint (cf_uflags cf))]] } }"

definition insert_chan :: "ptr \<Rightarrow> core \<Rightarrow> string list option" where
  "insert_chan p s =
     do { c \<leftarrow> chan_at s p;
          chname \<leftarrow> sql_field (c_name c) CHANLEN (CHANLEN + 1);
          topic \<leftarrow> sql_field (c_topic c) TOPICLEN (TOPICLEN + 1);
          owner \<leftarrow> sql_field (c_owner c) NICKLEN (NICKLEN + 1);
          entrymsg \<leftarrow> sql_field (c_entrymsg c) 250 251;
          queries_of (insert_cflag chname) (c_cflags c) s
            [insert_into ''`child_chans`'' [sq chname, sq owner, sq entrymsg, dec (sint (c_options c)), sq (c_mlock c),
              dec (c_autolimit c), dec (c_lastseen c), dec (c_regtime c), sq topic]] }"

definition savechandb :: "bool \<Rightarrow> core \<Rightarrow> string list option" where
  "savechandb alive s =
     (if \<not> alive then Some []
      else queries_of insert_chan (map snd (chans s)) s [''DELETE FROM child_chans'', ''DELETE FROM child_chan_access''])"

definition savetrustdb :: "bool \<Rightarrow> core \<Rightarrow> string list option" where
  "savetrustdb alive s =
     (if \<not> alive then Some []
      else queries_of (\<lambda>p s. map_option (\<lambda>t. [insert_into ''child_trusts'' [sq (t_host t), dec (t_limit t)]]) (trust_at s p))
             (map snd (trusts s)) s [''DELETE FROM child_trusts''])"

text \<open>The buffers for the names of a link are one byte shorter than the others.\<close>

definition savelinkdb :: "bool \<Rightarrow> core \<Rightarrow> string list option" where
  "savelinkdb alive s =
     (if \<not> alive then Some []
      else queries_of (\<lambda>p s. do {
               l \<leftarrow> link_at s p;
               m \<leftarrow> sql_field (l_master l) NICKLEN NICKLEN;
               sl \<leftarrow> sql_field (l_slave l) NICKLEN NICKLEN;
               Some [insert_into ''child_links'' [sq m, sq sl]] }) (map snd (links s)) s [''DELETE FROM child_links''])"

definition savebotservdb :: "bool \<Rightarrow> core \<Rightarrow> string list option" where
  "savebotservdb alive s =
     (if \<not> alive then Some []
      else do {
        qs \<leftarrow> queries_of (\<lambda>p s. map_option (\<lambda>b. [insert_into ''child_botserv_bots''
                 [sq (b_nick b), sq (b_ident b), sq (b_host b)]]) (bot_at s p)) (map snd (bots s)) s
               [''DELETE FROM child_botserv_bots''];
        queries_of (\<lambda>p s. do {
            c \<leftarrow> chan_at s p;
            case c_chanbot c of None \<Rightarrow> Some []
            | Some b \<Rightarrow> map_option (\<lambda>bt. [insert_into ''child_botserv_chans'' [sq (c_name c), sq (b_nick bt)]]) (bot_at s b) })
          (map snd (chans s)) s (qs @ [''DELETE FROM child_botserv_chans'']) })"

text \<open>Every part asks again whether the server answers; \<open>alive\<close> tells each time.\<close>

definition savealldb :: "env \<Rightarrow> (nat \<Rightarrow> bool) \<Rightarrow> services \<Rightarrow> (string list \<times> services) option" where
  "savealldb E alive w =
     (if \<not> alive 0 then Some ([], w)
      else do {
        let s = svc w;
        a \<leftarrow> saveuserdb (alive 1) s;
        b \<leftarrow> savechandb (alive 2) s;
        c \<leftarrow> savetrustdb (alive 3) s;
        d \<leftarrow> savelinkdb (alive 4) s;
        e \<leftarrow> savebotservdb (alive 5) s;
        w \<leftarrow> fire_hooks E HOOK_SAVEDB None None None [] w;
        Some (a @ b @ c @ d @ e, w) })"

text \<open>What is sent to the database is kept with the state.\<close>

definition save_now :: "env \<Rightarrow> (nat \<Rightarrow> bool) \<Rightarrow> services \<Rightarrow> services option" where
  "save_now E alive w = map_option (\<lambda>(qs, w). w\<lparr>queries := queries w @ qs\<rparr>) (savealldb E alive w)"

definition oper_savedb :: "env \<Rightarrow> (nat \<Rightarrow> bool) \<Rightarrow> oper_cmd" where
  "oper_savedb E alive nptr uptr all w =
     do { w \<leftarrow> save_now E alive w; notice_w nptr ''Databases saved'' w }"

end
