(* ===== verification/Sql.thy ===== *)
theory Sql
  imports Database
begin

section \<open>The text of a query and the rows it stands for\<close>

text \<open>
  How the server reads the list behind VALUES: numbers as they stand, texts between quotes, where a quote
  is doubled or behind a backslash. \<open>strtosql\<close> writes no other escape.
\<close>

subsection \<open>Numbers\<close>

lemma isdigit_dec: "n < 10 \<Longrightarrow> isdigit (char_of (48 + n :: nat))"
  by (simp add: isdigit_def)

lemma digit_value: "n < 10 \<Longrightarrow> of_char (char_of (48 + n :: nat)) = (48 + int n)"
proof -
  assume "n < 10"
  then have "(of_char (char_of (48 + n :: nat)) :: nat) = 48 + n" by simp
  then have "int (of_char (char_of (48 + n :: nat))) = 48 + int n" by (simp del: of_char_of)
  then show ?thesis unfolding of_nat_of_char .
qed

lemma dec_nat_digits: "\<forall>c \<in> set (dec_nat n). isdigit c"
proof (induction n rule: dec_nat.induct)
  case (1 n)
  then show ?case by (subst dec_nat.simps) (auto simp: isdigit_dec)
qed

lemma dec_nat_not_Nil [simp]: "dec_nat n \<noteq> []"
  by (subst dec_nat.simps) simp

lemma digits_value_snoc:
  "\<forall>c \<in> set ds. isdigit c \<Longrightarrow> isdigit d \<Longrightarrow> digits_value (ds @ [d]) = 10 * digits_value ds + (of_char d - 48)"
  by (simp add: digits_value_def takeWhile_eq_all_conv [THEN iffD2])

lemma digits_value_dec: "digits_value (dec_nat n) = int n"
proof (induction n rule: dec_nat.induct)
  case (1 n)
  show ?case
  proof (cases "n < 10")
    case True
    then show ?thesis
      by (subst dec_nat.simps) (simp add: digits_value_def isdigit_dec digit_value)
  next
    case False
    have "digits_value (dec_nat n) = digits_value (dec_nat (n div 10) @ [char_of (48 + n mod 10)])"
      using False by (subst dec_nat.simps) simp
    also have "\<dots> = 10 * digits_value (dec_nat (n div 10)) + (of_char (char_of (48 + n mod 10)) - 48)"
      by (rule digits_value_snoc) (simp_all add: dec_nat_digits isdigit_dec)
    also have "\<dots> = 10 * int (n div 10) + int (n mod 10)" using 1 False digit_value [of "n mod 10"] by simp
    finally show ?thesis by presburger
  qed
qed

lemma length_dec_nat: "n < 10 ^ k \<Longrightarrow> 0 < k \<Longrightarrow> length (dec_nat n) \<le> k"
proof (induction n arbitrary: k rule: dec_nat.induct)
  case (1 n)
  show ?case
  proof (cases "n < 10")
    case False
    then obtain j where k: "k = Suc j" "0 < j" using 1(2,3) by (cases k; cases "k - 1") auto
    then have "n div 10 < 10 ^ j" using 1(2) by (simp add: less_mult_imp_div_less mult.commute)
    then have "length (dec_nat (n div 10)) \<le> j" using 1(1) False k(2) by simp
    with False k show ?thesis by (subst dec_nat.simps) simp
  qed (use 1 in \<open>subst dec_nat.simps, simp\<close>)
qed

lemma dec_nat_hd: "\<exists>c cs. dec_nat n = c # cs \<and> isdigit c"
  using dec_nat_digits [of n] by (cases "dec_nat n") auto

lemma digit_plain: "isdigit c \<Longrightarrow> \<not> isspace c \<and> c \<noteq> CHR ''-'' \<and> c \<noteq> CHR ''+''"
  by (auto simp: isdigit_def isspace_def Let_def)

lemma strtol_dec:
  assumes "- (2 ^ 63) \<le> n" "n < 2 ^ 63"
  shows "strtol (dec n) = n"
proof (cases "n < 0")
  case True
  have "\<not> isspace CHR ''-''" by (simp add: isspace_def)
  with True assms show ?thesis
    by (simp add: strtol_def dec_def digits_value_dec)
next
  case False
  obtain c cs where c: "dec_nat (nat n) = c # cs" "isdigit c" using dec_nat_hd by blast
  then have "digits_value (c # cs) = n" using False digits_value_dec [of "nat n"] by simp
  with False assms c show ?thesis by (auto simp: strtol_def dec_def dest: digit_plain)
qed

lemma to_int_id: "- (2 ^ 31) \<le> n \<Longrightarrow> n < 2 ^ 31 \<Longrightarrow> to_int n = n"
  by (simp add: to_int_def sint_sbintrunc' signed_take_bit_int_eq_self)

lemma num_dec: "int32 n \<Longrightarrow> num (Some (dec n)) = Some n"
  by (simp add: num_def int32_def strtol_dec to_int_id)

lemma length_dec: "int32 n \<Longrightarrow> length (dec n) \<le> 11"
  using length_dec_nat [of "nat n" 10] length_dec_nat [of "nat (- n)" 10]
  by (cases "n < 0") (simp_all add: dec_def int32_def nat_less_iff)

lemma dec_chars: "c \<in> set (dec n) \<Longrightarrow> isdigit c \<or> c = CHR ''-''"
  using dec_nat_digits by (auto simp: dec_def split: if_splits)

lemma dec_not_Nil [simp]: "dec n \<noteq> []"
  by (simp add: dec_def)

subsection \<open>Texts\<close>

abbreviation quote :: char where "quote \<equiv> CHR 0x27"

fun sql_text :: "string \<Rightarrow> string \<times> string" where
  "sql_text [] = ([], [])"
| "sql_text [c] = (if c = quote then ([], []) else ([c], []))"
| "sql_text (c # d # r) =
     (if c = CHR 0x5C then apfst (Cons d) (sql_text r)
      else if c \<noteq> quote then apfst (Cons c) (sql_text (d # r))
      else if d = quote then apfst (Cons quote) (sql_text r)
      else ([], d # r))"

lemma sql_text_length: "length (snd (sql_text s)) \<le> length s"
  by (induction s rule: sql_text.induct) auto

definition plain_text :: "string \<Rightarrow> bool" where
  "plain_text x \<longleftrightarrow> quote \<notin> set x \<and> CHR 0x5C \<notin> set x"

definition ends_text :: "string \<Rightarrow> bool" where
  "ends_text r \<longleftrightarrow> (case r of [] \<Rightarrow> True | c # _ \<Rightarrow> c \<noteq> quote)"

lemma sql_text_end: "ends_text r \<Longrightarrow> sql_text (quote # r) = ([], r)"
  by (cases r) (auto simp: ends_text_def)

lemma sql_text_cons: "c \<noteq> quote \<Longrightarrow> c \<noteq> CHR 0x5C \<Longrightarrow> r \<noteq> [] \<Longrightarrow> sql_text (c # r) = apfst (Cons c) (sql_text r)"
  by (cases r) auto

lemma sql_text_plain: "plain_text x \<Longrightarrow> ends_text r \<Longrightarrow> sql_text (x @ quote # r) = (x, r)"
  by (induction x) (auto simp: plain_text_def sql_text_end sql_text_cons)

lemma sql_text_escaped:
  assumes "CHR 0x00 \<notin> set x" "length x < len" "ends_text r"
  shows "sql_text (takeWhile (\<lambda>c. c \<noteq> CHR 0x00) (strtosql x len) @ quote # r) = (x, r)"
  using assms
proof (induction x len rule: strtosql.induct)
  case (2 len)
  then show ?case using sql_text_end by simp
next
  case (3 c cs len)
  then show ?case by (auto simp: needs_escape_def sql_text_cons)
qed simp

subsection \<open>Lists of values\<close>

datatype sql_token = Word string | Text string | Comma | Open | Close

function sql_tokens :: "string \<Rightarrow> sql_token list" where
  "sql_tokens [] = []"
| "sql_tokens (c # r) =
     (if c = quote then Text (fst (sql_text r)) # sql_tokens (snd (sql_text r))
      else if c = CHR '','' then Comma # sql_tokens r
      else if c = CHR ''('' then Open # sql_tokens r
      else if c = CHR '')'' then Close # sql_tokens r
      else (case sql_tokens r of Word w # ts \<Rightarrow> Word (c # w) # ts | ts \<Rightarrow> Word [c] # ts))"
  by pat_completeness auto
termination
  by (relation "measure length") (auto simp: sql_text_length le_imp_less_Suc)

definition token_value :: "sql_token \<Rightarrow> string option" where
  "token_value t = (case t of Word w \<Rightarrow> Some w | Text w \<Rightarrow> Some w | _ \<Rightarrow> None)"

fun sql_list :: "string list \<Rightarrow> sql_token list \<Rightarrow> string list list option" where
  "sql_list vs (t # Comma # ts) = Option.bind (token_value t) (\<lambda>v. sql_list (vs @ [v]) ts)"
| "sql_list vs [t, Close] = map_option (\<lambda>v. [vs @ [v]]) (token_value t)"
| "sql_list vs (t # Close # Comma # Open # ts) =
     Option.bind (token_value t) (\<lambda>v. map_option (Cons (vs @ [v])) (sql_list [] ts))"
| "sql_list _ _ = None"

text \<open>The rows that a query inserts into a table.\<close>

definition insert_prefix :: "string \<Rightarrow> string" where
  "insert_prefix tab = ''INSERT INTO '' @ tab @ '' VALUES ''"

definition inserted_rows :: "string \<Rightarrow> string \<Rightarrow> string list list option" where
  "inserted_rows tab q =
     (let p = insert_prefix tab in
      if take (length p) q \<noteq> p then None
      else (case sql_tokens (drop (length p) q) of Open # ts \<Rightarrow> sql_list [] ts | _ \<Rightarrow> None))"

lemma inserted_rows_insert:
  assumes "length (insert_prefix tab) + length (commas vals) \<le> 1021"
  shows "inserted_rows tab (insert_into tab vals) = sql_list [] (sql_tokens (commas vals @ '')''))"
proof -
  have "insert_into tab vals = insert_prefix tab @ ''('' @ commas vals @ '')''"
    using assms by (simp add: insert_into_def insert_prefix_def)
  then show ?thesis by (simp add: inserted_rows_def Let_def)
qed

definition ends_value :: "string \<Rightarrow> bool" where
  "ends_value r \<longleftrightarrow> (case r of [] \<Rightarrow> False | c # _ \<Rightarrow> c = CHR '','' \<or> c = CHR '')'')"

lemma ends_value_simps [simp]: "ends_value (CHR '','' # r)" "ends_value (CHR '')'' # r)"
  by (simp_all add: ends_value_def)

lemma ends_value_text: "ends_value r \<Longrightarrow> ends_text r"
  by (auto simp: ends_value_def ends_text_def split: list.splits)

lemma ends_value_no_word: "ends_value r \<Longrightarrow> \<exists>t ts. sql_tokens r = t # ts \<and> (t = Comma \<or> t = Close)"
  by (auto simp: ends_value_def split: list.splits)

definition reads_as :: "string \<Rightarrow> string \<Rightarrow> bool" where
  "reads_as l v \<longleftrightarrow>
     (\<forall>r. ends_value r \<longrightarrow> (\<exists>t. sql_tokens (l @ r) = t # sql_tokens r \<and> token_value t = Some v))"

lemma reads_as_word:
  assumes "w \<noteq> []" "set w \<inter> {quote, CHR '','', CHR ''('', CHR '')''} = {}"
  shows "reads_as w w"
proof -
  have "sql_tokens (w @ r) = Word w # sql_tokens r" if "ends_value r" for r
    using assms
  proof (induction w)
    case (Cons c w)
    then show ?case using ends_value_no_word [OF that] by (cases "w = []") auto
  qed simp
  then show ?thesis by (auto simp: reads_as_def token_value_def)
qed

lemma reads_as_dec: "reads_as (dec n) (dec n)"
  by (intro reads_as_word) (auto dest!: dec_chars simp: isdigit_def Let_def)

lemma reads_as_text: "plain_text x \<Longrightarrow> reads_as (sq x) x"
  by (auto simp: reads_as_def sq_def token_value_def sql_text_plain ends_value_text)

lemma strtosql_ends: "length x < len \<Longrightarrow> CHR 0x00 \<in> set (strtosql x len)"
  by (induction x len rule: strtosql.induct) auto

lemma sql_field_fits:
  assumes "length x < len" "2 * length x < room"
  shows "sql_field x len room = Some (takeWhile (\<lambda>c. c \<noteq> CHR 0x00) (strtosql x len))"
proof -
  have "escapes x \<le> length x" by (simp add: escapes_def)
  then show ?thesis using assms length_strtosql [of x len] strtosql_ends [of x len] by (simp add: sql_field_def)
qed

lemma reads_as_field:
  assumes "sql_field x len room = Some f" "CHR 0x00 \<notin> set x" "length x < len"
  shows "reads_as (sq f) x"
  using assms sql_text_escaped [OF assms(2,3)]
  by (auto simp: sql_field_def Let_def reads_as_def sq_def token_value_def ends_value_text split: if_splits)

lemma sql_list_row:
  assumes "list_all2 reads_as ls vs" "ls \<noteq> []"
  shows "sql_list acc (sql_tokens (commas ls @ '')'')) = Some [acc @ vs] \<and>
    sql_list acc (sql_tokens (commas ls @ ''),('' @ r)) = map_option (Cons (acc @ vs)) (sql_list [] (sql_tokens r))"
  using assms
proof (induction ls arbitrary: acc vs rule: commas.induct)
  case (2 l)
  then obtain v where v: "vs = [v]" "reads_as l v" by (cases vs) auto
  then have "sql_list acc (sql_tokens (l @ '')'')) = Some [acc @ [v]]"
    by (auto simp: reads_as_def dest!: spec [of _ "'')''"])
  with v show ?case by (auto simp: reads_as_def dest!: spec [of _ "''),('' @ r"])
next
  case (3 l l' ls)
  then obtain v vs' where v: "vs = v # vs'" "reads_as l v" "list_all2 reads_as (l' # ls) vs'" by (cases vs) auto
  have step: "sql_list acc (sql_tokens (l @ CHR '','' # z)) = sql_list (acc @ [v]) (sql_tokens z)" for z
    using v(2) by (auto simp: reads_as_def dest!: spec [of _ "CHR '','' # z"])
  from 3(1) [OF v(3)] v(1) step show ?case by simp
qed simp

end
