(* ===== verification/Reload.thy ===== *)
theory Reload
  imports Sql
begin

section \<open>Accounts saved and loaded again\<close>

text \<open>
  An account that fits the columns of the server, the row it is saved as and what is left of it after the
  next start: the login state and the access entries are not part of it.
\<close>

definition fits_user :: "user \<Rightarrow> bool" where
  "fits_user u \<longleftrightarrow>
     length (u_nick u) \<le> NICKLEN \<and> CHR 0x00 \<notin> set (u_nick u) \<and>
     length (u_vhost u) \<le> HOSTLEN \<and> plain_text (u_vhost u) \<and>
     length (u_md5_pass u) \<le> 32 \<and> plain_text (u_md5_pass u) \<and>
     length (u_pwhash u) < 128 \<and> plain_text (u_pwhash u) \<and>
     length (u_email u) \<le> EMAILLEN \<and> plain_text (u_email u) \<and>
     int32 (u_level u) \<and> int32 (u_lastseen u) \<and> int32 (sint (u_options u)) \<and> int32 (u_timeout u) \<and>
     int32 (u_regtime u)"

definition user_row :: "user \<Rightarrow> string list" where
  "user_row u =
     [u_nick u, dec (u_level u), dec (u_lastseen u), u_vhost u, u_md5_pass u, u_pwhash u, dec (sint (u_options u)),
      dec (u_timeout u), u_email u, dec (u_regtime u)]"

definition reloaded :: "user \<Rightarrow> user" where
  "reloaded u = u\<lparr>u_authed := 0, u_authed_nick := None, u_cflags := [],
     u_timeout := (if u_timeout u = 0 then TIMEOUT_DFLT else u_timeout u)\<rparr>"

lemma takeWhile_shorter: "x \<in> set xs \<Longrightarrow> \<not> P x \<Longrightarrow> length (takeWhile P xs) < length xs"
  by (induction xs) auto

lemma user_field:
  assumes "length x \<le> NICKLEN"
  shows "\<exists>f. sql_field x 512 512 = Some f \<and> length f \<le> 70"
proof -
  have "escapes x \<le> length x" by (simp add: escapes_def)
  moreover have "length (takeWhile (\<lambda>c. c \<noteq> CHR 0x00) (strtosql x 512)) \<le> length x + escapes x"
    using length_strtosql [of x 512] strtosql_ends [of x 512] assms
      takeWhile_shorter [of "CHR 0x00" "strtosql x 512" "\<lambda>c. c \<noteq> CHR 0x00"] by (simp add: NICKLEN_def)
  ultimately show ?thesis using assms sql_field_fits [of x 512 512] by (simp add: NICKLEN_def)
qed

lemma saved_user:
  assumes "fits_user u"
  shows "\<exists>q. insert_user u = Some q \<and> inserted_rows user_columns q = Some [user_row u]"
proof -
  have n: "length (u_nick u) \<le> NICKLEN" "CHR 0x00 \<notin> set (u_nick u)" using assms by (auto simp: fits_user_def)
  obtain f where f: "sql_field (u_nick u) 512 512 = Some f" "length f \<le> 70" using user_field [OF n(1)] by blast
  let ?ls = "[sq f, dec (u_level u), dec (u_lastseen u), sq (u_vhost u), sq (u_md5_pass u), sq (u_pwhash u),
        dec (sint (u_options u)), dec (u_timeout u), sq (u_email u), dec (u_regtime u)]"
  have "reads_as (sq f) (u_nick u)"
    using f(1) n by (intro reads_as_field) (auto simp: NICKLEN_def)
  then have rd: "list_all2 reads_as ?ls (user_row u)"
    using assms by (simp add: user_row_def reads_as_dec reads_as_text fits_user_def)
  have "length (dec (u_level u)) \<le> 11" "length (dec (u_lastseen u)) \<le> 11" "length (dec (sint (u_options u))) \<le> 11"
    "length (dec (u_timeout u)) \<le> 11" "length (dec (u_regtime u)) \<le> 11"
    using assms by (simp_all add: fits_user_def length_dec)
  then have "length (commas ?ls) \<le> 500"
    using assms f(2) by (simp add: sq_def fits_user_def HOSTLEN_def EMAILLEN_def)
  then have len: "length (insert_prefix user_columns) + length (commas ?ls) \<le> 1021"
    by (simp add: insert_prefix_def user_columns_def)
  have "inserted_rows user_columns (insert_into user_columns ?ls) = Some [user_row u]"
    unfolding inserted_rows_insert [OF len] using sql_list_row [OF rd, of "[]"] by simp
  then show ?thesis using f(1) by (simp add: insert_user_def)
qed

lemma loaded_user:
  assumes "fits_user u" and "find_user (Some (u_nick u)) z = None"
  shows "load_one_user (map Some (user_row u)) z =
    Some (0, z\<lparr>next_ptr := Suc (next_ptr z), users := users z @ [(u_nick u, next_ptr z)],
               user_at := (user_at z)(next_ptr z \<mapsto> reloaded u)\<rparr>)"
proof -
  have "tinsert (u_nick u) (next_ptr z) (users z) = users z @ [(u_nick u, next_ptr z)]"
    using assms(2) by (simp add: om_insert_def om_find_def find_user_def)
  then show ?thesis
    using assms
    by (cases u) (simp add: load_one_user_def user_row_def fits_user_def num_dec AddUser_def strncpy_def strbuf_def
        find_user_def upd_defs fresh_def reloaded_def Let_def om_find_def)
qed

text \<open>Rows of accounts with different names, loaded one after the other.\<close>

definition account_of :: "string \<Rightarrow> core \<Rightarrow> user option" where
  "account_of k s = Option.bind (find_user (Some k) s) (user_at s)"

lemma loaded_users:
  assumes "\<forall>u \<in> set us. fits_user u" "distinct (map (lc \<circ> u_nick) us)"
    and "\<forall>u \<in> set us. find_user (Some (u_nick u)) z = None"
    and "\<forall>e \<in> set (users z). snd e < next_ptr z"
  shows "\<exists>t. load_rows load_one_user (map (map Some \<circ> user_row) us) z = Some (0, t) \<and>
    (\<forall>k. account_of k t =
      (case find (\<lambda>u. lc (u_nick u) = lc k) us of None \<Rightarrow> account_of k z | Some u \<Rightarrow> Some (reloaded u)))"
  using assms
proof (induction us arbitrary: z)
  case (Cons u us)
  let ?y = "z\<lparr>next_ptr := Suc (next_ptr z), users := users z @ [(u_nick u, next_ptr z)],
               user_at := (user_at z)(next_ptr z \<mapsto> reloaded u)\<rparr>"
  have look: "find_user (Some k) ?y =
      (if lc k = lc (u_nick u) then Some (next_ptr z) else find_user (Some k) z)" for k
    using Cons.prems(3) nocase.find_insert [of "u_nick u" "next_ptr z" "users z" k]
      nocase.find_cong_canon [of k "u_nick u" "users z"]
    by (auto simp: find_user_def om_insert_def om_find_def)
  have new: "lc (u_nick v) \<noteq> lc (u_nick u)" if "v \<in> set us" for v
    using Cons.prems(2) that by (force simp: image_iff)
  have old: "find_user (Some k) z = Some p \<Longrightarrow> p \<noteq> next_ptr z" for k p
    using Cons.prems(4) nocase.find_in [of "users z" k p] by (force simp: find_user_def)
  have "\<exists>t. load_rows load_one_user (map (map Some \<circ> user_row) us) ?y = Some (0, t) \<and>
    (\<forall>k. account_of k t =
      (case find (\<lambda>u. lc (u_nick u) = lc k) us of None \<Rightarrow> account_of k ?y | Some u \<Rightarrow> Some (reloaded u)))"
    using Cons.prems look new by (intro Cons.IH) (auto simp: less_SucI)
  then obtain t where t: "load_rows load_one_user (map (map Some \<circ> user_row) us) ?y = Some (0, t)"
    "account_of k t =
      (case find (\<lambda>u. lc (u_nick u) = lc k) us of None \<Rightarrow> account_of k ?y | Some u \<Rightarrow> Some (reloaded u))" for k
    by blast
  have all: "load_rows load_one_user (map (map Some \<circ> user_row) (u # us)) z = Some (0, t)"
    using t(1) loaded_user [of u z] Cons.prems(1,3) by simp
  have "find (\<lambda>v. lc (u_nick v) = lc k) us = None" if "lc (u_nick u) = lc k" for k
    using Cons.prems(2) that by (force simp: find_None_iff)
  moreover have "account_of k ?y = (if lc k = lc (u_nick u) then Some (reloaded u) else account_of k z)" for k
    unfolding account_of_def look using old [of k] by (cases "find_user (Some k) z") auto
  ultimately have "account_of k t =
      (case find (\<lambda>u. lc (u_nick u) = lc k) (u # us) of None \<Rightarrow> account_of k z | Some u \<Rightarrow> Some (reloaded u))" for k
    using t(2) [of k] by (cases "lc (u_nick u) = lc k") (simp_all cong: option.case_cong)
  with all show ?case by blast
qed simp

text \<open>What a table of accounts sends, query by query.\<close>

lemma queries_of_map:
  assumes "\<forall>p \<in> set ps. f p s = Some [g p]"
  shows "queries_of f ps s qs = Some (qs @ map g ps)"
  using assms by (induction ps arbitrary: qs) (auto simp: queries_of_def)

lemma users_reloaded:
  assumes "table_ok u_nick (users s) (user_at s)"
    and "\<forall>p u. user_at s p = Some u \<longrightarrow> fits_user u"
    and "users z = []"
  shows "\<exists>qs rows t. saveuserdb True s = Some (''DELETE FROM child_users'' # qs) \<and>
    map (inserted_rows user_columns) qs = map (\<lambda>r. Some [r]) rows \<and>
    load_user_db (Some (map (map Some) rows)) z = Some (0, t) \<and>
    (\<forall>k. account_of k t = map_option reloaded (account_of k s))"
proof -
  let ?ps = "map snd (users s)" and ?u = "\<lambda>p. the (user_at s p)"
  let ?us = "map ?u ?ps"
  note T = table_ok_entry [OF assms(1)] table_ok_find_key [OF assms(1)] table_ok_inj [OF assms(1)]
  have live: "user_at s p = Some (?u p)" "fits_user (?u p)" if "p \<in> set ?ps" for p
    using T(1) [of p] that assms(2) by auto
  define g where "g p = the (insert_user (?u p))" for p
  have g: "insert_user (?u p) = Some (g p) \<and> inserted_rows user_columns (g p) = Some [user_row (?u p)]"
    if "p \<in> set ?ps" for p using saved_user [OF live(2) [OF that]] by (auto simp: g_def)
  have q: "saveuserdb True s = Some (''DELETE FROM child_users'' # map g ?ps)"
  proof -
    have "Option.bind (user_at s p) (\<lambda>u. Option.bind (insert_user u) (\<lambda>q. Some [q])) = Some [g p]"
      if "p \<in> set ?ps" for p
      by (subst live(1) [OF that]) (use g [OF that] in simp)
    then have "queries_of (\<lambda>p s. Option.bind (user_at s p) (\<lambda>u. Option.bind (insert_user u) (\<lambda>q. Some [q]))) ?ps s
        [''DELETE FROM child_users''] = Some ([''DELETE FROM child_users''] @ map g ?ps)"
      by (intro queries_of_map) blast
    then show ?thesis by (simp only: saveuserdb_def not_True_eq_False if_False append_Cons append_Nil)
  qed
  have "inj_on (\<lambda>p. lc (u_nick (?u p))) (set ?ps)"
  proof (rule inj_onI)
    fix p r assume "p \<in> set ?ps" "r \<in> set ?ps" "lc (u_nick (?u p)) = lc (u_nick (?u r))"
    then show "p = r" using T(3) [of p r "?u p" "?u r"] live(1) [of p] live(1) [of r] by simp
  qed
  moreover have "distinct ?ps" using assms(1) by (simp add: table_ok_def)
  ultimately have "distinct (map (\<lambda>p. lc (u_nick (?u p))) ?ps)" by (simp only: distinct_map simp_thms)
  then have "distinct (map (lc \<circ> u_nick) ?us)" by (simp add: comp_def)
  then obtain t where t: "load_rows load_one_user (map (map Some \<circ> user_row) ?us) z = Some (0, t)"
    "\<And>k. account_of k t =
      (case find (\<lambda>u. lc (u_nick u) = lc k) ?us of None \<Rightarrow> account_of k z | Some u \<Rightarrow> Some (reloaded u))"
    using loaded_users [of ?us z] live assms(3) by (auto simp: find_user_def)
  have "account_of k t = map_option reloaded (account_of k s)" for k
  proof (cases "find_user (Some k) s")
    case None
    have "find (\<lambda>u. lc (u_nick u) = lc k) ?us = None"
    proof (rule ccontr)
      assume "find (\<lambda>u. lc (u_nick u) = lc k) ?us \<noteq> None"
      then obtain p where "p \<in> set ?ps" "lc (u_nick (?u p)) = lc k"
        by (auto simp: find_None_iff)
      then show False using T(2) [of p "?u p" k] live [of p] None by (auto simp: find_user_def)
    qed
    then show ?thesis using t(2) None assms(3) by (simp add: account_of_def find_user_def)
  next
    case (Some p)
    then obtain x where x: "user_at s p = Some x" "lc (u_nick x) = lc k" "p \<in> set ?ps"
      using table_ok_find [OF assms(1), of k p] by (auto simp: find_user_def)
    have "find (\<lambda>u. lc (u_nick u) = lc k) ?us = Some x"
    proof (rule find_unique)
      show "x \<in> set ?us" using x by force
      show "lc (u_nick x) = lc k" by fact
      show "y = x" if "y \<in> set ?us" "lc (u_nick y) = lc k" for y
      proof -
        have "y \<in> ?u ` set ?ps" using that(1) by (simp only: set_map)
        then obtain r where r: "r \<in> set ?ps" "y = ?u r" by (rule imageE)
        with that(2) x have "r = p" using T(3) [of r p y x] live(1) [of r] by simp
        with r(2) x(1) show ?thesis by simp
      qed
    qed
    then show ?thesis using t(2) Some x(1) by (simp add: account_of_def)
  qed
  with q t(1) g show ?thesis
    by (intro exI [of _ "map g ?ps"] exI [of _ "map (user_row \<circ> ?u) ?ps"] exI [of _ t])
      (simp add: load_user_db_def load_table_def comp_def)
qed

end
