(* ===== verification/Inject.thy ===== *)
theory Inject
  imports Reload NickServ Identify
begin

section \<open>An address that is more than an address\<close>

text \<open>
  \<open>nick_set_email\<close> takes any word with a dot behind an at sign, and \<open>saveuserdb\<close> puts the address between
  quotes as it is. This address ends the row of its account and starts one of another account, with the
  level and the password that it likes.
\<close>

definition injection :: "string \<Rightarrow> int \<Rightarrow> string \<Rightarrow> string" where
  "injection e l h =
     ''a@b.cc'' @ [quote] @ '',0),('' @ commas [sq e, dec l, ''0'', sq [], sq h, sq [], ''0'', ''0''] @ '','' @ [quote]"

definition injected_row :: "string \<Rightarrow> int \<Rightarrow> string \<Rightarrow> int \<Rightarrow> string list" where
  "injected_row e l h reg = [e, dec l, ''0'', [], h, [], ''0'', ''0'', [], dec reg]"

lemma valid_injection: "valid_email prev (injection e l h) = Some True"
  by (simp add: injection_def valid_email_def split_at1_def)

lemma dec_not_space: "c \<in> set (dec n) \<Longrightarrow> \<not> isspace c"
  using dec_chars [of c n] digit_plain [of c] by (auto simp: isspace_def)

lemma plain_word_spaces: "w \<noteq> [] \<Longrightarrow> \<forall>c \<in> set w. \<not> isspace c \<Longrightarrow> plain_word w"
  by (auto simp: plain_word_def word_end_def isspace_def Let_def)

lemma plain_word_injection:
  assumes "\<forall>c \<in> set e \<union> set h. \<not> isspace c"
  shows "plain_word (injection e l h)"
proof -
  have "\<forall>c \<in> set (injection e l h). \<not> isspace c"
    using assms dec_not_space [of _ l] by (auto simp: injection_def sq_def, simp_all add: isspace_def)
  moreover have "injection e l h \<noteq> []" by (simp add: injection_def)
  ultimately show ?thesis by (intro plain_word_spaces)
qed

lemma injected_values:
  "commas [n, a, b, v, m, p, x, t, sq (injection e l h), r] =
    commas [n, a, b, v, m, p, x, t, sq ''a@b.cc'', ''0''] @ ''),('' @
    commas [sq e, dec l, ''0'', sq [], sq h, sq [], ''0'', ''0'', sq [], r]"
  by (simp add: injection_def sq_def)

lemma reads_as_zero: "reads_as ''0'' ''0''"
  by (rule reads_as_word) auto

lemma saved_injection:
  assumes "fits_user u" "plain_text e" "plain_text h" "length (injection e l h) \<le> EMAILLEN"
  shows "\<exists>q r. insert_user (u\<lparr>u_email := injection e l h\<rparr>) = Some q \<and>
    inserted_rows user_columns q = Some [r, injected_row e l h (u_regtime u)]"
proof -
  have n: "length (u_nick u) \<le> NICKLEN" "CHR 0x00 \<notin> set (u_nick u)" using assms by (auto simp: fits_user_def)
  obtain f where f: "sql_field (u_nick u) 512 512 = Some f" "length f \<le> 70" using user_field [OF n(1)] by blast
  let ?as = "[sq f, dec (u_level u), dec (u_lastseen u), sq (u_vhost u), sq (u_md5_pass u), sq (u_pwhash u),
        dec (sint (u_options u)), dec (u_timeout u)]"
  let ?ls = "?as @ [sq (injection e l h), dec (u_regtime u)]" and ?l1 = "?as @ [sq ''a@b.cc'', ''0'']"
  let ?l2 = "[sq e, dec l, ''0'', sq [], sq h, sq [], ''0'', ''0'', sq [], dec (u_regtime u)]"
  let ?r = "[u_nick u, dec (u_level u), dec (u_lastseen u), u_vhost u, u_md5_pass u, u_pwhash u,
        dec (sint (u_options u)), dec (u_timeout u), ''a@b.cc'', ''0'']"
  have "reads_as (sq f) (u_nick u)"
    using f(1) n by (intro reads_as_field) (auto simp: NICKLEN_def)
  moreover have "plain_text ''a@b.cc''" "plain_text []" by (simp_all add: plain_text_def)
  ultimately have rd: "list_all2 reads_as ?l1 ?r" "list_all2 reads_as ?l2 (injected_row e l h (u_regtime u))"
    using assms by (simp_all add: injected_row_def reads_as_dec reads_as_text reads_as_zero fits_user_def)
  have "length (dec (u_level u)) \<le> 11" "length (dec (u_lastseen u)) \<le> 11" "length (dec (sint (u_options u))) \<le> 11"
    "length (dec (u_timeout u)) \<le> 11" "length (dec (u_regtime u)) \<le> 11"
    using assms by (simp_all add: fits_user_def length_dec)
  then have "length (commas ?ls) \<le> 500"
    using assms f(2) by (simp add: sq_def fits_user_def HOSTLEN_def EMAILLEN_def)
  then have len: "length (insert_prefix user_columns) + length (commas ?ls) \<le> 1021"
    by (simp add: insert_prefix_def user_columns_def)
  have vals: "commas ?ls = commas ?l1 @ ''),('' @ commas ?l2"
    by (simp only: injected_values append.simps)
  have "inserted_rows user_columns (insert_into user_columns ?ls) =
      sql_list [] (sql_tokens (commas ?l1 @ ''),('' @ commas ?l2 @ '')''))"
    unfolding inserted_rows_insert [OF len] unfolding vals by (simp only: append_assoc)
  also have "\<dots> = Some [?r, injected_row e l h (u_regtime u)]"
    using sql_list_row [OF rd(1), of "[]" "commas ?l2 @ '')''"] sql_list_row [OF rd(2), of "[]"]
    by (simp del: commas.simps append.simps add: append_Nil)
  finally show ?thesis using f(1) by (simp add: insert_user_def)
qed

text \<open>The command that takes the address, and the start that loads the second row.\<close>

lemma email_accepted:
  assumes "user_at s p = Some u" "nick_at s n \<noteq> None" "plain_word (injection e l h)"
    and "length (injection e l h) \<le> EMAILLEN"
  shows "\<exists>t. nick_set_email n (Some p) (Some (injection e l h)) s = Some t \<and>
    user_at t p = Some (u\<lparr>u_email := injection e l h\<rparr>)"
proof -
  let ?y = "s\<lparr>user_at := (user_at s)(p \<mapsto> u\<lparr>u_email := injection e l h\<rparr>)\<rparr>"
  obtain b where "NoticeToUser n (''Email address set to '' @ injection e l h) ?y = Some (?y\<lparr>outbuf := b\<rparr>)"
    using notice_out [of ?y n] assms(2) by auto
  then show ?thesis
    using assms(1,3,4) by (simp add: nick_set_email_def arg1_of_def SeperateWord_last valid_injection upd_defs strncpy_def)
qed

lemma dec_zero: "dec 0 = ''0''"
  by (simp add: dec_def dec_nat.simps char_of_eq_iff)

lemma injected_account:
  assumes "find_user (Some e) z = None" "length e \<le> NICKLEN" "CHR 0x00 \<notin> set e" "length h \<le> 32" "plain_text h"
    and "int32 l" "int32 reg"
  shows "\<exists>t. load_one_user (map Some (injected_row e l h reg)) z = Some (0, t) \<and>
    map_option u_level (user_at t (next_ptr z)) = Some l \<and> map_option u_md5_pass (user_at t (next_ptr z)) = Some h \<and>
    find_user (Some e) t = Some (next_ptr z)"
proof -
  define u where "u = \<lparr>u_nick = e, u_authed = 0, u_level = l, u_md5_pass = h, u_pwhash = [], u_lastseen = 0,
     u_timeout = 0, u_options = 0, u_vhost = [], u_email = [], u_regtime = reg, u_cflags = [], u_authed_nick = None\<rparr>"
  have "fits_user u" using assms by (simp add: fits_user_def u_def plain_text_def int32_def)
  moreover have "user_row u = injected_row e l h reg" by (simp add: user_row_def injected_row_def u_def dec_zero)
  moreover have "tfind (tinsert e (next_ptr z) (users z)) e = Some (next_ptr z)"
    using assms(1) nocase.find_insert [of e "next_ptr z" "users z" e] by (simp add: find_user_def)
  then have "tfind (users z @ [(e, next_ptr z)]) e = Some (next_ptr z)"
    using assms(1) by (simp add: find_user_def om_insert_def om_find_def)
  ultimately show ?thesis
    using loaded_user [of u z] assms(1) by (simp add: u_def reloaded_def find_user_def)
qed

end
