(* ===== verification/HelpTexts.thy ===== *)
theory HelpTexts
  imports Database
begin

section \<open>The tables of the help: src/src/modules/m\_help.c\<close>

text \<open>
  The entries that \<open>child_init\<close> registers, the names that \<open>child_cleanup\<close> deletes, and the lines that
  each function prints. An entry for a command said on a channel has no function: its pointer is NULL.
\<close>

type_synonym help_entry = "string \<times> string \<times> string \<times> int"

definition add_help :: "int \<Rightarrow> help_entry list \<Rightarrow> command list \<Rightarrow> command list" where
  "add_help sub es cs = fold (\<lambda>(n, f, d, l). addCommand n CMD_HELP f (Some d) sub l) es cs"

definition host_help :: "config \<Rightarrow> help_entry list" where
  "host_help k =
     (let o1 = cfg_level_oper k in
       [(''list'', ''help_host_list'', ''List all users having a vhost'', o1),
        (''set'', ''help_host_set'', ''Set or remove a vhost'', o1)])"

definition nick_help :: "help_entry list" where
  "nick_help =
       [(''unlink'', ''help_nick_unlink'', ''Unlink your nick'', 0),
        (''set'', ''help_nick_set'', ''Set some options'', 0),
        (''requestpassword'', ''help_nick_requestpassword'', ''Request a new password'', 0),
        (''register'', ''help_nick_register'', ''Register your nick'', 0),
        (''link'', ''help_nick_link'', ''Link to another nick'', 0),
        (''info'', ''help_nick_info'', ''Get informations about someone'', 0),
        (''identify'', ''help_nick_identify'', ''Identify yourself to services'', 0),
        (''ghost'', ''help_nick_ghost'', ''Kill a ghosted nick'', 0),
        (''drop'', ''help_nick_drop'', ''Drop your account'', 0)]"

definition nick_set_help :: "help_entry list" where
  "nick_set_help =
       [(''timeout'', ''help_nick_set_timeout'', ''Set the maximum time to identify to services'', 0),
        (''protect'', ''help_nick_set_protect'', ''Protect your nick from impersonation'', 0),
        (''private'', ''help_nick_set_private'', ''Hide your informations'', 0),
        (''password'', ''help_nick_set_password'', ''Change your password'', 0),
        (''noauto'', ''help_nick_set_noauto'', ''Do not set channel access on identify'', 0),
        (''master'', ''help_nick_set_master'', ''Set the master for linked nicks'', 0),
        (''hidemail'', ''help_nick_set_hidemail'', ''Hide your email from other users'', 0),
        (''email'', ''help_nick_set_email'', ''Set your email'', 0),
        (''cloak'', ''help_nick_set_cloak'', ''Enable or disable host cloaking'', 0)]"

definition chan_help :: "config \<Rightarrow> help_entry list" where
  "chan_help k =
     (let o1 = cfg_level_oper k in
       [(''voice'', ''help_chan_voice'', ''Give voice'', 0),
        (''unsuspend'', ''help_chan_unsuspend'', ''Unsuspend access'', 0),
        (''unbanall'', ''help_chan_unbanall'', ''Remove all bans'', 0),
        (''unassign'', ''help_chan_unassign'', ''Unassign a bot from a channel'', 0),
        (''topic'', ''help_chan_topic'', ''Set the topic'', 0),
        (''suspend'', ''help_chan_suspend'', ''Suspend access'', 0),
        (''set'', ''help_chan_set'', ''Set some options'', 0),
        (''resync'', ''help_chan_resync'', ''Resync users with access list'', 0),
        (''register'', ''help_chan_register'', ''Register a channel'', 0),
        (''op'', ''help_chan_op'', ''Give op'', 0),
        (''kick'', ''help_chan_kick'', ''Kick someone or all users'', 0),
        (''invite'', ''help_chan_invite'', ''Invite yourself in a channel'', 0),
        (''info'', ''help_chan_info'', ''Get informations about a channel'', 0),
        (''halfop'', ''help_chan_halfop'', ''Give halfop'', 0),
        (''entrymsg'', ''help_chan_entrymsg'', ''Set the entrymsg for a channel'', 0),
        (''drop'', ''help_chan_drop'', ''Drop a channel'', 0),
        (''devoice'', ''help_chan_devoice'', ''Take voice'', 0),
        (''deop'', ''help_chan_deop'', ''Take op'', 0),
        (''delbot'', ''help_chan_delbot'', ''Remove a bot'', o1),
        (''dehalfop'', ''help_chan_dehalfop'', ''Take halfop'', 0),
        (''clearmodes'', ''help_chan_clearmodes'', ''Remove all channel modes'', 0),
        (''clearchan'', ''help_chan_clearchan'', ''Clear channel'', 0),
        (''clearbans'', ''help_chan_clearbans'', ''Clear services channel bans'', 0),
        (''botlist'', ''help_chan_botlist'', ''List available bots'', 0),
        (''banlist'', ''help_chan_banlist'', ''List services channel bans'', 0),
        (''assign'', ''help_chan_assign'', ''Assign a bot to a channel'', 0),
        (''addbot'', ''help_chan_addbot'', ''Add a bot'', o1),
        (''access'', ''help_chan_access'', ''Manage access list'', 0)])"

definition chan_set_help :: "help_entry list" where
  "chan_set_help =
       [(''strictop'', ''help_chan_set_strictop'', ''Enable/disable strict opping'', 0),
        (''secure'', ''help_chan_set_secure'', ''Aop/avoice only identified users'', 0),
        (''protectops'', ''help_chan_set_protectops'', ''Prevent ops from being deopped'', 0),
        (''private'', ''help_chan_set_private'', ''Hide the channel informations'', 0),
        (''nojoin'', ''help_chan_set_nojoin'', ''Set if the bot must join or not the channel'', 0),
        (''noauto'', ''help_chan_set_noauto'', ''Enable or disable auto-modes on join'', 0),
        (''mlock'', ''help_chan_set_mlock'', ''Enforce modes'', 0),
        (''mass'', ''help_chan_set_mass'', ''Enable/disable mass-effect channel commands'', 0),
        (''founder'', ''help_chan_set_founder'', ''Set the founder'', 0),
        (''enftopic'', ''help_chan_set_enftopic'', ''Enable or disable topic enforcing'', 0),
        (''enablemask'', ''help_chan_set_enablemask'', ''Allow masks in access list'', 0),
        (''axxflags'', ''help_chan_set_axxflags'', ''Switch from/to chanflags system'', 0),
        (''avoice'', ''help_chan_set_avoice'', ''Enable/disable autovoice for all users'', 0),
        (''autolimit'', ''help_chan_set_autolimit'', ''Forcefully set a limit'', 0),
        (''aop'', ''help_chan_set_aop'', ''Enable/disable autoop for all users'', 0)]"

definition bot_help :: "help_entry list" where
  "bot_help =
       [(''!voiceall'', ''NULL'', ''Voice everyone'', 0),
        (''!voice'', ''NULL'', ''Give voice'', 0),
        (''!unban'', ''NULL'', ''Remove a ban'', 0),
        (''!topic'', ''NULL'', ''Change topic'', 0),
        (''!tblist'', ''NULL'', ''List timebans'', 0),
        (''!tb'', ''NULL'', ''Set a time ban'', 0),
        (''!seen'', ''NULL'', ''Display how long time a user has not been seen'', 0),
        (''!protect'', ''NULL'', ''Give protect'', 0),
        (''!owner'', ''NULL'', ''Give ownership'', 0),
        (''!opall'', ''NULL'', ''Op everyone'', 0),
        (''!op'', ''NULL'', ''Give op'', 0),
        (''!kick'', ''NULL'', ''Kick someone or every user (*)'', 0),
        (''!rkick'', ''NULL'', ''Kick users matching a C-regexp. WARNING: it is *NOT* mask-style regexp. If you want to kick b*, then type '' @ bold ''!rkick b.*'' @ ''. Otherwise it will kick * (b* means '' @ [CHR 0x22] @ ''0 or more b'' @ [CHR 0x22] @ '')'', 0),
        (''!kb'', ''NULL'', ''Kickban someone or every user (*)'', 0),
        (''!rkb'', ''NULL'', ''Kickban users matching a C-regexp. Same warning as !rkick'', 0),
        (''!halfopall'', ''NULL'', ''Halfop everyone'', 0),
        (''!halfop'', ''NULL'', ''Give halfop'', 0),
        (''!devoiceall'', ''NULL'', ''Devoice everyone'', 0),
        (''!devoice'', ''NULL'', ''Take voice'', 0),
        (''!deprotect'', ''NULL'', ''Take protect'', 0),
        (''!deowner'', ''NULL'', ''Take ownership'', 0),
        (''!deopall'', ''NULL'', ''Deop everyone'', 0),
        (''!deop'', ''NULL'', ''Take op'', 0),
        (''!dehalfopall'', ''NULL'', ''Dehalfop everyone'', 0),
        (''!dehalfop'', ''NULL'', ''Take halfop'', 0),
        (''!ban'', ''NULL'', ''Ban someone'', 0),
        (''!admin'', ''NULL'', ''Display online irc operators'', 0)]"

definition oper_help :: "config \<Rightarrow> help_entry list" where
  "oper_help k =
     (let o1 = cfg_level_oper k; a1 = cfg_level_admin k; r1 = cfg_level_root k; w1 = cfg_level_owner k in
       [(''userlist'', ''help_oper_userlist'', ''Search a registered user'', o1),
        (''trustlist'', ''help_oper_trustlist'', ''List trusts'', a1),
        (''trustdel'', ''help_oper_trustdel'', ''Remove a trust'', a1),
        (''trustadd'', ''help_oper_trustadd'', ''Add a trust'', a1),
        (''suspend'', ''help_oper_suspend'', ''Suspend/unsuspend a user/channel'', a1),
        (''superadmin'', ''help_oper_superadmin'', ''Set/unset superadmin status'', r1),
        (''stats'', ''help_oper_stats'', ''Display network stats'', o1),
        (''sglobal'', ''help_oper_sglobal'', ''Send a server-wide notice'', o1),
        (''setraws'', ''help_oper_setraws'', ''Enable/disable raws'', w1),
        (''savedb'', ''help_oper_savedb'', ''Save database'', r1),
        (''restart'', ''help_oper_restart'', ''Restart services'', r1),
        (''regexpcheck'', ''help_oper_regexpcheck'', ''Check users affected by a regexp'', o1),
        (''rehash'', ''help_oper_rehash'', ''Rehash configuration'', r1),
        (''raw'', ''help_oper_raw'', ''Send a raw'', r1),
        (''operlist'', ''help_oper_operlist'', ''Display online irc operators'', o1),
        (''noexpire'', ''help_oper_noexpire'', ''Set/unset the user/channel noexpire flag'', a1),
        (''nicklist'', ''help_oper_nicklist'', ''Search an online nick'', o1),
        (''modunload'', ''help_oper_modunload'', ''Unload a module'', r1),
        (''modload'', ''help_oper_modload'', ''Load a module'', r1),
        (''modlist'', ''help_oper_modlist'', ''List loaded modules'', r1),
        (''killall'', ''help_oper_killall'', ''Kill all users matching a mask'', a1),
        (''jupe'', ''help_oper_jupe'', ''Jupe a server'', a1),
        (''global'', ''help_oper_global'', ''Send a global notice'', o1),
        (''glinechan'', ''help_oper_glinechan'', ''Gline a whole channel'', a1),
        (''glineall'', ''help_oper_glineall'', ''Gline all users matching a mask'', a1),
        (''forceauth'', ''help_oper_forceauth'', ''Force a nick to auth'', r1),
        (''fakeuser'', ''help_oper_fakeuser'', ''Create a fake user'', o1),
        (''fakesay'', ''help_oper_fakesay'', ''Make a fake user say something'', o1),
        (''fakenick'', ''help_oper_fakenick'', ''Change the nick of a fake user'', o1),
        (''fakelist'', ''help_oper_fakelist'', ''List fakeusers'', o1),
        (''fakekill'', ''help_oper_fakekill'', ''Make a fake user quit'', o1),
        (''fakejoin'', ''help_oper_fakejoin'', ''Make a fake user join a channel'', o1),
        (''die'', ''help_oper_die'', ''Die services'', r1),
        (''cmdlev'', ''help_oper_cmdlev'', ''Change the level of a command'', w1),
        (''chanlist'', ''help_oper_chanlist'', ''Search a registered channel'', o1),
        (''changelev'', ''help_oper_changelev'', ''Change a user'' @ [CHR 0x27] @ ''s level'', a1)])"

definition help_commands :: "config \<Rightarrow> command list \<Rightarrow> command list" where
  "help_commands k cs =
     fold (\<lambda>(sub, es). add_help sub es)
       [(CMD_HELP_HOST, host_help k),
        (CMD_HELP_NICK, nick_help),
        (CMD_HELP_NICK_SET, nick_set_help),
        (CMD_HELP_CHAN, chan_help k),
        (CMD_HELP_CHAN_SET, chan_set_help),
        (CMD_HELP_BOT, bot_help),
        (CMD_HELP_OPER, oper_help k)]
       (add_all CMD_HELP 0
         [(''host'', ''help_host'', cfg_level_oper k), (''oper'', ''help_oper'', cfg_level_oper k), (''nick'', ''help_nick'', 0),
          (''chan'', ''help_chan'', 0), (''bot'', ''help_bot'', 0)] (add_all CMD_BASE 0 [(''help'', ''do_help'', 0)] cs))"

definition help_cleanup :: "command list \<Rightarrow> command list" where
  "help_cleanup cs =
     fold (\<lambda>(sub, ns). del_all CMD_HELP sub ns)
       [(CMD_HELP_HOST,
         [''set'', ''list'']),
        (CMD_HELP_NICK,
         [''identify'', ''register'', ''drop'', ''ghost'', ''info'', ''set'', ''link'', ''unlink'', 
          ''requestpassword'']),
        (CMD_HELP_NICK_SET,
         [''password'', ''email'', ''private'', ''protect'', ''timeout'', ''master'', ''noauto'', ''hidemail'', 
          ''cloak'']),
        (CMD_HELP_CHAN,
         [''register'', ''drop'', ''access'', ''set'', ''op'', ''deop'', ''halfop'', ''dehalfop'', 
          ''voice'', ''devoice'', ''invite'', ''kick'', ''info'', ''entrymsg'', ''unbanall'', ''clearmodes'', 
          ''clearchan'', ''assign'', ''unassign'', ''botlist'', ''addbot'', ''delbot'', ''resync'', ''suspend'', 
          ''unsuspend'', ''banlist'', ''clearbans'', ''topic'']),
        (CMD_HELP_CHAN_SET,
         [''founder'', ''avoice'', ''aop'', ''nojoin'', ''noauto'', ''private'', ''strictop'', ''protectops'', 
          ''mlock'', ''autolimit'', ''secure'', ''enablemask'', ''mass'', ''enftopic'', ''axxflags'']),
        (CMD_HELP_BOT,
         [''!owner'', ''!deowner'', ''!protect'', ''!deprotect'', ''!op'', ''!deop'', ''!halfop'', ''!dehalfop'', 
          ''!voice'', ''!devoice'', ''!opall'', ''!deopall'', ''!halfopall'', ''!dehalfopall'', ''!voiceall'', ''!devoiceall'', 
          ''!kick'', ''!rkick'', ''!kb'', ''!rkb'', ''!ban'', ''!unban'', ''!topic'', ''!seen'', 
          ''!admin'']),
        (CMD_HELP_OPER,
         [''stats'', ''global'', ''fakeuser'', ''fakejoin'', ''fakesay'', ''fakenick'', ''fakekill'', ''operlist'', 
          ''userlist'', ''nicklist'', ''chanlist'', ''jupe'', ''killall'', ''glineall'', ''noexpire'', ''suspend'', 
          ''changelev'', ''trustadd'', ''trustdel'', ''trustlist'', ''forceauth'', ''modload'', ''modunload'', ''modlist'', 
          ''raw'', ''savedb'', ''rehash'', ''restart'', ''die'', ''setraws'', ''cmdlev'', ''superadmin'', 
          ''sglobal'', ''glinechan'', ''regexpcheck''])]
       (del_all CMD_HELP 0 [''host'', ''oper'', ''nick'', ''chan'', ''bot''] (del_all CMD_BASE 0 [''help''] cs))"

subsection \<open>Texts\<close>

definition host_texts :: "nick \<Rightarrow> core \<Rightarrow> (string \<times> string list) list" where
  "host_texts n s =
     [(''help_host_set'',
       [''Syntax: '' @ bold (''set '' @ ul ''nick'' @ '' ['' @ ul ''vhost'' @ '']''),
        ''Set someone'' @ [CHR 0x27] @ ''s vhost'']),
      (''help_host_list'',
       [''List all users having a vhost''])]"

definition nick_texts :: "nick \<Rightarrow> core \<Rightarrow> (string \<times> string list) list" where
  "nick_texts n s =
     [(''help_nick_link'',
       [''Syntax: '' @ bold (''NICK LINK '' @ ul ''nick'' @ '' '' @ ul ''password''),
        ''Link your nick to another, you can use the access list of the remote nick.'',
        ''If you want to share the access list of another nick, use the command '' @ bold ''nick set master'']),
      (''help_nick_unlink'',
       [''Syntax: '' @ bold (''NICK UNLINK '' @ ul ''nick''),
        ''Unlink your nick'']),
      (''help_nick_identify'',
       [''Syntax: '' @ bold (''NICK IDENTIFY '' @ ul ''password''),
        ''Identify yourself to services'']),
      (''help_nick_register'',
       [''Syntax: '' @ bold (''NICK REGISTER '' @ ul ''password'' @ '' '' @ ul ''email''),
        ''Register your nick with the specified password and email'',
        ''Nicks expire after '' @ dec (cfg_nick_expire (cfg s)) @ '' days without being used'']),
      (''help_nick_drop'',
       [''Syntax: '' @ bold (''NICK DROP ['' @ ul ''nick'' @ '']''),
        ''Drop your account'']),
      (''help_nick_info'',
       [''Syntax: '' @ bold (''NICK INFO '' @ ul ''nick''),
        ''Retrieve informations about the specified nick'']),
      (''help_nick_ghost'',
       [''Syntax: '' @ bold (''NICK GHOST '' @ ul ''nick'' @ '' '' @ ul ''password''),
        ''Kill a ghosted nick.''])]"

definition nick_set_texts :: "nick \<Rightarrow> core \<Rightarrow> (string \<times> string list) list" where
  "nick_set_texts n s =
     [(''help_nick_set_password'',
       [''Syntax: '' @ bold (''NICK SET PASSWORD ['' @ ul ''username'' @ ''] '' @ ul ''newpass''),
        ''Change your password, or the password of the specified nick'']),
      (''help_nick_set_email'',
       [''Syntax: '' @ bold (''NICK SET EMAIL '' @ ul ''email@domain.xx''),
        ''Set your email address. This is required for requestpassword command'']),
      (''help_nick_set_private'',
       [''Syntax: '' @ bold (''NICK SET PRIVATE ['' @ ul ''on'' @ ''|'' @ ul ''off'' @ '']''),
        ''Hide your informations (level, status, lastseen, etc).'']),
      (''help_nick_set_protect'',
       [''Syntax: '' @ bold (''NICK SET PROTECT ['' @ ul ''on'' @ ''|'' @ ul ''off'' @ '']''),
        ''Enable or disable the nick protection. When the protection is enabled,'',
        ''if someone take your nick and does not identify, his nick will be changed'',
        ''after a specified time. See '' @ bold ''help set timeout'' @ '' for the time limit.'']),
      (''help_nick_set_timeout'',
       [''Syntax: '' @ bold (''NICK SET TIMEOUT '' @ ul ''time''),
        ''Set the time limit in seconds for the nick protection.'',
        ''The default value is '' @ dec TIMEOUT_DFLT @ ''. Setting the time to 0 will set the timeout to the default value.'']),
      (''help_nick_set_master'',
       [''Syntax: '' @ bold (''NICK SET MASTER '' @ ul ''nick''),
        ''Set the nick whose access list is shared when several nicks are linked.'']),
      (''help_nick_set_noauto'',
       [''Syntax: '' @ bold (''NICK SET NOAUTO ['' @ ul ''on'' @ ''|'' @ ul ''off'' @ '']''),
        ''This option prevents from setting modes on ident'']),
      (''help_nick_set_hidemail'',
       [''Syntax: '' @ bold (''NICK SET HIDEMAIL ['' @ ul ''on'' @ ''|'' @ ul ''off'' @ '']''),
        ''This option allows you to hide your email from other users'']),
      (''help_nick_set_cloak'',
       [''Syntax: '' @ bold (''NICK SET CLOAK ['' @ ul ''on'' @ ''|'' @ ul ''off'' @ '']''),
        ''Enable or disable host cloaking. Your cloak will be '' @ bold (n_name n @ cfg_usercloak (cfg s)) @ ''. Note that the cloak never overrides your vhost.'']),
      (''help_nick_requestpassword'',
       [''Syntax: '' @ bold (''NICK REQUESTPASSWORD '' @ ul ''username''),
        ''Generate a new password and send it to the user'' @ [CHR 0x27] @ ''s email address.''])]"

definition chan_texts :: "nick \<Rightarrow> core \<Rightarrow> (string \<times> string list) list" where
  "chan_texts n s =
     [(''help_chan_register'',
       [''Syntax: '' @ bold (''CHAN REGISTER '' @ ul ''#channel''),
        ''Register specified channel'',
        ''Chans expire after '' @ dec (cfg_chan_expire (cfg s)) @ '' days without being used.'']),
      (''help_chan_drop'',
       [''Syntax: '' @ bold (''CHAN DROP '' @ ul ''#channel''),
        ''Drop specified channel''])]"

definition status_texts :: "nick \<Rightarrow> core \<Rightarrow> (string \<times> string list) list" where
  "status_texts n s =
     [(''help_chan_op'',
       [''Syntax: '' @ bold (''CHAN OP #channel ['' @ ul ''nick'' @ '']''),
        ''Give channel operator status'']),
      (''help_chan_deop'',
       [''Syntax: '' @ bold (''CHAN DEOP #channel ['' @ ul ''nick'' @ '']''),
        ''Take channel operator status'']),
      (''help_chan_halfop'',
       [''Syntax: '' @ bold (''CHAN HALFOP #channel ['' @ ul ''nick'' @ '']''),
        ''Give channel half-operator status'']),
      (''help_chan_dehalfop'',
       [''Syntax: '' @ bold (''CHAN DEHALFOP #channel ['' @ ul ''nick'' @ '']''),
        ''Take channel half-operator status'']),
      (''help_chan_voice'',
       [''Syntax: '' @ bold (''CHAN VOICE #channel ['' @ ul ''nick'' @ '']''),
        ''Give voice status'']),
      (''help_chan_devoice'',
       [''Syntax: '' @ bold (''CHAN DEVOICE #channel ['' @ ul ''nick'' @ '']''),
        ''Take voice status'']),
      (''help_chan_invite'',
       [''Syntax: '' @ bold (''CHAN INVITE '' @ ul ''#channel''),
        ''Invite yourself on a channel'']),
      (''help_chan_kick'',
       [''Syntax: '' @ bold (''CHAN KICK '' @ ul ''#channel'' @ '' '' @ ul ''nick'' @ '' ['' @ ul ''reason'' @ '']''),
        ''Kick someone or all users'']),
      (''help_chan_info'',
       [''Syntax: '' @ bold ''CHAN INFO #channel'',
        ''Give some informations for the specified channel'']),
      (''help_chan_unbanall'',
       [''Syntax: '' @ bold ''CHAN UNBANALL #channel'',
        ''Remove all bans'']),
      (''help_chan_clearmodes'',
       [''Syntax: '' @ bold ''CHAN CLEARMODES #channel'',
        ''Remove all channel modes'']),
      (''help_chan_clearchan'',
       [''Syntax: '' @ bold ''CHAN CLEARCHAN #channel'',
        ''Remove all channel modes, bans, excepts, invex, user status, ...'']),
      (''help_chan_topic'',
       [''Syntax: '' @ bold (''CHAN TOPIC '' @ ul ''#chan'' @ '' ['' @ ul ''topic'' @ '']''),
        ''Set the topic''])]"

definition chan_set_texts :: "nick \<Rightarrow> core \<Rightarrow> (string \<times> string list) list" where
  "chan_set_texts n s =
     [(''help_chan_set_founder'',
       [''Syntax: '' @ bold (''CHAN SET '' @ ul ''#channel'' @ '' founder '' @ ul ''user''),
        ''Change the channel founder.'']),
      (''help_chan_set_avoice'',
       [''Syntax: '' @ bold (''CHAN SET '' @ ul ''#channel'' @ '' avoice ['' @ ul ''on'' @ ''|'' @ ul ''off'' @ '']''),
        ''When the option is enabled, users are automatically voiced.'',
        ''A minimum level of 10 is required.'']),
      (''help_chan_set_aop'',
       [''Syntax: '' @ bold (''CHAN SET '' @ ul ''#channel'' @ '' aop ['' @ ul ''on'' @ ''|'' @ ul ''off'' @ '']''),
        ''WHen the option is enabled, users are automatically opped.'',
        ''A minimum level of 20 is required.'']),
      (''help_chan_set_nojoin'',
       [''Syntax: '' @ bold (''CHAN SET '' @ ul ''#channel'' @ '' nojoin ['' @ ul ''on'' @ ''|'' @ ul ''off'' @ '']''),
        ''When this option is enabled, '' @ cfg_nick (cfg s) @ '' will leave your channel, operating from outside.'',
        ''A minimum level of 20 is required.'']),
      (''help_chan_set_noauto'',
       [''Syntax: '' @ bold (''CHAN SET '' @ ul ''#channel'' @ '' noauto ['' @ ul ''on'' @ ''|'' @ ul ''off'' @ '']''),
        ''Defaultly, when a user join a channel where he has an access, he automatically gets the modes'',
        ''correponding to his access. When this option is enabled, '' @ cfg_nick (cfg s) @ '' will not automatically gives modes.'',
        ''A minimum level of 20 is required'']),
      (''help_chan_set_private'',
       [''Syntax: '' @ bold (''CHAN SET '' @ ul ''#channel'' @ '' private ['' @ ul ''on'' @ ''|'' @ ul ''off'' @ '']''),
        ''Define if your channel information are private or public.'',
        ''A minimum level of 20 is required'']),
      (''help_chan_set_strictop'',
       [''Syntax: '' @ bold (''CHAN SET '' @ ul ''#channel'' @ '' strictop ['' @ ul ''on'' @ ''|'' @ ul ''off'' @ '']''),
        ''When this option is enabled, only the users having a sufficient level can be opped'',
        ''A minimum level of 20 is required.'']),
      (''help_chan_set_protectops'',
       [''Syntax: '' @ bold (''CHAN SET '' @ ul ''#channel'' @ '' protectops ['' @ ul ''on'' @ ''|'' @ ul ''off'' @ '']''),
        ''This option prevents ops having an access from being deopped'',
        ''The protection can be overridden by the !deop command.'']),
      (''help_chan_set_mlock'',
       [''Syntax: '' @ bold (''CHAN SET '' @ ul ''#channel'' @ '' mlock ['' @ ul ''modes'' @ '']''),
        ''This define the modes who must be forcefully set. If no param is given after the '' @ [CHR 0x27] @ ''+'' @ [CHR 0x27] @ '' or the '' @ [CHR 0x27] @ ''-'' @ [CHR 0x27] @ '', mlock is cleared.'',
        ''A minimum level of 20 is required.'']),
      (''help_chan_set_autolimit'',
       [''Syntax: '' @ bold (''CHAN SET '' @ ul ''#channel'' @ '' autolimit ['' @ ul ''limit'' @ '']''),
        ''Forcefully set a limit. The limit depends on the numbers of the members present on the channel'',
        ''E.g.: If there is 5 members and an autolimit set to 3, '' @ cfg_nick (cfg s) @ '' will set the limit to 8'']),
      (''help_chan_set_secure'',
       [''Syntax: '' @ bold (''CHAN SET '' @ ul ''#channel'' @ '' secure ['' @ ul ''on'' @ ''|'' @ ul ''off'' @ '']''),
        ''If this option is enabled, users who are not identified won'' @ [CHR 0x27] @ ''t be auto-opped or auto-voiced if the aop or avoice option are set.'']),
      (''help_chan_set_enablemask'',
       [''Syntax: '' @ bold (''CHAN SET '' @ ul ''#channel'' @ '' enablemask ['' @ ul ''on'' @ ''|'' @ ul ''off'' @ '']''),
        ''This option allows masks in access list. Example: you can set a level of -2 on *!*@lamerhost.net to autokickban all users matching this mask'',
        ''Note that the SECURE option has no effect with masks, and that masks are only effective with auto-voice/halfop/op features (you can'' @ [CHR 0x27] @ ''t add a mask with a level > 5)'']),
      (''help_chan_set_mass'',
       [''Syntax: '' @ bold (''CHAN SET '' @ ul ''#channel'' @ '' mass ['' @ ul ''on'' @ ''|'' @ ul ''off'' @ '']''),
        ''This option enable or disable mass-effect channel comands like !rkick, !rkb, !kick * and !kb *'']),
      (''help_chan_set_enftopic'',
       [''Syntax: '' @ bold (''CHAN SET '' @ ul ''#channel'' @ '' enftopic ['' @ ul ''on'' @ ''|'' @ ul ''off'' @ '']''),
        ''This option defines whether the services enforces the topic defined by the CHAN TOPIC command.'']),
      (''help_chan_set_axxflags'',
       [''Syntax: '' @ bold (''CHAN SET '' @ ul ''#channel'' @ '' axxflags ['' @ ul ''on'' @ ''|'' @ ul ''off'' @ '']''),
        ''Enable or disable chanflags system. The CHAN ACCESS command automatically adapts itself regarding to this option. See HELP CHAN ACCESS for more informations about chanflags.''])]"

definition chan_more_texts :: "nick \<Rightarrow> core \<Rightarrow> (string \<times> string list) list" where
  "chan_more_texts n s =
     [(''help_chan_entrymsg'',
       [''Syntax: '' @ bold (''CHAN ENTRYMSG '' @ ul ''#channel'' @ '' ['' @ ul ''message'' @ '']''),
        ''Set a welcome message displayed on join. If no parameter is specified, then entrymsg is removed'']),
      (''help_chan_assign'',
       [''Syntax: '' @ bold (''CHAN ASSIGN '' @ ul ''#channel'' @ '' '' @ ul ''botnick''),
        ''Assign a bot to a channel. This will automatically set NOJOIN option and make '' @ cfg_nick (cfg s) @ '' leaving the channel.'']),
      (''help_chan_unassign'',
       [''Syntax: '' @ bold (''CHAN UNASSIGN '' @ ul ''#channel''),
        ''Unassign a bot from a channel.'']),
      (''help_chan_botlist'',
       [''Syntax: '' @ bold ''CHAN BOTLIST'',
        ''List all available bots'']),
      (''help_chan_addbot'',
       [''Syntax: '' @ bold (''CHAN ADDBOT '' @ ul ''nick'' @ '' '' @ ul ''ident'' @ '' '' @ ul ''host''),
        ''Add a bot'']),
      (''help_chan_delbot'',
       [''Syntax: '' @ bold (''CHAN DELBOT '' @ ul ''nick''),
        ''Delete a bot'']),
      (''help_chan_resync'',
       [''Syntax: '' @ bold (''CHAN RESYNC '' @ ul ''#channel''),
        ''Resync channel access list with channel members'']),
      (''help_chan_suspend'',
       [''Syntax: '' @ bold (''CHAN SUSPEND '' @ ul ''#channel'' @ '' '' @ ul ''username''),
        ''Suspend the access level of a user'']),
      (''help_chan_banlist'',
       [''Syntax: '' @ bold (''CHAN BANLIST '' @ ul ''#channel''),
        ''List channel bans (added with !tb command)'']),
      (''help_chan_clearbans'',
       [''Syntax: '' @ bold (''CHAN CLEARBANS '' @ ul ''#channel''),
        ''Clear internal channel banlist.'']),
      (''help_chan_unsuspend'',
       [''Syntax: '' @ bold (''CHAN UNSUSPEND '' @ ul ''#channel'' @ '' '' @ ul ''username''),
        ''Unsuspend the access level of a user''])]"

definition oper_texts :: "nick \<Rightarrow> core \<Rightarrow> (string \<times> string list) list" where
  "oper_texts n s =
     [(''help_oper_stats'',
       [''Syntax: '' @ bold ''stats'',
        ''Display some informations about the network and the services'']),
      (''help_oper_global'',
       [''Syntax: '' @ bold (''global '' @ ul ''message''),
        ''Send a notice to each user connected on the network'']),
      (''help_oper_sglobal'',
       [''Syntax: '' @ bold (''sglobal '' @ ul ''server'' @ '' '' @ ul ''message''),
        ''Send a server-wide notice'']),
      (''help_oper_fakeuser'',
       [''Syntax: '' @ bold (''fakeuser '' @ ul ''nick'' @ '' '' @ ul ''ident'' @ '' '' @ ul ''host''),
        ''Create a fakeuser'']),
      (''help_oper_fakejoin'',
       [''Syntax: '' @ bold (''fakejoin '' @ ul ''nick'' @ '' '' @ ul ''#channel''),
        ''Make a fakeuser join a channel'']),
      (''help_oper_fakesay'',
       [''Syntax: '' @ bold (''fakesay '' @ ul ''nick'' @ '' '' @ ul ''#channel'' @ '' '' @ ul ''message''),
        ''Make a fakeuser say something'']),
      (''help_oper_fakenick'',
       [''Syntax: '' @ bold (''fakenick '' @ ul ''oldnick'' @ '' '' @ ul ''newnick''),
        ''Change the nick of a fakeuser'']),
      (''help_oper_fakelist'',
       [''Syntax: '' @ bold ''fakenick'',
        ''List fakeusers created with OPER FAKEUSER'']),
      (''help_oper_fakekill'',
       [''Syntax: '' @ bold (''fakekill '' @ ul ''nick'' @ '' ['' @ ul ''quit message'' @ '']''),
        ''Destroy a fakeuser'']),
      (''help_oper_userlist'',
       [''Syntax: '' @ bold (''userlist ['' @ ul ''pattern'' @ '']''),
        ''Without the pattern, display all users registered. With the pattern, display all users matching it'']),
      (''help_oper_nicklist'',
       [''Syntax: '' @ bold (''nicklist ['' @ ul ''pattern'' @ '']''),
        ''Without the pattern, display all users connected. With the pattern, display all users whose nick, ident or host are matching the pattern'']),
      (''help_oper_chanlist'',
       [''Syntax: '' @ bold (''chanlist ['' @ ul ''pattern'' @ '']''),
        ''Without the pattern, display all registered channels. With the pattern, display all channels of which name or founder'' @ [CHR 0x27] @ ''s nick are matching the pattern'']),
      (''help_oper_jupe'',
       [''Syntax: '' @ bold (''jupe '' @ ul ''servername'' @ '' '' @ ul ''reason''),
        ''Jupe a server'']),
      (''help_oper_killall'',
       [''Syntax: '' @ bold (''killall '' @ ul ''mask''),
        ''Kill all users matching the mask'']),
      (''help_oper_glineall'',
       [''Syntax: '' @ bold (''glineall '' @ ul ''mask''),
        ''Gline all users matching the mask'']),
      (''help_oper_glinechan'',
       [''Syntax: '' @ bold (''glinechan '' @ ul ''#channel'' @ '' '' @ ul ''duration'' @ '' '' @ ul ''reason''),
        ''Gline all non-oper members of a channel. Duration is to be specified in seconds, 0 for permanent gline.''])]"

definition oper_more_texts :: "nick \<Rightarrow> core \<Rightarrow> (string \<times> string list) list" where
  "oper_more_texts n s =
     [(''help_oper_changelev'',
       [''Syntax: '' @ bold (''changelev '' @ ul ''username'' @ '' '' @ ul ''level''),
        ''Change the level of a user'',
        ''Here is the differents levels :'',
        ''  '' @ bold ('' 1-'' @ dec (cfg_level_oper (cfg s) - 1)) @ ''     : normal user'',
        ''  '' @ bold ('' '' @ dec (cfg_level_oper (cfg s)) @ ''-'' @ dec (cfg_level_admin (cfg s) - 1)) @ ''  : services operator'',
        ''  '' @ bold ('' '' @ dec (cfg_level_admin (cfg s)) @ ''-'' @ dec (cfg_level_root (cfg s) - 1)) @ ''  : services administrator'',
        ''  '' @ bold ('' '' @ dec (cfg_level_root (cfg s)) @ ''-'' @ dec (cfg_level_owner (cfg s))) @ '' : services root administrator'']),
      (''help_oper_noexpire'',
       [''Syntax: '' @ bold (''noexpire ['' @ ul ''username'' @ ''|'' @ ul ''#channel'' @ ''] [on|off]''),
        ''Set/unset noexpire flag for a user or a channel'']),
      (''help_oper_suspend'',
       [''Syntax: '' @ bold (''suspend ['' @ ul ''username'' @ ''|'' @ ul ''#channel'' @ ''] [on|off]''),
        ''Suspend/unsuspend a user or a channel'']),
      (''help_oper_forceauth'',
       [''Syntax: '' @ bold (''forceauth '' @ ul ''nick''),
        ''Force someone to auth. Use it carefully...'']),
      (''help_oper_raw'',
       [''Syntax: '' @ bold (''raw '' @ ul ''commands''),
        ''Execute a raw ('' @ (if raws s then ''enabled'' else ''disabled'') @ '')'',
        ''This command is very DANGEROUS and might be disabled.'']),
      (''help_oper_savedb'',
       [''Syntax: '' @ bold ''savedb'',
        ''Save the database'']),
      (''help_oper_restart'',
       [''Syntax: '' @ bold ''restart'',
        ''Restart services'']),
      (''help_oper_die'',
       [''Syntax: '' @ bold ''die'',
        ''Stop services'']),
      (''help_oper_operlist'',
       [''Syntax: '' @ bold ''operlist'',
        ''Display online irc operators'']),
      (''help_oper_trustadd'',
       [''Syntax: '' @ bold (''trustadd '' @ ul ''hostname/ip'' @ '' '' @ ul ''limit''),
        ''Add a trust for the specified hostname or ip. CIDR can be used. The limit is per-ip, not per-range'']),
      (''help_oper_trustdel'',
       [''Syntax: '' @ bold (''trustdel '' @ ul ''trust''),
        ''Remove an existing trust'']),
      (''help_oper_trustlist'',
       [''Syntax: '' @ bold ''trustlist'',
        ''List existing trusts'']),
      (''help_oper_modload'',
       [''Syntax: '' @ bold (''modload '' @ ul ''modulename''),
        ''Load a module. '' @ ul ''modulename'' @ '' is the file name without the .so extension'']),
      (''help_oper_modunload'',
       [''Syntax: '' @ bold (''modunload '' @ ul ''modulename''),
        ''Remove a loaded module'']),
      (''help_oper_modlist'',
       [''Syntax: '' @ bold ''modlist'',
        ''List loaded modules'']),
      (''help_oper_rehash'',
       [''Syntax: '' @ bold ''rehash'',
        ''Reload configuration'']),
      (''help_oper_setraws'',
       [''Syntax: '' @ bold (''setraws '' @ ul ''0|1''),
        ''Enable/disable raws'']),
      (''help_oper_cmdlev'',
       [''Syntax: '' @ bold (''cmdlev '' @ ul ''name'' @ '' '' @ ul ''type'' @ '' '' @ ul ''subtype'' @ '' '' @ ul ''new level''),
        ''Change the required level to use a command'',
        ''Example: cmdlev chan register 100'']),
      (''help_oper_superadmin'',
       [''Syntax: '' @ bold (''superadmin ['' @ ul ''on'' @ ''|'' @ ul ''off'' @ '']''),
        ''Once superadmin mode is enabled, you are recognized as the founder of every registered channel. Use with caution.'']),
      (''help_oper_regexpcheck'',
       [''Syntax: '' @ bold (''regexpcheck '' @ ul ''nick!ident@host''),
        ''Check users affected by a given regular expression. Very useful to avoid spamfilter fails.''])]"

definition access_menu :: "core \<Rightarrow> string list" where
  "access_menu s =
     [''Syntax: '' @ bold ''HELP CHAN ACCESS FLAGS'' @ '' for help about chanflags'',
      ''Syntax: '' @ bold ''HELP CHAN ACCESS LEVELS'' @ '' for help about old levels system'',
      ''The CHAN ACCESS command automatically adapts himself regarding to the AXXFLAGS channel option.'']"

definition access_levels :: "core \<Rightarrow> string list" where
  "access_levels s =
     [''Syntax: '' @ bold (''CHAN ACCESS '' @ ul ''#channel'' @ '' {add|auto|del|list} ['' @ ul ''nick'' @ '' ['' @ ul ''level'' @ '']]''),
      '' '',
      ''Following access levels are available :'',
      ''      '' @ dec CHLEV_COOWNER @ ''  Co-Owner. Get +qo modes and inherits channel ownership if the original owner expires.'',
      ''      '' @ dec (cfg_chlev_sadmin (cfg s)) @ ''   Full control over the channel without DROP nor SET FOUNDER'',
      ''      '' @ dec (cfg_chlev_admin (cfg s)) @ ''   can use access add/del command and set some options'',
      ''       '' @ dec (cfg_chlev_op (cfg s)) @ ''   auto-op'',
      ''       '' @ dec (cfg_chlev_halfop (cfg s)) @ ''   auto-halfop'',
      ''       '' @ dec (cfg_chlev_voice (cfg s)) @ ''   auto-voice'',
      ''       '' @ dec (cfg_chlev_invite (cfg s)) @ ''   can use invite command'',
      ''      '' @ dec (cfg_chlev_nostatus (cfg s)) @ ''   cannot get opped'',
      ''      '' @ dec (cfg_chlev_akick (cfg s)) @ ''   auto-kicked'',
      ''      '' @ dec (cfg_chlev_akb (cfg s)) @ ''   auto-banned'',
      ''The maximum level is '' @ dec (CHLEV_OWNER - 1) @ ''.'',
      '' '',
      ''Usage of AUTO param :'',
      ''CHAN ACCESS '' @ ul ''#channel'' @ '' AUTO '' @ ul ''nick'' @ '' {op|voice|default|off}'',
      ''OP: the user is auto-opped if his/her level >= '' @ dec (cfg_chlev_op (cfg s)),
      ''VOICE: the user is auto-voiced if his/her level >= '' @ dec (cfg_chlev_voice (cfg s)),
      ''DEFAULT: the user is set the mode corresponding to his level'',
      ''OFF: no auto-mode is set'']"

definition access_flags :: "core \<Rightarrow> string list" where
  "access_flags s =
     [''Syntax: '' @ bold (''CHAN ACCESS '' @ ul ''#channel'' @ '' ['' @ ul ''username'' @ '' {+|-}'' @ ul ''flags'' @ '']''),
      '' '',
      ''Following channel flags are available :'',
      ''    '' @ bold ''o'' @ ''   Can get/give/take op'',
      ''    '' @ bold ''O'' @ ''   Get auto-op on join'',
      ''    '' @ bold ''v'' @ ''   Can get voice'',
      ''    '' @ bold ''V'' @ ''   Get auto-voice on join'',
      ''    '' @ bold ''x'' @ ''   Can modify access list'',
      ''    '' @ bold ''i'' @ ''   Can get invited'',
      ''    '' @ bold ''t'' @ ''   Can change topic'',
      ''    '' @ bold ''F'' @ ''   Channel owner, can only be modified with CHAN SET FOUNDER command'',
      ''    '' @ bold ''f'' @ ''   Channel co-owner'',
      ''    '' @ bold ''h'' @ ''   Can get halfop'',
      ''    '' @ bold ''H'' @ ''   Get auto-halfop on join'',
      ''    '' @ bold ''s'' @ ''   Can use CHAN SET commands'',
      ''    '' @ bold ''p'' @ ''   Can get protect status'',
      ''    '' @ bold ''P'' @ ''   Get auto-protect on join (+a mode)'',
      ''    '' @ bold ''N'' @ ''   Can'' @ [CHR 0x27] @ ''t get any status (op/voice/etc)'',
      ''    '' @ bold ''k'' @ ''   Auto-kick on join'',
      ''    '' @ bold ''b'' @ ''   Auto-kickban on join'',
      ''    '' @ bold ''w'' @ ''   Get auto-owner on join (+q mode)'',
      '' '',
      ''Channel flags are cumulative. Example: +oOV flags will give auto-op and auto-voice on join.'']"

definition help_texts :: "nick \<Rightarrow> core \<Rightarrow> (string \<times> string list) list" where
  "help_texts n s = host_texts n s @ nick_texts n s @ nick_set_texts n s @ chan_texts n s @ status_texts n s @
     chan_set_texts n s @ chan_more_texts n s @ oper_texts n s @ oper_more_texts n s"

end
