(* ===== verification/HelpServ.thy ===== *)
theory HelpServ
  imports HelpTexts
begin

section \<open>The help: src/src/modules/m\_help.c\<close>

text \<open>
  A help function that only prints takes its lines from the table of texts. The others are given the
  command table, and \<open>call\<close>, what the names of the functions below them mean.
\<close>

definition print_lines :: "ptr \<Rightarrow> string list \<Rightarrow> core \<Rightarrow> core option" where
  "print_lines nptr = foldM (NoticeToUser nptr)"

definition help_text :: "string \<Rightarrow> nick_cmd" where
  "help_text f nptr uptr all s =
     do { n \<leftarrow> nick_at s nptr;
          ls \<leftarrow> map_of (help_texts n s) f;
          print_lines nptr ls s }"

definition help_chan_access :: "nick_cmd" where
  "help_chan_access nptr uptr all s =
     (let arg1 = arg1_of all in
      if is_empty arg1 then print_lines nptr (access_menu s) s
      else if streq arg1 (Some ''levels'') then print_lines nptr (access_levels s) s
      else if streq arg1 (Some ''flags'') then print_lines nptr (access_flags s) s
      else NoticeToUser nptr ''Unknown argument, see HELP CHAN ACCESS'' s)"

subsection \<open>Menus\<close>

text \<open>
  The blanks after a name fill 16 columns, in a buffer of 16 bytes that must hold the final NUL too; a
  longer name makes the unsigned number of blanks wrap around.
\<close>

definition padding :: "string \<Rightarrow> string option" where
  "padding name =
     (if 0 < length name \<and> length name \<le> 16 then Some (replicate (16 - length name) (CHR '' '')) else None)"

definition is_help :: "int \<Rightarrow> command \<Rightarrow> bool" where
  "is_help sub c \<longleftrightarrow> cmd_type c = CMD_HELP \<and> cmd_subtype c = sub"

definition menu_line :: "ptr \<Rightarrow> ptr option \<Rightarrow> command \<Rightarrow> core \<Rightarrow> core option" where
  "menu_line nptr uptr c s =
     do { b \<leftarrow> may_run uptr (cmd_level c) s;
          if b then do {
            p \<leftarrow> padding (cmd_name c);
            NoticeToUser nptr (bold (cmd_name c) @ p @ cmd_desc c) s }
          else Some s }"

definition help_menu :: "string \<Rightarrow> int \<Rightarrow> command list \<Rightarrow> ptr \<Rightarrow> ptr option \<Rightarrow> core \<Rightarrow> core option" where
  "help_menu title sub cs nptr uptr s =
     do { s \<leftarrow> NoticeToUser nptr title s;
          s \<leftarrow> NoticeToUser nptr '' '' s;
          foldM (menu_line nptr uptr) (filter (is_help sub) cs) s }"

text \<open>A section of the help: its menu, or the entry that the next word names.\<close>

definition help_section ::
  "string \<Rightarrow> int \<Rightarrow> (string \<Rightarrow> string) \<Rightarrow> (string \<Rightarrow> nick_cmd) \<Rightarrow> command list \<Rightarrow> nick_cmd" where
  "help_section title sub missing call cs nptr uptr all s =
     (let (arg3, rest) = SeperateWord all in
      if is_empty arg3 then help_menu title sub cs nptr uptr s
      else (case find (is_command arg3 CMD_HELP sub) cs of
          None \<Rightarrow> NoticeToUser nptr (missing (the arg3)) s
        | Some cmd \<Rightarrow> run_command call cmd nptr uptr rest s))"

definition no_help :: "string \<Rightarrow> string \<Rightarrow> string" where
  "no_help what x = ''No help available for '' @ what @ '' '' @ x"

definition no_help_set :: "string \<Rightarrow> string" where
  "no_help_set x = ''No help available for '' @ bold (''set '' @ x)"

definition help_nick_set :: "command list \<Rightarrow> nick_cmd" where
  "help_nick_set = help_section (''Syntax: '' @ [CHR 0x02] @ ''NICK SET '' @ ul ''option'' @ '' '' @ ul ''value'')
     CMD_HELP_NICK_SET no_help_set help_text"

definition help_chan_set :: "command list \<Rightarrow> nick_cmd" where
  "help_chan_set = help_section
     (''Syntax: '' @ bold (''CHAN SET '' @ ul ''#channel'' @ '' '' @ ul ''option'' @ '' '' @ ul ''value''))
     CMD_HELP_CHAN_SET no_help_set help_text"

definition in_section :: "command list \<Rightarrow> string \<Rightarrow> nick_cmd" where
  "in_section cs f =
     (if f = ''help_nick_set'' then help_nick_set cs
      else if f = ''help_chan_set'' then help_chan_set cs
      else if f = ''help_chan_access'' then help_chan_access
      else if f = ''secserv_help'' then (\<lambda>nptr uptr all. secserv_help nptr)
      else help_text f)"

definition help_host :: "command list \<Rightarrow> nick_cmd" where
  "help_host cs = help_section ''Commands available for vhosts management :'' CMD_HELP_HOST (no_help ''host'') (in_section cs) cs"

definition help_nick :: "command list \<Rightarrow> nick_cmd" where
  "help_nick cs = help_section ''Commands available for nicks management :'' CMD_HELP_NICK (no_help ''nick'') (in_section cs) cs"

definition help_chan :: "command list \<Rightarrow> nick_cmd" where
  "help_chan cs = help_section ''Commands available for channels management :'' CMD_HELP_CHAN (no_help ''chan'') (in_section cs) cs"

definition help_bot :: "command list \<Rightarrow> nick_cmd" where
  "help_bot cs nptr uptr all s = help_menu ''Commands available in channels :'' CMD_HELP_BOT cs nptr uptr s"

text \<open>The level of an operator is written as a number here.\<close>

definition oper_of_100 :: "ptr \<Rightarrow> ptr option \<Rightarrow> core \<Rightarrow> bool option" where
  "oper_of_100 nptr uptr s =
     do { n \<leftarrow> nick_at s nptr;
          a \<leftarrow> IsAuthed uptr s;
          if \<not> HasUmode n UMODE_OPER \<or> \<not> a then Some False
          else map_option (\<lambda>u. 100 \<le> u_level u) (account uptr s) }"

definition help_oper :: "command list \<Rightarrow> nick_cmd" where
  "help_oper cs nptr uptr all s =
     do { b \<leftarrow> oper_of_100 nptr uptr s;
          if \<not> b then NoticeToUser nptr denied s
          else help_section ''Commands available for administration :'' CMD_HELP_OPER (no_help ''oper'') (in_section cs) cs
                 nptr uptr all s }"

subsection \<open>The entry\<close>

text \<open>
  The command is looked for among all the entries of the help, whatever their section; any of their
  functions may be called.
\<close>

definition help_call :: "command list \<Rightarrow> string \<Rightarrow> nick_cmd" where
  "help_call cs f =
     (if f = ''help_host'' then help_host cs
      else if f = ''help_nick'' then help_nick cs
      else if f = ''help_chan'' then help_chan cs
      else if f = ''help_bot'' then help_bot cs
      else if f = ''help_oper'' then help_oper cs
      else in_section cs f)"

definition type_this :: "string \<Rightarrow> core \<Rightarrow> string" where
  "type_this name s = bold (''/msg '' @ cfg_nick (cfg s) @ '' help '' @ name)"

definition help_start :: "ptr \<Rightarrow> ptr option \<Rightarrow> core \<Rightarrow> core option" where
  "help_start nptr uptr s =
     do { s \<leftarrow> print_lines nptr [''To get help, type one of the following commands :'', '' '', type_this ''nick'' s,
                 type_this ''chan'' s, type_this ''bot'' s] s;
          b \<leftarrow> oper_of_100 nptr uptr s;
          if b then print_lines nptr ['' '', ''Opers only commands :'', type_this ''host'' s, type_this ''oper'' s] s
          else Some s }"

definition do_help :: "command list \<Rightarrow> nick_cmd" where
  "do_help cs nptr uptr all s =
     do { a \<leftarrow> all;
          buf \<leftarrow> strbuf a 1024;
          let (arg1, r) = SeperateWord (Some buf);
          let (arg2, arg3) = args2 r;
          if is_empty arg2 then help_start nptr uptr s
          else (let arg2 = (if streq arg2 (Some ''help'') then arg1 else arg2) in
            case lookup_command arg2 CMD_HELP cs of
              None \<Rightarrow> NoticeToUser nptr (''No help available for '' @ pr arg2 @ '' '' @ (case arg3 of None \<Rightarrow> [] | Some x \<Rightarrow> x)) s
            | Some cmd \<Rightarrow> run_command (help_call cs) cmd nptr uptr (snd (SeperateWord (snd (SeperateWord all)))) s) }"

end
