(* ===== verification/Loadconf.thy ===== *)
theory Loadconf
  imports Database
begin

section \<open>The configuration file: src/src/loadconf.c\<close>

text \<open>
  The file is a string, read line by line. A line is tried against one format of \<open>sscanf\<close> after the other
  until one returns something else than 0; that is also the case when the line ends before the first value, since
  \<open>EOF\<close> is not 0 either. A value that does not fit its array, or a number that is not an \<open>int\<close>, is
  undefined. What is printed on the terminal is left out.
\<close>

subsection \<open>sscanf\<close>

text \<open>How a directive ends: with a value and the rest of the line, on another character, or at the end of the line.\<close>

datatype 'a scan = Value 'a string | Mismatch | Ended

fun then_scan :: "'a scan \<Rightarrow> ('a \<Rightarrow> string \<Rightarrow> 'b scan) \<Rightarrow> 'b scan" where
  "then_scan (Value v r) f = f v r"
| "then_scan Mismatch f = Mismatch"
| "then_scan Ended f = Ended"

text \<open>The characters of a format: white space skips any white space, the others stand for themselves.\<close>

fun scan_text :: "string \<Rightarrow> string \<Rightarrow> unit scan" where
  "scan_text [] s = Value () s"
| "scan_text (f # fs) s =
     (if isspace f then scan_text fs (dropWhile isspace s)
      else (case s of [] \<Rightarrow> Ended | c # cs \<Rightarrow> if c = f then scan_text fs cs else Mismatch))"

text \<open>The conversions \<open>%[^"]\<close>, \<open>%s\<close> and \<open>%i\<close>; the last takes a sign and the prefixes of octal and hexadecimal numbers.\<close>

definition scan_quoted :: "string \<Rightarrow> string scan" where
  "scan_quoted s =
     (case s of [] \<Rightarrow> Ended
      | c # cs \<Rightarrow> if c = CHR 0x22 then Mismatch
          else Value (takeWhile (\<lambda>x. x \<noteq> CHR 0x22) s) (dropWhile (\<lambda>x. x \<noteq> CHR 0x22) s))"

definition scan_word :: "string \<Rightarrow> string scan" where
  "scan_word s =
     (let t = dropWhile isspace s in
      if t = [] then Ended else Value (takeWhile (\<lambda>x. \<not> isspace x) t) (dropWhile (\<lambda>x. \<not> isspace x) t))"

definition digit_of :: "char \<Rightarrow> int" where
  "digit_of c =
     (let n = (of_char c :: nat) in
      if 48 \<le> n \<and> n \<le> 57 then int n - 48 else if 65 \<le> n \<and> n \<le> 70 then int n - 55
      else if 97 \<le> n \<and> n \<le> 102 then int n - 87 else 16)"

definition scan_digits :: "int \<Rightarrow> string \<Rightarrow> int scan" where
  "scan_digits base s =
     (let ds = takeWhile (\<lambda>c. digit_of c < base) s in
      if ds = [] then Mismatch
      else Value (foldl (\<lambda>v d. base * v + digit_of d) 0 ds) (dropWhile (\<lambda>c. digit_of c < base) s))"

definition scan_unsigned :: "string \<Rightarrow> int scan" where
  "scan_unsigned s =
     (case s of
        c # d # t \<Rightarrow> if c = CHR ''0'' \<and> (d = CHR ''x'' \<or> d = CHR ''X'') then scan_digits 16 t
          else if c = CHR ''0'' then scan_digits 8 s else scan_digits 10 s
      | _ \<Rightarrow> scan_digits 10 s)"

definition scan_int :: "string \<Rightarrow> int scan" where
  "scan_int s =
     (case dropWhile isspace s of [] \<Rightarrow> Ended
      | c # cs \<Rightarrow>
          if c = CHR ''-'' then then_scan (scan_unsigned cs) (\<lambda>v. Value (- v))
          else if c = CHR ''+'' then scan_unsigned cs else scan_unsigned (c # cs))"

subsection \<open>The settings\<close>

text \<open>
  A setting is the word that a line starts with, the size of the array that the value goes to and the field of
  the structure that holds it, given by what reads and what writes it.
\<close>

datatype setting =
    Quoted string nat "config \<Rightarrow> string" "string \<Rightarrow> config \<Rightarrow> config"
  | Bare string nat "config \<Rightarrow> string" "string \<Rightarrow> config \<Rightarrow> config"
  | Number string "config \<Rightarrow> int" "int \<Rightarrow> config \<Rightarrow> config"
  | Numbers string "config \<Rightarrow> int" "int \<Rightarrow> config \<Rightarrow> config" "config \<Rightarrow> int" "int \<Rightarrow> config \<Rightarrow> config"
  | LoadMod
  | SetCmdLev

definition settings :: "setting list" where
  "settings =
    [Quoted ''ServerName'' 32 cfg_name (\<lambda>v k. k\<lparr>cfg_name := v\<rparr>),
     Quoted ''ServerID'' (SIDLEN + 1) cfg_sid (\<lambda>v k. k\<lparr>cfg_sid := v\<rparr>),
     Quoted ''BotNick'' 32 cfg_nick (\<lambda>v k. k\<lparr>cfg_nick := v\<rparr>),
     Quoted ''BotIdent'' 32 cfg_ident (\<lambda>v k. k\<lparr>cfg_ident := v\<rparr>),
     Quoted ''BotHost'' 32 cfg_host (\<lambda>v k. k\<lparr>cfg_host := v\<rparr>),
     Bare ''RemoteServer'' 40 cfg_server (\<lambda>v k. k\<lparr>cfg_server := v\<rparr>),
     Number ''Port'' cfg_port (\<lambda>v k. k\<lparr>cfg_port := v\<rparr>),
     Quoted ''LinkPass'' 50 cfg_linkpass (\<lambda>v k. k\<lparr>cfg_linkpass := v\<rparr>),
     Number ''MaxClones'' cfg_maxclones (\<lambda>v k. k\<lparr>cfg_maxclones := v\<rparr>),
     Number ''NickExpire'' cfg_nick_expire (\<lambda>v k. k\<lparr>cfg_nick_expire := v\<rparr>),
     Number ''ChanExpire'' cfg_chan_expire (\<lambda>v k. k\<lparr>cfg_chan_expire := v\<rparr>),
     Number ''MaxChanPerUser'' cfg_chanperuser (\<lambda>v k. k\<lparr>cfg_chanperuser := v\<rparr>),
     Number ''LevelOper'' cfg_level_oper (\<lambda>v k. k\<lparr>cfg_level_oper := v\<rparr>),
     Number ''LevelAdmin'' cfg_level_admin (\<lambda>v k. k\<lparr>cfg_level_admin := v\<rparr>),
     Number ''LevelRoot'' cfg_level_root (\<lambda>v k. k\<lparr>cfg_level_root := v\<rparr>),
     Number ''LevelOwner'' cfg_level_owner (\<lambda>v k. k\<lparr>cfg_level_owner := v\<rparr>),
     LoadMod,
     SetCmdLev,
     Quoted ''MysqlHost'' 40 cfg_mysql_host (\<lambda>v k. k\<lparr>cfg_mysql_host := v\<rparr>),
     Quoted ''MysqlDB'' 32 cfg_mysql_db (\<lambda>v k. k\<lparr>cfg_mysql_db := v\<rparr>),
     Quoted ''MysqlUser'' 32 cfg_mysql_login (\<lambda>v k. k\<lparr>cfg_mysql_login := v\<rparr>),
     Quoted ''MysqlPass'' 32 cfg_mysql_passwd (\<lambda>v k. k\<lparr>cfg_mysql_passwd := v\<rparr>),
     Quoted ''LogFile'' 32 cfg_logfile (\<lambda>v k. k\<lparr>cfg_logfile := v\<rparr>),
     Number ''LimitTime'' cfg_limittime (\<lambda>v k. k\<lparr>cfg_limittime := v\<rparr>),
     Bare ''LocalAddr'' 40 cfg_bindip (\<lambda>v k. k\<lparr>cfg_bindip := v\<rparr>),
     Number ''SaveDB'' cfg_savedb_interval (\<lambda>v k. k\<lparr>cfg_savedb_interval := v\<rparr>),
     Quoted ''GuestPrefix'' 32 cfg_guest_prefix (\<lambda>v k. k\<lparr>cfg_guest_prefix := v\<rparr>),
     Number ''AnonGlobal'' cfg_anonymous_global (\<lambda>v k. k\<lparr>cfg_anonymous_global := v\<rparr>),
     Quoted ''SendMailPath'' 128 cfg_sendmail (\<lambda>v k. k\<lparr>cfg_sendmail := v\<rparr>),
     Quoted ''SendFrom'' 128 cfg_sendfrom (\<lambda>v k. k\<lparr>cfg_sendfrom := v\<rparr>),
     Quoted ''UserCloak'' (HOSTLEN + 1) cfg_usercloak (\<lambda>v k. k\<lparr>cfg_usercloak := v\<rparr>),
     Numbers ''MessageFlood'' cfg_maxmsgnb (\<lambda>v k. k\<lparr>cfg_maxmsgnb := v\<rparr>) cfg_maxmsgtime (\<lambda>v k. k\<lparr>cfg_maxmsgtime := v\<rparr>),
     Number ''IgnoreTime'' cfg_ignoretime (\<lambda>v k. k\<lparr>cfg_ignoretime := v\<rparr>),
     Number ''MaxLoginAttempts'' cfg_maxloginatt (\<lambda>v k. k\<lparr>cfg_maxloginatt := v\<rparr>),
     Number ''ChanLevSAdmin'' cfg_chlev_sadmin (\<lambda>v k. k\<lparr>cfg_chlev_sadmin := v\<rparr>),
     Number ''ChanLevAdmin'' cfg_chlev_admin (\<lambda>v k. k\<lparr>cfg_chlev_admin := v\<rparr>),
     Number ''ChanLevOp'' cfg_chlev_op (\<lambda>v k. k\<lparr>cfg_chlev_op := v\<rparr>),
     Number ''ChanLevHalfop'' cfg_chlev_halfop (\<lambda>v k. k\<lparr>cfg_chlev_halfop := v\<rparr>),
     Number ''ChanLeget_core()->vvoice'' cfg_chlev_voice (\<lambda>v k. k\<lparr>cfg_chlev_voice := v\<rparr>),
     Number ''ChanLevInvite'' cfg_chlev_invite (\<lambda>v k. k\<lparr>cfg_chlev_invite := v\<rparr>),
     Number ''ChanLevNoStatus'' cfg_chlev_nostatus (\<lambda>v k. k\<lparr>cfg_chlev_nostatus := v\<rparr>),
     Number ''ChanLevAKick'' cfg_chlev_akick (\<lambda>v k. k\<lparr>cfg_chlev_akick := v\<rparr>),
     Number ''ChanLevAKickBan'' cfg_chlev_akb (\<lambda>v k. k\<lparr>cfg_chlev_akb := v\<rparr>),
     Number ''EmailReg'' cfg_emailreg (\<lambda>v k. k\<lparr>cfg_emailreg := v\<rparr>)]"

subsection \<open>A line\<close>

text \<open>
  What a format does: nothing when it is undefined; otherwise whether it returned something else than 0, and what it
  made of the state.
\<close>

definition took :: "'a scan \<Rightarrow> ('a \<Rightarrow> string \<Rightarrow> 'w \<Rightarrow> 'w option) \<Rightarrow> 'w \<Rightarrow> (bool \<times> 'w) option" where
  "took r f w =
     (case r of Ended \<Rightarrow> Some (True, w) | Mismatch \<Rightarrow> Some (False, w)
      | Value v rest \<Rightarrow> map_option (Pair True) (f v rest w))"

definition on_cfg :: "(config \<Rightarrow> config) \<Rightarrow> services \<Rightarrow> services" where
  "on_cfg f w = w\<lparr>svc := (svc w)\<lparr>cfg := f (cfg (svc w))\<rparr>\<rparr>"

definition fit_string :: "nat \<Rightarrow> (string \<Rightarrow> config \<Rightarrow> config) \<Rightarrow> string \<Rightarrow> string \<Rightarrow> services \<Rightarrow> services option" where
  "fit_string n wr v rest w = (if length v < n then Some (on_cfg (wr v) w) else None)"

definition fit_int :: "(int \<Rightarrow> config \<Rightarrow> config) \<Rightarrow> int \<Rightarrow> services \<Rightarrow> services option" where
  "fit_int wr v w = (if int32 v then Some (on_cfg (wr v) w) else None)"

definition load_one :: "linker \<Rightarrow> bool \<Rightarrow> string \<Rightarrow> services \<Rightarrow> services option" where
  "load_one D again name w =
     do { w \<leftarrow> (if again then map_option (with_modules \<circ> snd)
                   (unloadmodule (ln_has_cleanup D) (ln_cleanup D) name (modules w, w))
                 else Some w);
          map_option (with_modules \<circ> snd) (loadmodule (ln_opens D) (ln_has_init D) (ln_init D) name (modules w, w)) }"

definition quoted_format :: "string \<Rightarrow> string" where
  "quoted_format key = key @ '' '' @ [CHR 0x22]"

fun try_setting :: "linker \<Rightarrow> bool \<Rightarrow> string \<Rightarrow> setting \<Rightarrow> services \<Rightarrow> (bool \<times> services) option" where
  "try_setting D again line (Quoted key n rd wr) w =
     took (then_scan (scan_text (quoted_format key) line) (\<lambda>_. scan_quoted)) (fit_string n wr) w"
| "try_setting D again line (Bare key n rd wr) w =
     took (then_scan (scan_text (key @ '' '') line) (\<lambda>_. scan_word)) (fit_string n wr) w"
| "try_setting D again line (Number key rd wr) w =
     took (then_scan (scan_text (key @ '' '') line) (\<lambda>_. scan_int)) (\<lambda>v _. fit_int wr v) w"
| "try_setting D again line (Numbers key rd1 wr1 rd2 wr2) w =
     took (then_scan (scan_text (key @ '' '') line) (\<lambda>_. scan_int))
       (\<lambda>v rest w. do { w \<leftarrow> fit_int wr1 v w;
          case scan_int rest of Value v2 _ \<Rightarrow> fit_int wr2 v2 w | _ \<Rightarrow> Some w }) w"
| "try_setting D again line LoadMod w =
     took (then_scan (scan_text (quoted_format ''LoadMod'') line) (\<lambda>_. scan_quoted))
       (\<lambda>v _ w. if length v < 2048 then foldM (load_one D again) (strtok CHR '' '' v) w else None) w"
| "try_setting D again line SetCmdLev w =
     took (then_scan (scan_text (quoted_format ''SetCmdLev'') line) (\<lambda>_. scan_quoted))
       (\<lambda>v _ w. if length v < 512 then Some (w\<lparr>commands := snd (setcmdlev2 (cfg (svc w)) (Some v) (commands w))\<rparr>) else None) w"

fun try_settings :: "linker \<Rightarrow> bool \<Rightarrow> string \<Rightarrow> setting list \<Rightarrow> services \<Rightarrow> services option" where
  "try_settings D again line [] w = Some w"
| "try_settings D again line (x # xs) w =
     do { (ok, w) \<leftarrow> try_setting D again line x w; if ok then Some w else try_settings D again line xs w }"

subsection \<open>The file\<close>

text \<open>\<open>fgets (line, 1023)\<close> takes up to 1022 characters, and stops behind the first newline.\<close>

definition fgets :: "nat \<Rightarrow> string \<Rightarrow> string \<times> string" where
  "fgets n s =
     (let l = takeWhile (\<lambda>c. c \<noteq> CHR 0x0A) s; m = min (n - 1) (length l + 1) in (take m s, drop m s))"

function file_lines :: "string \<Rightarrow> string list" where
  "file_lines s = (if s = [] then [] else (case fgets 1023 s of (l, r) \<Rightarrow> l # file_lines r))"
  by pat_completeness auto
termination
  by (relation "measure length") (auto simp: fgets_def Let_def)

declare file_lines.simps [simp del]

text \<open>
  \<open>loadconf\<close>: \<open>again\<close> is set when the program is running. Without a file the program ends at its start and
  reads from NULL later on.
\<close>

definition loadconf :: "linker \<Rightarrow> bool \<Rightarrow> cstring \<Rightarrow> services \<Rightarrow> services option" where
  "loadconf D again file w =
     (case file of None \<Rightarrow> if again then None else Some (w\<lparr>ended := Some (Exited 1)\<rparr>)
      | Some s \<Rightarrow> foldM (\<lambda>l. try_settings D again (takeWhile (\<lambda>c. c \<noteq> CHR 0x00) l) settings) (file_lines s) w)"

end
