(* ===== verification/Control.thy ===== *)
theory Control
  imports Loadconf
begin

section \<open>Ending, restarting and configuring the program: src/src/child.c and m\_oper.c\<close>

text \<open>
  What the process does before it ends, and the commands of the operators that end it or read the
  configuration again. \<open>sent\<close> is what the last \<open>send\<close> took of the queue; whether the working directory is
  known and \<open>system\<close> starts the new process are arguments. The process that has ended does nothing more:
  \<open>free_core\<close> only gives its memory back.
\<close>

definition child_clean :: "services \<Rightarrow> services" where
  "child_clean w = w\<lparr>ended := Some (Exited 0)\<rparr>"

text \<open>What \<open>child_die\<close> and \<open>child_restart\<close> share.\<close>

definition shut_down :: "env \<Rightarrow> linker \<Rightarrow> (nat \<Rightarrow> bool) \<Rightarrow> nat \<Rightarrow> bool \<Rightarrow> services \<Rightarrow> services option" where
  "shut_down E D alive sent save w =
     do { w \<leftarrow> (if save then save_now E alive w else Some w);
          w \<leftarrow> on_core killallfakes w;
          st \<leftarrow> unloadallmod (ln_has_cleanup D) (ln_cleanup D) (modules w, w);
          on_core (net_disconnect True sent) (with_modules st) }"

definition child_die :: "env \<Rightarrow> linker \<Rightarrow> (nat \<Rightarrow> bool) \<Rightarrow> nat \<Rightarrow> bool \<Rightarrow> services \<Rightarrow> services option" where
  "child_die E D alive sent save w = map_option child_clean (shut_down E D alive sent save w)"

definition child_restart ::
  "env \<Rightarrow> linker \<Rightarrow> (nat \<Rightarrow> bool) \<Rightarrow> nat \<Rightarrow> bool \<Rightarrow> bool \<Rightarrow> bool \<Rightarrow> services \<Rightarrow> services option" where
  "child_restart E D alive sent cwd started save w =
     map_option (\<lambda>w. if \<not> cwd \<or> \<not> started then w\<lparr>ended := Some Aborted\<rparr> else child_clean w)
       (shut_down E D alive sent save w)"

subsection \<open>The commands\<close>

definition oper_rehash :: "linker \<Rightarrow> cstring \<Rightarrow> oper_cmd" where
  "oper_rehash D file nptr uptr all w =
     do { w \<leftarrow> loadconf D True file w; notice_w nptr ''Configuration rehashed'' w }"

text \<open>An argument other than \<open>0\<close> tells the network that the bot leaves, and nothing else.\<close>

definition quit_bot :: "string \<Rightarrow> services \<Rightarrow> services" where
  "quit_bot m w = w\<lparr>svc := send_raw ('':'' @ cfg_nick (cfg (svc w)) @ '' QUIT :'' @ m) (svc w)\<rparr>"

definition oper_restart :: "env \<Rightarrow> linker \<Rightarrow> (nat \<Rightarrow> bool) \<Rightarrow> nat \<Rightarrow> bool \<Rightarrow> bool \<Rightarrow> oper_cmd" where
  "oper_restart E D alive sent cwd started nptr uptr all w =
     (let arg3 = arg1_of all; w = quit_bot ''Restarting'' w in
      if is_empty arg3 then child_restart E D alive sent cwd started True w
      else if streq arg3 (Some ''0'') then child_restart E D alive sent cwd started False w
      else Some w)"

definition oper_die :: "env \<Rightarrow> linker \<Rightarrow> (nat \<Rightarrow> bool) \<Rightarrow> nat \<Rightarrow> oper_cmd" where
  "oper_die E D alive sent nptr uptr all w =
     (let arg3 = arg1_of all; w = quit_bot (''I'' @ [CHR 0x27] @ ''ll be back soon !'') w in
      if is_empty arg3 then child_die E D alive sent True w
      else if streq arg3 (Some ''0'') then child_die E D alive sent False w
      else Some w)"

end
