(* ===== verification/Program.thy ===== *)
theory Program
  imports HelpServ Sasl NickServ HostServ Parseline Control
begin

section \<open>The program with its modules\<close>

text \<open>
  What the names of functions in the command table and in the hooks mean, and what loading and unloading
  each module does: the service is then closed, up to what is outside the repository.
\<close>

text \<open>
  What is outside: the libraries, the figures of the memory, whether the database answers, what the
  linker opens, the configuration file, what the last \<open>send\<close> takes, whether a new process can be started.
\<close>

record outside =
  o_lib :: lib
  o_mem :: "int \<times> int"
  o_alive :: "nat \<Rightarrow> bool"
  o_opens :: "string \<Rightarrow> bool"
  o_file :: cstring
  o_sent :: nat
  o_cwd :: bool
  o_started :: bool
  o_version :: string

definition on_sec :: "(sec \<Rightarrow> sec option) \<Rightarrow> services \<Rightarrow> services option" where
  "on_sec f w = map_option (\<lambda>(v, s). w\<lparr>secv := v, svc := s\<rparr>) (f (secv w, svc w))"

definition on_sec_hook :: "(sec \<Rightarrow> (int \<times> sec) option) \<Rightarrow> services \<Rightarrow> (int \<times> services) option" where
  "on_sec_hook f w = map_option (\<lambda>(r, v, s). (r, w\<lparr>secv := v, svc := s\<rparr>)) (f (secv w, svc w))"

definition on_core_hook :: "(core \<Rightarrow> (int \<times> core) option) \<Rightarrow> services \<Rightarrow> (int \<times> services) option" where
  "on_core_hook f w = map_option (\<lambda>(r, s). (r, w\<lparr>svc := s\<rparr>)) (f (svc w))"

subsection \<open>Hooks\<close>

definition hook_call ::
  "lib \<Rightarrow> string \<Rightarrow> ptr option \<Rightarrow> ptr option \<Rightarrow> ptr option \<Rightarrow> cstring list \<Rightarrow> services \<Rightarrow> (int \<times> services) option" where
  "hook_call L f nptr uptr chptr parv w =
     (if f = ''check_nick'' then on_sec_hook (check_nick nptr) w
      else if f = ''reset_vars'' then on_sec_hook reset_vars w
      else if f = ''sasl_start_session'' then on_core_hook (sasl_start_session L parv) w
      else if f = ''sasl_finish_session'' then Option.bind nptr (\<lambda>n. on_core_hook (sasl_finish_session n uptr) w)
      else None)"

subsection \<open>Modules\<close>

definition with_commands :: "(command list \<Rightarrow> command list) \<Rightarrow> services \<Rightarrow> services" where
  "with_commands f w = w\<lparr>commands := f (commands w)\<rparr>"

definition stays :: "string \<Rightarrow> modules \<Rightarrow> modules" where
  "stays name = on_module name (\<lambda>m. m\<lparr>md_nodreload := 1\<rparr>)"

definition module_init :: "string \<Rightarrow> modules \<times> services \<Rightarrow> (modules \<times> services) option" where
  "module_init name st =
     (let (ms, w) = st; k = cfg (svc w) in
      if name = ''m_nick'' then Some (ms, with_commands nick_commands w)
      else if name = ''m_chan'' then Some (ms, with_commands (chan_commands k) w)
      else if name = ''m_host'' then Some (ms, with_commands (host_commands k) w)
      else if name = ''m_bot'' then Some (ms, with_commands bot_commands w)
      else if name = ''m_oper'' then Some (stays name ms, with_commands (oper_commands k) w)
      else if name = ''m_help'' then Some (stays name ms, with_commands (help_commands k) w)
      else if name = ''sasl'' then Some (sasl_hooks ms, w)
      else if name = ''secserv'' then
        map_option (Pair (secserv_hooks ms)) (on_sec (Some \<circ> secserv_init) (with_commands (secserv_commands k) w))
      else None)"

definition module_cleanup :: "string \<Rightarrow> modules \<times> services \<Rightarrow> (modules \<times> services) option" where
  "module_cleanup name st =
     (let (ms, w) = st in
      if name = ''m_nick'' then Some (ms, with_commands nick_cleanup w)
      else if name = ''m_chan'' then Some (ms, with_commands chan_cleanup w)
      else if name = ''m_host'' then Some (ms, with_commands host_cleanup w)
      else if name = ''m_bot'' then Some (ms, with_commands bot_cleanup w)
      else if name = ''m_oper'' then Some (ms, with_commands oper_cleanup w)
      else if name = ''m_help'' then Some (ms, with_commands help_cleanup w)
      else if name = ''sasl'' then Some (ms, w)
      else if name = ''secserv'' then
        (let (cs, s) = secserv_cleanup (commands w, svc w) in Some (ms, w\<lparr>commands := cs, svc := s\<rparr>))
      else None)"

definition program_linker :: "outside \<Rightarrow> linker" where
  "program_linker X =
     \<lparr>ln_opens = o_opens X, ln_has_init = (\<lambda>_. True), ln_init = module_init, ln_has_cleanup = (\<lambda>_. True),
      ln_cleanup = module_cleanup\<rparr>"

subsection \<open>Commands\<close>

definition hooks_env :: "outside \<Rightarrow> env" where
  "hooks_env X =
     \<lparr>e_lib = o_lib X, e_hook = hook_call (o_lib X), e_base = (\<lambda>_ _ _ _ _. None), e_bot = (\<lambda>_ _ _ _ _ _ _. None),
      e_version = o_version X\<rparr>"

definition call_oper :: "outside \<Rightarrow> string \<Rightarrow> oper_cmd" where
  "call_oper X f nptr uptr all w =
     (if f = ''secserv_cmds'' then on_sec (secserv_cmds nptr uptr all) w
      else if f = ''oper_savedb'' then oper_savedb (hooks_env X) (o_alive X) nptr uptr all w
      else if f = ''oper_rehash'' then oper_rehash (program_linker X) (o_file X) nptr uptr all w
      else if f = ''oper_restart'' then
        oper_restart (hooks_env X) (program_linker X) (o_alive X) (o_sent X) (o_cwd X) (o_started X) nptr uptr all w
      else if f = ''oper_die'' then oper_die (hooks_env X) (program_linker X) (o_alive X) (o_sent X) nptr uptr all w
      else (case map_of (oper_functions (o_lib X) (o_mem X) (program_linker X)) f of
          None \<Rightarrow> None | Some g \<Rightarrow> g nptr uptr all w))"

definition call_base :: "outside \<Rightarrow> string \<Rightarrow> oper_cmd" where
  "call_base X f nptr uptr all w =
     (let L = o_lib X; cs = commands w; help = do_help cs in
      if f = ''do_nick'' then on_core (do_nick help (call_in (nick_functions L cs)) cs nptr uptr all) w
      else if f = ''do_chan'' then on_core (do_chan help (chan_call_in (chan_functions L cs)) cs nptr uptr all) w
      else if f = ''do_host'' then on_core (do_host help (call_in host_functions) cs nptr uptr all) w
      else if f = ''do_oper'' then do_oper (on_nick help) (call_oper X) nptr uptr all w
      else if f = ''do_help'' then on_core (help nptr uptr all) w
      else None)"

definition call_bot :: "lib \<Rightarrow> string \<Rightarrow> ptr \<Rightarrow> ptr option \<Rightarrow> ptr \<Rightarrow> ptr \<Rightarrow> cstring \<Rightarrow> services \<Rightarrow> services option" where
  "call_bot L f nptr uptr c wc all w =
     (case map_of (bot_functions L) f of None \<Rightarrow> None | Some g \<Rightarrow> on_core (g nptr uptr c wc all) w)"

definition program :: "outside \<Rightarrow> env" where
  "program X = (hooks_env X)\<lparr>e_base := call_base X, e_bot := call_bot (o_lib X)\<rparr>"

subsection \<open>The work of one turn of the main loop\<close>

text \<open>The lines that came and the periodic checks; \<open>due\<close> says whether it is time for them.\<close>

definition tick :: "int \<Rightarrow> services \<Rightarrow> services" where
  "tick now w = w\<lparr>svc := (svc w)\<lparr>clock := now\<rparr>\<rparr>"

definition periodic :: "core \<Rightarrow> core option" where
  "periodic s = do { s \<leftarrow> CheckGuests s; s \<leftarrow> CheckLimits s; CheckTimebans s }"

text \<open>Nothing happens once the process has ended.\<close>

definition unless_ended :: "(services \<Rightarrow> services option) \<Rightarrow> services \<Rightarrow> services option" where
  "unless_ended f w = (if ended w = None then f w else Some w)"

definition read_one :: "env \<Rightarrow> string \<Rightarrow> services \<Rightarrow> services option" where
  "read_one E l = unless_ended (\<lambda>w. map_option snd (parse_line E l w))"

definition handle_input :: "env \<Rightarrow> string list \<Rightarrow> services \<Rightarrow> services option" where
  "handle_input E ls w = Option.bind (foldM (read_one E) ls w) (unless_ended (on_core periodic))"

definition expire_check :: "bool \<Rightarrow> services \<Rightarrow> services option" where
  "expire_check due = unless_ended (\<lambda>w. if due then on_core checkexpired w else Some w)"

definition save_check :: "env \<Rightarrow> (nat \<Rightarrow> bool) \<Rightarrow> bool \<Rightarrow> services \<Rightarrow> services option" where
  "save_check E alive due = unless_ended (\<lambda>w. if due then save_now E alive w else Some w)"

end
