(* ===== verification/HelpCrash.thy ===== *)
theory HelpCrash
  imports Program Scenes
begin

section \<open>The help on a command of the bot\<close>

text \<open>
  The entries of the commands said on a channel are there for the menu, their function is NULL; \<open>do_help\<close>
  finds them all the same, as it does not look at the section of an entry.
\<close>

subsection \<open>What is registered\<close>

lemma Ball_addCommand:
  "(\<forall>c \<in> set (addCommand n ty f d sub l cs). P c) \<longleftrightarrow>
    (\<forall>c \<in> set cs. P c) \<and> P \<lparr>cmd_name = strncpy n CMDLEN, cmd_desc = (case d of None \<Rightarrow> [] | Some x \<Rightarrow> strncpy x CMDLEN),
      cmd_type = ty, cmd_subtype = sub, cmd_level = l, cmd_func = f\<rparr>"
  by (auto simp: addCommand_def)

lemma Ball_add_all:
  "(\<forall>c \<in> set (add_all ty sub rs cs). P c) \<longleftrightarrow>
    (\<forall>c \<in> set cs. P c) \<and> (\<forall>(n, f, l) \<in> set rs. P \<lparr>cmd_name = strncpy n CMDLEN, cmd_desc = [],
      cmd_type = ty, cmd_subtype = sub, cmd_level = l, cmd_func = f\<rparr>)"
proof (induction rs rule: rev_induct)
  case (snoc r rs)
  then show ?case by (cases r) (auto simp: add_all_def Ball_addCommand)
qed (simp add: add_all_def)

lemma Ball_add_help:
  "(\<forall>c \<in> set (add_help sub es cs). P c) \<longleftrightarrow>
    (\<forall>c \<in> set cs. P c) \<and> (\<forall>(n, f, d, l) \<in> set es. P \<lparr>cmd_name = strncpy n CMDLEN, cmd_desc = strncpy d CMDLEN,
      cmd_type = CMD_HELP, cmd_subtype = sub, cmd_level = l, cmd_func = f\<rparr>)"
proof (induction es rule: rev_induct)
  case (snoc r rs)
  then show ?case by (cases r) (auto simp: add_help_def Ball_addCommand)
qed (simp add: add_help_def)

definition bang :: "string \<Rightarrow> bool" where
  "bang x = first_is (CHR ''!'') (Some (lc x))"

lemma bang_Cons: "bang (c # x) \<longleftrightarrow> tolower c = CHR ''!''"
  by (simp add: bang_def first_is_def lc_def)

lemma bang_strncpy: "bang (strncpy (c # x) CMDLEN) \<longleftrightarrow> tolower c = CHR ''!''"
  by (simp add: strncpy_def CMDLEN_def bang_Cons)

text \<open>Every entry of the help whose name begins with \<open>!\<close> is one of the bot.\<close>

definition null_entry :: "command \<Rightarrow> bool" where
  "null_entry c \<longleftrightarrow> (cmd_type c = CMD_HELP \<and> bang (cmd_name c) \<longrightarrow> cmd_func c = ''NULL'' \<and> cmd_level c = 0)"

lemma bot_help_names:
  "\<forall>(n, f, d, l) \<in> set bot_help. f = ''NULL'' \<and> l = 0 \<and> bang n \<and> 0 < length n \<and> length n \<le> CMDLEN"
  by (simp add: bot_help_def bang_Cons tolower_def CMDLEN_def)

lemma other_help_names:
  "\<forall>(n, f, d, l) \<in> set (host_help k). \<not> bang (strncpy n CMDLEN)"
  "\<forall>(n, f, d, l) \<in> set nick_help. \<not> bang (strncpy n CMDLEN)"
  "\<forall>(n, f, d, l) \<in> set nick_set_help. \<not> bang (strncpy n CMDLEN)"
  "\<forall>(n, f, d, l) \<in> set (chan_help k). \<not> bang (strncpy n CMDLEN)"
  "\<forall>(n, f, d, l) \<in> set chan_set_help. \<not> bang (strncpy n CMDLEN)"
  "\<forall>(n, f, d, l) \<in> set (oper_help k). \<not> bang (strncpy n CMDLEN)"
  by (simp_all add: host_help_def nick_help_def nick_set_help_def chan_help_def chan_set_help_def oper_help_def
      bang_strncpy tolower_def Let_def char_of_eq_iff)

definition help_record :: "int \<Rightarrow> help_entry \<Rightarrow> command" where
  "help_record sub e = (case e of (n, f, d, l) \<Rightarrow> \<lparr>cmd_name = strncpy n CMDLEN, cmd_desc = strncpy d CMDLEN,
      cmd_type = CMD_HELP, cmd_subtype = sub, cmd_level = l, cmd_func = f\<rparr>)"

lemma not_bang_record: "\<forall>(n, f, d, l) \<in> set es. \<not> bang (strncpy n CMDLEN) \<Longrightarrow> \<forall>e \<in> set es. null_entry (help_record sub e)"
  by (fastforce simp: null_entry_def help_record_def)

lemma bot_record: "\<forall>e \<in> set bot_help. null_entry (help_record sub e)"
  using bot_help_names by (fastforce simp: null_entry_def help_record_def)

lemma Ball_add_help_record:
  "(\<forall>c \<in> set (add_help sub es cs). P c) \<longleftrightarrow> (\<forall>c \<in> set cs. P c) \<and> (\<forall>e \<in> set es. P (help_record sub e))"
  unfolding Ball_add_help help_record_def by (simp add: split_def)

lemma null_entries:
  assumes "\<forall>c \<in> set cs. cmd_type c \<noteq> CMD_HELP"
  shows "\<forall>c \<in> set (help_commands k cs). null_entry c"
  unfolding help_commands_def fold.simps prod.case o_apply id_apply Ball_add_help_record Ball_add_all
  by (intro conjI bot_record not_bang_record other_help_names)
    (use assms in \<open>auto simp: null_entry_def cmd_defs bang_strncpy tolower_def char_of_eq_iff\<close>)

lemma help_entry:
  assumes "b \<in> set (map fst bot_help)" and "\<forall>c \<in> set cs. cmd_type c \<noteq> CMD_HELP"
  shows "\<exists>cmd. lookup_command (Some b) CMD_HELP (help_commands k cs) = Some cmd \<and> cmd_func cmd = ''NULL'' \<and> cmd_level cmd = 0"
proof -
  let ?cs = "help_commands k cs" and ?P = "\<lambda>c. streq (Some (cmd_name c)) (Some b) \<and> cmd_type c = CMD_HELP"
  obtain f d l where e: "(b, f, d, l) \<in> set bot_help" using assms(1) by auto
  then have b: "bang b" "0 < length b" "length b \<le> CMDLEN" using bot_help_names by auto
  have "find ?P ?cs \<noteq> None"
  proof
    assume "find ?P ?cs = None"
    then have "\<forall>c \<in> set ?cs. \<not> ?P c" by (simp add: find_None_iff)
    then show False
      unfolding help_commands_def fold.simps prod.case o_apply id_apply Ball_add_help_record Ball_add_all
      using e b by (auto simp: help_record_def strncpy_def streq_Some_iff dest!: bspec [OF _ e])
  qed
  then obtain cmd where cmd: "find ?P ?cs = Some cmd" by blast
  then have "?P cmd" "cmd \<in> set ?cs" by (auto dest: find_SomeD)
  moreover have "bang (cmd_name cmd)" using \<open>?P cmd\<close> b(1) by (simp add: bang_def streq_Some_iff)
  ultimately show ?thesis using null_entries [OF assms(2), of k] cmd by (auto simp: null_entry_def lookup_command_def)
qed

definition base_entry :: "command \<Rightarrow> bool" where
  "base_entry c \<longleftrightarrow>
     (streq (Some (cmd_name c)) (Some ''help'') \<and> cmd_type c = CMD_BASE \<longrightarrow> cmd_func c = ''do_help'' \<and> cmd_level c = 0)"

lemma base_record: "base_entry (help_record sub e)"
  by (cases e) (simp add: base_entry_def help_record_def cmd_defs)

lemma help_command:
  assumes "lookup_command (Some ''help'') CMD_BASE cs = None"
  shows "\<exists>cmd. lookup_command (Some ''help'') CMD_BASE (help_commands k cs) = Some cmd \<and>
    cmd_func cmd = ''do_help'' \<and> cmd_level cmd = 0"
proof -
  let ?cs = "help_commands k cs" and ?P = "\<lambda>c. streq (Some (cmd_name c)) (Some ''help'') \<and> cmd_type c = CMD_BASE"
  have all: "\<forall>c \<in> set ?cs. base_entry c"
    unfolding help_commands_def fold.simps prod.case o_apply id_apply Ball_add_help_record Ball_add_all
    by (intro conjI ballI base_record)
      (use assms in \<open>auto simp: base_entry_def cmd_defs lookup_command_def find_None_iff\<close>)
  have "\<exists>c \<in> set ?cs. ?P c"
  proof (rule ccontr)
    assume "\<not> (\<exists>c \<in> set ?cs. ?P c)"
    then have "\<forall>c \<in> set ?cs. \<not> ?P c" by blast
    then show False
      unfolding help_commands_def fold.simps prod.case o_apply id_apply Ball_add_help_record Ball_add_all
      by (simp add: strncpy_def CMDLEN_def streq_Some_iff)
  qed
  then have "find ?P ?cs \<noteq> None" by (auto simp: find_None_iff)
  then obtain cmd where cmd: "find ?P ?cs = Some cmd" by blast
  then have "?P cmd" "cmd \<in> set ?cs" by (auto dest: find_SomeD)
  with all cmd show ?thesis by (auto simp: base_entry_def lookup_command_def)
qed

subsection \<open>The message\<close>

lemma no_null_text:
  "map_of (host_texts x s) ''NULL'' = None" "map_of (nick_texts x s) ''NULL'' = None"
  "map_of (nick_set_texts x s) ''NULL'' = None" "map_of (chan_texts x s) ''NULL'' = None"
  "map_of (status_texts x s) ''NULL'' = None" "map_of (chan_set_texts x s) ''NULL'' = None"
  "map_of (chan_more_texts x s) ''NULL'' = None" "map_of (oper_texts x s) ''NULL'' = None"
  "map_of (oper_more_texts x s) ''NULL'' = None"
  by (simp_all only: host_texts_def nick_texts_def nick_set_texts_def chan_texts_def status_texts_def chan_set_texts_def
      chan_more_texts_def oper_texts_def oper_more_texts_def map_of_Cons_code map_of.simps(1) list.inject char.inject
      simp_thms if_False Let_def)

lemma null_function: "help_call cs ''NULL'' n u all s = None"
proof -
  have "map_of (help_texts x s) ''NULL'' = None" for x
    by (simp add: help_texts_def no_null_text)
  then show ?thesis by (cases "nick_at s n") (simp_all add: help_call_def in_section_def help_text_def)
qed

lemma bot_name_word:
  assumes "b \<in> set (map fst bot_help)"
  shows "plain_word b \<and> bang b"
proof -
  have "\<forall>b \<in> set (map fst bot_help). plain_word b \<and> bang b"
    by (simp add: bot_help_def plain_word_def word_end_def bang_Cons tolower_def)
  then show ?thesis using assms by blast
qed

lemma do_help_null:
  assumes "lookup_command (Some b) CMD_HELP cs = Some cmd" "cmd_func cmd = ''NULL''" "cmd_level cmd = 0"
    and "plain_word b" "bang b" "may_run u 0 s = Some True"
  shows "do_help cs n u (Some (''help '' @ b)) s = None"
proof -
  have w: "plain_word ''help''" by (simp add: plain_word_def word_end_def)
  have "b \<noteq> []" "hd b \<notin> {CHR '' '', CHR 0x09}"
    using assms(4) by (cases b; auto simp: plain_word_def word_end_def)+
  then have cut: "SeperateWord (Some (''help '' @ b)) = (Some ''help'', Some b)"
    using SeperateWord_append [OF w, of b] by simp
  have no: "\<not> streq (Some b) (Some ''help'')" using assms(5) by (auto simp: streq_Some_iff bang_def lc_def first_is_def tolower_def)
  have "\<not> is_empty (Some b)" using \<open>b \<noteq> []\<close> by (simp add: is_empty_def)
  have run: "run_command (help_call cs) cmd n u all s = None" for all
    using assms(2,3,6) null_function by (simp add: run_command_def)
  show ?thesis
    using cut no \<open>\<not> is_empty (Some b)\<close> run assms(1) SeperateWord_last [OF assms(4)]
    by (simp add: do_help_def strbuf_def args2_def Let_def)
qed

lemma help_message:
  assumes "plain_word target" "CHR '':'' \<notin> set target"
  shows "message_of (target @ '' :help '' @ b) = Some (''help '' @ b)"
    and "takeWhile (\<lambda>c. \<not> word_end c) (target @ '' :help '' @ b) = target"
proof -
  show tw: "takeWhile (\<lambda>c. \<not> word_end c) (target @ '' :help '' @ b) = target"
    using takeWhile_word [OF assms(1), of "'':help '' @ b"] by simp
  have "dropWhile (\<lambda>c. c \<noteq> CHR '':'') (target @ '' :help '' @ b) = '':help '' @ b"
    using assms(2) by (subst dropWhile_append2) auto
  then show "message_of (target @ '' :help '' @ b) = Some (''help '' @ b)"
    unfolding message_of_def Let_def tw using assms(2) by (simp add: split_at1_def)
qed

lemma help_crash:
  assumes who: "find_nick (Some k) (svc w) = Some (Some n)" "find_account n (svc w) = Some u"
      "may_run u 0 (svc w) = Some True"
    and heard: "flood_check n target (svc w) = Some (False, s)"
    and target: "plain_word target" "CHR '':'' \<notin> set target" "\<not> first_is (CHR ''#'') (Some target)" "for_me target (svc w)"
    and hooks: "hooks_for HOOK_PRE_PRIVMSG (modules w) = []"
    and cmds: "commands w = help_commands c cs" "\<forall>x \<in> set cs. cmd_type x \<noteq> CMD_HELP"
      "lookup_command (Some ''help'') CMD_BASE cs = None"
    and b: "b \<in> set (map fst bot_help)"
  shows "m_privmsg (program X) (CHR '':'' # k) (Some (target @ '' :help '' @ b)) w = None"
proof -
  note M = help_message [OF target(1,2), of b] and F = flood_check_frame [OF heard]
  let ?v = "w\<lparr>svc := s\<rparr>"
  have v: "find_account n s = Some u" "may_run u 0 s = Some True" "for_me target s"
    using F who target(4) by (simp_all add: for_me_def)
  have hk: "run_hooks (program X) HOOK_PRE_PRIVMSG (Some n) u None args ?v = Some (MOD_CONTINUE, ?v)" for args
    using hooks by (simp add: run_hooks_def RunHooks_def)
  obtain h where h: "lookup_command (Some ''help'') CMD_BASE (commands w) = Some h" "cmd_func h = ''do_help''" "cmd_level h = 0"
    using help_command [OF cmds(3), of c] cmds(1) by auto
  obtain e where e: "lookup_command (Some b) CMD_HELP (commands w) = Some e" "cmd_func e = ''NULL''" "cmd_level e = 0"
    using help_entry [OF b cmds(2), of c] cmds(1) by auto
  have "do_help (commands w) n u (Some (''help '' @ b)) s = None"
    using do_help_null [OF e] bot_name_word [OF b] v(2) by blast
  then have "call_base X ''do_help'' n u (Some (''help '' @ b)) ?v = None"
    by (simp add: call_base_def on_core_def)
  then have "base_command (program X) n u ''help'' (''help '' @ b) args ?v = None" for args
    using h v(2) by (simp add: base_command_def program_def hooks_env_def streq_Some_iff ctcp_version_def lc_def)
  then have "deliver (program X) n target (''help '' @ b) (''help '' @ b) ''help'' ?v = None"
    using v hk target(3) by (simp add: deliver_def MOD_CONTINUE_def MOD_STOP_def)
  moreover have "StripBlanks (Some (''help '' @ b)) = Some (''help '' @ b)" by (simp add: StripBlanks_def)
  moreover have "first_word_buf (''help '' @ b) 1024 = Some ''help''"
    by (simp add: first_word_buf_def word_end_def Let_def)
  ultimately show ?thesis
    using M who heard by (simp add: m_privmsg_def)
qed

text \<open>A nick that is not identified, and the entries of the help alone.\<close>

definition help_world :: "string \<Rightarrow> services" where
  "help_world k = \<lparr>svc = lone_net k, commands = help_commands default_config [], modules = [], secv = ex_sec, queries = [], ended = None\<rparr>"

lemma help_world_facts:
  assumes "k \<noteq> []"
  shows "find_nick (Some k) (svc (help_world k)) = Some (Some 1)" "find_account 1 (svc (help_world k)) = Some (Some 2)"
    "may_run (Some 2) 0 (svc (help_world k)) = Some True" "for_me ''C'' (svc (help_world k))"
    "\<exists>s. flood_check 1 ''C'' (svc (help_world k)) = Some (False, s)"
    "hooks_for HOOK_PRE_PRIVMSG (modules (help_world k)) = []"
  using lone_facts [of k] assms
  by (simp_all add: help_world_def find_account_def may_run_def IsAuthed_def for_me_def streq_Some_iff hooks_for_def
      flood_check_heard lone_defs default_config_def init_state_def)

end
