(* ===== verification/NoEscalation.thy ===== *)
theory NoEscalation
  imports ChanServ Scenes
begin

section \<open>The access list by levels: nobody reaches above himself\<close>

text \<open>
  The entries on the list of an account are its own. \<open>entries_kept f V s t\<close>: from \<open>s\<close> to \<open>t\<close> no entry
  of an account in \<open>V\<close> is lost or changes its level, and no entry has a new level, unless it is below \<open>f\<close>.
\<close>

definition entries_ok :: "core \<Rightarrow> bool" where
  "entries_ok s \<longleftrightarrow>
     (\<forall>u x p. user_at s u = Some x \<longrightarrow> p \<in> set (u_cflags x) \<longrightarrow> (\<exists>y. cflag_at s p = Some y \<and> cf_user y = u)) \<and>
     (\<forall>p \<ge> next_ptr s. cflag_at s p = None)"

definition same_entry :: "cflag \<Rightarrow> cflag \<Rightarrow> bool" where
  "same_entry x y \<longleftrightarrow> cf_user y = cf_user x \<and> cf_chan y = cf_chan x \<and> cf_flags y = cf_flags x \<and>
     cf_suspended y = cf_suspended x \<and> cf_uflags y = cf_uflags x"

definition entries_kept :: "int \<Rightarrow> ptr set \<Rightarrow> core \<Rightarrow> core \<Rightarrow> bool" where
  "entries_kept f V s t \<longleftrightarrow>
     (\<forall>p x. cflag_at s p = Some x \<longrightarrow> cf_user x \<in> V \<longrightarrow> (\<exists>y. cflag_at t p = Some y \<and> same_entry x y)) \<and>
     (\<forall>p y. cflag_at t p = Some y \<longrightarrow> cf_flags y < f \<or> (\<exists>x. cflag_at s p = Some x \<and> same_entry x y))"

lemma same_entry_refl [simp]: "same_entry x x"
  by (simp add: same_entry_def)

lemma entries_kept_same: "cflag_at t = cflag_at s \<Longrightarrow> entries_kept f V s t"
  by (auto simp: entries_kept_def)

subsection \<open>Messages\<close>

interpretation cflag_q: quiet "\<lambda>t. cflag_at t = h" for h
  by unfold_locales simp

lemma notice_cflags: "NoticeToUser n m s = Some t \<Longrightarrow> cflag_at t = cflag_at s"
  using cflag_q.notice [of n m s t "cflag_at s"] by simp

lemma guards_cases:
  assumes "guards n gs body s = Some t"
  shows "cflag_at t = cflag_at s \<or> ((\<forall>g \<in> set gs. fst g = Some False) \<and> body s = Some t)"
  using assms
proof (induction gs)
  case (Cons g gs)
  then show ?case by (cases g) (auto split: bind_splits if_splits dest: notice_cflags)
qed simp

subsection \<open>The subcommands\<close>

lemma notices_cflags: "foldM (access_line n) ps s = Some t \<Longrightarrow> cflag_at t = cflag_at s"
proof (erule foldM_invariant [where P = "\<lambda>x. cflag_at x = cflag_at s"])
  show "access_line n p v = Some w \<Longrightarrow> cflag_at v = cflag_at s \<Longrightarrow> cflag_at w = cflag_at s" for p v w
    by (auto simp: access_line_def split: bind_splits if_splits dest: notice_cflags)
qed simp

lemma list_keeps: "access_list n u c a s = Some t \<Longrightarrow> cflag_at t = cflag_at s"
  unfolding access_list_def
  by (drule guards_cases) (auto split: bind_splits dest!: notice_cflags notices_cflags)

text \<open>Taking the entry of an account away changes no other entry.\<close>

lemma delete_entry:
  assumes "entries_ok s" "DeleteUserFromChannel v c s = Some t"
  shows "next_ptr t = next_ptr s \<and> (cflag_at t = cflag_at s \<or>
    (\<exists>p y. cflag_at s p = Some y \<and> cf_user y = v \<and> cflag_at t = (cflag_at s)(p := None)))"
proof -
  obtain r where r: "find_cflag c v s = Some r" using assms(2) by (auto simp: DeleteUserFromChannel_def split: bind_splits)
  show ?thesis
  proof (cases r)
    case None
    then show ?thesis using assms(2) r by (simp add: DeleteUserFromChannel_def)
  next
    case (Some p)
    obtain x where x: "user_at s v = Some x" "p \<in> set (u_cflags x)"
      using r Some by (auto simp: find_cflag_def split: bind_splits dest: scan_SomeD)
    then obtain y where "cflag_at s p = Some y" "cf_user y = v" using assms(1) unfolding entries_ok_def by metis
    moreover have "t = (unlink_cflag p s)\<lparr>cflag_at := (cflag_at s)(p := None)\<rparr>"
      using assms(2) r Some by (auto simp: DeleteUserFromChannel_def DeleteCflag_def split: if_splits)
    ultimately show ?thesis by (auto simp: unlink_cflag_def)
  qed
qed

lemma delete_keeps:
  assumes "entries_ok s" "DeleteUserFromChannel v c s = Some t" "v \<notin> V"
  shows "entries_kept f V s t"
  using delete_entry [OF assms(1,2)] assms(3) by (auto simp: entries_kept_def split: if_splits)

lemma put_keeps:
  assumes "entries_ok s" "access_put n v c a b l s = Some t" "v \<notin> V" "l < f"
  shows "entries_kept f V s t"
proof -
  obtain s1 p s2 where s1: "DeleteUserFromChannel v c s = Some s1" and s2: "AddUserToChannel v c l 0 s1 = Some (p, s2)"
    and t: "cflag_at t = cflag_at s2"
    using assms(2) by (auto simp: access_put_def split: bind_splits dest: notice_cflags)
  obtain z where z: "cflag_at s2 = (cflag_at s1)(next_ptr s1 \<mapsto> z)" "cf_flags z = l"
    using s2 by (auto simp: AddUserToChannel_def upd_defs fresh_def Let_def split: bind_splits option.splits)
  note D = delete_entry [OF assms(1) s1]
  have "cflag_at s (next_ptr s1) = None" using D assms(1) by (simp add: entries_ok_def)
  then show ?thesis using D z t assms(3,4) by (auto simp: entries_kept_def split: if_splits)
qed

lemma automode_keeps:
  assumes "upd_cflag p (\<lambda>x. x\<lparr>cf_automode := m\<rparr>) s = Some t"
  shows "entries_kept f V s t"
  using assms by (auto simp: upd_defs entries_kept_def same_entry_def split: option.splits if_splits)

lemma automode_notice: "upd_cflag p (\<lambda>x. x\<lparr>cf_automode := m\<rparr>) s = Some w \<Longrightarrow> cflag_at t = cflag_at w \<Longrightarrow> entries_kept f V s t"
  using automode_keeps [of p m s w f V] by (simp add: entries_kept_def)

lemma auto_keeps: "set_auto n v c a s = Some t \<Longrightarrow> entries_kept f V s t"
  unfolding set_auto_def
  by (auto split: bind_splits option.splits dest!: notice_cflags intro: entries_kept_same automode_notice)

subsection \<open>The command\<close>

text \<open>The other accounts that are not below the level \<open>f\<close>.\<close>

definition protected_from :: "ptr option \<Rightarrow> int \<Rightarrow> ptr \<Rightarrow> core \<Rightarrow> ptr set" where
  "protected_from u f c s = {v. Some v \<noteq> u \<and> (\<exists>l. GetFlag (Some v) (Some c) s = Some l \<and> f \<le> l)}"

lemma in_reach:
  assumes "GetFlag u (Some c) s = Some f" "founder_or_staff n u c s = Some False"
    and "out_of_reach l n u c s = Some False"
  shows "l < f"
  using assms by (auto simp: out_of_reach_def andM_def split: if_splits)

lemma in_reach_account:
  assumes "GetFlag u (Some c) s = Some f" "founder_or_staff n u c s = Some False"
    and "Option.bind (GetFlag (Some v) (Some c) s) (\<lambda>l. out_of_reach l n u c s) = Some False"
  shows "v \<notin> protected_from u f c s"
  using assms(3) in_reach [OF assms(1,2)] by (fastforce simp: protected_from_def bind_eq_Some_conv)

lemma guards_keep:
  assumes "guards n gs body s = Some t"
    and "(\<And>g. g \<in> fst ` set gs \<Longrightarrow> g = Some False) \<Longrightarrow> body s = Some t \<Longrightarrow> entries_kept f V s t"
  shows "entries_kept f V s t"
  using guards_cases [OF assms(1)] assms(2) entries_kept_same by blast

lemma notice_keeps: "NoticeToUser n m s = Some t \<Longrightarrow> entries_kept f V s t"
  by (intro entries_kept_same notice_cflags)

lemma add_keeps:
  assumes "entries_ok s" "GetFlag u (Some c) s = Some f" "founder_or_staff n u c s = Some False"
    and "access_add n u c a b l s = Some t"
  shows "entries_kept f (protected_from u f c s) s t"
  apply (rule guards_keep [OF assms(4) [unfolded access_add_def Let_def]])
  apply (cases "find_user (Some b) s")
  subgoal by (simp only: option.case) (rule notice_keeps)
  subgoal for v
    apply (simp only: option.case)
    apply (erule guards_keep)
    subgoal premises p
    proof -
      have "v \<notin> protected_from u f c s" "to_int (strtol l) < f"
        using p(3) in_reach_account [OF assms(2,3)] in_reach [OF assms(2,3)] by simp_all
      note put = put_keeps [OF assms(1) _ this]
      show ?thesis using p(4) unfolding bind_eq_Some_conv
        by (elim exE conjE guards_keep) (rule put)
    qed
    done
  done

lemma del_keeps:
  assumes "entries_ok s" "GetFlag u (Some c) s = Some f" "founder_or_staff n u c s = Some False"
    and "access_del n u c a b s = Some t"
  shows "entries_kept f (protected_from u f c s) s t"
proof -
  let ?V = "protected_from u f c s"
  have del: "entries_kept f ?V s t" if "DeleteUserFromChannel v c s = Some r" "NoticeToUser n m r = Some t" "v \<notin> ?V" for v r m
    using delete_keeps [OF assms(1) that(1,3)] notice_cflags [OF that(2)] by (simp add: entries_kept_def)
  have other: "entries_kept f ?V s t" if "access_del_other n u c a b s = Some t"
    apply (rule guards_keep [OF that [unfolded access_del_other_def]])
    apply (cases "find_user (Some b) s")
    subgoal by (simp only: option.case) (rule notice_keeps)
    subgoal for v
      apply (simp only: option.case)
      apply (erule guards_keep)
      subgoal premises p
      proof -
        have "v \<notin> ?V" using p(3) in_reach_account [OF assms(2,3)] by simp
        then show ?thesis using p(4) unfolding bind_eq_Some_conv by (blast intro: del)
      qed
      done
    done
  have "v \<notin> ?V" if "u = Some v" for v using that by (simp add: protected_from_def)
  then show ?thesis
    using assms(4) other del unfolding access_del_def bind_eq_Some_conv by (auto split: if_splits)
qed

lemma auto_command_keeps: "access_auto n u c a b s = Some t \<Longrightarrow> entries_kept f V s t"
  unfolding access_auto_def
  apply (erule guards_keep)
  apply (cases "find_user (Some a) s")
  subgoal by (simp only: option.case) (rule notice_keeps)
  subgoal for v
    unfolding option.case bind_eq_Some_conv by (auto split: if_splits intro: auto_keeps notice_keeps)
  done

lemma level_access_keeps:
  assumes "entries_ok s" "GetFlag u (Some c) s = Some f" "founder_or_staff n u c s = Some False"
    and "level_access n u (Some c) all s = Some t"
  shows "entries_kept f (protected_from u f c s) s t"
  using assms(4) add_keeps [OF assms(1-3)] del_keeps [OF assms(1-3)]
  unfolding level_access_def Let_def split_def option.case
  by (auto split: if_splits option.splits bind_splits simp del: not_None_eq
      intro: notice_keeps auto_command_keeps entries_kept_same list_keeps)

subsection \<open>A channel with a founder, an administrator and a newcomer\<close>

definition acl_net :: core where
  "acl_net = ex_net
     \<lparr>users := [(''eve'', 2), (''bob'', 8), (''al'', 10)], nicks := [(''eve'', 1)],
      user_at := [2 \<mapsto> ex_user\<lparr>u_nick := ''eve''\<rparr>, 8 \<mapsto> ex_user\<lparr>u_authed := 0, u_authed_nick := None, u_cflags := [9]\<rparr>,
        10 \<mapsto> ex_user\<lparr>u_nick := ''al'', u_authed := 0, u_authed_nick := None, u_cflags := []\<rparr>],
      nick_at := [1 \<mapsto> ex_nick\<lparr>n_name := ''eve'', n_svid := ''eve''\<rparr>],
      chan_at := [6 \<mapsto> ex_chan\<lparr>c_options := 0, c_cflags := [7, 9]\<rparr>],
      cflag_at := [7 \<mapsto> ex_cflag\<lparr>cf_flags := 10\<rparr>, 9 \<mapsto> ex_cflag\<lparr>cf_user := 8\<rparr>], next_ptr := 11\<rparr>"

lemmas acl_defs = acl_net_def ex_defs default_config_def

lemma acl_entries: "entries_ok acl_net"
  by (simp add: entries_ok_def acl_defs)

lemma acl_flags:
  "GetFlag (Some 2) (Some 6) acl_net = Some 10" "GetFlag (Some 8) (Some 6) acl_net = Some CHLEV_OWNER"
  "GetFlag (Some 10) (Some 6) acl_net = Some 0"
proof -
  have nomaster: "get_link_master 10 acl_net = Some None" by (simp add: get_link_master_def find_link_def acl_defs)
  show "GetFlag (Some 2) (Some 6) acl_net = Some 10" "GetFlag (Some 8) (Some 6) acl_net = Some CHLEV_OWNER"
    by (subst GetFlag.simps, simp add: find_nick_def streq_Some_iff HasUmode_def HasCOption_def find_cflag_def acl_defs)+
  obtain x ch where f: "user_at acl_net 10 = Some x" "find_nick (Some (u_nick x)) acl_net = Some None" "find_cflag 6 10 acl_net = Some None"
    "chan_at acl_net 6 = Some ch" "\<not> HasCOption ch COPT_SUSPENDED"
    by (simp add: find_nick_def streq_Some_iff HasCOption_def find_cflag_def lc_def tolower_def acl_defs)
  then show "GetFlag (Some 10) (Some 6) acl_net = Some 0"
    by (subst GetFlag.simps) (simp add: nomaster)
qed

lemma acl_not_top: "founder_or_staff 1 (Some 2) 6 acl_net = Some False"
proof -
  have e: "find_cflag 6 2 acl_net = Some (Some 7)" "cflag_at acl_net 7 = Some (ex_cflag\<lparr>cf_flags := 10\<rparr>)"
    by (simp_all add: find_cflag_def acl_defs)
  have "IsFounder (Some 2) (Some 6) acl_net = Some False"
    unfolding IsFounder_def
    by (subst chan_access_entry [where pre = no_grant, OF no_grant_def e(1,2)])
      (simp add: founder_entry_def nick_superadmin_def find_nick_def streq_Some_iff
        HasUmode_def axx_def HasCOption_def acl_defs has_flag_def CHLEV_OWNER_def CHLEV_COOWNER_def)
  moreover have "is_staff 1 (Some 2) acl_net = Some False"
    by (simp add: is_staff_def account_def staff_def acl_defs)
  ultimately show ?thesis by (simp add: founder_or_staff_def)
qed

lemma put_returns:
  assumes "find_cflag c v s = Some None" "user_at s v \<noteq> None" "chan_at s c \<noteq> None" "nick_at s n \<noteq> None"
  shows "\<exists>t. access_put n v c a b l s = Some t"
proof -
  obtain p s2 where s2: "AddUserToChannel v c l 0 s = Some (p, s2)" "nick_at s2 = nick_at s"
    using assms by (auto simp: AddUserToChannel_def upd_defs fresh_def Let_def)
  then show ?thesis
    using assms(1,4) by (auto simp: access_put_def DeleteUserFromChannel_def NoticeToUser_eq)
qed

lemma acl_add: "\<exists>t. level_access 1 (Some 2) (Some 6) (Some ''#a add al 9'') acl_net = Some t"
proof -
  have w: "SeperateWord (Some ''#a add al 9'') = (Some ''#a'', Some ''add al 9'')"
    "SeperateWord (Some ''add al 9'') = (Some ''add'', Some ''al 9'')"
    "SeperateWord (Some ''al 9'') = (Some ''al'', Some ''9'')" "SeperateWord (Some ''9'') = (Some ''9'', None)"
    by (simp_all add: SeperateWord_def StripBlanks_def word_end_def Let_def)
  have find: "find_user (Some ''al'') acl_net = Some 10"
    by (simp add: find_user_def om_find_def om_entry_def strcasecmp_zero_iff lc_def tolower_def acl_defs)
  have lev: "to_int (strtol ''9'') = 9" by (simp add: strtol_def digits_value_def to_int_def isspace_def isdigit_def)
  obtain ch x where f: "chan_at acl_net 6 = Some ch" "\<not> HasCOption ch COPT_AXXFLAGS" "user_at acl_net 10 = Some x"
    "\<not> streq (Some (c_owner ch)) (Some (u_nick x))" "find_cflag 6 10 acl_net = Some None" "nick_at acl_net 1 \<noteq> None"
    "cfg_chlev_admin (cfg acl_net) = 10"
    by (simp add: streq_Some_iff HasCOption_def find_cflag_def lc_def tolower_def acl_defs)
  obtain t where put: "access_put 1 10 6 ''#a'' ''al'' 9 acl_net = Some t"
    using put_returns [of 6 10 acl_net 1 "''#a''" "''al''" 9] f by auto
  have "access_add 1 (Some 2) 6 ''#a'' ''al'' ''9'' acl_net = Some t"
    using find lev f put acl_flags acl_not_top
    by (simp add: access_add_def level_or_top_def out_of_reach_def orM_def andM_def CHLEV_OWNER_def CHLEV_COOWNER_def)
  then show ?thesis
    using w f by (simp add: level_access_def is_empty_def streq_Some_iff)
qed

end
