(* ===== verification/Lifecycle.thy ===== *)
theory Lifecycle
  imports Identify Messages Examples
begin

section \<open>The network from the first nick on\<close>

text \<open>
  The states that the services reach from the empty network through the events of its life: nicks
  connect, register an account, log in and out, join and leave channels, quit or are killed, and time passes. Every
  event that the server may send runs to its end, and what it leaves is well formed again.
\<close>

subsection \<open>Addresses that were never given out\<close>

definition unborn :: "core \<Rightarrow> bool" where
  "unborn s \<longleftrightarrow> (\<forall>p \<ge> next_ptr s. nick_at s p = None \<and> clone_at s p = None \<and> wchan_at s p = None \<and>
     member_at s p = None \<and> user_at s p = None)"

text \<open>A step that allocates none of these objects, or none at all.\<close>

definition no_birth :: "core \<Rightarrow> core \<Rightarrow> bool" where
  "no_birth s t \<longleftrightarrow> next_ptr s \<le> next_ptr t \<and> dom (nick_at t) \<subseteq> dom (nick_at s) \<and>
     dom (clone_at t) \<subseteq> dom (clone_at s) \<and> dom (wchan_at t) \<subseteq> dom (wchan_at s) \<and>
     dom (member_at t) \<subseteq> dom (member_at s) \<and> dom (user_at t) \<subseteq> dom (user_at s)"

lemma no_birth_refl [simp]: "no_birth s s"
  by (simp add: no_birth_def)

lemma no_birth_trans: "no_birth s t \<Longrightarrow> no_birth t u \<Longrightarrow> no_birth s u"
  unfolding no_birth_def by (meson order_trans)

lemma no_birth_unborn: "no_birth s t \<Longrightarrow> unborn s \<Longrightarrow> unborn t"
  unfolding no_birth_def unborn_def dom_def subset_iff mem_Collect_eq by (meson le_trans)

named_theorems births \<open>steps that allocate nothing\<close>

lemma no_birth_mod_out: "mod_out s t \<Longrightarrow> no_birth s t"
  by (auto simp: mod_out_def no_birth_def)

lemma no_birth_send_raw [births]: "no_birth s (send_raw m s)"
  by (rule no_birth_mod_out) simp

lemma no_birth_nick_step:
  "nick_step (s\<lparr>user_at := (user_at s)(u \<mapsto> y)\<rparr>) n x t \<Longrightarrow> nick_at s n \<noteq> None \<Longrightarrow> user_at s u \<noteq> None \<Longrightarrow> no_birth s t"
  by (auto simp: nick_step_def mod_out_def no_birth_def split: if_splits)

lemma no_birth_logout [births]: "user_logout n (Some u) s = Some t \<Longrightarrow> no_birth s t"
proof -
  assume r: "user_logout n (Some u) s = Some t"
  then obtain x y where "nick_at s n = Some x" "user_at s u = Some y"
    by (auto simp: user_logout_def upd_defs split: bind_splits option.splits)
  with user_logout_shape [OF this] r show ?thesis by (auto intro: no_birth_nick_step)
qed

lemma no_birth_login [births]:
  assumes "user_login n u s = Some t" "nick_at s n = Some x" "user_at s u = Some y"
  shows "no_birth s t"
  using user_login_shape [OF assms(2,3)] assms by (auto intro: no_birth_nick_step)

lemma no_birth_touch_limit: "touch_limit k s = Some t \<Longrightarrow> no_birth s t"
  by (auto simp: touch_limit_def AddLimit_def upd_defs fresh_def Let_def no_birth_def
      split: bind_splits option.splits if_splits)

lemma no_birth_DeleteMember: "DeleteMember m s = Some t \<Longrightarrow> no_birth s t"
  by (auto simp: DeleteMember_def unlink_member_def no_birth_def split: if_splits)

lemma no_birth_DeleteWchan: "DeleteWchan w s = Some t \<Longrightarrow> no_birth s t"
  by (auto simp: DeleteWchan_def no_birth_def split: bind_splits if_splits)

lemma no_birth_part [births]: "DeleteUserFromWchan n w s = Some t \<Longrightarrow> no_birth s t"
  by (auto simp: DeleteUserFromWchan_def split: bind_splits option.splits if_splits
      intro: no_birth_trans dest!: no_birth_DeleteMember no_birth_DeleteWchan no_birth_touch_limit)

lemma no_birth_parts [births]: "DeleteUserFromWchans n s = Some t \<Longrightarrow> no_birth s t"
proof -
  assume r: "DeleteUserFromWchans n s = Some t"
  have "foldM (\<lambda>m s. Option.bind (member_at s m) (\<lambda>mb. DeleteUserFromWchan n (m_wchan mb) s)) ms s = Some t \<Longrightarrow> no_birth s t"
    for ms
    by (erule foldM_invariant [where P = "no_birth s"])
      (auto split: bind_splits intro: no_birth_trans no_birth_part)
  then show ?thesis using r by (auto simp: DeleteUserFromWchans_def split: bind_splits)
qed

lemma no_birth_delete_nick [births]: "delete_nick n s = Some t \<Longrightarrow> no_birth s t"
proof -
  assume r: "delete_nick n s = Some t"
  then obtain x where x: "nick_at s n = Some x" by (auto simp: delete_nick_def split: bind_splits)
  have drop: "no_birth v w" if "drop_clone h v = Some w" for h v w
    using that by (auto simp: drop_clone_def upd_defs no_birth_def split: bind_splits option.splits if_splits)
  let ?v = "s\<lparr>nicks := terase (n_name x) (nicks s)\<rparr>"
  show ?thesis
  proof (cases "tfind (nicks s) (n_name x) = None")
    case False
    then obtain w where w: "drop_clone (n_reshost x) ?v = Some w"
      "t = (unlink_server_head n w)\<lparr>nick_at := (nick_at (unlink_server_head n w))(n := None)\<rparr>"
      using r x by (auto simp: delete_nick_def Let_def)
    have "no_birth s ?v" by (simp add: no_birth_def)
    moreover have "no_birth w t" using w(2) by (auto simp: unlink_server_head_def no_birth_def)
    ultimately show ?thesis using drop [OF w(1)] by (blast intro: no_birth_trans)
  qed (use r x in \<open>simp add: delete_nick_def\<close>)
qed

lemma no_birth_guest: "no_birth v (DeleteGuest g v)"
  by (rule no_birth_mod_out) simp

lemma no_birth_userquit [births]: "userquit k s = Some t \<Longrightarrow> no_birth s t"
proof -
  assume r: "userquit k s = Some t"
  show ?thesis
  proof (cases "find_nick (Some k) s")
    case None
    then show ?thesis using r by (simp add: userquit_def)
  next
    case (Some r0)
    show ?thesis
    proof (cases r0)
      case None
      then show ?thesis using r Some by (simp add: userquit_def)
    next
      case (Some n)
      then obtain x v w where x: "nick_at s n = Some x"
        and v: "(case n_account x of None \<Rightarrow> Some s | Some u \<Rightarrow> user_logout n (Some u) s) = Some v"
        and w: "DeleteUserFromWchans n (DeleteGuest (n_name x) v) = Some w" "delete_nick n w = Some t"
        using r \<open>find_nick (Some k) s = Some r0\<close> by (auto simp: userquit_def DeleteWildNick_def split: bind_splits)
      have "no_birth s v" using v by (auto split: option.splits intro: no_birth_logout)
      then show ?thesis
        using no_birth_guest no_birth_parts [OF w(1)] no_birth_delete_nick [OF w(2)] by (blast intro: no_birth_trans)
    qed
  qed
qed

subsection \<open>What each event keeps\<close>

definition live :: "core \<Rightarrow> bool" where
  "live s \<longleftrightarrow> net_ok s \<and> unborn s"

lemma add_clone_shape:
  assumes "add_clone h s = Some t"
  shows "\<exists>c ch np. t = s\<lparr>clones := c, clone_at := ch, next_ptr := np\<rparr> \<and> next_ptr s \<le> np \<and>
    (\<forall>q \<ge> np. clone_at s q = None \<longrightarrow> ch q = None)"
proof -
  let ?Q = "\<lambda>t. t = s\<lparr>clones := clones t, clone_at := clone_at t, next_ptr := next_ptr t\<rparr> \<and> next_ptr s \<le> next_ptr t \<and>
    (\<forall>q \<ge> next_ptr t. clone_at s q = None \<longrightarrow> clone_at t q = None)"
  have "?Q t"
    using assms by (auto simp: add_clone_def upd_defs fresh_def Let_def split: option.splits if_splits)
  then show ?thesis by blast
qed

lemma member_lists_new_nick:
  assumes l: "member_lists_ok s" and p: "nick_at s p = None" and x: "n_wchans x = []"
    and t: "nick_at t = (nick_at s)(p \<mapsto> x)" "member_at t = member_at s" "wchan_at t = wchan_at s"
  shows "member_lists_ok t"
  unfolding member_lists_ok_def t
proof (intro conjI allI impI ballI)
  note D = member_lists_okD [OF l]
  show "\<exists>n. ((nick_at s)(p \<mapsto> x)) (m_nick y) = Some n \<and> m \<in> set (n_wchans n)" if "member_at s m = Some y" for m y
    using D(1) [OF that] p by auto
  show "\<exists>w. wchan_at s (m_wchan y) = Some w \<and> m \<in> set (w_members w)" if "member_at s m = Some y" for m y
    using D(2) [OF that] .
  show "distinct (w_members z)" if "wchan_at s w = Some z" for w z using D(3) [OF that] .
  show "\<exists>y. member_at s m = Some y \<and> m_wchan y = w" if "wchan_at s w = Some z" "m \<in> set (w_members z)" for w z m
    using D(4) [OF that] .
  show "distinct (n_wchans z)" if "((nick_at s)(p \<mapsto> x)) n = Some z" for n z
    using D(5) that x by (auto split: if_splits)
  show "\<exists>y. member_at s m = Some y \<and> m_nick y = n"
    if "((nick_at s)(p \<mapsto> x)) n = Some z" "m \<in> set (n_wchans z)" for n z m
    using D(6) that x by (auto split: if_splits)
  show "m = m'" if "member_at s m = Some y" "member_at s m' = Some y'" "m_nick y = m_nick y'" "m_wchan y = m_wchan y'"
    for m m' y y' using D(7) [OF that] .
qed

lemma new_nick_alloc:
  assumes "new_nick nick ident h uid hidden umodes host s = Some (r, t)" "nick_key_free nick s"
  shows "\<exists>x nt. n_account x = None \<and> n_wchans x = [] \<and>
    add_clone host (s\<lparr>next_ptr := Suc (next_ptr s), nicks := nt, nick_at := (nick_at s)(next_ptr s \<mapsto> x)\<rparr>) = Some t"
proof (intro exI conjI)
  let ?x = "\<lparr>n_name = strncpy nick NICKLEN, n_ident = strncpy ident NICKLEN, n_host = strncpy h HOSTLEN,
    n_uid = strncpy uid UIDLEN, n_svid = [], n_hiddenhost = strncpy hidden HOSTLEN, n_reshost = strncpy host HOSTLEN,
    n_umodes = umodes, n_msgtime = 0, n_msgnb = 0, n_ignored = False, n_ignoretime = 0, n_loginattempts = 0,
    n_lasttry = 0, n_account = None, n_wchans = []\<rparr>"
  show "n_account ?x = None" "n_wchans ?x = []" by simp_all
  show "add_clone host (s\<lparr>next_ptr := Suc (next_ptr s), nicks := tinsert (n_name ?x) (next_ptr s) (nicks s),
      nick_at := (nick_at s)(next_ptr s \<mapsto> ?x)\<rparr>) = Some t"
    using assms by (auto simp: new_nick_def nick_key_free_def fresh_def Let_def split: bind_splits)
qed

lemma connect_live:
  assumes "live s" "length host \<le> HOSTLEN"
  shows "\<exists>r t. new_nick nick ident h uid hidden umodes host s = Some (r, t) \<and> live t"
proof -
  let ?p = "next_ptr s"
  have ok: "nicks_ok s" "clones_ok s" "auth_ok s" "members_ok s" and u: "unborn s"
    using assms(1) by (auto simp: live_def net_ok_def)
  have np: "nick_at s ?p = None" "clone_at s (Suc ?p) = None" using u by (auto simp: unborn_def)
  obtain r t where t: "new_nick nick ident h uid hidden umodes host s = Some (r, t)" "nicks_ok t" "clones_ok t"
    "r = None \<longleftrightarrow> \<not> nick_key_free nick s"
    using new_nick_counts_at [OF ok(1,2) assms(2) np] by blast
  show ?thesis
  proof (cases "nick_key_free nick s")
    case False
    then have "t = s" using t(1) by (simp add: new_nick_def nick_key_free_def)
    then show ?thesis using t(1) assms(1) by blast
  next
    case True
    obtain x nt where x: "n_account x = None" "n_wchans x = []"
      and v: "add_clone host (s\<lparr>next_ptr := Suc ?p, nicks := nt, nick_at := (nick_at s)(?p \<mapsto> x)\<rparr>) = Some t"
      using new_nick_alloc [OF t(1) True] by blast
    obtain c ch np where sh: "t = s\<lparr>nicks := nt, nick_at := (nick_at s)(?p \<mapsto> x), clones := c, clone_at := ch, next_ptr := np\<rparr>"
      "Suc ?p \<le> np" "\<forall>q \<ge> np. clone_at s q = None \<longrightarrow> ch q = None"
      using add_clone_shape [OF v] by auto
    have "auth_ok t"
      using ok(3) np(1) x(1) unfolding auth_ok_def sh(1) by (fastforce split: if_splits)
    moreover have "member_lists_ok t"
      by (rule member_lists_new_nick [OF _ np(1) x(2)]) (use ok(4) in \<open>simp_all add: members_ok_def sh(1)\<close>)
    moreover have "wchans_ok t" using ok(4) by (simp add: members_ok_def wchans_ok_def sh(1))
    moreover have "limits_ok t" using ok(4) sh(2) by (simp add: members_ok_def limits_ok_def sh(1))
    moreover have "unborn t" using u sh(2,3) by (auto simp: unborn_def sh(1))
    ultimately show ?thesis using t by (simp add: live_def net_ok_def members_ok_def)
  qed
qed

text \<open>Joining: the channel \<open>w\<close>, which may have just been created, gets the member \<open>p\<close>.\<close>

definition with_member :: "ptr \<Rightarrow> ptr \<Rightarrow> ptr \<Rightarrow> nick \<Rightarrow> wchan \<Rightarrow> core \<Rightarrow> core" where
  "with_member p n w x z s = s\<lparr>next_ptr := Suc p, member_at := (member_at s)(p \<mapsto> \<lparr>m_wchan = w, m_nick = n, m_flags = 0\<rparr>),
     nick_at := (nick_at s)(n \<mapsto> x\<lparr>n_wchans := n_wchans x @ [p]\<rparr>),
     wchan_at := (wchan_at s)(w \<mapsto> z\<lparr>w_members := w_members z @ [p]\<rparr>)\<rparr>"

lemma with_member_sel [simp]:
  "next_ptr (with_member p n w x z s) = Suc p"
  "member_at (with_member p n w x z s) = (member_at s)(p \<mapsto> \<lparr>m_wchan = w, m_nick = n, m_flags = 0\<rparr>)"
  "nick_at (with_member p n w x z s) = (nick_at s)(n \<mapsto> x\<lparr>n_wchans := n_wchans x @ [p]\<rparr>)"
  "wchan_at (with_member p n w x z s) = (wchan_at s)(w \<mapsto> z\<lparr>w_members := w_members z @ [p]\<rparr>)"
  "nicks (with_member p n w x z s) = nicks s" "wchans (with_member p n w x z s) = wchans s"
  "clones (with_member p n w x z s) = clones s" "clone_at (with_member p n w x z s) = clone_at s"
  "user_at (with_member p n w x z s) = user_at s" "chans (with_member p n w x z s) = chans s"
  "chan_at (with_member p n w x z s) = chan_at s" "limit_at (with_member p n w x z s) = limit_at s"
  by (simp_all add: with_member_def)

lemma member_lists_add:
  assumes l: "member_lists_ok s" and p: "member_at s p = None" and x: "nick_at s n = Some x" and z: "wchan_at s w = Some z"
    and new: "\<And>m y. member_at s m = Some y \<Longrightarrow> m_nick y = n \<Longrightarrow> m_wchan y \<noteq> w"
  shows "member_lists_ok (with_member p n w x z s)"
  unfolding member_lists_ok_def with_member_sel
proof (intro conjI allI impI ballI)
  note D = member_lists_okD [OF l]
  let ?y = "\<lparr>m_wchan = w, m_nick = n, m_flags = 0\<rparr>"
  let ?x = "x\<lparr>n_wchans := n_wchans x @ [p]\<rparr>" and ?z = "z\<lparr>w_members := w_members z @ [p]\<rparr>"
  have pn: "p \<notin> set (n_wchans x')" if "nick_at s n' = Some x'" for n' x' using D(6) [OF that] p by fastforce
  have pw: "p \<notin> set (w_members z')" if "wchan_at s w' = Some z'" for w' z' using D(4) [OF that] p by fastforce
  show "\<exists>n'. ((nick_at s)(n \<mapsto> ?x)) (m_nick y) = Some n' \<and> m \<in> set (n_wchans n')"
    if "((member_at s)(p \<mapsto> ?y)) m = Some y" for m y
    using that D(1) [of m y] x by (cases "m = p") auto
  show "\<exists>v. ((wchan_at s)(w \<mapsto> ?z)) (m_wchan y) = Some v \<and> m \<in> set (w_members v)"
    if "((member_at s)(p \<mapsto> ?y)) m = Some y" for m y
    using that D(2) [of m y] z by (cases "m = p") auto
  show "distinct (w_members v)" if "((wchan_at s)(w \<mapsto> ?z)) w' = Some v" for w' v
    using that D(3) [of w' v] D(3) [OF z] pw [OF z] by (cases "w' = w") auto
  show "\<exists>y. ((member_at s)(p \<mapsto> ?y)) m = Some y \<and> m_wchan y = w'"
    if "((wchan_at s)(w \<mapsto> ?z)) w' = Some v" "m \<in> set (w_members v)" for w' v m
  proof (cases "w' = w \<and> m = p")
    case False
    then have m: "\<exists>v'. wchan_at s w' = Some v' \<and> m \<in> set (w_members v')" using that z by (auto split: if_splits)
    then have "m \<noteq> p" using pw by blast
    then show ?thesis using m D(4) by auto
  qed simp
  show "distinct (n_wchans v)" if "((nick_at s)(n \<mapsto> ?x)) n' = Some v" for n' v
    using that D(5) [of n' v] D(5) [OF x] pn [OF x] by (cases "n' = n") auto
  show "\<exists>y. ((member_at s)(p \<mapsto> ?y)) m = Some y \<and> m_nick y = n'"
    if "((nick_at s)(n \<mapsto> ?x)) n' = Some v" "m \<in> set (n_wchans v)" for n' v m
  proof (cases "n' = n \<and> m = p")
    case False
    then have m: "\<exists>v'. nick_at s n' = Some v' \<and> m \<in> set (n_wchans v')" using that x by (auto split: if_splits)
    then have "m \<noteq> p" using pn by blast
    then show ?thesis using m D(6) by auto
  qed simp
  show "m = m'" if "((member_at s)(p \<mapsto> ?y)) m = Some y" "((member_at s)(p \<mapsto> ?y)) m' = Some y'"
    "m_nick y = m_nick y'" "m_wchan y = m_wchan y'" for m m' y y'
  proof -
    have known: "k = p \<and> v = ?y \<or> k \<noteq> p \<and> member_at s k = Some v" if "((member_at s)(p \<mapsto> ?y)) k = Some v" for k v
      using that by (auto split: if_splits)
    have self: False if "member_at s k = Some v" "m_nick v = m_nick ?y" "m_wchan v = m_wchan ?y" for k v
      using new [OF that(1)] that(2,3) by simp
    show ?thesis
      using known [OF that(1)] known [OF that(2)]
    proof (elim disjE conjE)
      assume "m \<noteq> p" "member_at s m = Some y" "m' \<noteq> p" "member_at s m' = Some y'"
      then show ?thesis using D(7) that(3,4) by blast
    next
      assume "m = p" "y = ?y" "member_at s m' = Some y'"
      then show ?thesis using self that(3,4) by metis
    next
      assume "member_at s m = Some y" "m' = p" "y' = ?y"
      then show ?thesis using self that(3,4) by metis
    qed simp
  qed
qed

lemma net_ok_next: "net_ok s \<Longrightarrow> next_ptr s \<le> p \<Longrightarrow> net_ok (s\<lparr>next_ptr := p\<rparr>)"
proof -
  assume ok: "net_ok s" and p: "next_ptr s \<le> p"
  let ?t = "s\<lparr>next_ptr := p\<rparr>"
  have "nicks_ok ?t = nicks_ok s" "clones_ok ?t = clones_ok s" "auth_ok ?t = auth_ok s" "member_lists_ok ?t = member_lists_ok s"
    "wchans_ok ?t = wchans_ok s"
    using nicks_ok_cong [of ?t s] clones_ok_cong [of ?t s] auth_ok_cong [of ?t s] member_lists_ok_cong [of ?t s]
      wchans_ok_cong [of ?t s] by simp_all
  moreover have "limits_ok ?t" using ok p by (simp add: net_ok_def members_ok_def limits_ok_def)
  ultimately show ?thesis using ok by (simp add: net_ok_def members_ok_def)
qed

lemma add_member_live:
  assumes ok: "nicks_ok s" "clones_ok s" "auth_ok s" "member_lists_ok s" "limits_ok s" and u: "unborn s"
    and t: "table_ok w_chname (wchans s) (wchan_at s)"
    and ws: "\<And>v y. wchan_at s v = Some y \<Longrightarrow> v \<in> snd ` set (wchans s) \<and> (v \<noteq> w \<longrightarrow> w_members y \<noteq> [])"
    and x: "nick_at s n = Some x" and z: "wchan_at s w = Some z"
    and new: "\<And>m y. member_at s m = Some y \<Longrightarrow> m_nick y = n \<Longrightarrow> m_wchan y \<noteq> w"
  shows "\<exists>m v. AddUserToWchan n w s = Some (m, v) \<and> live v"
proof -
  let ?p = "next_ptr s"
  let ?s = "with_member ?p n w x z s"
  have p: "member_at s ?p = None" using u by (simp add: unborn_def)
  have l: "member_lists_ok ?s" using member_lists_add [OF ok(4) p x z new] .
  have lim: "limits_ok ?s" using ok(5) by (simp add: limits_ok_def)
  obtain ch lh ls np where tl: "touch_limit (w_chname z) ?s =
      Some (?s\<lparr>chan_at := ch, limit_at := lh, limits := ls, next_ptr := np\<rparr>)"
    "limits_ok (?s\<lparr>chan_at := ch, limit_at := lh, limits := ls, next_ptr := np\<rparr>)" "Suc ?p \<le> np"
    using touch_limit_shape [OF lim, of "w_chname z"] by auto
  let ?t = "?s\<lparr>chan_at := ch, limit_at := lh, limits := ls, next_ptr := np\<rparr>"
  have run: "AddUserToWchan n w s = Some (?p, ?t)"
    using x z tl(1) by (simp add: AddUserToWchan_def upd_defs fresh_def with_member_def Let_def)
  have tn: "table_ok n_name (nicks s) (nick_at s)" using ok(1) by (simp add: nicks_ok_def)
  have "nicks_ok ?t"
    using ok(1) table_ok_upd [OF tn x, of "x\<lparr>n_wchans := n_wchans x @ [?p]\<rparr>"] x by (auto simp: nicks_ok_def)
  moreover have "on_host ?t = on_host s" using x by (auto simp: on_host_def fun_eq_iff)
  then have "clones_ok ?t"
    using ok(2) howmanyclones_frame [of ?t s] by (simp add: clones_ok_def host_count_def)
  moreover have "auth_ok ?t = auth_ok s" by (rule auth_ok_cong) (use x in simp_all)
  moreover have "member_lists_ok ?t = member_lists_ok ?s" by (rule member_lists_ok_cong) simp_all
  moreover have "wchans_ok ?t"
    using table_ok_upd [OF t z, of "z\<lparr>w_members := w_members z @ [?p]\<rparr>"] ws z by (auto simp: wchans_ok_def)
  moreover have "unborn ?t"
    using u tl(3) x z by (auto simp: unborn_def)
  ultimately show ?thesis
    using run l ok(3) tl(2) by (simp add: live_def net_ok_def members_ok_def)
qed

lemma member_lists_new_wchan:
  assumes l: "member_lists_ok s" and p: "wchan_at s p = None" and z: "w_members z = []"
    and t: "wchan_at t = (wchan_at s)(p \<mapsto> z)" "member_at t = member_at s" "nick_at t = nick_at s"
  shows "member_lists_ok t"
  unfolding member_lists_ok_def t
proof (intro conjI allI impI ballI)
  note D = member_lists_okD [OF l]
  show "\<exists>n. nick_at s (m_nick y) = Some n \<and> m \<in> set (n_wchans n)" if "member_at s m = Some y" for m y
    using D(1) [OF that] .
  show "\<exists>w. ((wchan_at s)(p \<mapsto> z)) (m_wchan y) = Some w \<and> m \<in> set (w_members w)" if "member_at s m = Some y" for m y
    using D(2) [OF that] p by auto
  show "distinct (w_members v)" if "((wchan_at s)(p \<mapsto> z)) w = Some v" for w v
    using D(3) that z by (auto split: if_splits)
  show "\<exists>y. member_at s m = Some y \<and> m_wchan y = w"
    if "((wchan_at s)(p \<mapsto> z)) w = Some v" "m \<in> set (w_members v)" for w v m
    using D(4) that z by (auto split: if_splits)
  show "distinct (n_wchans v)" if "nick_at s n = Some v" for n v using D(5) [OF that] .
  show "\<exists>y. member_at s m = Some y \<and> m_nick y = n" if "nick_at s n = Some v" "m \<in> set (n_wchans v)" for n v m
    using D(6) [OF that] .
  show "m = m'" if "member_at s m = Some y" "member_at s m' = Some y'" "m_nick y = m_nick y'" "m_wchan y = m_wchan y'"
    for m m' y y' using D(7) [OF that] .
qed

lemma join_live:
  assumes "live s" "nick_at s n \<noteq> None" "length name \<le> CHANLEN"
    and out: "\<And>w. find_wchan (Some name) s = Some w \<Longrightarrow> find_member w n s = Some None"
  shows "\<exists>t. join_wchan n name s = Some t \<and> live t"
proof -
  have ok: "nicks_ok s" "clones_ok s" "auth_ok s" "member_lists_ok s" "limits_ok s" "wchans_ok s" and u: "unborn s"
    using assms(1) by (auto simp: live_def net_ok_def members_ok_def)
  have tab: "table_ok w_chname (wchans s) (wchan_at s)" using ok(6) by (simp add: wchans_ok_def)
  have ws: "v \<in> snd ` set (wchans s) \<and> w_members y \<noteq> []" if "wchan_at s v = Some y" for v y
    using ok(6) that by (auto simp: wchans_ok_def)
  obtain x where x: "nick_at s n = Some x" using assms(2) by blast
  show ?thesis
  proof (cases "find_wchan (Some name) s")
    case (Some w)
    then obtain z where z: "wchan_at s w = Some z" using table_ok_find [OF tab] by (auto simp: find_wchan_def)
    have "m_wchan y \<noteq> w" if "member_at s m = Some y" "m_nick y = n" for m y
      using find_member_ok [OF ok(4) z, of n] out [OF Some] that by auto
    then obtain m v where "AddUserToWchan n w s = Some (m, v)" "live v"
      using add_member_live [OF ok(1-5) u tab _ x z] ws by blast
    then show ?thesis using Some by (simp add: join_wchan_def)
  next
    case None
    let ?w = "next_ptr s" and ?z = "\<lparr>w_chname = name, w_topic = [], w_members = []\<rparr>"
    let ?s = "s\<lparr>next_ptr := Suc ?w, wchans := tinsert name ?w (wchans s), wchan_at := (wchan_at s)(?w \<mapsto> ?z)\<rparr>"
    have free: "wchan_at s ?w = None" using u by (simp add: unborn_def)
    have tf: "tfind (wchans s) name = None" using None by (simp add: find_wchan_def)
    have cr: "CreateWchan name s = (Some ?w, ?s)"
      using tf assms(3) by (simp add: CreateWchan_def strncpy_def fresh_def Let_def)
    have tab': "table_ok w_chname (wchans ?s) (wchan_at ?s)" "wchans ?s = wchans s @ [(name, ?w)]"
      using table_ok_insert [OF tab free, of ?z] tf by simp_all
    have "nicks_ok ?s" "clones_ok ?s" "auth_ok ?s" "limits_ok ?s"
      using ok nicks_ok_cong [of ?s s] clones_ok_cong [of ?s s] auth_ok_cong [of ?s s] by (simp_all add: limits_ok_def)
    moreover have l: "member_lists_ok ?s"
      by (rule member_lists_new_wchan [OF ok(4) free, of ?z]) simp_all
    moreover have "unborn ?s" using u by (auto simp: unborn_def)
    moreover have "m_wchan y \<noteq> ?w" if "member_at ?s m = Some y" for m y
      using member_lists_okD(2) [OF ok(4), of m y] that free by auto
    moreover have "v \<in> snd ` set (wchans ?s) \<and> (v \<noteq> ?w \<longrightarrow> w_members y \<noteq> [])" if "wchan_at ?s v = Some y" for v y
      using ws [of v y] that tab'(2) by (auto split: if_splits)
    ultimately obtain m v where "AddUserToWchan n ?w ?s = Some (m, v)" "live v"
      using add_member_live [of ?s ?w n x ?z] tab'(1) x by auto
    then show ?thesis using None cr by (simp add: join_wchan_def)
  qed
qed

lemma part_live:
  assumes "live s" "wchan_at s w \<noteq> None"
  shows "\<exists>t. DeleteUserFromWchan n w s = Some t \<and> live t"
proof -
  have ok: "net_ok s" "member_lists_ok s" "members_ok s" using assms(1) by (auto simp: live_def net_ok_def members_ok_def)
  obtain z where z: "wchan_at s w = Some z" using assms(2) by blast
  obtain r where r: "find_member w n s = Some r"
    "\<And>m. r = Some m \<longleftrightarrow> (\<exists>y. member_at s m = Some y \<and> m_nick y = n \<and> m_wchan y = w)"
    using find_member_ok [OF ok(2) z] by blast
  show ?thesis
  proof (cases r)
    case None
    then show ?thesis using r(1) assms(1) by (simp add: DeleteUserFromWchan_def)
  next
    case (Some m)
    then obtain y where y: "member_at s m = Some y" "m_nick y = n" "m_wchan y = w" using r(2) by blast
    obtain t where t: "DeleteUserFromWchan n w s = Some t" "members_ok t" "parted m s t"
      using DeleteUserFromWchan_ok [OF ok(3) y(1)] y by auto
    note f = parted_left_frame [OF t(3)]
    have "net_ok t" using ok(1) t(2) left_frame_nicks_ok [OF f] left_frame_auth_ok [OF f] by (simp add: net_ok_def)
    then show ?thesis using t(1) no_birth_unborn [OF no_birth_part [OF t(1)]] assms(1) by (auto simp: live_def)
  qed
qed

lemma quit_live: "live s \<Longrightarrow> \<exists>t. userquit k s = Some t \<and> live t"
  using userquit_ok [of s k] no_birth_userquit [of k s] no_birth_unborn unfolding live_def by blast

lemma kill_live: "live s \<Longrightarrow> \<exists>t. killuser k m w s = Some t \<and> live t"
proof -
  assume ok: "live s"
  have "unborn (send_kill k m w s)"
    using ok no_birth_unborn [OF no_birth_send_raw] by (simp add: live_def send_kill_def)
  then have "live (send_kill k m w s)" using ok by (simp add: live_def)
  then show ?thesis unfolding killuser_def by (rule quit_live)
qed

lemma fresh_user_auth:
  assumes a: "auth_ok s" and p: "user_at s p = None" and y: "u_authed y = 0" "u_authed_nick y = None"
    and t: "user_at t = (user_at s)(p \<mapsto> y)" "nick_at t = nick_at s"
  shows "auth_ok t"
  using a p y unfolding auth_ok_def t by (fastforce split: if_splits)

lemma register_live:
  assumes "live s"
  shows "live (snd (AddUser name level s))"
proof (cases "tfind (users s) (strncpy name NICKLEN) = None")
  case False
  then show ?thesis using assms by (auto simp: AddUser_def)
next
  case True
  let ?p = "next_ptr s"
  have ok: "nicks_ok s" "clones_ok s" "auth_ok s" "members_ok s" and u: "unborn s"
    using assms by (auto simp: live_def net_ok_def)
  obtain y ut where y: "u_authed y = 0" "u_authed_nick y = None"
    and t: "snd (AddUser name level s) = s\<lparr>next_ptr := Suc ?p, users := ut, user_at := (user_at s)(?p \<mapsto> y)\<rparr>"
  proof (rule that)
    let ?y = "\<lparr>u_nick = strncpy name NICKLEN, u_authed = 0, u_level = level, u_md5_pass = [],
      u_pwhash = [], u_lastseen = 0, u_timeout = TIMEOUT_DFLT, u_options = set_flag 0 UOPT_HIDEMAIL, u_vhost = [],
      u_email = [], u_regtime = 0, u_cflags = [], u_authed_nick = None\<rparr>"
    show "u_authed ?y = 0" "u_authed_nick ?y = None" by simp_all
    show "snd (AddUser name level s) =
        s\<lparr>next_ptr := Suc ?p, users := tinsert (strncpy name NICKLEN) ?p (users s), user_at := (user_at s)(?p \<mapsto> ?y)\<rparr>"
      using True by (simp add: AddUser_def fresh_def Let_def)
  qed
  let ?t = "s\<lparr>next_ptr := Suc ?p, users := ut, user_at := (user_at s)(?p \<mapsto> y)\<rparr>"
  have "user_at s ?p = None" using u by (simp add: unborn_def)
  then have "auth_ok ?t" by (intro fresh_user_auth [OF ok(3) _ y]) simp_all
  moreover have "nicks_ok ?t" "clones_ok ?t"
    using ok nicks_ok_cong [of ?t s] clones_ok_cong [of ?t s] by simp_all
  moreover have "members_ok ?t"
    using ok(4) member_lists_ok_cong [of ?t s] wchans_ok_cong [of ?t s] by (simp add: members_ok_def limits_ok_def)
  moreover have "unborn ?t" using u by (auto simp: unborn_def)
  ultimately show ?thesis unfolding t by (simp add: live_def net_ok_def)
qed

lemma login_live:
  assumes "live s" "nick_at s n = Some x" "user_at s u = Some y" "n_account x = None" "u_authed y \<noteq> 1"
  shows "\<exists>t. user_login n u s = Some t \<and> live t"
  using user_login_net [OF _ assms(2-5)] no_birth_login [OF _ assms(2,3)] no_birth_unborn assms(1)
  unfolding live_def by blast

lemma logout_live:
  assumes "live s" "nick_at s n = Some x" "n_account x = Some u"
  shows "\<exists>t. user_logout n (Some u) s = Some t \<and> live t"
proof -
  obtain t where "user_logout n (Some u) s = Some t" "net_ok t"
    using logout_ok [of s n x] assms by (auto simp: live_def)
  then show ?thesis using no_birth_logout no_birth_unborn assms(1) unfolding live_def by blast
qed

lemma tick_live: "live s \<Longrightarrow> live (s\<lparr>clock := c\<rparr>)"
proof -
  assume ok: "live s"
  let ?t = "s\<lparr>clock := c\<rparr>"
  have "nicks_ok ?t = nicks_ok s" "clones_ok ?t = clones_ok s" "auth_ok ?t = auth_ok s" "member_lists_ok ?t = member_lists_ok s"
    "wchans_ok ?t = wchans_ok s" "limits_ok ?t = limits_ok s" "unborn ?t = unborn s"
    using nicks_ok_cong [of ?t s] clones_ok_cong [of ?t s] auth_ok_cong [of ?t s] member_lists_ok_cong [of ?t s]
      wchans_ok_cong [of ?t s] limits_ok_cong [of ?t s] by (simp_all add: unborn_def)
  then show ?thesis using ok by (simp add: live_def net_ok_def members_ok_def)
qed

lemma init_live: "live init_state"
proof -
  have "members_ok init_state"
    by (simp add: members_ok_def member_lists_ok_def wchans_ok_def limits_ok_def init_state_def table_ok_def)
  moreover have "unborn init_state" by (simp add: unborn_def init_state_def)
  ultimately show ?thesis using init_state_ok by (simp add: live_def net_ok_def)
qed

subsection \<open>The events\<close>

datatype event =
    Connect string string string string string string flags
  | Leave string
  | Kill string string string
  | Register string int
  | Login ptr ptr
  | Logout ptr
  | Join ptr string
  | Part string cstring
  | Tick nat

fun run_event :: "event \<Rightarrow> core \<Rightarrow> core option" where
  "run_event (Connect nick ident h reshost uid hidden umodes) s =
     map_option snd (new_nick nick ident h uid hidden umodes reshost s)"
| "run_event (Leave k) s = userquit k s"
| "run_event (Kill k m w) s = killuser k m w s"
| "run_event (Register name level) s = Some (snd (AddUser name level s))"
| "run_event (Login n u) s = user_login n u s"
| "run_event (Logout n) s = do { x \<leftarrow> nick_at s n; u \<leftarrow> n_account x; user_logout n (Some u) s }"
| "run_event (Join n name) s = join_wchan n name s"
| "run_event (Part sender tail) s = m_part sender tail s"
| "run_event (Tick d) s = Some (s\<lparr>clock := clock s + int d\<rparr>)"

text \<open>
  What the callers of these functions have checked: the server sends hosts that fit the buffer, a
  nick logs in to a free account when it holds none, and the server announces a join once.
\<close>

fun allowed :: "event \<Rightarrow> core \<Rightarrow> bool" where
  "allowed (Connect nick ident h reshost uid hidden umodes) s = (length reshost \<le> HOSTLEN)"
| "allowed (Login n u) s =
     (case (nick_at s n, user_at s u) of
        (Some x, Some y) \<Rightarrow> n_account x = None \<and> u_authed y \<noteq> 1 | _ \<Rightarrow> False)"
| "allowed (Logout n) s = (case nick_at s n of None \<Rightarrow> False | Some x \<Rightarrow> n_account x \<noteq> None)"
| "allowed (Join n name) s =
     (nick_at s n \<noteq> None \<and> length name \<le> CHANLEN \<and>
      (case find_wchan (Some name) s of None \<Rightarrow> True | Some w \<Rightarrow> find_member w n s = Some None))"
| "allowed _ s = True"

inductive reachable :: "core \<Rightarrow> bool" where
  start: "reachable init_state"
| step: "reachable s \<Longrightarrow> allowed e s \<Longrightarrow> run_event e s = Some t \<Longrightarrow> reachable t"

inductive_cases reachableE: "reachable s"

lemma part_event_live: "live s \<Longrightarrow> \<exists>t. m_part sender tail s = Some t \<and> live t"
proof -
  assume ok: "live s"
  obtain r where r: "find_nick (Some (tl sender)) s = Some r"
    using userquit_ok [of s "tl sender"] ok unfolding live_def by blast
  have tab: "table_ok w_chname (wchans s) (wchan_at s)"
    using ok by (simp add: live_def net_ok_def members_ok_def wchans_ok_def)
  show ?thesis
  proof (cases r)
    case None
    then show ?thesis using r ok by (simp add: m_part_def with_nick_def)
  next
    case (Some n)
    show ?thesis
    proof (cases "find_wchan (fst (SeperateWord tail)) s")
      case None
      then show ?thesis using r Some ok by (simp add: m_part_def with_nick_def)
    next
      case (Some w)
      then have "wchan_at s w \<noteq> None"
        using table_ok_find [OF tab] by (auto simp: find_wchan_def split: option.splits)
      then show ?thesis using part_live [OF ok] r \<open>r = Some n\<close> Some by (simp add: m_part_def with_nick_def)
    qed
  qed
qed

lemma event_live: "live s \<Longrightarrow> allowed e s \<Longrightarrow> \<exists>t. run_event e s = Some t \<and> live t"
proof (cases e)
  case (Connect nick ident h reshost uid hidden umodes)
  assume "live s" "allowed e s"
  then show ?thesis using connect_live [of s reshost nick ident h uid hidden umodes] Connect by auto
next
  case (Login n u)
  assume "live s" "allowed e s"
  then show ?thesis using Login login_live [of s n _ u] by (auto split: option.splits)
next
  case (Logout n)
  assume "live s" "allowed e s"
  then show ?thesis using Logout logout_live [of s n] by (auto split: option.splits)
next
  case (Join n name)
  assume "live s" "allowed e s"
  then show ?thesis using Join join_live [of s n name] by (auto split: option.splits)
qed (use quit_live kill_live register_live part_event_live tick_live in auto)

lemma reachable_live: "reachable s \<Longrightarrow> live s"
proof (induction rule: reachable.induct)
  case start
  show ?case by (rule init_live)
next
  case (step s e t)
  then show ?case using event_live by fastforce
qed

lemma reachable_progress:
  assumes "reachable s"
  shows "net_ok s \<and> (\<forall>e. allowed e s \<longrightarrow> (\<exists>t. run_event e s = Some t \<and> reachable t))"
  using reachable_live [OF assms] event_live reachable.step [OF assms] unfolding live_def by blast

text \<open>An event of every life: \<open>alice\<close> connects.\<close>

definition alice_connects :: event where
  "alice_connects = Connect ''alice'' ''al'' ''host'' ''host'' ''001AAAAAA'' ''hidden'' 0"

lemma alice_allowed: "allowed alice_connects s"
  by (simp add: alice_connects_def HOSTLEN_def)

end
