(* ===== verification/NetView.thy ===== *)
theory NetView
  imports Lifecycle
begin

section \<open>What the network looks like from outside\<close>

text \<open>
  The abstract network: who is online, which account each nick is logged in to, and who is on which channel. The
  events of the network, run by the code on its tables, lists and pointers, do to this view what their names say, and
  nothing else.
\<close>

record view =
  online :: "ptr set"
  session :: "ptr \<Rightarrow> ptr option"
  joined :: "(ptr \<times> ptr) set"

definition view_of :: "core \<Rightarrow> view" where
  "view_of s =
     \<lparr>online = dom (nick_at s), session = (\<lambda>n. Option.bind (nick_at s n) n_account),
      joined = {(m_nick y, m_wchan y) | m y. member_at s m = Some y}\<rparr>"

datatype act = Arrive ptr | Depart ptr | Identify ptr ptr | Forget ptr | Enter ptr ptr | Exit ptr ptr | Idle

fun perform :: "act \<Rightarrow> view \<Rightarrow> view" where
  "perform (Arrive n) v = v\<lparr>online := insert n (online v)\<rparr>"
| "perform (Depart n) v =
     v\<lparr>online := online v - {n}, session := (session v)(n := None), joined := joined v - {n} \<times> UNIV\<rparr>"
| "perform (Identify n u) v = v\<lparr>session := (session v)(n \<mapsto> u)\<rparr>"
| "perform (Forget n) v = v\<lparr>session := (session v)(n := None)\<rparr>"
| "perform (Enter n w) v = v\<lparr>joined := insert (n, w) (joined v)\<rparr>"
| "perform (Exit n w) v = v\<lparr>joined := joined v - {(n, w)}\<rparr>"
| "perform Idle v = v"

definition departs :: "string \<Rightarrow> core \<Rightarrow> act" where
  "departs k s = (case find_nick (Some k) s of Some (Some n) \<Rightarrow> Depart n | _ \<Rightarrow> Idle)"

fun act_of :: "event \<Rightarrow> core \<Rightarrow> act" where
  "act_of (Connect nick ident h reshost uid hidden umodes) s =
     (if nick_key_free nick s then Arrive (next_ptr s) else Idle)"
| "act_of (Leave k) s = departs k s"
| "act_of (Kill k m w) s = departs k s"
| "act_of (Login n u) s = Identify n u"
| "act_of (Logout n) s = Forget n"
| "act_of (Join n name) s =
     Enter n (case find_wchan (Some name) s of Some w \<Rightarrow> w | None \<Rightarrow> next_ptr s)"
| "act_of (Part sender tail) s =
     (case (find_nick (Some (tl sender)) s, find_wchan (fst (SeperateWord tail)) s) of
        (Some (Some n), Some w) \<Rightarrow> Exit n w | _ \<Rightarrow> Idle)"
| "act_of _ s = Idle"

lemma view_eqI:
  assumes "\<And>n. map_option n_account (nick_at t n) = map_option n_account (nick_at s n)" "member_at t = member_at s"
  shows "view_of t = view_of s"
proof -
  have e: "nick_at t n = None \<longleftrightarrow> nick_at s n = None" "Option.bind (nick_at t n) n_account = Option.bind (nick_at s n) n_account" for n
    using assms(1) [of n] by (cases "nick_at t n"; cases "nick_at s n"; simp)+
  then have "dom (nick_at t) = dom (nick_at s)" by (auto simp: dom_def)
  then show ?thesis using assms(2) e(2) by (simp add: view_of_def)
qed

subsection \<open>Quitting keeps the memberships of the others\<close>

text \<open>Only memberships of \<open>n\<close> go.\<close>

definition sheds :: "ptr \<Rightarrow> core \<Rightarrow> core \<Rightarrow> bool" where
  "sheds n s t \<longleftrightarrow> (\<forall>m y. member_at t m = Some y \<longrightarrow> member_at s m = Some y) \<and>
     (\<forall>m y. member_at s m = Some y \<longrightarrow> m_nick y \<noteq> n \<longrightarrow> member_at t m = Some y)"

lemma sheds_same: "member_at t = member_at s \<Longrightarrow> sheds n s t"
  by (simp add: sheds_def)

lemma sheds_trans: "sheds n s t \<Longrightarrow> sheds n t u \<Longrightarrow> sheds n s u"
  unfolding sheds_def by blast

lemma upd_members:
  "upd_nick p g s = Some t \<Longrightarrow> member_at t = member_at s" "upd_chan p h s = Some t \<Longrightarrow> member_at t = member_at s"
  "upd_limit p k s = Some t \<Longrightarrow> member_at t = member_at s" "upd_user p f s = Some t \<Longrightarrow> member_at t = member_at s"
  "upd_clone p c s = Some t \<Longrightarrow> member_at t = member_at s"
  by (auto simp: upd_defs split: option.splits)

lemma touch_limit_members: "touch_limit k s = Some t \<Longrightarrow> member_at t = member_at s"
  by (auto simp: touch_limit_def AddLimit_def Let_def fresh_def split: option.splits if_splits dest!: upd_members)

lemma DeleteWchan_members: "DeleteWchan w s = Some t \<Longrightarrow> member_at t = member_at s"
  by (auto simp: DeleteWchan_def split: option.splits if_splits)

lemma part_sheds: "DeleteUserFromWchan n w s = Some t \<Longrightarrow> sheds n s t"
proof -
  assume r: "DeleteUserFromWchan n w s = Some t"
  then obtain q where q: "find_member w n s = Some q" by (auto simp: DeleteUserFromWchan_def split: option.splits)
  show ?thesis
  proof (cases q)
    case None
    then show ?thesis using r q by (simp add: DeleteUserFromWchan_def sheds_same)
  next
    case (Some m)
    then have "\<exists>y. member_at s m = Some y \<and> m_nick y = n"
      using q scan_SomeD [of "member_at s"] by (auto simp: find_member_def split: option.splits)
    moreover obtain v where v: "DeleteMember m s = Some v" "member_at t = member_at v"
      using r q Some by (auto simp: DeleteUserFromWchan_def split: option.splits if_splits
          dest!: touch_limit_members DeleteWchan_members)
    moreover have "member_at v = (member_at s)(m := None)" using v(1) by (auto simp: DeleteMember_def split: if_splits)
    ultimately show ?thesis by (auto simp: sheds_def split: if_splits)
  qed
qed

lemma parts_sheds: "DeleteUserFromWchans n s = Some t \<Longrightarrow> sheds n s t"
proof -
  assume "DeleteUserFromWchans n s = Some t"
  then obtain x :: nick where "foldM (\<lambda>m s. do { mb \<leftarrow> member_at s m; DeleteUserFromWchan n (m_wchan mb) s })
      (n_wchans x) s = Some t" by (auto simp: DeleteUserFromWchans_def split: option.splits)
  then show ?thesis
    by (rule foldM_invariant [where P = "sheds n s"])
      (auto split: option.splits intro: sheds_trans part_sheds simp: sheds_same)
qed

lemma send_raw_members [simp]: "member_at (send_raw m s) = member_at s"
  by (simp add: send_raw_def Let_def)

lemma user_logout_members: "user_logout n u s = Some t \<Longrightarrow> member_at t = member_at s"
  by (auto simp: user_logout_def Let_def split: option.splits dest!: upd_members)

lemma delete_nick_members: "delete_nick n s = Some t \<Longrightarrow> member_at t = member_at s"
  by (auto simp: delete_nick_def drop_clone_def unlink_server_head_def Let_def
      split: option.splits if_splits dest!: upd_members)

lemma userquit_sheds: "userquit k s = Some t \<Longrightarrow> find_nick (Some k) s = Some (Some n) \<Longrightarrow> sheds n s t"
proof -
  assume r: "userquit k s = Some t" and f: "find_nick (Some k) s = Some (Some n)"
  then obtain x v w where x: "nick_at s n = Some x"
    and v: "(case n_account x of None \<Rightarrow> Some s | Some u \<Rightarrow> user_logout n (Some u) s) = Some v"
    and w: "DeleteUserFromWchans n (DeleteGuest (n_name x) v) = Some w" "delete_nick n w = Some t"
    by (auto simp: userquit_def DeleteWildNick_def split: bind_splits)
  have "member_at v = member_at s" using v by (auto split: option.splits dest: user_logout_members)
  moreover have "member_at (DeleteGuest (n_name x) v) = member_at v" by (simp add: DeleteGuest_def split: option.splits)
  ultimately have "sheds n s (DeleteGuest (n_name x) v)" by (intro sheds_same) (rule trans)
  moreover have "sheds n w t" using delete_nick_members [OF w(2)] by (rule sheds_same)
  ultimately show ?thesis using parts_sheds [OF w(1)] by (blast intro: sheds_trans)
qed

subsection \<open>The view after each event\<close>

lemma view_sel [simp]:
  "online (view_of s) = dom (nick_at s)" "session (view_of s) n = Option.bind (nick_at s n) n_account"
  by (simp_all add: view_of_def)

lemma joined_iff: "(n, w) \<in> joined (view_of s) \<longleftrightarrow> (\<exists>m y. member_at s m = Some y \<and> m_nick y = n \<and> m_wchan y = w)"
  by (auto simp: view_of_def)

lemma joined_ran: "joined (view_of s) = (\<lambda>y. (m_nick y, m_wchan y)) ` ran (member_at s)"
  by (auto simp: view_of_def ran_def)

lemma view_ext:
  assumes "online u = online v" "\<And>n. session u n = session v n" "\<And>n w. (n, w) \<in> joined u \<longleftrightarrow> (n, w) \<in> joined v"
  shows "u = (v::view)"
  using assms by (cases u, cases v) auto

lemma connect_view:
  assumes "new_nick nick ident h uid hidden umodes host s = Some (r, t)" "nick_key_free nick s" "nick_at s (next_ptr s) = None"
  shows "view_of t = perform (Arrive (next_ptr s)) (view_of s)"
proof -
  let ?p = "next_ptr s"
  obtain x nt where x: "n_account x = None"
    and v: "add_clone host (s\<lparr>next_ptr := Suc ?p, nicks := nt, nick_at := (nick_at s)(?p \<mapsto> x)\<rparr>) = Some t"
    using new_nick_alloc [OF assms(1,2)] by blast
  have "nick_at t = (nick_at s)(?p \<mapsto> x)" "member_at t = member_at s" using add_clone_shape [OF v] by auto
  then show ?thesis using x assms(3) by (intro view_ext) (auto simp: joined_iff)
qed

lemma quit_view:
  assumes ok: "net_ok s" and q: "userquit k s = Some t"
  shows "view_of t = perform (departs k s) (view_of s)"
proof -
  obtain r where r: "find_nick (Some k) s = Some r"
    "\<forall>n. r = Some n \<longrightarrow> nick_at t n = None \<and> (\<forall>m y. member_at t m = Some y \<longrightarrow> m_nick y \<noteq> n)" "r = None \<longrightarrow> t = s"
    "\<forall>n. r = Some n \<longrightarrow> quit_frame n s t"
    using userquit_full [OF ok, of k] q by auto
  show ?thesis
  proof (cases r)
    case None
    then show ?thesis using r by (simp add: departs_def)
  next
    case (Some n)
    have sh: "sheds n s t" using userquit_sheds [OF q] r(1) Some by simp
    have f: "map_option n_account (nick_at t p) = map_option n_account (nick_at s p)" if "p \<noteq> n" for p
    proof -
      have "map_option forget_wchans (nick_at t p) = map_option forget_wchans (nick_at s p)"
        using r(4) Some that by (simp add: quit_frame_def)
      then have "map_option n_account (map_option forget_wchans (nick_at t p)) = map_option n_account (map_option forget_wchans (nick_at s p))"
        by simp
      then show ?thesis by (simp add: option.map_comp o_def forget_wchans_def)
    qed
    have n: "nick_at t n = None" "\<And>m y. member_at t m = Some y \<Longrightarrow> m_nick y \<noteq> n" using r(2) Some by auto
    have e: "nick_at t p = None \<longleftrightarrow> nick_at s p = None" "Option.bind (nick_at t p) n_account = Option.bind (nick_at s p) n_account"
      if "p \<noteq> n" for p
      using f [OF that] by (cases "nick_at t p"; cases "nick_at s p"; simp)+
    have "p \<in> dom (nick_at t) \<longleftrightarrow> p \<in> dom (nick_at s) - {n}" for p
      using e(1) [of p] n(1) by (cases "p = n") (simp_all add: domIff)
    then have "dom (nick_at t) = dom (nick_at s) - {n}" by blast
    moreover have "(p, w) \<in> joined (view_of t) \<longleftrightarrow> (p, w) \<in> joined (view_of s) \<and> p \<noteq> n" for p w
      using sh n(2) unfolding joined_iff sheds_def by metis
    ultimately show ?thesis using Some r(1) e(2) n(1) by (intro view_ext) (auto simp: departs_def)
  qed
qed

lemma kill_view:
  assumes ok: "net_ok s" and q: "killuser k m w s = Some t"
  shows "view_of t = perform (departs k s) (view_of s)"
proof -
  have "net_ok (send_kill k m w s)" using ok by simp
  moreover have "find_nick (Some k) (send_kill k m w s) = find_nick (Some k) s"
    by (simp add: find_nick_def send_kill_def send_raw_def Let_def)
  moreover have "view_of (send_kill k m w s) = view_of s"
    by (rule view_eqI) (simp_all add: send_kill_def send_raw_def Let_def)
  ultimately show ?thesis using quit_view [of "send_kill k m w s" k t] q by (simp add: killuser_def departs_def)
qed

lemma login_view:
  assumes "user_login n u s = Some t" "nick_at s n = Some x" "user_at s u = Some y"
  shows "view_of t = perform (Identify n u) (view_of s)"
proof -
  obtain z where z: "n_account z = Some u" "nick_step (s\<lparr>user_at := (user_at s)(u \<mapsto> logged_in (clock s) n y)\<rparr>) n z t"
    using user_login_shape [OF assms(2,3)] assms(1) by auto
  have "nick_at t = (nick_at s)(n \<mapsto> z)" "member_at t = member_at s"
    using z(2) by (auto simp: nick_step_def mod_out_def)
  then show ?thesis using z(1) assms(2) by (intro view_ext) (auto simp: joined_iff)
qed

lemma logout_view:
  assumes ok: "net_ok s" and "user_logout n (Some u) s = Some t" "nick_at s n = Some x" "n_account x = Some u"
  shows "view_of t = perform (Forget n) (view_of s)"
proof -
  obtain z where z: "nick_at t n = Some z" "n_account z = None" "\<forall>p. p \<noteq> n \<longrightarrow> nick_at t p = nick_at s p"
    using logout_ok [OF ok assms(3)] assms(2,4) by auto
  have "p \<in> dom (nick_at t) \<longleftrightarrow> p \<in> dom (nick_at s)" for p using z assms(3) by (cases "p = n") (simp_all add: domIff)
  then have "dom (nick_at t) = dom (nick_at s)" by blast
  then show ?thesis using z user_logout_members [OF assms(2)] by (intro view_ext) (auto simp: joined_iff)
qed

lemma touch_limit_nicks: "touch_limit k s = Some t \<Longrightarrow> nick_at t = nick_at s"
  by (auto simp: touch_limit_def AddLimit_def Let_def fresh_def upd_limit_def upd_chan_def upd_def
      split: option.splits if_splits)

lemma add_member_view:
  assumes "AddUserToWchan n w s = Some (m, t)" "member_at s (next_ptr s) = None"
  shows "view_of t = perform (Enter n w) (view_of s)"
proof -
  obtain x z v where x: "nick_at s n = Some x" "wchan_at s w = Some z"
    and v: "touch_limit (w_chname z) (with_member (next_ptr s) n w x z s) = Some t"
    using assms(1) by (auto simp: AddUserToWchan_def upd_defs fresh_def with_member_def Let_def split: option.splits bind_splits)
  have "nick_at t = (nick_at s)(n \<mapsto> x\<lparr>n_wchans := n_wchans x @ [next_ptr s]\<rparr>)"
    "member_at t = (member_at s)(next_ptr s \<mapsto> \<lparr>m_wchan = w, m_nick = n, m_flags = 0\<rparr>)"
    using touch_limit_nicks [OF v] touch_limit_members [OF v] by simp_all
  moreover from this(2) have "joined (view_of t) = insert (n, w) (joined (view_of s))"
    using assms(2) by (simp add: joined_ran)
  ultimately show ?thesis using x(1) by (intro view_ext) auto
qed

lemma join_view:
  assumes ok: "live s" and j: "join_wchan n name s = Some t" and len: "length name \<le> CHANLEN"
  shows "view_of t = perform (act_of (Join n name) s) (view_of s)"
proof -
  have fresh: "member_at s p = None" if "next_ptr s \<le> p" for p using ok that by (simp add: live_def unborn_def)
  show ?thesis
  proof (cases "find_wchan (Some name) s")
    case (Some w)
    then obtain m where "AddUserToWchan n w s = Some (m, t)" using j by (auto simp: join_wchan_def)
    then show ?thesis using add_member_view fresh Some by simp
  next
    case None
    let ?w = "next_ptr s"
    let ?s = "s\<lparr>next_ptr := Suc ?w, wchans := tinsert name ?w (wchans s),
      wchan_at := (wchan_at s)(?w \<mapsto> \<lparr>w_chname = name, w_topic = [], w_members = []\<rparr>)\<rparr>"
    have "CreateWchan name s = (Some ?w, ?s)"
      using None len by (simp add: find_wchan_def CreateWchan_def strncpy_def fresh_def Let_def)
    then obtain m where m: "AddUserToWchan n ?w ?s = Some (m, t)" using j None by (auto simp: join_wchan_def)
    have "view_of ?s = view_of s" by (rule view_eqI) simp_all
    then show ?thesis using add_member_view [OF m] fresh None by simp
  qed
qed

lemma leave_channel_view:
  assumes ok: "net_ok s" and w: "wchan_at s w = Some z" and t: "DeleteUserFromWchan n w s = Some t"
  shows "view_of t = perform (Exit n w) (view_of s)"
proof -
  have l: "member_lists_ok s" "members_ok s" using ok by (simp_all add: net_ok_def members_ok_def)
  obtain r where r: "find_member w n s = Some r"
    "\<And>m. r = Some m \<longleftrightarrow> (\<exists>y. member_at s m = Some y \<and> m_nick y = n \<and> m_wchan y = w)"
    using find_member_ok [OF l(1) w] by blast
  show ?thesis
  proof (cases r)
    case None
    then have "(n, w) \<notin> joined (view_of s)" using r(2) by (auto simp: joined_iff)
    moreover have "t = s" using t r(1) None by (simp add: DeleteUserFromWchan_def)
    ultimately show ?thesis by simp
  next
    case (Some m)
    then obtain y where y: "member_at s m = Some y" "m_nick y = n" "m_wchan y = w" using r(2) by blast
    then have p: "parted m s t" using DeleteUserFromWchan_ok [OF l(2) y(1)] t by simp
    have only: "k = m" if "member_at s k = Some v" "m_nick v = n" "m_wchan v = w" for k v
      using r(2) that Some by (metis option.inject)
    have "p' \<in> dom (nick_at t) \<longleftrightarrow> p' \<in> dom (nick_at s)" for p' by (simp add: parted_sel(6) [OF p] domIff)
    then have "dom (nick_at t) = dom (nick_at s)" by blast
    moreover have "Option.bind (nick_at t q) n_account = Option.bind (nick_at s q) n_account" for q
      by (cases "nick_at s q") (simp_all add: parted_sel(6) [OF p])
    moreover have "joined (view_of t) = joined (view_of s) - {(n, w)}"
    proof (intro equalityI subsetI)
      fix c assume "c \<in> joined (view_of t)"
      then obtain k v where k: "k \<noteq> m" "member_at s k = Some v" "c = (m_nick v, m_wchan v)"
        by (auto simp: view_of_def parted_sel(7) [OF p] split: if_splits)
      then show "c \<in> joined (view_of s) - {(n, w)}" using only [of k v] by (auto simp: view_of_def)
    next
      fix c assume c: "c \<in> joined (view_of s) - {(n, w)}"
      then obtain k v where k: "member_at s k = Some v" "c = (m_nick v, m_wchan v)" by (auto simp: view_of_def)
      then have "member_at t k = Some v" using c y by (auto simp: parted_sel(7) [OF p])
      then show "c \<in> joined (view_of t)" using k(2) by (auto simp: view_of_def)
    qed
    ultimately show ?thesis by (intro view_ext) auto
  qed
qed

lemma part_view:
  assumes ok: "net_ok s" and t: "m_part sender tail s = Some t"
  shows "view_of t = perform (act_of (Part sender tail) s) (view_of s)"
proof -
  have tab: "table_ok w_chname (wchans s) (wchan_at s)" using ok by (simp add: net_ok_def members_ok_def wchans_ok_def)
  obtain r where r: "find_nick (Some (tl sender)) s = Some r" using t by (auto simp: m_part_def with_nick_def split: bind_splits)
  show ?thesis
  proof (cases r)
    case None
    then show ?thesis using r t by (simp add: m_part_def with_nick_def)
  next
    case (Some n)
    show ?thesis
    proof (cases "find_wchan (fst (SeperateWord tail)) s")
      case None
      then show ?thesis using r Some t by (simp add: m_part_def with_nick_def)
    next
      case (Some w)
      then obtain z where z: "wchan_at s w = Some z" using table_ok_find [OF tab] by (auto simp: find_wchan_def split: option.splits bind_splits)
      have "DeleteUserFromWchan n w s = Some t" using t r \<open>r = Some n\<close> Some by (simp add: m_part_def with_nick_def)
      then show ?thesis using leave_channel_view [OF ok z] r \<open>r = Some n\<close> Some by simp
    qed
  qed
qed

lemma event_view:
  assumes ok: "live s" and a: "allowed e s" and r: "run_event e s = Some t"
  shows "view_of t = perform (act_of e s) (view_of s)"
proof (cases e)
  case (Connect nick ident h reshost uid hidden umodes)
  then obtain q where q: "new_nick nick ident h uid hidden umodes reshost s = Some (q, t)" using r by auto
  show ?thesis
  proof (cases "nick_key_free nick s")
    case True
    moreover have "nick_at s (next_ptr s) = None" using ok by (simp add: live_def unborn_def)
    ultimately show ?thesis using connect_view [OF q] Connect by simp
  next
    case False
    then have "t = s" using q by (auto simp: new_nick_def nick_key_free_def)
    moreover have "act_of e s = Idle" using False Connect by (simp del: nick_key_free_def)
    ultimately show ?thesis by simp
  qed
next
  case (Register name level)
  have "nick_at (snd (AddUser name level s)) = nick_at s" "member_at (snd (AddUser name level s)) = member_at s"
    by (simp_all add: AddUser_def fresh_def Let_def)
  then have "view_of (snd (AddUser name level s)) = view_of s" by (intro view_eqI) simp_all
  then show ?thesis using Register r by simp
next
  case (Login n u)
  then show ?thesis using a r login_view by (auto split: option.splits)
next
  case (Logout n)
  then show ?thesis using ok r logout_view by (auto simp: live_def split: bind_splits)
next
  case (Tick d)
  then show ?thesis using r by (auto intro: view_eqI)
next
  case (Leave k)
  then show ?thesis using ok r quit_view by (simp add: live_def)
next
  case (Kill k m w)
  then show ?thesis using ok r kill_view by (simp add: live_def)
next
  case (Join n name)
  then show ?thesis using a r join_view [OF ok, of n name t] by simp
next
  case (Part sender tail)
  then show ?thesis using ok r part_view [of s sender tail t] by (simp add: live_def)
qed

text \<open>What holds of the view, and of every view that the events make of one.\<close>

definition view_ok :: "view \<Rightarrow> bool" where
  "view_ok v \<longleftrightarrow> dom (session v) \<subseteq> online v \<and> inj_on (session v) (dom (session v)) \<and> fst ` joined v \<subseteq> online v"

lemma live_view_ok:
  assumes "live s"
  shows "view_ok (view_of s)"
proof -
  have a: "auth_ok s" and l: "member_lists_ok s" using assms by (simp_all add: live_def net_ok_def members_ok_def)
  have "dom (session (view_of s)) \<subseteq> online (view_of s)" by (auto simp: dom_def split: bind_splits)
  moreover have "n = m" if e: "session (view_of s) n = Some u" "session (view_of s) m = Some u" for n m u
  proof -
    obtain x x' where "nick_at s n = Some x" "n_account x = Some u" "nick_at s m = Some x'" "n_account x' = Some u"
      using e by (auto simp: Option.bind_eq_Some_conv)
    then obtain y y' where "user_at s u = Some y" "u_authed_nick y = Some n" "user_at s u = Some y'" "u_authed_nick y' = Some m"
      using auth_okD(1) [OF a, of n x u] auth_okD(1) [OF a, of m x' u] by blast
    then show ?thesis by simp
  qed
  then have "inj_on (session (view_of s)) (dom (session (view_of s)))" by (intro inj_onI) (metis domD)
  moreover have "fst c \<in> online (view_of s)" if c: "c \<in> joined (view_of s)" for c
  proof -
    obtain m y where "member_at s m = Some y" "c = (m_nick y, m_wchan y)" using c by (auto simp: view_of_def)
    then show ?thesis using member_lists_okD(1) [OF l] by fastforce
  qed
  ultimately show ?thesis unfolding view_ok_def by blast
qed

lemma reachable_view:
  assumes "reachable s" "allowed e s" "run_event e s = Some t"
  shows "view_of t = perform (act_of e s) (view_of s) \<and> view_ok (view_of t)"
  using event_view [OF reachable_live [OF assms(1)] assms(2,3)] live_view_ok reachable_live reachable.step [OF assms] by blast

end
