(* ===== verification/MainLoop.thy ===== *)
theory MainLoop
  imports Program
begin

section \<open>The process: src/src/child.c, the connection of src/src/net.c and init\_core of core.c\<close>

text \<open>
  The loop of the program and what starts and interrupts it. Times are in microseconds; 0 is a timer that is not
  set. What the operating system answers in one turn of the loop is a record. Signals are events between two
  turns; the log, the process identifier and becoming a daemon are left out.
\<close>

definition RECONNECT_DELAY :: int where "RECONNECT_DELAY = 10"
definition MAX_RECO_ATTEMPTS :: int where "MAX_RECO_ATTEMPTS = 10"

definition seconds :: "int \<Rightarrow> int" where
  "seconds n = n * 1000000"

text \<open>
  The answers of the system calls: those that make a connection, and those of a turn. \<open>t_now\<close>, \<open>t_retry\<close>,
  \<open>t_lost\<close>, \<open>t_after\<close>, \<open>t_expired\<close> and \<open>t_saved\<close> are what \<open>gettimeofday\<close> gives at its calls in
  turn, \<open>t_read\<close> what \<open>read\<close> gives, empty for an error or the end of the stream.
\<close>

record sockets =
  sk_lookup :: int
  sk_socket :: int
  sk_local :: int
  sk_bind :: int
  sk_timeout :: bool
  sk_connect :: int

record turn =
  t_now :: int
  t_sockets :: sockets
  t_retry :: int
  t_poll :: int
  t_pollout :: bool
  t_pollin :: bool
  t_send :: int
  t_read :: string
  t_lost :: int
  t_after :: int
  t_expired :: int
  t_saved :: int

record loop =
  srv :: services
  inbuf :: string
  fd :: int
  next_connect :: int
  next_expire :: int
  next_save :: int
  retries :: int

subsection \<open>The connection\<close>

text \<open>
  \<open>net_connect_fd\<close>: the result and the descriptor. The port is printed into 6 bytes. A socket that
  cannot be made gives 0, like a connection.
\<close>

definition net_connect_fd :: "config \<Rightarrow> sockets \<Rightarrow> int \<Rightarrow> (int \<times> int) option" where
  "net_connect_fd k r d =
     (if 6 \<le> length (dec (cfg_port k)) then None
      else if sk_lookup r \<noteq> 0 then Some (-1, d)
      else if sk_socket r < 0 then Some (0, d)
      else if cfg_bindip k \<noteq> [] \<and> sk_local r \<noteq> 0 then Some (-1, d)
      else if cfg_bindip k \<noteq> [] \<and> sk_bind r < 0 then Some (-1, d)
      else if sk_timeout r then Some (-1, d)
      else if sk_connect r = -1 then Some (-1, d)
      else Some (0, sk_socket r))"

definition connect_now :: "sockets \<Rightarrow> loop \<Rightarrow> (int \<times> loop) option" where
  "connect_now r l =
     do { (e, d) \<leftarrow> net_connect_fd (cfg (svc (srv l))) r (fd l);
          (e, s) \<leftarrow> net_connect e (svc (srv l));
          Some (e, l\<lparr>srv := (srv l)\<lparr>svc := s\<rparr>, fd := d\<rparr>) }"

definition disconnect_now :: "bool \<Rightarrow> nat \<Rightarrow> loop \<Rightarrow> loop option" where
  "disconnect_now graceful sent l =
     do { w \<leftarrow> on_core (net_disconnect graceful sent) (srv l); Some (l\<lparr>srv := w, inbuf := [], fd := -1\<rparr>) }"

text \<open>
  \<open>net_poll\<close>. \<open>poll\<close> ignores a negative descriptor; it asks for writing when there is something to send.
\<close>

definition poll_write :: "turn \<Rightarrow> loop \<Rightarrow> int \<times> loop" where
  "poll_write i l =
     (let s = svc (srv l) in
      if outbuf s = [] \<or> \<not> t_pollout i then (0, l)
      else if t_send i < 0 then (-1, l)
      else (0, l\<lparr>srv := (srv l)\<lparr>svc := flush_sendq (nat (t_send i)) s\<rparr>\<rparr>))"

definition poll_read :: "turn \<Rightarrow> loop \<Rightarrow> int \<times> loop" where
  "poll_read i l =
     (if \<not> t_pollin i then (0, l)
      else (case read_chunk (inbuf l) (t_read i) of None \<Rightarrow> (-1, l) | Some b \<Rightarrow> (0, l\<lparr>inbuf := b\<rparr>)))"

definition net_poll :: "turn \<Rightarrow> loop \<Rightarrow> int \<times> loop" where
  "net_poll i l =
     (if \<not> connected (svc (srv l)) \<or> fd l < 0 then (0, l)
      else if t_poll i \<le> 0 then (t_poll i, l)
      else (case poll_write i l of (e, l) \<Rightarrow> if e < 0 then (e, l) else poll_read i l))"

subsection \<open>One turn of the loop\<close>

definition due :: "int \<Rightarrow> int \<Rightarrow> bool" where
  "due t now \<longleftrightarrow> t \<noteq> 0 \<and> t < now"

definition at_time :: "int \<Rightarrow> loop \<Rightarrow> loop" where
  "at_time now l = l\<lparr>srv := tick (now div 1000000) (srv l)\<rparr>"

text \<open>
  An attempt to connect, when it is time for one; the flag is set when the turn goes on. The eleventh attempt that fails
  saves the database and ends the process.
\<close>

definition give_up :: "outside \<Rightarrow> services \<Rightarrow> services option" where
  "give_up X w =
     do { w \<leftarrow> save_now (hooks_env X) (o_alive X) w;
          st \<leftarrow> unloadallmod (ln_has_cleanup (program_linker X)) (ln_cleanup (program_linker X)) (modules w, w);
          Some (child_clean (with_modules st)) }"

definition attempt :: "outside \<Rightarrow> turn \<Rightarrow> loop \<Rightarrow> (bool \<times> loop) option" where
  "attempt X i l =
     (if \<not> due (next_connect l) (t_now i) then Some (True, l)
      else do {
        (e, l) \<leftarrow> connect_now (t_sockets i) l;
        if e = 0 then Some (True, l\<lparr>retries := 0, next_connect := 0\<rparr>)
        else (let l = l\<lparr>retries := retries l + 1\<rparr> in
          if MAX_RECO_ATTEMPTS < retries l then map_option (\<lambda>w. (False, l\<lparr>srv := w\<rparr>)) (give_up X (srv l))
          else Some (False, l\<lparr>next_connect := t_retry i + seconds RECONNECT_DELAY\<rparr>)) })"

text \<open>The lines that came, the checks, and the two timers.\<close>

definition input_turn :: "outside \<Rightarrow> loop \<Rightarrow> loop option" where
  "input_turn X l =
     (case read_lines (inbuf l) of (ls, rest) \<Rightarrow>
        map_option (\<lambda>w. l\<lparr>srv := w, inbuf := rest\<rparr>) (handle_input (program X) ls (srv l)))"

definition timers_turn :: "outside \<Rightarrow> turn \<Rightarrow> loop \<Rightarrow> loop option" where
  "timers_turn X i l =
     do { let l = at_time (t_after i) l;
          let e = due (next_expire l) (t_after i);
          w \<leftarrow> expire_check e (srv l);
          let l = l\<lparr>srv := w, next_expire := (if e then t_expired i + seconds 60 else next_expire l)\<rparr>;
          let b = due (next_save l) (t_after i);
          w \<leftarrow> save_check (hooks_env X) (o_alive X) b (srv l);
          Some (l\<lparr>srv := w, next_save :=
            (if b then t_saved i + seconds (60 * cfg_savedb_interval (cfg (svc w))) else next_save l)\<rparr>) }"

definition child_run_loop_once :: "outside \<Rightarrow> turn \<Rightarrow> loop \<Rightarrow> loop option" where
  "child_run_loop_once X i l =
     do { (go, l) \<leftarrow> attempt X i (at_time (t_now i) l);
          if \<not> go then Some l
          else (case net_poll i l of (e, l) \<Rightarrow>
            if e \<noteq> 0 then do { l \<leftarrow> disconnect_now False 0 l; Some (l\<lparr>next_connect := t_lost i\<rparr>) }
            else do {
              l \<leftarrow> input_turn X l;
              if ended (srv l) \<noteq> None then Some l else timers_turn X i l }) }"

text \<open>\<open>child_run_loop\<close>: nothing sets the flag \<open>stop\<close>, so that it goes on until the process ends.\<close>

fun child_run_loop :: "outside \<Rightarrow> turn list \<Rightarrow> loop \<Rightarrow> loop option" where
  "child_run_loop X [] l = Some l"
| "child_run_loop X (i # is) l =
     (if ended (srv l) \<noteq> None then Some l
      else do { l \<leftarrow> child_run_loop_once X i l; child_run_loop X is l })"

text \<open>
  The microseconds that the loop sleeps behind a turn: \<open>timersub\<close> takes the end of the turn from its beginning.
\<close>

definition loop_pause :: "int \<Rightarrow> int \<Rightarrow> int" where
  "loop_pause began finished =
     (let res = began - finished; ms = res div 1000000 * 1000 + res mod 1000000 div 1000 in
      if ms < 10 then (10 - ms) * 1000 else 0)"

subsection \<open>Signals\<close>

datatype signal = SIGHUP | SIGUSR2 | SIGINT | SIGCHLD | SIGPIPE | SIGSEGV

definition on_srv :: "(services \<Rightarrow> services option) \<Rightarrow> loop \<Rightarrow> loop option" where
  "on_srv f l = map_option (\<lambda>w. l\<lparr>srv := w\<rparr>) (f (srv l))"

fun sighandler :: "outside \<Rightarrow> int \<Rightarrow> signal \<Rightarrow> loop \<Rightarrow> loop option" where
  "sighandler X now SIGHUP l = on_srv (loadconf (program_linker X) True (o_file X)) l"
| "sighandler X now SIGUSR2 l = map_option (\<lambda>l. l\<lparr>next_connect := now\<rparr>) (disconnect_now True (o_sent X) l)"
| "sighandler X now SIGINT l =
     on_srv (\<lambda>w. do { w \<leftarrow> on_core (\<lambda>s. fakekill (cfg_nick (cfg s)) ''Got SIGINT, exiting'' s) w;
       child_die (hooks_env X) (program_linker X) (o_alive X) (o_sent X) True w }) l"
| "sighandler X now SIGCHLD l = Some l"
| "sighandler X now SIGPIPE l = Some l"
| "sighandler X now SIGSEGV l = Some (l\<lparr>srv := (srv l)\<lparr>ended := Some Aborted\<rparr>\<rparr>)"

subsection \<open>The start\<close>

text \<open>\<open>init_core\<close>: everything is cleared and the tables are empty; the random numbers are those of the seed.\<close>

definition cleared_config :: config where
  "cleared_config =
     \<lparr>cfg_nick = [], cfg_name = [], cfg_ident = [], cfg_host = [], cfg_server = [], cfg_port = 0, cfg_bindip = [],
      cfg_sid = [], cfg_linkpass = [], cfg_maxclones = 0, cfg_nick_expire = 0, cfg_chan_expire = 0,
      cfg_chanperuser = 0, cfg_level_oper = 0, cfg_level_admin = 0, cfg_level_root = 0, cfg_level_owner = 0,
      cfg_mysql_host = [], cfg_mysql_db = [], cfg_mysql_login = [], cfg_mysql_passwd = [], cfg_logfile = [],
      cfg_limittime = 0, cfg_savedb_interval = 0, cfg_guest_prefix = [], cfg_anonymous_global = 0, cfg_sendmail = [],
      cfg_sendfrom = [], cfg_maxmsgtime = 0, cfg_maxmsgnb = 0, cfg_ignoretime = 0, cfg_maxloginatt = 0,
      cfg_chlev_sadmin = 0, cfg_chlev_admin = 0, cfg_chlev_op = 0, cfg_chlev_halfop = 0, cfg_chlev_voice = 0,
      cfg_chlev_nostatus = 0, cfg_chlev_akick = 0, cfg_chlev_akb = 0, cfg_chlev_invite = 0, cfg_usercloak = [],
      cfg_emailreg = 0\<rparr>"

definition init_core :: "(nat \<Rightarrow> nat) \<Rightarrow> core" where
  "init_core rnd =
     net_init
     \<lparr>users = [], nicks = [], clones = [], trusts = [], links = [], guests = [], chans = [],
      wchans = [], bots = [], fakeusers = [], limits = [], timebans = [], servers = [],
      user_at = (\<lambda>_. None), nick_at = (\<lambda>_. None), clone_at = (\<lambda>_. None), trust_at = (\<lambda>_. None),
      link_at = (\<lambda>_. None), guest_at = (\<lambda>_. None), chan_at = (\<lambda>_. None), wchan_at = (\<lambda>_. None),
      bot_at = (\<lambda>_. None), fake_at = (\<lambda>_. None), member_at = (\<lambda>_. None), cflag_at = (\<lambda>_. None),
      limit_at = (\<lambda>_. None), timeban_at = (\<lambda>_. None), server_at = (\<lambda>_. None), next_ptr = 1,
      cfg = cleared_config, eos = False, raws = False, startuptime = 0, connected = False,
      remote_server = [], remote_sid = [], my_uid = [], clock = 0, random_at = rnd,
      random_pos = 0, salts = 0, outbuf = [], mails = []\<rparr>"

text \<open>The values that \<open>main\<close> sets before it reads the file; there is none for the host to connect to nor for the server's id.\<close>

definition default_settings :: "config \<Rightarrow> config" where
  "default_settings k =
     k\<lparr>cfg_nick := ''C'', cfg_name := ''services.geeknode.org'', cfg_ident := ''cserve'', cfg_host := ''geeknode.org'',
       cfg_linkpass := ''f00p4ss'', cfg_mysql_host := ''localhost'', cfg_mysql_db := ''child'',
       cfg_mysql_login := ''child'', cfg_mysql_passwd := ''childp4ss'', cfg_logfile := ''child.log'',
       cfg_guest_prefix := ''Geek'', cfg_sendmail := ''/usr/sbin/sendmail -t'',
       cfg_sendfrom := ''noreply@geeknode.org'', cfg_usercloak := ''.users.geeknode.org'', cfg_bindip := [],
       cfg_port := 4400, cfg_maxclones := 5, cfg_nick_expire := 45, cfg_chan_expire := 60, cfg_chanperuser := 10,
       cfg_level_oper := 100, cfg_level_admin := 500, cfg_level_root := 900, cfg_level_owner := 1000,
       cfg_limittime := 5, cfg_savedb_interval := 60, cfg_anonymous_global := 0, cfg_maxmsgtime := 2,
       cfg_maxmsgnb := 5, cfg_ignoretime := 60, cfg_maxloginatt := 3, cfg_chlev_sadmin := 20, cfg_chlev_admin := 10,
       cfg_chlev_op := 5, cfg_chlev_halfop := 4, cfg_chlev_voice := 3, cfg_chlev_invite := 1,
       cfg_chlev_nostatus := -1, cfg_chlev_akick := -2, cfg_chlev_akb := -3, cfg_emailreg := 0\<rparr>"

text \<open>What the first steps of \<open>main\<close> find: the database, its rows, the connection and the clock.\<close>

record start =
  st_rnd :: "nat \<Rightarrow> nat"
  st_time :: int
  st_mysql :: bool
  st_alive :: bool
  st_tables :: tables
  st_sockets :: sockets

definition unless_over :: "(loop \<Rightarrow> loop option) \<Rightarrow> loop \<Rightarrow> loop option" where
  "unless_over f l = (if ended (srv l) = None then f l else Some l)"

definition load_start :: "outside \<Rightarrow> start \<Rightarrow> loop \<Rightarrow> loop option" where
  "load_start X a l =
     (if \<not> st_mysql a then Some (l\<lparr>srv := child_clean (srv l)\<rparr>)
      else do { (e, w) \<leftarrow> load_all_db (hooks_env X) (st_alive a) (st_tables a) (srv l);
                Some (l\<lparr>srv := if e < 0 then child_clean w else w\<rparr>) })"

definition connect_start :: "start \<Rightarrow> loop \<Rightarrow> loop option" where
  "connect_start a l =
     do { (e, l) \<leftarrow> connect_now (st_sockets a) l; Some (if e < 0 then l\<lparr>srv := child_clean (srv l)\<rparr> else l) }"

definition start_timers :: "int \<Rightarrow> loop \<Rightarrow> loop" where
  "start_timers now l =
     l\<lparr>next_expire := now + seconds 60, next_save := now + seconds (60 * cfg_savedb_interval (cfg (svc (srv l))))\<rparr>"

text \<open>The variables of the protection module, which are static.\<close>

definition cleared_sec :: secserv where
  "cleared_sec = \<lparr>kills = 0, seclev = 0, perm = 0, old_maxclones = 0, glines = 0, rmode = False\<rparr>"

definition main_start :: "outside \<Rightarrow> start \<Rightarrow> loop option" where
  "main_start X a =
     (let s = (init_core (st_rnd a))\<lparr>startuptime := st_time a div 1000000, clock := st_time a div 1000000\<rparr>;
          w = \<lparr>svc = s\<lparr>cfg := default_settings (cfg s), remote_server := [], remote_sid := []\<rparr>, commands = [],
               modules = [], secv = cleared_sec, queries = [], ended = None\<rparr>;
          l = \<lparr>srv = w, inbuf = [], fd = -1, next_connect = 0, next_expire = 0, next_save = 0, retries = 0\<rparr> in
      do { l \<leftarrow> on_srv (loadconf (program_linker X) False (o_file X)) l;
           l \<leftarrow> unless_over (load_start X a) l;
           l \<leftarrow> unless_over (connect_start a) l;
           unless_over (\<lambda>l. Some (start_timers (st_time a) l)) l })"

text \<open>\<open>main\<close>, with the answers of the turns of the loop; what stands behind the loop is never reached.\<close>

definition child_main :: "outside \<Rightarrow> start \<Rightarrow> turn list \<Rightarrow> loop option" where
  "child_main X a is = Option.bind (main_start X a) (child_run_loop X is)"

end
