(* ===== verification/ConfLaws.thy ===== *)
theory ConfLaws
  imports Loadconf Sql
begin

section \<open>What a configuration file sets\<close>

text \<open>
  A file that holds one line for every setting is read back as the settings it was printed from: no
  line is taken for another, not even when one key is the beginning of the other.
\<close>

subsection \<open>Printing\<close>

fun key_of :: "setting \<Rightarrow> string" where
  "key_of (Quoted key n rd wr) = key"
| "key_of (Bare key n rd wr) = key"
| "key_of (Number key rd wr) = key"
| "key_of (Numbers key rd1 wr1 rd2 wr2) = key"
| "key_of LoadMod = ''LoadMod''"
| "key_of SetCmdLev = ''SetCmdLev''"

fun value_text :: "config \<Rightarrow> setting \<Rightarrow> string" where
  "value_text k (Quoted key n rd wr) = CHR 0x22 # rd k @ [CHR 0x22]"
| "value_text k (Bare key n rd wr) = rd k"
| "value_text k (Number key rd wr) = dec (rd k)"
| "value_text k (Numbers key rd1 wr1 rd2 wr2) = dec (rd1 k) @ '' '' @ dec (rd2 k)"
| "value_text k _ = []"

fun is_value :: "setting \<Rightarrow> bool" where
  "is_value LoadMod = False"
| "is_value SetCmdLev = False"
| "is_value _ = True"

definition line_text :: "config \<Rightarrow> setting \<Rightarrow> string" where
  "line_text k x = key_of x @ '' '' @ value_text k x @ [CHR 0x0A]"

definition config_text :: "config \<Rightarrow> string" where
  "config_text k = concat (map (line_text k) (filter is_value settings))"

text \<open>What a file can hold of a value.\<close>

fun printable :: "config \<Rightarrow> setting \<Rightarrow> bool" where
  "printable k (Quoted key n rd wr) =
     (rd k \<noteq> [] \<and> length (rd k) < n \<and> list_all (\<lambda>c. c \<noteq> CHR 0x22 \<and> c \<noteq> CHR 0x0A \<and> c \<noteq> CHR 0x00) (rd k))"
| "printable k (Bare key n rd wr) =
     (rd k \<noteq> [] \<and> length (rd k) < n \<and> list_all (\<lambda>c. \<not> isspace c \<and> c \<noteq> CHR 0x00) (rd k))"
| "printable k (Number key rd wr) = int32 (rd k)"
| "printable k (Numbers key rd1 wr1 rd2 wr2) = (int32 (rd1 k) \<and> int32 (rd2 k))"
| "printable k _ = True"

fun copied :: "config \<Rightarrow> setting \<Rightarrow> config \<Rightarrow> config" where
  "copied k (Quoted key n rd wr) = wr (rd k)"
| "copied k (Bare key n rd wr) = wr (rd k)"
| "copied k (Number key rd wr) = wr (rd k)"
| "copied k (Numbers key rd1 wr1 rd2 wr2) = wr2 (rd2 k) \<circ> wr1 (rd1 k)"
| "copied k _ = id"

subsection \<open>Lines that a setting refuses\<close>

fun clash :: "string \<Rightarrow> string \<Rightarrow> bool" where
  "clash (a # as) (b # bs) = (a \<noteq> b \<or> clash as bs)"
| "clash _ _ = False"

fun refuses :: "setting \<Rightarrow> string \<Rightarrow> bool" where
  "refuses (Number key rd wr) k2 =
     (clash key k2 \<or> take (length key) k2 = key \<and>
      (case drop (length key) k2 of [] \<Rightarrow> False
       | c # cs \<Rightarrow> \<not> isspace c \<and> c \<noteq> CHR ''-'' \<and> c \<noteq> CHR ''+'' \<and> c \<noteq> CHR ''0'' \<and> \<not> digit_of c < 10))"
| "refuses x k2 = clash (key_of x) k2"

lemma scan_text_append: "scan_text (f @ g) s = then_scan (scan_text f s) (\<lambda>_. scan_text g)"
  by (induction f s rule: scan_text.induct) (auto split: list.splits)

lemma scan_text_clash: "clash key k2 \<Longrightarrow> list_all (\<lambda>c. \<not> isspace c) key \<Longrightarrow> scan_text key (k2 @ r) = Mismatch"
  by (induction key k2 rule: clash.induct) auto

lemma scan_text_key: "list_all (\<lambda>c. \<not> isspace c) key \<Longrightarrow> scan_text key (key @ r) = Value () r"
  by (induction key) auto

lemma scan_unsigned_no_digit: "c \<noteq> CHR ''0'' \<Longrightarrow> \<not> digit_of c < 10 \<Longrightarrow> scan_unsigned (c # r) = Mismatch"
  by (cases r) (simp_all add: scan_unsigned_def scan_digits_def)

lemma scan_text_clash_more:
  "clash key k2 \<Longrightarrow> list_all (\<lambda>c. \<not> isspace c) key \<Longrightarrow> then_scan (scan_text (key @ f) (k2 @ r)) g = Mismatch"
  by (simp add: scan_text_append scan_text_clash)

lemma refused:
  assumes "refuses x k2" "list_all (\<lambda>c. \<not> isspace c) (key_of x)"
  shows "try_setting D again (k2 @ r) x w = Some (False, w)"
proof -
  show ?thesis
  proof (cases x)
    case (Number key rd wr)
    show ?thesis
    proof (cases "clash key k2")
      case True
      then show ?thesis using Number assms(2) by (simp add: took_def scan_text_clash_more)
    next
      case False
      then obtain c cs where c: "take (length key) k2 = key" "drop (length key) k2 = c # cs" "\<not> isspace c" "c \<noteq> CHR ''-''"
        "c \<noteq> CHR ''+''" "c \<noteq> CHR ''0''" "\<not> digit_of c < 10"
        using assms(1) Number by (auto split: list.splits)
      have k2: "k2 = key @ c # cs" using append_take_drop_id [of "length key" k2] c(1,2) by simp
      have "scan_text (key @ '' '') (k2 @ r) = Value () (c # cs @ r)"
        using assms(2) Number c(3) by (simp add: scan_text_append k2 scan_text_key isspace_def)
      moreover have "scan_int (c # cs @ r) = Mismatch"
        using c by (simp add: scan_int_def scan_unsigned_no_digit)
      ultimately show ?thesis using Number by (simp add: took_def)
    qed
  next
    case LoadMod
    then have "then_scan (scan_text (quoted_format ''LoadMod'') (k2 @ r)) (\<lambda>_. scan_quoted) = Mismatch"
      using assms unfolding quoted_format_def LoadMod refuses.simps key_of.simps by (intro scan_text_clash_more)
    then show ?thesis unfolding LoadMod try_setting.simps by (simp add: took_def)
  next
    case SetCmdLev
    then have "then_scan (scan_text (quoted_format ''SetCmdLev'') (k2 @ r)) (\<lambda>_. scan_quoted) = Mismatch"
      using assms unfolding quoted_format_def SetCmdLev refuses.simps key_of.simps by (intro scan_text_clash_more)
    then show ?thesis unfolding SetCmdLev try_setting.simps by (simp add: took_def)
  qed (use assms in \<open>simp_all add: took_def quoted_format_def scan_text_clash_more\<close>)
qed

subsection \<open>Lines that a setting takes\<close>

lemma isspace_format [simp]: "isspace (CHR '' '')" "isspace (CHR 0x0A)" "\<not> isspace (CHR 0x22)" "\<not> isspace (CHR ''-'')"
  by (simp_all add: isspace_def)

lemma digit_of_digit: "isdigit c \<Longrightarrow> digit_of c = of_char c - 48"
  by (simp add: isdigit_def digit_of_def Let_def of_nat_of_char)

lemma digit_of_small: "digit_of c < 10 \<longleftrightarrow> isdigit c"
  by (auto simp: isdigit_def digit_of_def Let_def)

lemma scan_digits_dec:
  assumes "\<not> isdigit c"
  shows "scan_digits 10 (dec_nat n @ c # r) = Value (int n) (c # r)"
proof -
  have tw: "takeWhile (\<lambda>c. digit_of c < 10) (dec_nat n @ c # r) = dec_nat n"
    "dropWhile (\<lambda>c. digit_of c < 10) (dec_nat n @ c # r) = c # r"
    using assms dec_nat_digits [of n] by (simp_all add: digit_of_small takeWhile_append dropWhile_append)
  have "foldl (\<lambda>v d. 10 * v + digit_of d) a ds = foldl (\<lambda>v d. 10 * v + (of_char d - 48)) a ds"
    if "\<forall>d \<in> set ds. isdigit d" for a ds
    using that by (induction ds arbitrary: a) (simp_all add: digit_of_digit)
  then have "foldl (\<lambda>v d. 10 * v + digit_of d) 0 (dec_nat n) = int n"
    using dec_nat_digits [of n] digits_value_dec [of n] by (simp add: digits_value_def takeWhile_eq_all_conv [THEN iffD2])
  then show ?thesis using tw by (simp add: scan_digits_def)
qed

lemma dec_nat_zero: "dec_nat 0 = ''0''"
  by (simp add: dec_nat.simps char_of_eq_iff)

lemma char_dec_zero: "n < 10 \<Longrightarrow> 0 < n \<Longrightarrow> char_of (48 + n) \<noteq> CHR ''0''" for n :: nat
proof
  assume "n < 10" "0 < n" "char_of (48 + n) = CHR ''0''"
  then have "(of_char (char_of (48 + n) :: char) :: nat) = of_char CHR ''0''" by simp
  then show False using \<open>n < 10\<close> \<open>0 < n\<close> by simp
qed

lemma dec_nat_hd_pos: "0 < n \<Longrightarrow> hd (dec_nat n) \<noteq> CHR ''0''"
proof (induction n rule: dec_nat.induct)
  case (1 n)
  show ?case
  proof (cases "n < 10")
    case True
    then show ?thesis using 1(2) char_dec_zero [of n] by (subst dec_nat.simps) simp
  next
    case False
    then have "hd (dec_nat (n div 10)) \<noteq> CHR ''0''" using 1(1) by simp
    then show ?thesis using False by (subst dec_nat.simps) (simp add: hd_append)
  qed
qed

lemma scan_unsigned_dec:
  assumes "\<not> isdigit c" "c \<noteq> CHR ''x''" "c \<noteq> CHR ''X''"
  shows "scan_unsigned (dec_nat n @ c # r) = Value (int n) (c # r)"
proof (cases "n = 0")
  case True
  have "digit_of (CHR ''0'') = 0" "\<not> digit_of c < 8"
    using assms(1) digit_of_small [of c] by (auto simp: digit_of_def Let_def)
  then show ?thesis using True assms by (simp add: dec_nat_zero scan_unsigned_def scan_digits_def)
next
  case False
  obtain d ds where d: "dec_nat n = d # ds" using dec_nat_hd by blast
  then have z: "d \<noteq> CHR ''0''" using dec_nat_hd_pos [of n] False by simp
  have "scan_unsigned (d # ds @ c # r) = scan_digits 10 (d # ds @ c # r)"
    using z by (cases "ds @ c # r") (simp_all add: scan_unsigned_def)
  then show ?thesis using scan_digits_dec [OF assms(1), of n r] d by simp
qed

lemma scan_int_dec:
  assumes "isspace c"
  shows "scan_int (dec v @ c # r) = Value v (c # r)"
proof -
  have c: "\<not> isdigit c" "c \<noteq> CHR ''x''" "c \<noteq> CHR ''X''" using assms digit_plain [of c] by (auto simp: isspace_def)
  obtain d ds where d: "dec_nat (nat v) = d # ds" "isdigit d" using dec_nat_hd by blast
  then show ?thesis
    using scan_unsigned_dec [OF c, of "nat v" r] scan_unsigned_dec [OF c, of "nat (- v)" r] digit_plain [OF d(2)]
    by (simp add: scan_int_def dec_def)
qed

lemma scan_int_blank: "scan_int (CHR '' '' # r) = scan_int r"
  by (simp add: scan_int_def)

lemma scan_text_key_blank:
  "list_all (\<lambda>c. \<not> isspace c) key \<Longrightarrow> scan_text (key @ '' '') (key @ '' '' @ r) = Value () (dropWhile isspace r)"
  by (simp add: scan_text_append scan_text_key)

lemma accepted:
  assumes "printable k x" "is_value x" "list_all (\<lambda>c. \<not> isspace c) (key_of x)"
  shows "try_setting D again (line_text k x) x w = Some (True, on_cfg (copied k x) w)"
proof -
  have sc: "scan_int (dropWhile isspace r) = scan_int r" for r by (simp add: scan_int_def)
  show ?thesis
  proof (cases x)
    case (Quoted key n rd wr)
    obtain c cs where c: "rd k = c # cs" using assms(1) Quoted by (cases "rd k") auto
    have q: "scan_quoted (rd k @ [CHR 0x22, CHR 0x0A]) = Value (rd k) [CHR 0x22, CHR 0x0A]"
      using assms(1) Quoted c by (auto simp: scan_quoted_def list_all_iff takeWhile_append dropWhile_append)
    have "scan_text (quoted_format key) (line_text k x) = Value () (rd k @ [CHR 0x22, CHR 0x0A])"
      using assms(3) Quoted by (simp add: quoted_format_def line_text_def scan_text_append scan_text_key)
    then show ?thesis using q assms(1) Quoted by (simp add: took_def fit_string_def)
  next
    case (Bare key n rd wr)
    have sp: "dropWhile isspace (rd k @ [CHR 0x0A]) = rd k @ [CHR 0x0A]"
      using assms(1) Bare by (cases "rd k") auto
    have "scan_word (rd k @ [CHR 0x0A]) = Value (rd k) [CHR 0x0A]"
      using assms(1) Bare by (auto simp: scan_word_def sp list_all_iff takeWhile_append dropWhile_append)
    moreover have "scan_text (key @ '' '') (line_text k x) = Value () (rd k @ [CHR 0x0A])"
      using assms(3) Bare sp by (simp add: line_text_def scan_text_append scan_text_key)
    ultimately show ?thesis using assms(1) Bare by (simp add: took_def fit_string_def)
  next
    case (Number key rd wr)
    have "then_scan (scan_text (key @ '' '') (line_text k x)) (\<lambda>_. scan_int) = Value (rd k) [CHR 0x0A]"
      using assms(3) Number scan_int_dec [of "CHR 0x0A" "rd k" "[]"]
      by (simp add: line_text_def scan_text_append scan_text_key sc)
    then show ?thesis using assms(1) Number by (simp add: took_def fit_int_def)
  next
    case (Numbers key rd1 wr1 rd2 wr2)
    have "then_scan (scan_text (key @ '' '') (line_text k x)) (\<lambda>_. scan_int) = Value (rd1 k) ('' '' @ dec (rd2 k) @ [CHR 0x0A])"
      using assms(3) Numbers scan_int_dec [of "CHR '' ''" "rd1 k" "dec (rd2 k) @ [CHR 0x0A]"]
      by (simp add: line_text_def scan_text_append scan_text_key sc)
    moreover have "scan_int ('' '' @ dec (rd2 k) @ [CHR 0x0A]) = Value (rd2 k) [CHR 0x0A]"
      using scan_int_dec [of "CHR 0x0A" "rd2 k" "[]"] by (simp add: scan_int_blank)
    ultimately show ?thesis using assms(1) Numbers by (simp add: took_def fit_int_def on_cfg_def)
  qed (use assms(2) in simp_all)
qed

subsection \<open>The table\<close>

fun orderly :: "setting list \<Rightarrow> bool" where
  "orderly [] = True"
| "orderly (x # xs) = (list_all (\<lambda>y. refuses x (key_of y)) xs \<and> list_all (\<lambda>c. \<not> isspace c) (key_of x) \<and> orderly xs)"

lemma settings_orderly: "orderly settings"
  by code_simp

lemma orderly_append: "orderly (xs @ x # ys) \<Longrightarrow>
  list_all (\<lambda>c. \<not> isspace c) (key_of x) \<and>
  (\<forall>y \<in> set xs. refuses y (key_of x) \<and> list_all (\<lambda>c. \<not> isspace c) (key_of y))"
  by (induction xs) auto

lemma try_settings_refused:
  assumes "\<And>y. y \<in> set xs \<Longrightarrow> try_setting D again line y w = Some (False, w)"
  shows "try_settings D again line (xs @ ys) w = try_settings D again line ys w"
  using assms by (induction xs) auto

lemma line_set:
  assumes "x \<in> set settings" "is_value x" "printable k x"
  shows "try_settings D again (line_text k x) settings w = Some (on_cfg (copied k x) w)"
proof -
  obtain xs ys where t: "settings = xs @ x # ys" using split_list [OF assms(1)] by blast
  have o: "list_all (\<lambda>c. \<not> isspace c) (key_of x)"
    "\<And>y. y \<in> set xs \<Longrightarrow> refuses y (key_of x) \<and> list_all (\<lambda>c. \<not> isspace c) (key_of y)"
    using orderly_append settings_orderly unfolding t by blast+
  have "try_setting D again (line_text k x) y w = Some (False, w)" if "y \<in> set xs" for y
    using refused [of y "key_of x"] o(2) [OF that] by (simp add: line_text_def)
  then have "try_settings D again (line_text k x) settings w = try_settings D again (line_text k x) (x # ys) w"
    unfolding t by (rule try_settings_refused)
  then show ?thesis using accepted [OF assms(3,2) o(1)] by simp
qed

subsection \<open>The file\<close>

lemma fgets_line:
  assumes "CHR 0x0A \<notin> set l" "length l < n - 1"
  shows "fgets n (l @ CHR 0x0A # r) = (l @ [CHR 0x0A], r)"
proof -
  have "takeWhile (\<lambda>c. c \<noteq> CHR 0x0A) (l @ CHR 0x0A # r) = l" using assms(1) by (induction l) auto
  then show ?thesis using assms(2) by (simp add: fgets_def Let_def)
qed

lemma file_lines_line:
  assumes "CHR 0x0A \<notin> set l" "length l < 1022"
  shows "file_lines (l @ CHR 0x0A # r) = (l @ [CHR 0x0A]) # file_lines r"
  using assms by (subst file_lines.simps) (simp add: fgets_line)

definition plain :: "string \<Rightarrow> bool" where
  "plain s \<longleftrightarrow> list_all (\<lambda>c. c \<noteq> CHR 0x0A \<and> c \<noteq> CHR 0x00) s"

lemma plain_simps [simp]: "plain []" "plain (c # s) \<longleftrightarrow> c \<noteq> CHR 0x0A \<and> c \<noteq> CHR 0x00 \<and> plain s" "plain (s @ t) \<longleftrightarrow> plain s \<and> plain t"
  by (auto simp: plain_def)

lemma plain_dec: "plain (dec v)"
proof -
  have "plain (dec_nat n)" for n
    using dec_nat_digits [of n] by (auto simp: plain_def list_all_iff isdigit_def)
  then show ?thesis by (simp add: dec_def)
qed

fun room :: "setting \<Rightarrow> nat" where
  "room (Quoted key n rd wr) = n + 2"
| "room (Bare key n rd wr) = n"
| "room (Number key rd wr) = 11"
| "room (Numbers key rd1 wr1 rd2 wr2) = 23"
| "room _ = 0"

lemma value_text_fits:
  assumes "printable k x"
  shows "plain (value_text k x)" "length (value_text k x) \<le> room x"
proof -
  have bl: "\<not> isspace c \<Longrightarrow> c \<noteq> CHR 0x0A" for c using isspace_format by blast
  show "plain (value_text k x)"
  proof (cases x)
    case (Quoted key n rd wr)
    then show ?thesis using assms by (auto simp: plain_def list_all_iff)
  next
    case (Bare key n rd wr)
    then show ?thesis using assms by (auto simp: plain_def list_all_iff dest: bl)
  qed (simp_all add: plain_dec)
  show "length (value_text k x) \<le> room x"
  proof (cases x)
    case (Numbers key rd1 wr1 rd2 wr2)
    then show ?thesis using assms length_dec [of "rd1 k"] length_dec [of "rd2 k"] by simp
  qed (use assms in \<open>auto intro: length_dec\<close>)
qed

lemma settings_short: "list_all (\<lambda>x. plain (key_of x) \<and> length (key_of x) + room x < 1000) settings"
  by (simp add: settings_def HOSTLEN_def SIDLEN_def)

lemma file_lines_config:
  assumes "set xs \<subseteq> set settings" "\<And>x. x \<in> set xs \<Longrightarrow> printable k x"
  shows "file_lines (concat (map (line_text k) xs)) = map (line_text k) xs"
  using assms
proof (induction xs)
  case Nil
  then show ?case by (simp add: file_lines.simps)
next
  case (Cons x xs)
  let ?l = "key_of x @ '' '' @ value_text k x"
  have "plain (key_of x)" "length (key_of x) + room x < 1000"
    using settings_short Cons.prems(1) by (auto simp: list_all_iff)
  then have l: "plain ?l" "length ?l < 1022" using value_text_fits [of k x] Cons.prems(2) by auto
  have "CHR 0x0A \<notin> set ?l" using l(1) by (auto simp: plain_def list_all_iff)
  then have "file_lines (?l @ CHR 0x0A # concat (map (line_text k) xs)) = (?l @ [CHR 0x0A]) # map (line_text k) xs"
    using file_lines_line [OF _ l(2)] Cons by simp
  moreover have "line_text k x = ?l @ [CHR 0x0A]" by (simp add: line_text_def)
  ultimately show ?case by simp
qed

lemma on_cfg_fold: "fold (\<lambda>x. on_cfg (copied k x)) xs w = on_cfg (fold (copied k) xs) w"
  by (induction xs arbitrary: w) (simp_all add: on_cfg_def)

lemma copied_all: "fold (copied k) (filter is_value settings) j = k"
  by (cases j, cases k) (simp add: settings_def)

lemma loadconf_config:
  assumes "\<And>x. x \<in> set settings \<Longrightarrow> printable k x"
  shows "loadconf D again (Some (config_text k)) w = Some (on_cfg (\<lambda>_. k) w)"
proof -
  let ?xs = "filter is_value settings"
  have cut: "takeWhile (\<lambda>c. c \<noteq> CHR 0x00) (line_text k x) = line_text k x" if "x \<in> set ?xs" for x
  proof -
    have "plain (key_of x)" "plain (value_text k x)"
      using that settings_short value_text_fits assms by (auto simp: list_all_iff)
    then have "\<forall>c \<in> set (line_text k x). c \<noteq> CHR 0x00" by (auto simp: line_text_def plain_def list_all_iff)
    then show ?thesis by (simp add: takeWhile_eq_all_conv)
  qed
  have run: "foldM (\<lambda>l. try_settings D again (takeWhile (\<lambda>c. c \<noteq> CHR 0x00) l) settings) (map (line_text k) xs) v =
      Some (fold (\<lambda>x. on_cfg (copied k x)) xs v)" if "set xs \<subseteq> set ?xs" for xs v
    using that by (induction xs arbitrary: v) (auto simp: cut line_set assms)
  have "file_lines (config_text k) = map (line_text k) ?xs"
    unfolding config_text_def by (rule file_lines_config) (use assms in auto)
  then have "loadconf D again (Some (config_text k)) w = Some (fold (\<lambda>x. on_cfg (copied k x)) ?xs w)"
    using run [of ?xs w] by (simp add: loadconf_def)
  then show ?thesis unfolding on_cfg_fold by (simp add: copied_all on_cfg_def)
qed

text \<open>The key that the documentation gives for the level of voices is not in the table.\<close>

lemma ChanLevVoice_refused: "list_all (\<lambda>x. refuses x ''ChanLevVoice'' \<and> list_all (\<lambda>c. \<not> isspace c) (key_of x)) settings"
  by code_simp

lemma ChanLevVoice_ignored: "try_settings D again (''ChanLevVoice'' @ r) settings w = Some w"
proof -
  have "try_setting D again (''ChanLevVoice'' @ r) x w = Some (False, w)" if "x \<in> set settings" for x
    by (rule refused) (use ChanLevVoice_refused that in \<open>auto simp only: list_all_iff\<close>)
  then have "try_settings D again (''ChanLevVoice'' @ r) (settings @ []) w = try_settings D again (''ChanLevVoice'' @ r) [] w"
    by (rule try_settings_refused)
  then show ?thesis by (simp only: append_Nil2 try_settings.simps)
qed

end
