(* ===== verification/LoopLaws.thy ===== *)
theory LoopLaws
  imports MainLoop ConfLaws Scenes
begin

section \<open>What the main loop guarantees\<close>

text \<open>
  A connection that cannot be made is tried again a bounded number of times, with a delay; one that has no socket
  is taken for a connection and never tried again.
\<close>

subsection \<open>Attempts that fail\<close>

definition unreachable :: "config \<Rightarrow> turn \<Rightarrow> bool" where
  "unreachable k i \<longleftrightarrow> (\<exists>d. net_connect_fd k (t_sockets i) d = Some (-1, d))"

fun spaced :: "int \<Rightarrow> turn list \<Rightarrow> bool" where
  "spaced nc [] = True"
| "spaced nc (i # is) = (due nc (t_now i) \<and> spaced (t_retry i + seconds RECONNECT_DELAY) is)"

lemma net_connect_fd_fails: "unreachable k i \<Longrightarrow> net_connect_fd k (t_sockets i) d = Some (-1, d)"
  by (auto simp: unreachable_def net_connect_fd_def split: if_splits)

lemma at_time_sel [simp]:
  "next_connect (at_time now l) = next_connect l" "next_expire (at_time now l) = next_expire l"
  "next_save (at_time now l) = next_save l" "retries (at_time now l) = retries l" "fd (at_time now l) = fd l"
  "inbuf (at_time now l) = inbuf l" "ended (srv (at_time now l)) = ended (srv l)"
  "svc (srv (at_time now l)) = (svc (srv l))\<lparr>clock := now div 1000000\<rparr>"
  by (simp_all add: at_time_def tick_def)

lemma failing_turn:
  assumes "unreachable (cfg (svc (srv l))) i" "due (next_connect l) (t_now i)"
  shows "child_run_loop_once X i l =
    (let l' = (at_time (t_now i) l)\<lparr>retries := retries l + 1\<rparr> in
     if retries l + 1 > MAX_RECO_ATTEMPTS then map_option (\<lambda>w. l'\<lparr>srv := w\<rparr>) (give_up X (srv l'))
     else Some (l'\<lparr>next_connect := t_retry i + seconds RECONNECT_DELAY\<rparr>))"
proof -
  have "connect_now (t_sockets i) (at_time (t_now i) l) = Some (-1, at_time (t_now i) l)"
    using net_connect_fd_fails [OF assms(1), of "fd l"] by (simp add: connect_now_def net_connect_def)
  then show ?thesis
    using assms(2) by (cases "give_up X (srv (at_time (t_now i) l))")
      (simp_all add: child_run_loop_once_def attempt_def Let_def)
qed

lemma failing_turns:
  assumes "\<forall>i \<in> set is. unreachable (cfg (svc (srv l))) i" "spaced (next_connect l) is" "ended (srv l) = None"
    "retries l + int (length is) \<le> MAX_RECO_ATTEMPTS"
  shows "\<exists>c. child_run_loop X is l = Some (l\<lparr>srv := (srv l)\<lparr>svc := (svc (srv l))\<lparr>clock := c\<rparr>\<rparr>,
      retries := retries l + int (length is),
      next_connect := (if is = [] then next_connect l else t_retry (last is) + seconds RECONNECT_DELAY)\<rparr>)"
  using assms
proof (induction "is" arbitrary: l)
  case Nil
  then show ?case by (intro exI [of _ "clock (svc (srv l))"]) simp
next
  case (Cons i "is")
  let ?l = "(at_time (t_now i) l)\<lparr>retries := retries l + 1, next_connect := t_retry i + seconds RECONNECT_DELAY\<rparr>"
  have once: "child_run_loop_once X i l = Some ?l"
    using failing_turn [of l i X] Cons.prems by (simp add: Let_def)
  obtain c where "child_run_loop X is ?l = Some (?l\<lparr>srv := (srv ?l)\<lparr>svc := (svc (srv ?l))\<lparr>clock := c\<rparr>\<rparr>,
      retries := retries ?l + int (length is),
      next_connect := (if is = [] then next_connect ?l else t_retry (last is) + seconds RECONNECT_DELAY)\<rparr>)"
    using Cons.IH [of ?l] Cons.prems by auto
  then show ?case using once Cons.prems(3) by (auto simp: at_time_def tick_def algebra_simps)
qed

lemma child_run_loop_append:
  "child_run_loop X (is @ js) l = Option.bind (child_run_loop X is l) (child_run_loop X js)"
proof (induction "is" arbitrary: l)
  case (Cons i "is")
  have "ended (srv m) \<noteq> None \<Longrightarrow> child_run_loop X js m = Some m" for m by (cases js) simp_all
  then show ?case by (cases "child_run_loop_once X i l") (simp_all add: Cons.IH)
qed simp

lemma give_up_exits: "give_up X w = Some t \<Longrightarrow> ended t = Some (Exited 0)"
  by (auto simp: give_up_def child_clean_def split: bind_splits)

lemma reconnect_bound:
  assumes "ended (srv l) = None" "retries l = 0" "length is = 10" "spaced (next_connect l) (is @ [j])"
    "\<forall>i \<in> set (is @ [j]). unreachable (cfg (svc (srv l))) i"
  shows "\<exists>c l'. child_run_loop X is l = Some l' \<and> ended (srv l') = None \<and> retries l' = 10 \<and>
    srv l' = (srv l)\<lparr>svc := (svc (srv l))\<lparr>clock := c\<rparr>\<rparr> \<and>
    child_run_loop X (is @ [j]) l = map_option (\<lambda>w. (at_time (t_now j) l')\<lparr>retries := 11, srv := w\<rparr>)
      (give_up X (tick (t_now j div 1000000) (srv l))) \<and>
    (\<forall>w. give_up X (tick (t_now j div 1000000) (srv l)) = Some w \<longrightarrow> ended w = Some (Exited 0))"
proof -
  have sp: "spaced nc (xs @ [j]) \<longleftrightarrow>
      spaced nc xs \<and> due (if xs = [] then nc else t_retry (last xs) + seconds RECONNECT_DELAY) (t_now j)" for nc xs
    by (induction xs arbitrary: nc) auto
  have ne: "is \<noteq> []" using assms(3) by auto
  obtain c where r: "child_run_loop X is l = Some (l\<lparr>srv := (srv l)\<lparr>svc := (svc (srv l))\<lparr>clock := c\<rparr>\<rparr>,
      retries := retries l + int (length is), next_connect := t_retry (last is) + seconds RECONNECT_DELAY\<rparr>)"
    (is "_ = Some ?m")
    using failing_turns [of "is" l X] assms sp ne by (auto simp: MAX_RECO_ATTEMPTS_def)
  have last: "child_run_loop X [j] ?m =
      map_option (\<lambda>w. (at_time (t_now j) ?m)\<lparr>retries := 11, srv := w\<rparr>) (give_up X (srv (at_time (t_now j) ?m)))"
    using failing_turn [of ?m j X] assms sp ne
    by (cases "give_up X (srv (at_time (t_now j) ?m))") (simp_all add: MAX_RECO_ATTEMPTS_def Let_def)
  have "srv (at_time (t_now j) ?m) = tick (t_now j div 1000000) (srv l)" by (simp add: at_time_def tick_def)
  then have "child_run_loop X (is @ [j]) l =
      map_option (\<lambda>w. (at_time (t_now j) ?m)\<lparr>retries := 11, srv := w\<rparr>) (give_up X (tick (t_now j div 1000000) (srv l)))"
    using last by (simp only: child_run_loop_append r bind.simps)
  then show ?thesis using r assms give_up_exits by (intro exI [of _ c] exI [of _ ?m]) auto
qed

subsection \<open>A socket that could not be made\<close>

definition deaf :: "loop \<Rightarrow> bool" where
  "deaf l \<longleftrightarrow> next_connect l = 0 \<and> fd l < 0 \<and> inbuf l = [] \<and> retries l = 0"

lemma deaf_turn:
  assumes "deaf l" "child_run_loop_once X i l = Some l'"
  shows "deaf l'"
proof -
  have go: "attempt X i (at_time (t_now i) l) = Some (True, at_time (t_now i) l)"
    "net_poll i (at_time (t_now i) l) = (0, at_time (t_now i) l)" "read_lines (inbuf (at_time (t_now i) l)) = ([], [])"
    using assms(1) by (simp_all add: deaf_def attempt_def due_def net_poll_def read_lines.simps [of "[]"] read_line_def)
  then obtain m where m: "input_turn X (at_time (t_now i) l) = Some m"
    "(if ended (srv m) \<noteq> None then Some m else timers_turn X i m) = Some l'"
    using assms(2) by (auto simp: child_run_loop_once_def split: bind_splits)
  have "deaf m" using m(1) go(3) assms(1) by (auto simp: input_turn_def deaf_def)
  then show ?thesis
    using m(2) by (auto simp: timers_turn_def deaf_def Let_def split: if_splits bind_splits)
qed

lemma deaf_forever: "deaf l \<Longrightarrow> child_run_loop X is l = Some l' \<Longrightarrow> deaf l'"
proof (induction "is" arbitrary: l)
  case (Cons i "is")
  then show ?case using deaf_turn [of l X i] by (auto split: if_splits bind_splits)
qed simp

lemma no_socket_deaf:
  assumes "fd l < 0" "inbuf l = []" "due (next_connect l) (t_now i)"
    "sk_lookup (t_sockets i) = 0" "sk_socket (t_sockets i) < 0" "child_run_loop_once X i l = Some l'"
  shows "deaf l'"
proof -
  obtain g m where a: "attempt X i (at_time (t_now i) l) = Some (g, m)"
    using assms(6) by (auto simp: child_run_loop_once_def split: bind_splits)
  then have m: "g" "deaf m"
    using assms(1-5) by (auto simp: attempt_def connect_now_def net_connect_fd_def net_connect_def deaf_def Let_def
      split: if_splits bind_splits)
  have go: "net_poll i m = (0, m)" "read_lines (inbuf m) = ([], [])"
    using m by (simp_all add: deaf_def net_poll_def read_lines.simps [of "[]"] read_line_def)
  obtain n where n: "input_turn X m = Some n" "(if ended (srv n) \<noteq> None then Some n else timers_turn X i n) = Some l'"
    using assms(6) a m(1) go by (auto simp: child_run_loop_once_def split: bind_splits)
  have "deaf n" using n(1) go(2) m(2) by (auto simp: input_turn_def deaf_def)
  then show ?thesis
    using n(2) by (auto simp: timers_turn_def deaf_def Let_def split: if_splits bind_splits)
qed

subsection \<open>The pause\<close>

text \<open>The loop sleeps ten milliseconds and as long again as the turn took.\<close>

lemma loop_pause_long:
  assumes "began \<le> finished"
  shows "10000 + (finished - began) \<le> loop_pause began finished"
proof -
  define r where "r = began - finished"
  have "r div 1000000 = r div 1000 div 1000" by (simp add: zdiv_zmult2_eq [of 1000 r 1000, simplified])
  moreover have "r mod 1000000 div 1000 = r div 1000 mod 1000"
    using zmod_zmult2_eq [of 1000 r 1000] by simp
  ultimately have ms: "r div 1000000 * 1000 + r mod 1000000 div 1000 = r div 1000" by simp
  have "1000 * (r div 1000) \<le> r" by simp
  moreover have "r div 1000 \<le> 0" using assms r_def by (simp add: div_int_pos_iff zdiv_mono1 [of r 0 1000, simplified])
  ultimately show ?thesis using ms unfolding loop_pause_def Let_def r_def [symmetric] by (simp add: r_def)
qed

subsection \<open>An example\<close>

definition ex_outside :: outside where
  "ex_outside =
     \<lparr>o_lib = ex_lib, o_mem = (0, 0), o_alive = (\<lambda>_. False), o_opens = (\<lambda>_. False), o_file = None, o_sent = 0, o_cwd = True,
      o_started = True, o_version = ''1''\<rparr>"

text \<open>A turn at a time in seconds in which the server refuses the connection, one that gets no socket, and a lost connection.\<close>

definition refused_at :: "int \<Rightarrow> turn" where
  "refused_at n =
     \<lparr>t_now = seconds n, t_sockets = \<lparr>sk_lookup = 0, sk_socket = 5, sk_local = 0, sk_bind = 0, sk_timeout = False,
      sk_connect = -1\<rparr>, t_retry = seconds n, t_poll = 0, t_pollout = False, t_pollin = False, t_send = 0, t_read = [],
      t_lost = 0, t_after = seconds n, t_expired = 0, t_saved = 0\<rparr>"

definition no_socket_at :: "int \<Rightarrow> turn" where
  "no_socket_at n = (refused_at n)\<lparr>t_sockets := (t_sockets (refused_at n))\<lparr>sk_socket := -1\<rparr>\<rparr>"

definition lost_loop :: loop where
  "lost_loop =
     \<lparr>srv = ex_world\<lparr>svc := init_state\<rparr>, inbuf = [], fd = -1, next_connect = 1, next_expire = 0, next_save = 0, retries = 0\<rparr>"

lemma refused_unreachable: "unreachable (cfg (svc (srv lost_loop))) (refused_at n)"
  by (simp add: unreachable_def net_connect_fd_def refused_at_def lost_loop_def ex_world_def init_state_def
      default_config_def dec_def dec_nat.simps)

text \<open>Connecting when nobody is known.\<close>

definition alone :: "core \<Rightarrow> bool" where
  "alone s \<longleftrightarrow> nicks s = [] \<and> fakeusers s = [] \<and> guests s = [] \<and> limits s = [] \<and> timebans s = []"

lemma alone_send_raw [simp]: "alone (send_raw m s) = alone s"
  by (simp add: alone_def send_raw_def Let_def)

lemma alone_handshake:
  assumes a: "alone s" and k: "length (cfg_nick (cfg s)) \<le> NICKLEN" "length (cfg_ident (cfg s)) \<le> NICKLEN" "length (cfg_host (cfg s)) \<le> HOSTLEN"
  shows "\<exists>t. send_handshake s = Some t \<and> guests t = [] \<and> limits t = [] \<and> timebans t = []"
proof -
  have g: "generate_uid v = Some (uid_draw v)" if "alone v" for v
  proof -
    have "find_nick x (snd (uid_draw v)) = Some None" for x
      using that by (simp add: find_nick_def uid_draw_def alone_def Let_def split: option.splits)
    then show ?thesis by (subst generate_uid.simps) simp
  qed
  have f: "\<exists>r t. AddFake n i h (Some u) v = Some (r, t) \<and> guests t = [] \<and> limits t = [] \<and> timebans t = []"
    if "alone v" "length n \<le> NICKLEN" "length i \<le> NICKLEN" "length h \<le> HOSTLEN" "length u \<le> UIDLEN" for n i h u v
    using that by (simp add: AddFake_def find_fake_def strncpy_full_def alone_def fresh_def Let_def)
  have d: "alone (snd (uid_draw v)\<lparr>my_uid := x\<rparr>) = alone v" "cfg (snd (uid_draw v)\<lparr>my_uid := x\<rparr>) = cfg v"
    "length (fst (uid_draw v)) \<le> UIDLEN" for v x
    by (simp_all add: uid_draw_def alone_def Let_def)
  have r: "guests (send_raw m v) = guests v" "limits (send_raw m v) = limits v" "timebans (send_raw m v) = timebans v"
    "cfg (send_raw m v) = cfg v" for m v by (simp_all add: send_raw_def Let_def)
  define c where "c = cfg s"
  define v where "v = fold send_raw [''PASS :'' @ cfg_linkpass c, ''PROTOCTL EAUTH='' @ cfg_name c @ '' SID='' @ cfg_sid c,
    ''PROTOCTL NOQUIT NICKv2 SJOIN SJ3 CLK TKLEXT TKLEXT2 NICKIP ESVID MLOCK EXTSWHOIS'',
    ''SERVER '' @ cfg_name c @ '' 1 :Child IRC Services'', ''SQLINE '' @ cfg_nick c @ '' :Reserved for services''] s"
  have v: "alone v" using a by (simp add: v_def)
  obtain x w where x: "uid_draw v = (x, w)" by (cases "uid_draw v")
  obtain r' t where t: "AddFake (cfg_nick c) (cfg_ident c) (cfg_host c) (Some x) (w\<lparr>my_uid := x\<rparr>) = Some (r', t)"
    "guests t = [] \<and> limits t = [] \<and> timebans t = []"
    using f [of "w\<lparr>my_uid := x\<rparr>" "cfg_nick c" "cfg_ident c" "cfg_host c" x] d(1,2) [where v = v and x = x] d(3) [of v] v x k unfolding c_def by auto
  have "send_handshake s = Option.bind (generate_uid v) (\<lambda>(uid, s).
      Option.bind (fakeuser (cfg_nick c) (cfg_ident c) (cfg_host c) uid MY_UMODES (s\<lparr>my_uid := uid\<rparr>)) (\<lambda>s. Some (send_raw ''EOS'' s)))"
    by (simp add: send_handshake_def c_def v_def Let_def)
  then show ?thesis using g [OF v] x t by (simp add: fakeuser_def r)
qed

lemma no_timers:
  "next_expire l = 0 \<Longrightarrow> next_save l = 0 \<Longrightarrow> ended (srv l) = None \<Longrightarrow> timers_turn X i l = Some (at_time (t_after i) l)"
  by (cases l) (simp add: timers_turn_def expire_check_def save_check_def unless_ended_def due_def at_time_def tick_def Let_def)

lemma lost_turn: "\<exists>l. child_run_loop_once ex_outside (no_socket_at 20) lost_loop = Some l"
proof -
  let ?i = "no_socket_at 20" and ?l = "at_time (seconds 20) lost_loop"
  let ?s = "svc (srv ?l)"
  have s: "alone ?s" "length (cfg_nick (cfg ?s)) \<le> NICKLEN" "length (cfg_ident (cfg ?s)) \<le> NICKLEN" "length (cfg_host (cfg ?s)) \<le> HOSTLEN"
    by (simp_all add: lost_loop_def alone_def init_state_def default_config_def NICKLEN_def HOSTLEN_def)
  obtain t where t: "send_handshake ?s = Some t" "guests t = []" "limits t = []" "timebans t = []"
    using alone_handshake [OF s] by blast
  have fd: "net_connect_fd (cfg ?s) (t_sockets ?i) (fd ?l) = Some (0, -1)"
    by (simp add: net_connect_fd_def no_socket_at_def refused_at_def lost_loop_def init_state_def
        default_config_def dec_def dec_nat.simps)
  let ?m = "?l\<lparr>srv := (srv ?l)\<lparr>svc := t\<lparr>connected := True\<rparr>\<rparr>, fd := -1, retries := 0, next_connect := 0\<rparr>"
  have a: "attempt ex_outside ?i (at_time (t_now ?i) lost_loop) = Some (True, ?m)"
    using t(1) fd by (simp add: attempt_def connect_now_def net_connect_def no_socket_at_def refused_at_def lost_loop_def
        due_def seconds_def at_time_def tick_def)
  have p: "net_poll ?i ?m = (0, ?m)" by (simp add: net_poll_def)
  have e: "ended (srv ?m) = None" by (simp add: lost_loop_def ex_world_def at_time_def tick_def)
  have q: "periodic (t\<lparr>connected := True\<rparr>) = Some (t\<lparr>connected := True\<rparr>)"
    using t(2-4) by (simp add: periodic_def CheckGuests_def CheckLimits_def CheckTimebans_def)
  have n: "input_turn ex_outside ?m = Some ?m"
    using e q by (simp add: input_turn_def handle_input_def unless_ended_def on_core_def lost_loop_def
        read_lines.simps [of "[]"] read_line_def)
  have "timers_turn ex_outside ?i ?m = Some (at_time (t_after ?i) ?m)"
    by (rule no_timers) (use e in \<open>simp_all add: lost_loop_def\<close>)
  then show ?thesis using a p n e by (simp add: child_run_loop_once_def)
qed

end
