(* ===== verification/MailShell.thy ===== *)
theory MailShell
  imports Scenes NickServ
begin

section \<open>Mails and the shell\<close>

text \<open>
  The address of an account is a part of the line that \<open>sendmail\<close> gives to the shell, as it is; nothing behind the
  domain is looked at when it is set. Anybody can have a new password sent to an account that is not logged in.
\<close>

lemma any_address: "valid_email prev (''a@b.cc'' @ rest) = Some True"
  by (simp add: valid_email_def split_at1_def)

lemma password_chars: "fst (parse_range ''A-Za-z0-9'') = ''ABCDEFGHIJKLMNOPQRSTUVWXYZabcdefghijklmnopqrstuvwxyz0123456789''"
  by code_simp

lemma password_drawn: "\<exists>p c. gen_rand_string ''A-Za-z0-9'' 12 s = Some (p, s\<lparr>random_pos := c\<rparr>)"
  unfolding gen_rand_string_def password_chars by (auto simp: Let_def)

lemma password_set:
  assumes "user_at s u = Some y"
  shows "\<exists>r h. set_user_password L (Some u) pw s =
    Some (r, s\<lparr>salts := Suc (salts s), user_at := (user_at s)(u \<mapsto> y\<lparr>u_md5_pass := [], u_pwhash := h\<rparr>)\<rparr>)"
  using assms by (cases "pwhash_str L (salts s) pw") (auto simp: set_user_password_def upd_defs)

lemma request_mails:
  assumes x: "nick_at s n = Some x" and u: "find_user (Some name) s = Some u" and y: "user_at s u = Some y"
    and no: "u_authed y \<noteq> 1" "u_email y \<noteq> []" and w: "name \<noteq> []" "list_all (\<lambda>c. \<not> word_end c) name"
  shows "\<exists>t m. nick_requestpassword L n uptr (Some name) s = Some t \<and>
    mails t = mails s @ [(take 255 (cfg_sendmail (cfg s) @ '' '' @ u_email y), m)]"
proof -
  have arg: "arg1_of (Some name) = Some name"
    using w(2) by (simp add: arg1_of_def SeperateWord_def list_all_iff takeWhile_eq_all_conv [THEN iffD2] dropWhile_eq_Nil_conv [THEN iffD2])
  obtain pw c where pw: "gen_rand_string ''A-Za-z0-9'' 12 s = Some (pw, s\<lparr>random_pos := c\<rparr>)" using password_drawn by blast
  let ?s = "s\<lparr>random_pos := c\<rparr>"
  have "user_at ?s u = Some y" using y by simp
  from password_set [OF this, of L pw] obtain r h v where st: "set_user_password L (Some u) pw ?s = Some (r, v)"
    "v = ?s\<lparr>salts := Suc (salts ?s), user_at := (user_at ?s)(u \<mapsto> y\<lparr>u_md5_pass := [], u_pwhash := h\<rparr>)\<rparr>" by blast
  have v: "nick_at v n = Some x" "mails v = mails s" "cfg v = cfg s"
    "user_at v u = Some (y\<lparr>u_md5_pass := [], u_pwhash := h\<rparr>)" using x st(2) by simp_all
  obtain m where m: "mail_requested n u pw v = Some (sendmail (u_email y) m v)"
    using v by (simp add: mail_requested_def Let_def)
  obtain k where k: "k = ''New password generated and sent to your email address''" by blast
  have "nick_requestpassword L n uptr (Some name) s = NoticeToUser n k (sendmail (u_email y) m v)"
    using no w(1) by (simp add: nick_requestpassword_def arg u y is_empty_def pw st(1) m k)
  moreover have "nick_at (sendmail (u_email y) m v) n = Some x" using v by (simp add: sendmail_def)
  moreover have "mails (send_raw z v) = mails v" for z v by (simp add: send_raw_def Let_def)
  ultimately show ?thesis using v by (simp add: NoticeToUser_def FakeNotice_def sendmail_def)
qed

text \<open>An account with an address that ends in a command, and nobody logged in to it.\<close>

definition shell_net :: core where
  "shell_net = (lone_net ''mallory'')\<lparr>user_at := [2 \<mapsto> (lone_user ''mallory'')\<lparr>u_email := ''a@b.cc;id''\<rparr>]\<rparr>"

lemma shell_net_facts: "\<exists>x. nick_at shell_net 1 = Some x" "find_user (Some ''mallory'') shell_net = Some 2"
  "user_at shell_net 2 = Some ((lone_user ''mallory'')\<lparr>u_email := ''a@b.cc;id''\<rparr>)" "mails shell_net = []"
  "cfg_sendmail (cfg shell_net) = ''/usr/sbin/sendmail -t''"
  by (simp_all add: shell_net_def lone_net_def lone_user_def find_user_def init_state_def default_config_def om_find_def om_entry_def strcasecmp_zero_iff)

end
