(* ===== verification/Badwords.thy ===== *)
theory Badwords
  imports Secserv
begin

section \<open>Bad words and the log: src/src/modules/badwords.c, src/src/logging.c, get\_mem\<close>

subsection \<open>The module badwords\<close>

text \<open>
  The module is not built with the others, as it includes a header that is gone; its functions are complete. The
  three accented letters of the source are single bytes.
\<close>

definition badwords_hooks :: "modules \<Rightarrow> modules" where
  "badwords_hooks ms = snd (AddHook HOOK_PRE_PRIVMSG ''badwords'' ''badwords'' ''badwords'' ms)"

definition badwords_cleanup :: "core \<Rightarrow> core" where
  "badwords_cleanup s = MsgToChan ''#stats'' ''[Badwords] Help! I'm being unloaded !'' s"

definition badword_list :: "string list" where "badword_list = [''rezal'']"

definition fold_letter :: "char \<Rightarrow> char" where
  "fold_letter c =
     (let c = tolower c in
      if c = CHR 0xE9 \<or> c = CHR 0xE8 then CHR ''e'' else if c = CHR 0xE0 then CHR ''a'' else c)"

text \<open>\<open>strstr (s, d)\<close> as a test.\<close>

fun has_word :: "string \<Rightarrow> string \<Rightarrow> bool" where
  "has_word d s = (take (length d) s = d \<or> (case s of [] \<Rightarrow> False | _ # t \<Rightarrow> has_word d t))"

declare has_word.simps [simp del]

definition says_bad :: "string \<Rightarrow> bool" where
  "says_bad t = (let cmd = map fold_letter (strncpy t 1023) in \<exists>d \<in> set badword_list. has_word d cmd)"

text \<open>The entry of the log prints the name of the nick after it was killed.\<close>

definition badwords :: "ptr \<Rightarrow> cstring list \<Rightarrow> core \<Rightarrow> (int \<times> core) option" where
  "badwords nptr parv s =
     do { t \<leftarrow> parv ! 1;
          n \<leftarrow> nick_at s nptr;
          if streq (Some (n_name n)) (Some ''target0'') then Some (MOD_CONTINUE, s)
          else if says_bad t then
            do { s \<leftarrow> killuser (n_name n) ''Et paf, la souris0'' (cfg_nick (cfg s)) s;
                 _ \<leftarrow> nick_at s nptr;
                 Some (MOD_STOP, s) }
          else Some (MOD_CONTINUE, s) }"

text \<open>The search finds exactly the words inside the message, whatever the case and the accents.\<close>

lemma has_word_iff: "has_word d s \<longleftrightarrow> (\<exists>u v. s = u @ d @ v)"
proof (induction s)
  case Nil
  then show ?case by (subst has_word.simps) auto
next
  case (Cons c s)
  have "take (length d) (c # s) = d \<longleftrightarrow> (\<exists>v. c # s = d @ v)"
    by (metis append_eq_conv_conj append_take_drop_id)
  moreover have "(\<exists>u v. c # s = u @ d @ v) \<longleftrightarrow> (\<exists>v. c # s = d @ v) \<or> (\<exists>u v. s = u @ d @ v)"
    by (metis append_Cons append_Nil list.inject neq_Nil_conv)
  ultimately show ?case using Cons.IH by (subst has_word.simps) simp
qed

lemma says_bad_iff:
  "says_bad t \<longleftrightarrow> (\<exists>u w v. strncpy t 1023 = u @ w @ v \<and> map fold_letter w = ''rezal'')"
proof -
  have "\<exists>u' w v'. s = u' @ w @ v' \<and> map fold_letter w = d" if e: "map fold_letter s = u @ d @ v" for s u d v
  proof -
    obtain u' r where r: "s = u' @ r" "map fold_letter r = d @ v" using e unfolding map_eq_append_conv [of _ _ u] by metis
    obtain w v' where "r = w @ v'" "map fold_letter w = d" using r(2) unfolding map_eq_append_conv [of _ _ d] by metis
    with r(1) show ?thesis by blast
  qed
  then have iff: "(\<exists>u v. map fold_letter s = u @ d @ v) \<longleftrightarrow> (\<exists>u w v. s = u @ w @ v \<and> map fold_letter w = d)" for s d
    by (metis map_append)
  have "says_bad t \<longleftrightarrow> (\<exists>u v. map fold_letter (strncpy t 1023) = u @ ''rezal'' @ v)"
    by (simp add: says_bad_def badword_list_def has_word_iff)
  then show ?thesis unfolding iff .
qed

text \<open>A message without a bad word is let through; a bad word is the end of the program.\<close>

lemma badwords_lets_through:
  assumes "nick_at s n = Some x" and "parv ! 1 = Some t" and "\<not> says_bad t \<or> streq (Some (n_name x)) (Some ''target0'')"
  shows "badwords n parv s = Some (MOD_CONTINUE, s)"
  using assms by (auto simp: badwords_def)

lemma badwords_reads_freed:
  assumes net: "net_ok s" and x: "nick_at s n = Some x" and f: "find_nick (Some (n_name x)) s = Some (Some n)"
    and t: "parv ! 1 = Some t" "says_bad t" and no: "\<not> streq (Some (n_name x)) (Some ''target0'')"
  shows "badwords n parv s = None"
proof -
  obtain m where m: "m = ''Et paf, la souris0''" by blast
  obtain v r where "killuser (n_name x) m (cfg_nick (cfg s)) s = Some v"
    "find_nick (Some (n_name x)) s = Some r" "\<forall>n. r = Some n \<longrightarrow> nick_at v n = None"
    using killuser_ok [OF net, of "n_name x" m "cfg_nick (cfg s)"] by auto
  with x t f no show ?thesis unfolding badwords_def m [symmetric] by simp
qed

subsection \<open>The log\<close>

text \<open>
  \<open>mylog\<close> writes one entry at the end of a file; \<open>ct\<close> is what \<open>ctime\<close> gives, whose newline becomes a blank. The
  callers' formats are applied before, so the message is the text they make.
\<close>

definition log_line :: "string \<Rightarrow> string \<Rightarrow> string option" where
  "log_line ct msg =
     (let buf = ircsprintf 1023 msg; tmp = take 1018 (''[ '' @ ct @ ''] '' @ buf @ [CHR 0x0A]) in
      map_option (\<lambda>(a, b). a @ '' '' @ b) (split_at1 (CHR 0x0A) tmp))"

definition mylog :: "(string \<Rightarrow> bool) \<Rightarrow> string \<Rightarrow> string \<Rightarrow> string \<Rightarrow> (string \<Rightarrow> string) \<Rightarrow> (string \<Rightarrow> string) option" where
  "mylog opens ct file msg fs =
     do { l \<leftarrow> log_line ct msg; Some (if opens file then fs(file := fs file @ l) else fs) }"

lemma log_line_entry:
  assumes "ct = stamp @ [CHR 0x0A]" and "CHR 0x0A \<notin> set stamp" and "length stamp < 100"
  shows "log_line ct msg =
    Some (''[ '' @ stamp @ '' ] '' @ take (1013 - length stamp) (take 1022 msg @ [CHR 0x0A]))"
proof -
  obtain r where r: "r = take 1022 msg @ [CHR 0x0A]" by blast
  have cut: "take 1018 (''[ '' @ (stamp @ [CHR 0x0A]) @ ''] '' @ r) =
      (''[ '' @ stamp) @ CHR 0x0A # ''] '' @ take (1013 - length stamp) r"
  proof -
    obtain k where k: "1013 - length stamp = k" by blast
    then have "1016 - length stamp = Suc (Suc (Suc k))" using assms(3) by arith
    with k show ?thesis by simp
  qed
  have "CHR 0x0A \<notin> set (''[ '' @ stamp)" using assms(2) by simp
  then have "split_at1 (CHR 0x0A) ((''[ '' @ stamp) @ CHR 0x0A # ''] '' @ take (1013 - length stamp) r) =
      Some (''[ '' @ stamp, ''] '' @ take (1013 - length stamp) r)"
    by (auto simp: split_at1_def takeWhile_append dropWhile_append)
  then show ?thesis using cut by (simp add: log_line_def Let_def assms(1) ircsprintf_def r)
qed

text \<open>A message of at most 988 characters is a line of its own; a longer one loses its end and its newline.\<close>

lemma mylog_appends:
  assumes ct: "ct = stamp @ [CHR 0x0A]" "CHR 0x0A \<notin> set stamp" "length stamp = 24" and m: "length msg \<le> 988"
    and o: "opens file"
  shows "mylog opens ct file msg fs = Some (fs(file := fs file @ ''[ '' @ stamp @ '' ] '' @ msg @ [CHR 0x0A]))"
  using log_line_entry [OF ct(1,2), of msg] assms by (simp add: mylog_def)

lemma mylog_keeps_log:
  assumes "mylog opens ct file msg fs = Some gs"
  shows "\<exists>l. gs g = fs g @ l"
  using assms by (auto simp: mylog_def split: bind_splits if_splits)

subsection \<open>The figures of the memory: get\_mem in mem.c\<close>

text \<open>
  What \<open>fscanf\<close> makes of the file of the process: there is no file, it is empty, or the conversions that
  succeeded. A name of the program with a blank in it ends the conversions before the two figures, which are then
  read although nothing was stored in them.
\<close>

datatype proc_stat = No_file | Empty_file | Stored "int list"

definition MEM_VSIZE :: int where "MEM_VSIZE = 1"
definition MEM_RSS :: int where "MEM_RSS = 2"

definition get_mem :: "int \<Rightarrow> proc_stat \<Rightarrow> int option" where
  "get_mem which f =
     (case f of Stored (vsize # rss # _) \<Rightarrow>
        Some (if which = MEM_VSIZE then vsize div 1024 else if which = MEM_RSS then rss * 4 else -1)
      | Stored _ \<Rightarrow> None
      | _ \<Rightarrow> Some (-1))"

lemma get_mem_returns:
  "get_mem which f \<noteq> None \<longleftrightarrow> (\<forall>xs. f = Stored xs \<longrightarrow> 2 \<le> length xs)"
  by (auto simp: get_mem_def Suc_le_length_iff numeral_2_eq_2 split: proc_stat.splits list.splits)

end
