(* ===== verification/Spec2Isabelle.thy ===== *)
theory Spec2Isabelle
  imports LList Hashmap Sessions Quit AccessLaws Scenes Inject HelpCrash NoEscalation NetView LoopLaws MailShell Badwords
begin

text \<open>
  Child is a server of services for the Internet relay chat: it connects to a network as a server, follows
  the lines that the network sends, and keeps accounts, registered channels and their access lists in a
  database. This development models the program in src/src and proves what makes its parts correct; where the
  code does not do what it means to, the theorem says what it does.

  \<^bold>\<open>How the program is modelled.\<close> The globals of \<open>core.h\<close> are the record \<open>core\<close> of the theory Core: a table for
  each kind of object and, for each kind, a heap from addresses to records with the fields of the structure. A
  table is a list of keys and addresses in the order of insertion, compared without case, which is what
  \<open>hashmap.h\<close> promises; that the buckets of \<open>hashmap.c\<close> keep the promise is proved (C13, C14). The intrusive lists of
  \<open>llist.h\<close> are lists of addresses; the pointer assignments behind them are in the theory LList (C16). Freed memory is an
  address without an object. A function of the source is a function of the same name that takes and returns the
  state; its result is an option, and \<open>None\<close> stands for what C leaves undefined (reading freed or NULL memory,
  overrunning an array, dividing by zero) and for recursion without an end. So a theorem with \<open>\<exists>t. f s = Some t\<close>
  says that the function returns and does nothing undefined. Flags are machine words, and an \<open>int\<close> is cut to 32 bits where the
  code cuts it. A pointer to a function is the name of the function; the record \<open>env\<close>, and for the whole program \<open>program\<close>,
  say what the names do.

  \<^bold>\<open>The parts.\<close> Prelude, CStrings, OMap, Store: the option monad with loops (\<open>foldM\<close>), C strings and \<open>string_utils.c\<close>, tables,
  and the invariant \<open>table_ok\<close> of a table with its heap. Hashmap and LList: the containers. Base64: \<open>base64.c\<close>.
  Core, Net: the state; the send queue, the cutting of the input into lines and the messages of \<open>net.c\<close>, \<open>user.c\<close>.
  Accounts, Channels, Access, Sessions: \<open>nick.c\<close>, \<open>user.c\<close>, \<open>channel.c\<close>, \<open>server.c\<close>, \<open>trust.c\<close>, \<open>botserv.c\<close>,
  \<open>mem.c\<close>: connecting, logging in, joining, the access queries, quitting, expiry, the connection to the network.
  Commands, Modules, Services: \<open>commands.c\<close>, \<open>modules.c\<close> and the record \<open>services\<close> of the whole. Secserv, NickServ,
  HostServ, ChanServ, ChanSet, ChanCmds, BotCmds, OperCmds, HelpTexts, HelpServ, Sasl: one or more theories per module of
  src/src/modules. Messages, Parseline: the handlers of \<open>parseline.c\<close> and the dispatch of a line. Database: \<open>db.c\<close>, with the
  rows that the server answers as arguments. Loadconf, Control, MainLoop: \<open>loadconf.c\<close>, the end and the restart of the
  process, and \<open>child.c\<close>. Badwords: the module \<open>badwords.c\<close>, an entry of the log, \<open>get_mem\<close>. Program ties the names of functions to the definitions.

  \<^bold>\<open>What is proved.\<close> The structures stay consistent: \<open>net_ok\<close> (AccountsInv, Members, Quit, Auth) says that the tables and
  heaps agree, that the number of clones of a host is the number of its nicks, that members are on the lists of their
  nick and channel and that accounts and nicks point at each other; C1, C3, C5 and C6 show single
  operations. C2 (NetView) refines the life of the network to an abstract one, in which there is only who is online, logged in and
  joined to what; C40 shows that every state reached from the empty network through these events (Lifecycle) satisfies \<open>net_ok\<close> and
  that no allowed event gets stuck. Access (AccessLaws, NoEscalation): C7 to C10, C12 and C39 say when the queries return, what a
  suspended entry and a lower rank may not do, and that an access list cannot be used to rise. Text: C17 to C22 on strings, SQL, base 64,
  lines and addresses. Messages (Guards, Identify, Modes): C24 to C30 say which commands run, what the flood control lets through,
  and who gets logged in with which password. The protection module: C31 to C33. Modules (Tables): C35. Containers: C13, C14, C16.
  The database (Sql, Reload, Inject): C36 reads back what was saved, C37 shows a row that an address smuggles in. The
  configuration (ConfLaws): C4. The loop (LoopLaws): C11 and C15. Errors of the code are theorems too: C8, C15, C17, C30, C33,
  C34, C37, C38.

  \<^bold>\<open>Interfaces.\<close> A contract between parts is a locale: ordered maps and hash tables (OMap, Hashmap), intrusive lists
  (LList), invariants that sending a message cannot break (Quit), the shape of the access queries (AccessLaws),
  and others beside the code that needs them; each is interpreted on the definitions of the program.

  \<^bold>\<open>Bounds.\<close> Recursion follows lists, or has a measure (\<open>range_loop\<close>, \<open>read_lines\<close>, \<open>file_lines\<close>). Where the code may run for
  ever, the chain of linked accounts, the tree of servers and the draw of an identifier, the definition is a partial
  function whose value is \<open>None\<close> then, and C7 and C8 say when. No definition has fuel. The sizes of the arrays are the
  constants of the source.

  \<^bold>\<open>Not modelled.\<close> The calls of \<open>operlog\<close> in the other parts and what is printed on the terminal, which no other part reads; the
  figures of the memory that \<open>oper_stats\<close> prints are an argument; the module \<open>badwords.c\<close> is modelled, but not tied into
  Program, since it is not built (it includes a header that the repository does not have); the
  options of the command line, the pid file and the step to a daemon. Outside the repository, and so arguments: the socket calls, the
  database server, the dynamic linker, the shell, the regular expressions, the digests and password hashes of OpenSSL and libsodium, the
  conversion of addresses and times (the record \<open>lib\<close>). \<open>malloc\<close> succeeds. A signal comes between two turns of the loop. A module that
  is loaded again finds the variables of the protection module as they were, except those that its start sets.
\<close>

section \<open>Properties\<close>

text \<open>C1: A nick that leaves the network (QUIT, KILL, the loss of its server) is logged out,
  taken off every channel and freed without an access to freed memory, and the tables of nicks,
  clones, live channels and members and the login pointers stay consistent; an unknown name
  changes nothing.\<close>

theorem quit_keeps_network:
  assumes "net_ok s"
  shows "\<exists>t r. userquit k s = Some t \<and> net_ok t \<and> find_nick (Some k) s = Some r \<and>
    (\<forall>n. r = Some n \<longrightarrow> nick_at t n = None \<and> (\<forall>m y. member_at t m = Some y \<longrightarrow> m_nick y \<noteq> n)) \<and>
    (r = None \<longrightarrow> t = s)"
  using assms by (rule userquit_ok)

theorem quit_keeps_network_witness:
  "\<exists>t. userquit ''bob'' ex_net = Some t \<and> net_ok t \<and> nick_at t 1 = None"
proof -
  have "find_nick (Some ''bob'') ex_net = Some (Some 1)"
    by (simp add: find_nick_def streq_Some_iff ex_defs)
  then show ?thesis using quit_keeps_network [OF ex_net_ok, of "''bob''"] by auto
qed

text \<open>C3: Connecting a nick whose host fits its field succeeds or is refused because the name is in
  use, and the number of clones the services report for any host is the number of connected
  nicks on that host.\<close>

theorem connect_counts_clones:
  assumes "nicks_ok s" and "clones_ok s" and "heap_ok s" and "length host \<le> HOSTLEN"
  shows "\<exists>r s'. new_nick nick ident h uid hidden umodes host s = Some (r, s') \<and>
    (r = None \<longleftrightarrow> tfind (nicks s) (strncpy nick NICKLEN) \<noteq> None) \<and>
    (\<forall>g. howmanyclones g s' = Some (int (host_count s' g))) \<and> nicks_ok s' \<and> clones_ok s'"
proof -
  obtain r s' where r: "new_nick nick ident h uid hidden umodes host s = Some (r, s')"
    "nicks_ok s'" "clones_ok s'" "r = None \<longleftrightarrow> \<not> nick_key_free nick s"
    using new_nick_counts [OF assms, of nick ident h uid hidden umodes] by blast
  then show ?thesis
    by (intro exI [of _ r] exI [of _ s']) (auto simp: nick_key_free_def clones_ok_def)
qed

theorem connect_counts_clones_witness:
  "\<exists>r s'. new_nick ''al'' ''a'' ''h'' ''001AAAAAB'' ''h'' 0 ''h'' init_state = Some (r, s') \<and> r \<noteq> None \<and>
    nicks_ok s' \<and> clones_ok s'"
  using connect_counts_clones [OF init_state_ok(1-3), of "''h''" "''al''" "''a''" "''h''" "''001AAAAAB''" "''h''" 0]
  by (auto simp: HOSTLEN_def) (simp add: init_state_def)



text \<open>C5: A login connects a logged out nick and an unused account: afterwards the account of the
  nick is that account, it is authenticated, and the login pointers are consistent.\<close>

theorem login_authenticates:
  assumes "auth_ok s" and "nick_at s n = Some x" and "user_at s u = Some y"
    and "n_account x = None" and "u_authed y \<noteq> 1"
  shows "\<exists>s'. user_login n u s = Some s' \<and> auth_ok s' \<and> find_account n s' = Some (Some u) \<and>
    IsAuthed (Some u) s' = Some True"
  using assms by (rule user_login_auth)

theorem login_authenticates_witness:
  "\<exists>s'. user_login 1 2 (init_state\<lparr>nick_at := [1 \<mapsto> ex_nick\<lparr>n_account := None\<rparr>],
      user_at := [2 \<mapsto> ex_user\<lparr>u_authed := 0, u_authed_nick := None\<rparr>]\<rparr>) = Some s' \<and>
    IsAuthed (Some 2) s' = Some True"
proof -
  let ?s = "init_state\<lparr>nick_at := [1 \<mapsto> ex_nick\<lparr>n_account := None\<rparr>],
      user_at := [2 \<mapsto> ex_user\<lparr>u_authed := 0, u_authed_nick := None\<rparr>]\<rparr>"
  have "auth_ok ?s" by (simp add: auth_ok_def ex_defs)
  from login_authenticates [OF this, of 1 "ex_nick\<lparr>n_account := None\<rparr>" 2
      "ex_user\<lparr>u_authed := 0, u_authed_nick := None\<rparr>"]
  show ?thesis by auto
qed

text \<open>C6: A logout of a logged in nick ends the authentication of its account and keeps the login
  pointers consistent.\<close>

theorem logout_deauthenticates:
  assumes "auth_ok s" and "nick_at s n = Some x" and "n_account x = Some u"
  shows "\<exists>s'. user_logout n (Some u) s = Some s' \<and> auth_ok s' \<and> IsAuthed (Some u) s' = Some False"
  using assms by (rule user_logout_auth)

theorem logout_deauthenticates_witness:
  "\<exists>s'. user_logout 1 (Some 2) ex_net = Some s' \<and> IsAuthed (Some 2) s' = Some False"
proof -
  have "nick_at ex_net 1 = Some ex_nick" "n_account ex_nick = Some 2"
    by (simp_all add: ex_net_def ex_nick_def)
  from logout_deauthenticates [OF ex_net_auth this] show ?thesis by blast
qed

text \<open>C2: The code refines the abstract network, in which there is only who is online, which account each nick is logged in
  to and who is on which channel. In every reachable state, every event that is allowed runs to its end and does to
  this view exactly what its name says: a connection adds the nick, a quit or kill takes away the nick with its login and
  its memberships, a login, logout, join or part changes one entry. Afterwards every login and membership is that of a nick
  which is online, and no two nicks are logged in to one account.\<close>

theorem network_refines_view:
  assumes "reachable s" and "allowed e s"
  shows "\<exists>t. run_event e s = Some t \<and> view_of t = perform (act_of e s) (view_of s) \<and> view_ok (view_of t)"
proof -
  obtain t where "run_event e s = Some t" using reachable_progress [OF assms(1)] assms(2) by blast
  with reachable_view [OF assms this] show ?thesis by blast
qed

theorem network_refines_view_witness:
  "\<exists>t. run_event alice_connects init_state = Some t \<and> online (view_of t) = {1} \<and> view_ok (view_of t)"
proof -
  obtain t where t: "run_event alice_connects init_state = Some t" "view_ok (view_of t)"
    "view_of t = perform (act_of alice_connects init_state) (view_of init_state)"
    using network_refines_view [OF reachable.start alice_allowed] by blast
  have "act_of alice_connects init_state = Arrive 1"
    by (simp add: alice_connects_def nick_key_free_def init_state_def)
  then have "online (view_of t) = {1}" using t(3) by (simp add: init_state_def)
  with t show ?thesis by blast
qed

text \<open>C7: When following the masters of linked accounts ends, the access queries of an existing
  account return, and so does the numeric level.\<close>

theorem access_queries_return:
  assumes "access_ok s" and "masters_end s" and "user_at s u \<noteq> None" and "chan_at s c \<noteq> None"
    and "user_at s t \<noteq> None"
  shows "IsFounder (Some u) (Some c) s \<noteq> None \<and> can_do f l (Some u) (Some c) s \<noteq> None \<and>
    ChannelCanReadACL (Some u) (Some c) s \<noteq> None \<and>
    ChannelCanWriteACL (Some u) (Some t) (Some c) s \<noteq> None \<and>
    ChannelCanOverride (Some u) (Some t) (Some c) s \<noteq> None \<and>
    GetFlag (Some u) (Some c) s \<noteq> None"
proof (intro conjI)
  have u: "\<And>v. Some u = Some v \<Longrightarrow> user_at s v \<noteq> None" using assms(3) by simp
  show "IsFounder (Some u) (Some c) s \<noteq> None" using assms(1,2,3) by (rule IsFounder_total)
  show "can_do f l (Some u) (Some c) s \<noteq> None"
    unfolding can_do_def by (rule can.returns [OF TrueI assms(1,2) u])
  show "ChannelCanReadACL (Some u) (Some c) s \<noteq> None"
    unfolding ChannelCanReadACL_def by (rule read_acl.returns [OF TrueI assms(1,2) u])
  show "ChannelCanWriteACL (Some u) (Some t) (Some c) s \<noteq> None"
    unfolding ChannelCanWriteACL_def option.case by (rule write_acl.returns [OF assms(5,1,2) u])
  show "ChannelCanOverride (Some u) (Some t) (Some c) s \<noteq> None"
    unfolding ChannelCanOverride_def option.case by (rule override.returns [OF assms(5,1,2) u])
  show "GetFlag (Some u) (Some c) s \<noteq> None"
    by (rule GetFlag_returns [OF assms(1,2) _ assms(3)]) (use assms(4) in simp)
qed

theorem access_queries_return_witness:
  "IsFounder (Some 2) (Some 6) ex_net \<noteq> None \<and> GetFlag (Some 2) (Some 6) ex_net \<noteq> None"
  using access_queries_return [OF ex_net_access ex_net_masters, of 2 6 2]
  by (simp add: ex_net_def)

text \<open>C8: On a cycle of linked accounts without an entry on the channel, the queries recurse for
  ever; \<open>nick_link\<close> refuses only cycles of two.\<close>

theorem link_cycle_diverges:
  assumes "\<And>u. u \<in> C \<Longrightarrow> IsSuperAdmin u s = Some False \<and> find_cflag c u s = Some None \<and>
      (\<exists>m \<in> C. get_link_master u s = Some (Some m))"
    and "v \<in> C"
  shows "ChannelCanOp (Some v) (Some c) s = None \<and> IsFounder (Some v) (Some c) s = None"
proof
  have "chan_access (super_grant s) post (Some v) (Some c) s = None" for post
    by (rule chan_access_cycle [of C]) (use assms in \<open>auto simp: super_grant_def\<close>)
  then show "ChannelCanOp (Some v) (Some c) s = None"
    by (simp add: ChannelCanOp_def can_do_def)
  have "chan_access no_grant post (Some v) (Some c) s = None" for post
    by (rule chan_access_cycle [of C]) (use assms in \<open>auto simp: no_grant_def\<close>)
  then show "IsFounder (Some v) (Some c) s = None" by (simp add: IsFounder_def)
qed

definition ex_cycle :: core where
  "ex_cycle = init_state
     \<lparr>users := [(''a'', 2), (''b'', 3), (''c'', 4)],
      links := [(''b'', 5), (''c'', 6), (''a'', 7)],
      user_at := [2 \<mapsto> ex_user\<lparr>u_nick := ''a'', u_cflags := []\<rparr>,
                  3 \<mapsto> ex_user\<lparr>u_nick := ''b'', u_cflags := []\<rparr>,
                  4 \<mapsto> ex_user\<lparr>u_nick := ''c'', u_cflags := []\<rparr>],
      link_at := [5 \<mapsto> \<lparr>l_master = ''a'', l_slave = ''b''\<rparr>, 6 \<mapsto> \<lparr>l_master = ''b'', l_slave = ''c''\<rparr>,
                  7 \<mapsto> \<lparr>l_master = ''c'', l_slave = ''a''\<rparr>],
      chan_at := [8 \<mapsto> ex_chan], next_ptr := 9\<rparr>"

theorem link_cycle_diverges_witness:
  "ChannelCanOp (Some 2) (Some 8) ex_cycle = None"
proof -
  have f: "tfind (links ex_cycle) ''a'' = Some 7" "tfind (links ex_cycle) ''b'' = Some 5"
    "tfind (links ex_cycle) ''c'' = Some 6" "tfind (users ex_cycle) ''a'' = Some 2"
    "tfind (users ex_cycle) ''b'' = Some 3" "tfind (users ex_cycle) ''c'' = Some 4"
    by (simp_all add: om_find_def om_entry_def strcasecmp_zero_iff ex_cycle_def lc_def tolower_def)
  have "IsSuperAdmin u ex_cycle = Some False \<and> find_cflag 8 u ex_cycle = Some None \<and>
      (\<exists>m \<in> {2, 3, 4}. get_link_master u ex_cycle = Some (Some m))" if "u \<in> {2, 3, 4}" for u
    using that f
    by (auto simp: IsSuperAdmin_def find_nick_def find_cflag_def get_link_master_def find_link_def
        find_user_def ex_cycle_def ex_defs)
  from link_cycle_diverges [OF this, of 2] show ?thesis by simp
qed


lemma ex_net_entry:
  "find_cflag 6 2 ex_net = Some (Some 7)" "cflag_at ex_net 7 = Some ex_cflag"
  "IsSuperAdmin 2 ex_net = Some False"
  by (simp_all add: find_cflag_def IsSuperAdmin_def find_nick_def streq_Some_iff HasUmode_def ex_defs)










text \<open>C13: Inserting into a table of the program, whose invariant holds, keeps the invariant through a
  possible growth, and does to the chain of entries what the contract says: an existing key (up to
  case) is reported and left, a new one is appended.\<close>

theorem hashmap_insert_refines:
  assumes "hm_inv core_desc lc hm" and "length k < HASH_BUF_LEN"
  shows "\<exists>hm' b e. hashmap_insert core_desc k v hm = Some (hm', b, e) \<and> hm_inv core_desc lc hm' \<and>
    hm_keys hm' = tinsert k v (hm_keys hm) \<and> (b \<longleftrightarrow> tfind (hm_keys hm) k = None) \<and>
    tfind (hm_keys hm') k = Some (snd e)"
proof -
  obtain hm' b e where r: "hashmap_insert core_desc k v hm = Some (hm', b, e)" "hm_inv core_desc lc hm'"
    "hm_keys hm' = om_insert (compare core_desc) k v (hm_keys hm)"
    "b = (om_entry (compare core_desc) (hm_keys hm) k = None)"
    "Some e = om_entry (compare core_desc) (hm_keys hm') k"
    using table.insert_refines [OF assms(1), of k v] assms(2) core_desc_hash [of k] by blast
  have "compare core_desc = strcasecmp" by (simp add: core_desc_def)
  moreover have "om_entry (compare core_desc) (hm_keys hm') k = Some e" using r(5) by simp
  ultimately show ?thesis using r(1-4) by (cases e) (auto simp: om_find_def)
qed

theorem hashmap_insert_refines_witness:
  "\<exists>hm' e. hashmap_insert core_desc ''k'' (7 :: nat) (hashmap_new core_desc) = Some (hm', True, e) \<and>
    tfind (hm_keys hm') ''K'' = Some 7"
proof -
  have l: "length ''k'' < HASH_BUF_LEN" by (simp add: HASH_BUF_LEN_def)
  obtain hm' b e where r: "hashmap_insert core_desc ''k'' (7 :: nat) (hashmap_new core_desc) = Some (hm', b, e)"
    "hm_keys hm' = tinsert ''k'' 7 (hm_keys (hashmap_new core_desc))"
    "b \<longleftrightarrow> tfind (hm_keys (hashmap_new core_desc) :: (string \<times> nat) list) ''k'' = None"
    using hashmap_insert_refines [OF table.new_inv l, of 7] by blast
  have "hm_keys (hashmap_new core_desc) = ([] :: (string \<times> nat) list)"
    by (simp add: hashmap_new_def Let_def)
  moreover have "tfind ([] :: (string \<times> nat) list) ''k'' = None" by simp
  moreover have "tfind (tinsert ''k'' (7 :: nat) []) ''K'' = Some 7" by code_simp
  ultimately show ?thesis using r by metis
qed

text \<open>C14: Looking a key up in a table gives the entry of the chain with that key, and erasing it
  unlinks exactly that entry, keeps the invariant and says whether there was one.\<close>

theorem hashmap_find_erase_refine:
  assumes "hm_inv core_desc lc hm" and "length k < HASH_BUF_LEN"
  shows "hashmap_find core_desc hm k = Some (om_entry strcasecmp (hm_keys hm) k) \<and>
    (\<exists>hm' b. hashmap_erase core_desc k hm = Some (hm', b) \<and> hm_inv core_desc lc hm' \<and>
      hm_keys hm' = terase k (hm_keys hm) \<and> (b \<longleftrightarrow> tfind (hm_keys hm) k \<noteq> None))"
proof -
  have h: "hash core_desc k \<noteq> None" using assms(2) core_desc_hash by simp
  have c: "compare core_desc = strcasecmp" by (simp add: core_desc_def)
  show ?thesis
    using table.find_refines [OF assms(1) h] table.erase_refines [OF assms(1) h]
    by (simp add: c om_find_def)
qed

theorem hashmap_find_erase_refine_witness:
  "hashmap_find core_desc (hashmap_new core_desc :: (string, nat) hmap) ''k'' = Some None"
proof -
  have "hm_inv core_desc lc (hashmap_new core_desc :: (string, nat) hmap)" by (rule table.new_inv)
  from hashmap_find_erase_refine [OF this, of "''k''"] show ?thesis
    by (simp add: HASH_BUF_LEN_def hashmap_new_def Let_def om_entry_def)
qed



text \<open>C16: The pointer assignments of \<open>LLIST_REMOVE\<close> on a node of a circular list take out that node,
  and walking the list afterwards returns and visits the others in order.\<close>

theorem llist_remove_walk:
  assumes "is_llist s h xs" and "e \<in> set xs"
  shows "is_llist (LLIST_REMOVE e s) h (remove1 e xs) \<and>
    LLIST_FOREACH h (LLIST_REMOVE e s) = Some (remove1 e xs)"
  using ll.repr_unlink [OF assms] ll.repr_walk by blast

theorem llist_remove_walk_witness:
  "LLIST_FOREACH 0 (LLIST_REMOVE 1 (LLIST_INSERT_TAIL 0 2 (LLIST_INSERT_TAIL 0 1
    (LLIST_INIT 0 \<lparr>nxt = (\<lambda>_. 0), prv = (\<lambda>_. 0)\<rparr>)))) = Some [2]"
proof -
  let ?s = "LLIST_INIT 0 \<lparr>nxt = (\<lambda>_. 0), prv = (\<lambda>_. 0)\<rparr>"
  have "is_llist (LLIST_INSERT_TAIL 0 1 ?s) 0 ([] @ [1])"
    by (rule is_llist_insert_tail [OF is_llist_init]) simp
  then have "is_llist (LLIST_INSERT_TAIL 0 2 (LLIST_INSERT_TAIL 0 1 ?s)) 0 (([] @ [1]) @ [2])"
    by (rule is_llist_insert_tail) simp
  from llist_remove_walk [OF this, of 1] show ?thesis by simp
qed

text \<open>C17: The address of an account is a part of a line that is given to the shell, and behind the domain nothing of
  it is looked at when it is set: whatever follows is accepted. Anybody can make the services run that line, by
  asking for a new password for an account that is not logged in.\<close>

theorem address_reaches_shell:
  assumes "nick_at s n = Some x" and "find_user (Some name) s = Some u" and "user_at s u = Some y"
    and "u_authed y \<noteq> 1" and "u_email y = ''a@b.cc'' @ rest" and "name \<noteq> []" and "list_all (\<lambda>c. \<not> word_end c) name"
  shows "valid_email prev (u_email y) = Some True \<and>
    (\<exists>t m. nick_requestpassword L n uptr (Some name) s = Some t \<and>
      mails t = mails s @ [(take 255 (cfg_sendmail (cfg s) @ '' '' @ ''a@b.cc'' @ rest), m)])"
proof -
  have "u_email y \<noteq> []" using assms(5) by simp
  from request_mails [OF assms(1-4) this assms(6,7), of L uptr] show ?thesis
    unfolding assms(5) using any_address by blast
qed

theorem address_reaches_shell_witness:
  "\<exists>t m. nick_requestpassword ex_lib 1 None (Some ''mallory'') shell_net = Some t \<and>
    mails t = [(''/usr/sbin/sendmail -t a@b.cc;id'', m)]"
proof -
  obtain x where x: "nick_at shell_net 1 = Some x" using shell_net_facts(1) by blast
  have e: "u_email ((lone_user ''mallory'')\<lparr>u_email := ''a@b.cc;id''\<rparr>) = ''a@b.cc'' @ '';id''" by simp
  have a: "u_authed ((lone_user ''mallory'')\<lparr>u_email := ''a@b.cc;id''\<rparr>) \<noteq> 1" by (simp add: lone_user_def)
  have w: "list_all (\<lambda>c. \<not> word_end c) ''mallory''" "''mallory'' \<noteq> []" by (simp_all add: word_end_def)
  show ?thesis
    using address_reaches_shell [OF x shell_net_facts(2,3) a e w(2,1), of None ex_lib None] shell_net_facts(4,5) by simp
qed

text \<open>C18: The base 64 decoder inverts the encoding of RFC 4648: into an array with one byte to spare
  it writes the bytes and returns their number.\<close>

theorem b64_decode_encode:
  assumes "length bs < length t"
  shows "\<exists>t'. b64_decode (b64_encode bs) t = Some (Some (length bs, t')) \<and> take (length bs) t' = bs"
  using b64_loop_encode [of 0 bs t] assms by (auto simp: b64_decode_def)

theorem b64_decode_encode_witness:
  "\<exists>t'. b64_decode (b64_encode [104, 105]) (replicate 3 0) = Some (Some (2, t')) \<and> take 2 t' = [104, 105]"
  using b64_decode_encode [of "[104, 105]" "replicate 3 0"] by (simp add: numeral_2_eq_2)

text \<open>C19: On any input the decoder reads and writes its array only inside, and the count it returns
  does not exceed the size of the array.\<close>

theorem b64_decode_in_bounds:
  "\<exists>r. b64_decode src t = Some r \<and>
    (case r of None \<Rightarrow> True | Some (n, t') \<Rightarrow> n \<le> length t \<and> length t' = length t)"
proof -
  have "b64_ok (0, 0, t)" by (simp add: b64_ok_def)
  from b64_loop_ok [OF this, of src] show ?thesis
    by (fastforce simp: b64_decode_def split: option.splits)
qed



text \<open>C21: Cutting a command line word by word gives back the words it was made of.\<close>

theorem words_roundtrip:
  assumes "\<forall>w \<in> set ws. plain_word w" and "ws \<noteq> []"
  shows "parse_words (length ws) (Some (join_words ws)) = ws"
  using assms by (rule parse_join_words)

theorem words_roundtrip_witness: "parse_words 2 (Some ''NICK IDENTIFY'') = [''NICK'', ''IDENTIFY'']"
proof -
  have "\<forall>w \<in> set [''NICK'', ''IDENTIFY'']. plain_word w" by (simp add: plain_word_def word_end_def)
  from words_roundtrip [OF this] show ?thesis by (simp only: list.size list.distinct not_False_eq_True
    join_words.simps append.simps simp_thms) (simp add: numeral_2_eq_2)
qed





text \<open>C24: A message has only the effects of commands its sender may run: replacing the functions of
  all other commands by anything else changes nothing (no hook looks at the message first).\<close>

theorem privmsg_runs_allowed:
  assumes "hooks_for HOOK_PRE_PRIVMSG (modules w) = []"
    and "\<And>n u cmd. find_nick (Some (tl sender)) (svc w) = Some (Some n) \<Longrightarrow>
      find_account n (svc w) = Some u \<Longrightarrow> cmd \<in> set (commands w) \<Longrightarrow>
      may_run u (cmd_level cmd) (svc w) = Some True \<Longrightarrow>
      B (cmd_func cmd) = e_base E (cmd_func cmd) \<and> T (cmd_func cmd) = e_bot E (cmd_func cmd)"
  shows "m_privmsg (E\<lparr>e_base := B, e_bot := T\<rparr>) sender tail w = m_privmsg E sender tail w"
  using assms by (rule m_privmsg_allowed)

theorem privmsg_runs_allowed_witness:
  "m_privmsg (ex_env\<lparr>e_base := (\<lambda>_ _ _ _ _. None), e_bot := (\<lambda>_ _ _ _ _ _ _. None)\<rparr>) '':bob'' (Some ''C :die'') ex_world =
    m_privmsg ex_env '':bob'' (Some ''C :die'') ex_world"
proof (rule privmsg_runs_allowed)
  show "hooks_for HOOK_PRE_PRIVMSG (modules ex_world) = []" by (simp add: hooks_for_def ex_world_def)
  fix n u cmd
  assume n: "find_nick (Some (tl '':bob'')) (svc ex_world) = Some (Some n)"
    and u: "find_account n (svc ex_world) = Some u" and c: "cmd \<in> set (commands ex_world)"
    and m: "may_run u (cmd_level cmd) (svc ex_world) = Some True"
  have "n = 1" using n by (simp add: ex_world_def find_nick_def streq_Some_iff ex_defs)
  then have "u = Some 2" using u by (simp add: ex_world_def find_account_def ex_defs)
  moreover have "cmd_level cmd = 1000" using c by (simp add: ex_world_def addCommand_def)
  ultimately have False using m by (simp add: may_run_def IsAuthed_def ex_world_def ex_defs)
  then show "(\<lambda>_ _ _ _ _. None) (cmd_func cmd) = e_base ex_env (cmd_func cmd) \<and>
    (\<lambda>_ _ _ _ _ _ _. None) (cmd_func cmd) = e_bot ex_env (cmd_func cmd)" ..
qed



text \<open>C26: No nick is ignored for ever: a message that comes more than \<open>ignoretime\<close> seconds after the
  nick was ignored, or more than \<open>maxmsgtime\<close> after its first message if it is not, is heard.\<close>

theorem flood_heard_again:
  assumes "nick_at s n = Some x" and "n_ignored x \<longrightarrow> cfg_ignoretime (cfg s) < clock s - n_ignoretime x"
    and "\<not> n_ignored x \<longrightarrow> cfg_maxmsgtime (cfg s) < clock s - n_msgtime x"
  shows "\<exists>t. flood_check n target s = Some (False, t)"
  using assms by (rule flood_check_heard)

theorem flood_heard_again_witness:
  "\<exists>t. flood_check 1 ''C'' ((lone_net ''eve'')\<lparr>nick_at := [1 \<mapsto> (lone ''eve'')\<lparr>n_ignored := True, n_ignoretime := 900\<rparr>]\<rparr>) = Some (False, t)"
  using flood_heard_again [of "(lone_net ''eve'')\<lparr>nick_at := [1 \<mapsto> (lone ''eve'')\<lparr>n_ignored := True, n_ignoretime := 900\<rparr>]\<rparr>" 1
      "(lone ''eve'')\<lparr>n_ignored := True, n_ignoretime := 900\<rparr>"]
  by (simp add: lone_defs default_config_def)

text \<open>C27: The right password logs the nick in: a nick that was in the account before is killed, the
  access of the account is synchronised unless it has \<open>noauto\<close>, the network stays consistent.\<close>

theorem identify_logs_in:
  assumes "net_ok s" and "nick_at s n = Some x" and "n_account x = None"
    and "find_user (Some (n_name x)) s = Some u" and "user_at s u = Some y"
    and "fst (SeperateWord all) = Some pw" and "pw \<noteq> []"
    and "check_user_password L (Some u) pw s = Some (r, s1)" and "r \<noteq> -1"
    and "\<not> HasUOption y UOPT_SUSPENDED"
    and "\<And>p z. u_authed_nick y = Some p \<Longrightarrow> nick_at s p = Some z \<Longrightarrow>
      find_nick (Some (n_name z)) s = Some (Some p)"
  shows "\<exists>t. nick_identify L n uptr all s = (if HasUOption y UOPT_NOAUTO then Some t else sync_user u t) \<and>
    net_ok t \<and> find_account n t = Some (Some u) \<and> IsAuthed (Some u) t = Some True \<and>
    (\<forall>p. u_authed_nick y = Some p \<longrightarrow> nick_at t p = None)"
  using identify_right [OF assms] by (simp only: synced_def)

theorem identify_logs_in_witness:
  "\<exists>t. nick_identify ex_lib 1 None (Some ''s3cret'') (lone_net ''eve'') = sync_user 2 t \<and>
    find_account 1 t = Some (Some 2) \<and> IsAuthed (Some 2) t = Some True"
proof -
  have c: "check_user_password ex_lib (Some 2) ''s3cret'' (lone_net ''eve'') = Some (0, (lone_net ''eve''))"
    by (simp add: check_user_password_def ex_lib_def lone_defs)
  have a: "fst (SeperateWord (Some ''s3cret'')) = Some ''s3cret''" "''s3cret'' \<noteq> []" by code_simp+
  have o: "\<not> HasUOption (lone_user ''eve'') UOPT_SUSPENDED" "\<not> HasUOption (lone_user ''eve'') UOPT_NOAUTO"
    by (simp_all add: HasUOption_def has_flag_def lone_defs)
  have f: "find_user (Some (n_name (lone ''eve''))) (lone_net ''eve'') = Some 2"
    "find_nick (Some (n_name (lone ''eve''))) (lone_net ''eve'') = Some (Some 1)" by (simp_all add: lone_facts)
  from identify_logs_in [OF lone_net_ok lone_facts(1,2) f(1) lone_facts(3) a c _ o(1)] o(2) show ?thesis
    by (auto simp: lone_facts)
qed

text \<open>C28: A wrong password logs nobody in: the authentication of every account is as before, the nick
  stays without account, and it is killed when it has tried too often within a minute.\<close>

theorem identify_wrong_password:
  assumes "net_ok s" and "nick_at s n = Some x" and "n_account x = None"
    and "find_user (Some (n_name x)) s = Some u" and "user_at s u = Some y"
    and "fst (SeperateWord all) = Some pw" and "pw \<noteq> []"
    and "check_user_password L (Some u) pw s = Some (-1, s1)"
    and "find_nick (Some (n_name x)) s = Some (Some n)"
  shows "\<exists>t. nick_identify L n uptr all s = Some t \<and> net_ok t \<and>
    (\<forall>v. map_option u_authed (user_at t v) = map_option u_authed (user_at s v)) \<and>
    (nick_at t n = None \<or> (\<exists>z. nick_at t n = Some z \<and> n_account z = None)) \<and>
    (cfg_maxloginatt (cfg s) \<le> n_loginattempts x + 1 \<and>
     clock s - (if n_lasttry x = 0 then clock s else n_lasttry x) < 60 \<longrightarrow> nick_at t n = None)"
  using assms by (rule identify_wrong)

theorem identify_wrong_password_witness:
  "\<exists>t. nick_identify ex_lib 1 None (Some ''eve'') (lone_net ''eve'') = Some t \<and> net_ok t \<and>
    map_option u_authed (user_at t 2) = Some 0"
proof -
  have c: "check_user_password ex_lib (Some 2) ''eve'' (lone_net ''eve'') = Some (-1, (lone_net ''eve''))"
    by (simp add: check_user_password_def ex_lib_def lone_defs)
  have a: "fst (SeperateWord (Some ''eve'')) = Some ''eve''" "''eve'' \<noteq> []" by code_simp+
  have f: "find_user (Some (n_name (lone ''eve''))) (lone_net ''eve'') = Some 2"
    "find_nick (Some (n_name (lone ''eve''))) (lone_net ''eve'') = Some (Some 1)" by (simp_all add: lone_facts)
  obtain t where t: "nick_identify ex_lib 1 None (Some ''eve'') (lone_net ''eve'') = Some t" "net_ok t"
    "\<forall>v. map_option u_authed (user_at t v) = map_option u_authed (user_at (lone_net ''eve'') v)"
    using identify_wrong_password [OF lone_net_ok lone_facts(1,2) f(1) lone_facts(3) a c f(2), of None] by blast
  have "map_option u_authed (user_at t 2) = Some 0" using t(3) lone_facts(3,4) by simp
  with t(1,2) show ?thesis by blast
qed

text \<open>C29: SASL PLAIN accepts a client exactly when the password of the account is right: the request
  is decoded to the account and the password it was made of.\<close>

theorem sasl_checks_password:
  assumes "CHR '' '' \<notin> set target" and "target \<noteq> []" and "CHR '' '' \<notin> set uid" and "uid \<noteq> []"
    and "CHR 0x00 \<notin> set authz" and "CHR 0x00 \<notin> set user" and "CHR 0x00 \<notin> set pass"
    and "length (plain_bytes authz user pass) < 400"
    and "find_user (Some user) s = Some u" and "user_at s u \<noteq> None"
  shows "\<exists>ok t. check_user_password L (Some u) pass s = Some (ok, t) \<and>
    sasl_start_session L [Some (c # sender),
        Some (target @ '' '' @ uid @ '' C '' @ b64_encode (plain_bytes authz user pass))] s =
      Some (MOD_CONTINUE, if ok = -1 then sasl_fail target sender uid t
            else send_raw ('':'' @ target @ '' SASL '' @ sender @ '' '' @ uid @ '' D S'')
              (send_raw ('':'' @ target @ '' SVSLOGIN * '' @ uid @ '' '' @ user) t))"
  using assms by (rule sasl_session_answer)

theorem sasl_checks_password_witness:
  "sasl_start_session ex_lib [Some '':irc'',
      Some (''S'' @ '' '' @ ''U'' @ '' C '' @ b64_encode (plain_bytes [] ''eve'' ''x''))] (lone_net ''eve'') =
    Some (MOD_CONTINUE, sasl_fail ''S'' ''irc'' ''U'' (lone_net ''eve''))"
proof -
  have len: "length (plain_bytes [] ''eve'' ''x'') < 400" by (simp add: plain_bytes_def bytes_of_def)
  have chk: "check_user_password ex_lib (Some 2) ''x'' (lone_net ''eve'') = Some (-1, (lone_net ''eve''))"
    by (simp add: check_user_password_def ex_lib_def lone_defs)
  show ?thesis
    using sasl_checks_password [of "''S''" "''U''" "[]" "''eve''" "''x''" "lone_net ''eve''" 2 ex_lib "CHR '':''" "''irc''"] len chk
    by (simp add: lone_facts)
qed

text \<open>C30: The second step of SASL takes the account that bears the name of the nick, whatever account
  the client has authenticated for: the nick is logged in to it.\<close>

theorem sasl_logs_in_by_name:
  assumes "net_ok s" and "nick_at s n = Some x" and "n_account x = None"
    and "\<not> streq (Some (n_svid x)) (Some ''0'')"
    and "find_user (Some (n_name x)) s = Some u" and "user_at s u = Some y" and "u_authed y \<noteq> 1"
  shows "\<exists>t. find_account n s = Some (Some u) \<and> sasl_finish_session n (Some u) s = Some (MOD_CONTINUE, t) \<and>
    net_ok t \<and> find_account n t = Some (Some u) \<and> IsAuthed (Some u) t = Some True"
  using assms by (rule sasl_finish_by_name)

theorem sasl_logs_in_by_name_witness:
  "\<exists>t. sasl_finish_session 1 (Some 2) ((lone_net ''eve'')\<lparr>nick_at := (nick_at (lone_net ''eve''))(1 \<mapsto> (lone ''eve'')\<lparr>n_svid := ''mallory''\<rparr>)\<rparr>) =
      Some (MOD_CONTINUE, t) \<and> find_account 1 t = Some (Some 2)"
proof -
  let ?z = "(lone ''eve'')\<lparr>n_svid := ''mallory''\<rparr>"
  let ?s = "(lone_net ''eve'')\<lparr>nick_at := (nick_at (lone_net ''eve''))(1 \<mapsto> ?z)\<rparr>"
  have ok: "net_ok ?s" using net_nick_write [OF lone_net_ok lone_facts(1), where z = ?z] by (simp add: same_nick_def)
  have l: "lc ''mallory'' \<noteq> lc ''0''" by code_simp
  have z: "nick_at ?s 1 = Some ?z" "n_account ?z = None" "\<not> streq (Some (n_svid ?z)) (Some ''0'')"
    using lone_facts(2) l by (simp_all add: streq_Some_iff)
  have u: "find_user (Some (n_name ?z)) ?s = Some 2" "user_at ?s 2 = Some (lone_user ''eve'')" "u_authed (lone_user ''eve'') \<noteq> 1"
    using lone_facts(3,4,6,7) by (simp_all add: find_user_def)
  from sasl_logs_in_by_name [OF ok z u] show ?thesis by blast
qed

text \<open>C31: The protection module on a new nick that is not freed by it: its level stays, or goes from 2
  to 3 when that is not fixed, its invariant and the network's are kept; on level 4 the nick is killed.\<close>

theorem secserv_new_nick:
  assumes "sec_ok st" and "net_ok (snd st)" and "nick_at (snd st) n = Some x"
    and "\<not> (seclev (fst st) = 1 \<and> bad_nick x)"
  shows "\<exists>r st'. check_nick (Some n) st = Some (r, st') \<and> sec_ok st' \<and> net_ok (snd st') \<and>
    perm (fst st') = perm (fst st) \<and>
    (seclev (fst st') = seclev (fst st) \<or> seclev (fst st) = 2 \<and> seclev (fst st') = 3 \<and> perm (fst st) < 2) \<and>
    (seclev (fst st) = 4 \<and> n_name x \<noteq> [] \<longrightarrow> r = MOD_STOP \<and>
      (find_nick (Some (n_name x)) (snd st) = Some (Some n) \<longrightarrow> nick_at (snd st') n = None))"
  using assms by (rule check_nick_ok)

theorem secserv_new_nick_witness:
  "\<exists>r st'. check_nick (Some 1) (ex_sec, (lone_net ''eve'')) = Some (r, st') \<and> sec_ok st' \<and> seclev (fst st') = 1"
proof -
  have "\<not> bad_nick (lone ''eve'')" unfolding lone_def ex_nick_def by code_simp
  then show ?thesis
    using secserv_new_nick [OF lone_sec [of "''eve''"]] lone_net_ok lone_facts(1) by (force simp: ex_sec_def)
qed

text \<open>C32: On every PING the protection goes down by one level, not below 1 and not when the level is
  fixed, and forgets its counts.\<close>

theorem secserv_ping:
  assumes "sec_ok st" and "net_ok (snd st)"
  shows "\<exists>st'. reset_vars st = Some (MOD_CONTINUE, st') \<and> sec_ok st' \<and> net_ok (snd st') \<and>
    seclev (fst st') = (if 1 < seclev (fst st) \<and> perm (fst st) = 0 then seclev (fst st) - 1 else seclev (fst st)) \<and>
    perm (fst st') = perm (fst st) \<and> kills (fst st') = 0 \<and> glines (fst st') = 0"
  using assms by (rule reset_vars_ok)

theorem secserv_ping_witness:
  "\<exists>st'. reset_vars (ex_sec, (lone_net ''eve'')) = Some (MOD_CONTINUE, st') \<and> seclev (fst st') = 1"
  using secserv_ping [OF lone_sec [of "''eve''"]] lone_net_ok by (force simp: ex_sec_def)

text \<open>C33: A bad nick on level 1 is killed and then read: the hook uses freed memory.\<close>

theorem secserv_reads_freed_nick:
  assumes "net_ok (snd st)" and "nick_at (snd st) n = Some x" and "seclev (fst st) = 1"
    and "n_name x \<noteq> []" and "bad_nick x" and "find_nick (Some (n_name x)) (snd st) = Some (Some n)"
  shows "check_nick (Some n) st = None"
  using assms by (rule check_nick_freed)

theorem secserv_reads_freed_nick_witness:
  "check_nick (Some 1) (ex_sec, lone_net ''q123'') = None"
proof -
  have "bad_nick (lone ''q123'')" unfolding lone_def ex_nick_def by code_simp
  then show ?thesis
    using secserv_reads_freed_nick [of "(ex_sec, lone_net ''q123'')" 1 "lone ''q123''"] lone_net_ok
      lone_facts(1) [of "''q123''"] by (simp add: ex_sec_def lone_facts(6,8))
qed

text \<open>C34: A line that takes a status away from a name nobody has, on a channel that exists, makes the
  services read through a NULL pointer.\<close>

theorem deop_unknown_crashes:
  assumes "plain_word chan" and "plain_word name" and "CHR '':'' \<notin> set chan" and "CHR '':'' \<notin> set name"
    and "status_flag c \<noteq> 0" and "find_wchan (Some chan) (svc w) \<noteq> None"
    and "find_nick (Some name) (svc w) = Some None"
  shows "m_mode E sender (Some (join_words [chan, [CHR ''-'', c], name])) w = None"
  using assms by (rule m_mode_unknown)

theorem deop_unknown_crashes_witness:
  "m_mode ex_env '':bob'' (Some ''#a -o al'') ex_world = None"
proof -
  have p: "plain_word ''#a''" "plain_word ''al''" by (simp_all add: plain_word_def word_end_def)
  have "lc ''bob'' \<noteq> lc ''al''" "lc ''001AAAAAA'' \<noteq> lc ''al''" by code_simp+
  then have "find_wchan (Some ''#a'') (svc ex_world) \<noteq> None" "find_nick (Some ''al'') (svc ex_world) = Some None"
    by (simp_all add: find_wchan_def find_nick_def om_find_def om_entry_def strcasecmp_zero_iff streq_Some_iff
        ex_world_def ex_defs)
  from deop_unknown_crashes [OF p _ _ _ this, of "CHR ''o''" ex_env] show ?thesis
    by (simp add: status_flag_def CHFL_OP_def)
qed

text \<open>C35: Unloading the modules of the nick and host commands restores the command table that was
  there before they were loaded.\<close>

theorem module_commands_unloaded:
  assumes "without CMD_NICK ''nick'' cs" and "without CMD_HOST ''host'' cs"
  shows "nick_cleanup (nick_commands cs) = cs \<and> host_cleanup (host_commands k cs) = cs"
  using assms by (simp only: nick_unload host_unload)

theorem module_commands_unloaded_witness:
  "nick_cleanup (nick_commands (commands ex_world)) = commands ex_world"
proof -
  have "without CMD_NICK ''nick'' (commands ex_world)" "without CMD_HOST ''host'' (commands ex_world)"
    by code_simp+
  then show ?thesis using module_commands_unloaded [of "commands ex_world" default_config] by blast
qed

text \<open>C36: Saving the accounts and loading them again: every account whose texts hold no quote or backslash and whose
  numbers fit is sent as one query that the server reads as one row, and loading these rows at the next start
  gives back each account under its name with all that is saved of it; only the login and the access entries, which have
  tables of their own, start empty.\<close>

theorem accounts_reload:
  assumes "table_ok u_nick (users s) (user_at s)"
    and "\<forall>p u. user_at s p = Some u \<longrightarrow> fits_user u"
    and "users z = []"
  shows "\<exists>qs rows t. saveuserdb True s = Some (''DELETE FROM child_users'' # qs) \<and>
    map (inserted_rows user_columns) qs = map (\<lambda>r. Some [r]) rows \<and>
    load_user_db (Some (map (map Some) rows)) z = Some (0, t) \<and>
    (\<forall>k. account_of k t = map_option reloaded (account_of k s))"
  using assms by (rule users_reloaded)

theorem accounts_reload_witness:
  "\<exists>qs rows t. saveuserdb True ex_net = Some (''DELETE FROM child_users'' # qs) \<and>
    load_user_db (Some (map (map Some) rows)) init_state = Some (0, t) \<and>
    (\<forall>k. account_of k t = map_option reloaded (account_of k ex_net))"
proof -
  have "table_ok u_nick (users ex_net) (user_at ex_net)"
    by (simp add: table_ok_def om_ok_def ex_defs)
  moreover have "\<forall>p u. user_at ex_net p = Some u \<longrightarrow> fits_user u"
    by (simp add: fits_user_def plain_text_def int32_def NICKLEN_def HOSTLEN_def EMAILLEN_def ex_defs)
  moreover have "users init_state = []" by (simp add: init_state_def)
  ultimately show ?thesis by (blast dest: accounts_reload)
qed

text \<open>C37: The address of an account is written into its query as it is. An account that takes as its address
  the text \<open>injection e l h\<close>, a word that \<open>nick_set_email\<close> accepts from its owner, makes \<open>saveuserdb\<close> send a query of
  two rows: the second one is an account \<open>e\<close> of level \<open>l\<close> with the password digest \<open>h\<close>, and the next start
  loads it.\<close>

theorem email_injects_account:
  assumes "nick_at s n \<noteq> None" and "user_at s p = Some u" and "fits_user u"
    and "plain_text e" and "plain_text h" and "\<forall>c \<in> set e \<union> set h. \<not> isspace c" and "CHR 0x00 \<notin> set e"
    and "length e \<le> NICKLEN" and "length h \<le> 32" and "int32 l" and "length (injection e l h) \<le> EMAILLEN"
    and "find_user (Some e) z = None"
  shows "\<exists>s' u' q r t. nick_set_email n (Some p) (Some (injection e l h)) s = Some s' \<and> user_at s' p = Some u' \<and>
    insert_user u' = Some q \<and> inserted_rows user_columns q = Some [r, injected_row e l h (u_regtime u)] \<and>
    load_one_user (map Some (injected_row e l h (u_regtime u))) z = Some (0, t) \<and>
    find_user (Some e) t = Some (next_ptr z) \<and> map_option u_level (user_at t (next_ptr z)) = Some l \<and>
    map_option u_md5_pass (user_at t (next_ptr z)) = Some h"
proof -
  have "int32 (u_regtime u)" using assms(3) by (simp add: fits_user_def)
  with email_accepted [OF assms(2,1) plain_word_injection [OF assms(6)] assms(11)]
    saved_injection [OF assms(3,4,5,11)] injected_account [OF assms(12,8,7,9,5,10)]
  show ?thesis by blast
qed

theorem email_injects_account_witness:
  "\<exists>s' u' q r t. nick_set_email 1 (Some 2) (Some (injection ''e'' 1000 ''83878c91171338902e0fe0fb97a8c47a'')) ex_net = Some s' \<and>
    user_at s' 2 = Some u' \<and> insert_user u' = Some q \<and>
    inserted_rows user_columns q = Some [r, injected_row ''e'' 1000 ''83878c91171338902e0fe0fb97a8c47a'' 0] \<and>
    load_one_user (map Some (injected_row ''e'' 1000 ''83878c91171338902e0fe0fb97a8c47a'' 0)) init_state = Some (0, t) \<and>
    map_option u_level (user_at t (next_ptr init_state)) = Some 1000"
proof -
  obtain h where h: "h = ''83878c91171338902e0fe0fb97a8c47a''" by blast
  have "length (dec 1000) \<le> 4" using length_dec_nat [of 1000 4] by (simp add: dec_def)
  then have len: "length (injection ''e'' 1000 h) \<le> EMAILLEN"
    by (simp add: injection_def sq_def h EMAILLEN_def)
  have "nick_at ex_net 1 \<noteq> None" "user_at ex_net 2 = Some ex_user" "find_user (Some ''e'') init_state = None" "u_regtime ex_user = 0"
    by (simp_all add: find_user_def ex_defs)
  moreover have "fits_user ex_user"
    by (simp add: fits_user_def plain_text_def int32_def NICKLEN_def HOSTLEN_def EMAILLEN_def ex_defs)
  moreover have "plain_text ''e''" "plain_text h" "\<forall>c \<in> set ''e'' \<union> set h. \<not> isspace c" "length h \<le> 32" "int32 1000"
    "CHR 0x00 \<notin> set ''e''" "length ''e'' \<le> NICKLEN"
    by (simp_all add: h plain_text_def isspace_def int32_def NICKLEN_def)
  ultimately show ?thesis
    using email_injects_account [of ex_net 1 2 ex_user "''e''" h 1000 init_state] len unfolding h [symmetric] by metis
qed

text \<open>C38: Any nick that is heard crashes the services by asking for the help on a command of the channel bot
  (\<open>help !op\<close>): \<open>do_help\<close> finds the entry, whose function is NULL, and calls it.\<close>

theorem help_bot_name_crashes:
  assumes "find_nick (Some k) (svc w) = Some (Some n)" and "find_account n (svc w) = Some u"
    and "may_run u 0 (svc w) = Some True" and "flood_check n target (svc w) = Some (False, s)"
    and "plain_word target" and "CHR '':'' \<notin> set target" and "\<not> first_is (CHR ''#'') (Some target)"
    and "for_me target (svc w)" and "hooks_for HOOK_PRE_PRIVMSG (modules w) = []"
    and "commands w = help_commands c cs" and "\<forall>x \<in> set cs. cmd_type x \<noteq> CMD_HELP"
    and "lookup_command (Some ''help'') CMD_BASE cs = None"
    and "b \<in> set (map fst bot_help)"
  shows "m_privmsg (program X) (CHR '':'' # k) (Some (target @ '' :help '' @ b)) w = None"
  using assms by (rule help_crash)

theorem help_bot_name_crashes_witness:
  "\<forall>X. m_privmsg (program X) '':eve'' (Some ''C :help !op'') (help_world ''eve'') = None"
proof
  fix X
  obtain s where "flood_check 1 ''C'' (svc (help_world ''eve'')) = Some (False, s)" using help_world_facts(5) by blast
  moreover have "''!op'' \<in> set (map fst bot_help)" by (simp add: bot_help_def)
  moreover have "commands (help_world ''eve'') = help_commands default_config []" by (simp add: help_world_def)
  moreover have "plain_word ''C''" "lookup_command (Some ''help'') CMD_BASE [] = None" "\<not> first_is (CHR ''#'') (Some ''C'')"
    by (simp_all add: plain_word_def word_end_def lookup_command_def first_is_def)
  ultimately show "m_privmsg (program X) '':eve'' (Some ''C :help !op'') (help_world ''eve'') = None"
    using help_bot_name_crashes [of "''eve''" "help_world ''eve''" 1 "Some 2" "''C''" s default_config "[]" "''!op''" X]
      help_world_facts [of "''eve''"] by simp
qed



text \<open>C40: In every state that the services reach from the empty network through connections, quits,
  kills, registrations, logins, logouts, joins, parts and the passing of time, the tables, counts, member lists and
  login pointers are consistent, and every event that the callers allow runs to its end (no access to freed
  memory, no NULL pointer, no endless recursion) and leads to such a state again.\<close>

theorem network_never_stuck:
  assumes "reachable s"
  shows "net_ok s \<and> (\<forall>e. allowed e s \<longrightarrow> (\<exists>t. run_event e s = Some t \<and> reachable t))"
  using assms by (rule reachable_progress)

theorem network_never_stuck_witness:
  "\<exists>s t. run_event alice_connects init_state = Some s \<and> net_ok s \<and> run_event (Leave ''alice'') s = Some t \<and> reachable t"
proof -
  obtain s where s: "run_event alice_connects init_state = Some s" "reachable s"
    using network_never_stuck [OF reachable.start] alice_allowed by blast
  moreover have "allowed (Leave ''alice'') s" by simp
  ultimately show ?thesis using network_never_stuck [OF s(2)] by blast
qed

end
